(* ===== verification/Prelude.thy ===== *)
theory Prelude
  imports Main "HOL-Library.Word" "HOL-Library.Char_ord" "HOL-Library.List_Lexorder"
begin

text \<open>
  Shared vocabulary of the development: the Rust \<open>Result\<close> type as a sum, the iterator
  idioms the code uses on it, byte strings, and the generic lemmas every component needs.

  A \<open>Result<T, E>\<close> is a value of \<open>'e + 'a\<close>: \<open>Inl\<close> holds the error and
  \<open>Inr\<close> the success value. A Rust \<open>String\<close> is the list of its UTF-8 bytes, each byte
  one HOL character.
\<close>

named_theorems res_simps
named_theorems res_elims

section \<open>Results\<close>

type_synonym uuid = nat

definition res_bind :: "'e + 'a \<Rightarrow> ('a \<Rightarrow> 'e + 'b) \<Rightarrow> 'e + 'b" where
  "res_bind r f = (case r of Inl e \<Rightarrow> Inl e | Inr x \<Rightarrow> f x)"

definition ok_or :: "'a option \<Rightarrow> 'e \<Rightarrow> 'e + 'a" where
  "ok_or x e = (case x of None \<Rightarrow> Inl e | Some v \<Rightarrow> Inr v)"

definition map_err :: "('e \<Rightarrow> 'f) \<Rightarrow> 'e + 'a \<Rightarrow> 'f + 'a" where
  "map_err f r = (case r of Inl e \<Rightarrow> Inl (f e) | Inr x \<Rightarrow> Inr x)"

definition guard_err :: "bool \<Rightarrow> 'e \<Rightarrow> 'e + unit" where
  "guard_err bad e = (if bad then Inl e else Inr ())"

definition is_ok :: "'e + 'a \<Rightarrow> bool" where
  "is_ok r = (case r of Inl _ \<Rightarrow> False | Inr _ \<Rightarrow> True)"

text \<open>A \<open>for\<close> loop whose body uses \<open>?\<close>, and \<open>collect::<Result<Vec<_>, _>>\<close>.\<close>

fun res_iter :: "('a \<Rightarrow> 'e + unit) \<Rightarrow> 'a list \<Rightarrow> 'e + unit" where
  "res_iter f [] = Inr ()"
| "res_iter f (x # xs) = res_bind (f x) (\<lambda>_. res_iter f xs)"

fun res_map :: "('a \<Rightarrow> 'e + 'b) \<Rightarrow> 'a list \<Rightarrow> 'e + 'b list" where
  "res_map f [] = Inr []"
| "res_map f (x # xs) = res_bind (f x) (\<lambda>y. res_bind (res_map f xs) (\<lambda>ys. Inr (y # ys)))"

lemma res_bind_simps [simp, res_simps]:
  "res_bind (Inl e) f = Inl e"
  "res_bind (Inr x) f = f x"
  by (simp_all add: res_bind_def)

lemma res_bind_Inr_iff [res_simps]: "res_bind r f = Inr y \<longleftrightarrow> (\<exists>x. r = Inr x \<and> f x = Inr y)"
  by (cases r) auto

lemma res_bind_Inl_iff [res_simps]:
  "res_bind r f = Inl e \<longleftrightarrow> r = Inl e \<or> (\<exists>x. r = Inr x \<and> f x = Inl e)"
  by (cases r) auto

lemma res_bind_InrE [res_elims]:
  assumes "res_bind r f = Inr y"
  obtains x where "r = Inr x" and "f x = Inr y"
  using assms by (auto simp: res_bind_Inr_iff)

lemma ok_or_simps [simp, res_simps]:
  "ok_or None e = Inl e"
  "ok_or (Some v) e = Inr v"
  by (simp_all add: ok_or_def)

lemma ok_or_Inr_iff [res_simps]: "ok_or x e = Inr v \<longleftrightarrow> x = Some v"
  by (cases x) auto

lemma map_err_Inr_iff [simp, res_simps]: "map_err f r = Inr x \<longleftrightarrow> r = Inr x"
  by (cases r) (auto simp: map_err_def)

lemma guard_err_Inr_iff [simp, res_simps]: "guard_err b e = Inr u \<longleftrightarrow> \<not> b"
  by (simp add: guard_err_def)

lemma guard_err_simps [simp, res_simps]:
  "guard_err True e = Inl e"
  "guard_err False e = Inr ()"
  by (simp_all add: guard_err_def)

lemma is_ok_iff: "is_ok r \<longleftrightarrow> (\<exists>x. r = Inr x)"
  by (cases r) (auto simp: is_ok_def)

lemma res_iter_Inr_iff [res_simps]: "res_iter f xs = Inr u \<longleftrightarrow> (\<forall>x \<in> set xs. f x = Inr ())"
  by (induction xs) (auto simp: res_bind_Inr_iff)

lemma res_map_Inr_iff [res_simps]:
  "res_map f xs = Inr ys \<longleftrightarrow> list_all2 (\<lambda>x y. f x = Inr y) xs ys"
  by (induction xs arbitrary: ys) (auto simp: res_bind_Inr_iff list_all2_Cons1)

lemma res_map_length: "res_map f xs = Inr ys \<Longrightarrow> length ys = length xs"
  by (auto simp: res_map_Inr_iff dest: list_all2_lengthD)

text \<open>A computation that may panic, where the code has a panicking operation.\<close>

datatype 'a exec = Panic | Ret 'a

section \<open>Lists and maps\<close>

text \<open>
  \<open>iter().find(p)\<close> is \<open>find\<close> of the library. A \<open>HashMap\<close> collected from a list
  of pairs keeps the last pair of a key.
\<close>

definition collect_map :: "('k \<times> 'v) list \<Rightarrow> 'k \<Rightarrow> 'v option" where
  "collect_map kvs = map_of (rev kvs)"

text \<open>\<open>find_map\<close>: the first defined image.\<close>

fun find_map :: "('a \<Rightarrow> 'b option) \<Rightarrow> 'a list \<Rightarrow> 'b option" where
  "find_map f [] = None"
| "find_map f (x # xs) = (case f x of None \<Rightarrow> find_map f xs | Some y \<Rightarrow> Some y)"

lemma find_map_SomeD: "find_map f xs = Some y \<Longrightarrow> \<exists>x \<in> set xs. f x = Some y"
  by (induction xs) (auto split: option.splits)

lemma find_map_None_iff: "find_map f xs = None \<longleftrightarrow> (\<forall>x \<in> set xs. f x = None)"
  by (induction xs) (auto split: option.splits)

lemma find_SomeD: "find P xs = Some x \<Longrightarrow> x \<in> set xs \<and> P x"
  by (induction xs) (auto split: if_splits)

lemma find_None_iff_all: "find P xs = None \<longleftrightarrow> (\<forall>x \<in> set xs. \<not> P x)"
  by (induction xs) auto

lemma find_key_distinct:
  "distinct (map f xs) \<Longrightarrow> x \<in> set xs \<Longrightarrow> find (\<lambda>y. f y = f x) xs = Some x"
  by (induction xs) (auto simp: rev_image_eqI)

lemma collect_map_Some: "collect_map kvs k = Some v \<Longrightarrow> (k, v) \<in> set kvs"
  unfolding collect_map_def using map_of_SomeD [of "rev kvs" k v] by simp

lemma collect_map_None_iff: "collect_map kvs k = None \<longleftrightarrow> k \<notin> fst ` set kvs"
  by (simp add: collect_map_def map_of_eq_None_iff)

lemma collect_map_distinct:
  "distinct (map fst kvs) \<Longrightarrow> (k, v) \<in> set kvs \<Longrightarrow> collect_map kvs k = Some v"
  unfolding collect_map_def by (rule map_of_is_SomeI) (auto simp: rev_map [symmetric])

lemma filter_length_less:
  "x \<in> set xs \<Longrightarrow> \<not> P x \<Longrightarrow> length (filter P xs) < length xs"
  by (induction xs) (auto simp: le_imp_less_Suc)

lemma sum_list_filter_le:
  "sum_list (map f (filter P xs)) \<le> sum_list (map (f :: 'a \<Rightarrow> nat) xs)"
  by (induction xs) auto

text \<open>
  A \<open>BTreeMap\<close> collected from pairs, as its sorted association list: two maps are equal
  exactly when their lists are.
\<close>

fun bt_insert :: "'k :: linorder \<Rightarrow> 'v \<Rightarrow> ('k \<times> 'v) list \<Rightarrow> ('k \<times> 'v) list" where
  "bt_insert k v [] = [(k, v)]"
| "bt_insert k v ((k', v') # rest) =
     (if k = k' then (k, v) # rest
      else if k < k' then (k, v) # (k', v') # rest
      else (k', v') # bt_insert k v rest)"

definition bt_of :: "('k :: linorder \<times> 'v) list \<Rightarrow> ('k \<times> 'v) list" where
  "bt_of kvs = fold (\<lambda>(k, v). bt_insert k v) kvs []"

lemma map_of_bt_insert: "map_of (bt_insert k v m) = (map_of m)(k \<mapsto> v)"
  by (induction k v m rule: bt_insert.induct) (auto simp: fun_eq_iff)

lemma fst_bt_insert: "fst ` set (bt_insert k v m) = insert k (fst ` set m)"
  by (induction k v m rule: bt_insert.induct) auto

lemma bt_insert_sorted:
  "sorted_wrt (<) (map fst m) \<Longrightarrow> sorted_wrt (<) (map fst (bt_insert k v m))"
proof (induction k v m rule: bt_insert.induct)
  case (2 k v k' v' rest)
  have keys: "\<And>q. q \<in> set (map fst (bt_insert k v rest)) \<longleftrightarrow> q = k \<or> q \<in> set (map fst rest)"
    using fst_bt_insert [of k v rest] by auto
  from 2 show ?case
    using keys by (auto simp del: set_map)
qed simp

lemma map_of_bt_fold:
  "map_of (fold (\<lambda>(k, v). bt_insert k v) kvs m) = map_of m ++ map_of (rev kvs)"
  by (induction kvs arbitrary: m)
    (auto simp: map_of_bt_insert map_add_def fun_eq_iff split: option.splits)

lemma map_of_bt_of: "map_of (bt_of kvs) = map_of (rev kvs)"
  by (simp add: bt_of_def map_of_bt_fold)

lemma bt_of_sorted: "sorted_wrt (<) (map fst (bt_of kvs))"
proof -
  have "sorted_wrt (<) (map fst m) \<Longrightarrow> sorted_wrt (<) (map fst (fold (\<lambda>(k, v). bt_insert k v) kvs m))"
    for m by (induction kvs arbitrary: m) (auto simp: bt_insert_sorted)
  then show ?thesis by (simp add: bt_of_def)
qed

lemma bt_eq_iff:
  fixes m n :: "('k :: linorder \<times> 'v) list"
  assumes "sorted_wrt (<) (map fst m)" and "sorted_wrt (<) (map fst n)"
  shows "m = n \<longleftrightarrow> map_of m = map_of n"
proof
  assume eq: "map_of m = map_of n"
  have s: "sorted (map fst m)" "distinct (map fst m)" "sorted (map fst n)" "distinct (map fst n)"
    using assms by (simp_all add: strict_sorted_iff)
  have "(k, v) \<in> set m \<longleftrightarrow> (k, v) \<in> set n" for k v
    using map_of_eq_Some_iff [OF s(2), of k v] map_of_eq_Some_iff [OF s(4), of k v] eq by simp
  then have "set m = set n" by (intro set_eqI) (simp add: split_paired_all)
  then show "m = n"
    using s by (intro map_sorted_distinct_set_unique [of fst]) (auto simp: distinct_map)
qed simp

text \<open>\<open>Vec::dedup_by\<close> on a key: of neighbours with equal keys the first stays.\<close>

fun dedup_by :: "('a \<Rightarrow> 'k) \<Rightarrow> 'a list \<Rightarrow> 'a list" where
  "dedup_by f (x # y # xs) = (if f x = f y then dedup_by f (x # xs) else x # dedup_by f (y # xs))"
| "dedup_by f xs = xs"

lemma set_dedup_by_key: "f ` set (dedup_by f xs) = f ` set xs"
  by (induction f xs rule: dedup_by.induct) auto

lemma dedup_by_subset: "set (dedup_by f xs) \<subseteq> set xs"
  by (induction f xs rule: dedup_by.induct) auto

lemma dedup_by_strict:
  "sorted (map f xs) \<Longrightarrow> sorted_wrt (<) (map (f :: 'a \<Rightarrow> 'k :: linorder) (dedup_by f xs))"
proof (induction f xs rule: dedup_by.induct)
  case (1 f x y xs)
  have "f ` set (dedup_by f (y # xs)) = f ` set (y # xs)" by (rule set_dedup_by_key)
  then have "z \<in> set (dedup_by f (y # xs)) \<Longrightarrow> f z \<in> f ` set (y # xs)" for z by blast
  moreover have "q \<in> f ` set (y # xs) \<Longrightarrow> f y \<le> q" for q using "1.prems" by auto
  moreover have "f x \<le> f y" using "1.prems" by simp
  ultimately have "z \<in> set (dedup_by f (y # xs)) \<Longrightarrow> f x \<noteq> f y \<Longrightarrow> f x < f z" for z
    by (meson le_neq_trans less_le_trans)
  with 1 show ?case by auto
qed simp_all

section \<open>Sums of machine words\<close>

text \<open>Rust's \<open>Iterator::sum\<close> in a release build is the sum of words: it wraps modulo the width.\<close>

lemma unat_sum_list_mod:
  "unat (sum_list (map f xs) :: 'a :: len word)
     = sum_list (map (\<lambda>x. unat (f x)) xs) mod 2 ^ LENGTH('a)"
  by (induction xs) (simp_all add: unat_word_ariths mod_add_right_eq)

lemma unat_sum_list_exact:
  "sum_list (map (\<lambda>x. unat (f x)) xs) < 2 ^ LENGTH('a) \<Longrightarrow>
     unat (sum_list (map f xs) :: 'a :: len word) = sum_list (map (\<lambda>x. unat (f x)) xs)"
  by (simp add: unat_sum_list_mod)

lemma sum_list_bound:
  "(\<And>x. x \<in> set xs \<Longrightarrow> f x \<le> (b :: nat)) \<Longrightarrow> sum_list (map f xs) \<le> length xs * b"
  by (induction xs) (auto intro: add_mono)

section \<open>Byte strings\<close>

definition byte :: "char \<Rightarrow> nat" where
  "byte c = of_char c"

definition is_ascii_lowercase :: "char \<Rightarrow> bool" where
  "is_ascii_lowercase c \<longleftrightarrow> 97 \<le> byte c \<and> byte c \<le> 122"

definition is_ascii_uppercase :: "char \<Rightarrow> bool" where
  "is_ascii_uppercase c \<longleftrightarrow> 65 \<le> byte c \<and> byte c \<le> 90"

definition is_ascii_digit :: "char \<Rightarrow> bool" where
  "is_ascii_digit c \<longleftrightarrow> 48 \<le> byte c \<and> byte c \<le> 57"

definition is_ascii_alphabetic :: "char \<Rightarrow> bool" where
  "is_ascii_alphabetic c \<longleftrightarrow> is_ascii_lowercase c \<or> is_ascii_uppercase c"

definition is_ascii_alphanumeric :: "char \<Rightarrow> bool" where
  "is_ascii_alphanumeric c \<longleftrightarrow> is_ascii_alphabetic c \<or> is_ascii_digit c"

definition to_ascii_lowercase :: "char \<Rightarrow> char" where
  "to_ascii_lowercase c = (if is_ascii_uppercase c then char_of (byte c + 32) else c)"

definition to_ascii_uppercase :: "char \<Rightarrow> char" where
  "to_ascii_uppercase c = (if is_ascii_lowercase c then char_of (byte c - 32) else c)"

lemma byte_less_256 [simp]: "byte c < 256"
  by (simp add: byte_def of_char_eq_iff)

lemma byte_char_of [simp]: "byte (char_of n) = n mod 256"
  by (simp add: byte_def)

lemma to_ascii_lowercase_idem [simp]: "to_ascii_lowercase (to_ascii_lowercase c) = to_ascii_lowercase c"
  by (auto simp: to_ascii_lowercase_def is_ascii_uppercase_def)

subsection \<open>Evaluation\<close>

text \<open>The same classes as sets of characters, which evaluate without arithmetic on natural numbers.\<close>

lemma char_range:
  assumes "b < 256"
  shows "a \<le> byte c \<and> byte c \<le> b \<longleftrightarrow> c \<in> set (map char_of [a..<Suc b])"
proof
  assume h: "a \<le> byte c \<and> byte c \<le> b"
  have "c = char_of (byte c)" by (simp add: byte_def)
  then show "c \<in> set (map char_of [a..<Suc b])"
    using h by (metis atLeastLessThan_iff image_eqI le_imp_less_Suc list.set_map set_upt)
next
  assume "c \<in> set (map char_of [a..<Suc b])"
  then show "a \<le> byte c \<and> byte c \<le> b" using assms by auto
qed

lemma is_ascii_digit_code [code]: "is_ascii_digit c \<longleftrightarrow> c \<in> set ''0123456789''"
proof -
  have e: "map char_of [48..<Suc 57] = ''0123456789''" by code_simp
  show ?thesis unfolding is_ascii_digit_def using char_range [of 57 48 c] unfolding e by simp
qed

lemma is_ascii_lowercase_code [code]: "is_ascii_lowercase c \<longleftrightarrow> c \<in> set ''abcdefghijklmnopqrstuvwxyz''"
proof -
  have e: "map char_of [97..<Suc 122] = ''abcdefghijklmnopqrstuvwxyz''" by code_simp
  show ?thesis unfolding is_ascii_lowercase_def using char_range [of 122 97 c] unfolding e by simp
qed

lemma is_ascii_uppercase_code [code]: "is_ascii_uppercase c \<longleftrightarrow> c \<in> set ''ABCDEFGHIJKLMNOPQRSTUVWXYZ''"
proof -
  have e: "map char_of [65..<Suc 90] = ''ABCDEFGHIJKLMNOPQRSTUVWXYZ''" by code_simp
  show ?thesis unfolding is_ascii_uppercase_def using char_range [of 90 65 c] unfolding e by simp
qed

definition case_table :: "(char \<times> char) list" where
  "case_table = zip ''abcdefghijklmnopqrstuvwxyz'' ''ABCDEFGHIJKLMNOPQRSTUVWXYZ''"

lemma case_table_keys: "map fst case_table = ''abcdefghijklmnopqrstuvwxyz''"
  by (simp add: case_table_def)

lemma case_table_values: "list_all (\<lambda>p. (of_char (snd p) :: nat) = of_char (fst p) - 32) case_table"
  by (simp add: case_table_def)

lemma case_table_upper:
  "map_of case_table c = (if is_ascii_lowercase c then Some (char_of (byte c - 32)) else None)"
proof (cases "map_of case_table c")
  case None
  then have "c \<notin> set (map fst case_table)" by (simp add: map_of_eq_None_iff)
  then show ?thesis using None unfolding is_ascii_lowercase_code case_table_keys by simp
next
  case (Some d)
  then have m: "(c, d) \<in> set case_table" by (rule map_of_SomeD)
  then have "c \<in> set (map fst case_table)" by force
  moreover have "d = char_of (byte c - 32)"
  proof -
    have "(of_char d :: nat) = byte c - 32" using m case_table_values by (auto simp: list_all_iff byte_def)
    then show ?thesis by (metis char_of_char)
  qed
  ultimately show ?thesis using Some unfolding is_ascii_lowercase_code case_table_keys by simp
qed

lemma to_ascii_uppercase_code [code]:
  "to_ascii_uppercase c = (case map_of case_table c of None \<Rightarrow> c | Some d \<Rightarrow> d)"
  by (simp add: to_ascii_uppercase_def case_table_upper)

definition ascii_upper :: "string \<Rightarrow> string" where
  "ascii_upper s = map to_ascii_uppercase s"

definition ascii_lower :: "string \<Rightarrow> string" where
  "ascii_lower s = map to_ascii_lowercase s"

fun starts_with :: "string \<Rightarrow> string \<Rightarrow> bool" where
  "starts_with [] s = True"
| "starts_with (p # ps) [] = False"
| "starts_with (p # ps) (c # cs) = (p = c \<and> starts_with ps cs)"

fun str_contains :: "string \<Rightarrow> string \<Rightarrow> bool" where
  "str_contains needle [] = starts_with needle []"
| "str_contains needle (c # cs) = (starts_with needle (c # cs) \<or> str_contains needle cs)"

lemma starts_with_iff: "starts_with p s \<longleftrightarrow> (\<exists>t. s = p @ t)"
  by (induction p s rule: starts_with.induct) auto

lemma starts_with_contains: "starts_with p s \<Longrightarrow> str_contains p s"
  by (cases s) auto

lemma str_contains_iff: "str_contains p s \<longleftrightarrow> (\<exists>a b. s = a @ p @ b)"
proof (induction s)
  case Nil
  then show ?case by (cases p) auto
next
  case (Cons c cs)
  show ?case
  proof
    assume "str_contains p (c # cs)"
    then consider "starts_with p (c # cs)" | "str_contains p cs" by auto
    then show "\<exists>a b. c # cs = a @ p @ b"
    proof cases
      case 1
      then show ?thesis by (auto simp: starts_with_iff intro: exI [where x = "[]"])
    next
      case 2
      then obtain a b where "cs = a @ p @ b" using Cons.IH by blast
      then have "c # cs = (c # a) @ p @ b" by simp
      then show ?thesis by blast
    qed
  next
    assume "\<exists>a b. c # cs = a @ p @ b"
    then obtain a b where "c # cs = a @ p @ b" by blast
    then show "str_contains p (c # cs)"
    proof (cases a)
      case Nil
      with \<open>c # cs = a @ p @ b\<close> have "starts_with p (c # cs)" by (auto simp: starts_with_iff)
      then show ?thesis by (rule starts_with_contains)
    next
      case (Cons d ds)
      with \<open>c # cs = a @ p @ b\<close> have "cs = ds @ p @ b" by simp
      then show ?thesis using Cons.IH by auto
    qed
  qed
qed

lemma str_contains_single: "str_contains [c] s \<longleftrightarrow> c \<in> set s"
  by (auto simp: str_contains_iff in_set_conv_decomp)

text \<open>\<open>str::split(c)\<close>: the pieces between occurrences of one character, empty pieces kept.\<close>

fun split_on :: "char \<Rightarrow> string \<Rightarrow> string list" where
  "split_on c [] = [[]]"
| "split_on c (x # xs) =
     (if x = c then [] # split_on c xs
      else (case split_on c xs of [] \<Rightarrow> [[x]] | p # ps \<Rightarrow> (x # p) # ps))"

lemma split_on_nonempty: "split_on c s \<noteq> []"
  by (induction s) (auto split: list.splits)

lemma split_on_chars:
  "x \<in> set s \<Longrightarrow> x = c \<or> (\<exists>p \<in> set (split_on c s). x \<in> set p)"
proof (induction s)
  case Nil
  then show ?case by simp
next
  case (Cons y ys)
  obtain p ps where "split_on c ys = p # ps"
    using split_on_nonempty by (metis list.exhaust)
  then show ?case using Cons by auto
qed

definition strip_prefix :: "string \<Rightarrow> string \<Rightarrow> string option" where
  "strip_prefix p s = (if starts_with p s then Some (drop (length p) s) else None)"

lemma strip_prefix_Some_iff: "strip_prefix p s = Some r \<longleftrightarrow> s = p @ r"
  by (auto simp: strip_prefix_def starts_with_iff)

text \<open>
  \<open>str::trim\<close> removes the code points with the \<open>White_Space\<close> property at both ends; these
  are their UTF-8 encodings.  Suffix matching on bytes is right because a lead byte of the
  encoding never occurs inside another code point.
\<close>

definition white_space :: "string list" where
  "white_space =
     [[CHR 0x09], [CHR 0x0A], [CHR 0x0B], [CHR 0x0C], [CHR 0x0D], [CHR 0x20], [CHR 0xC2, CHR 0x85], [CHR 0xC2, CHR 0xA0],
      [CHR 0xE1, CHR 0x9A, CHR 0x80], [CHR 0xE2, CHR 0x80, CHR 0xA8], [CHR 0xE2, CHR 0x80, CHR 0xA9],
      [CHR 0xE2, CHR 0x80, CHR 0xAF], [CHR 0xE2, CHR 0x81, CHR 0x9F], [CHR 0xE3, CHR 0x80, CHR 0x80],
      [CHR 0xE2, CHR 0x80, CHR 0x80], [CHR 0xE2, CHR 0x80, CHR 0x81], [CHR 0xE2, CHR 0x80, CHR 0x82],
      [CHR 0xE2, CHR 0x80, CHR 0x83], [CHR 0xE2, CHR 0x80, CHR 0x84], [CHR 0xE2, CHR 0x80, CHR 0x85],
      [CHR 0xE2, CHR 0x80, CHR 0x86], [CHR 0xE2, CHR 0x80, CHR 0x87], [CHR 0xE2, CHR 0x80, CHR 0x88],
      [CHR 0xE2, CHR 0x80, CHR 0x89], [CHR 0xE2, CHR 0x80, CHR 0x8A]]"

lemma white_space_nonempty: "w \<in> set white_space \<Longrightarrow> w \<noteq> []"
  by (auto simp: white_space_def)

function trim_start :: "string \<Rightarrow> string" where
  "trim_start s =
     (case find (\<lambda>w. starts_with w s) white_space of
        None \<Rightarrow> s
      | Some w \<Rightarrow> trim_start (drop (length w) s))"
  by pat_completeness auto
termination
proof (relation "measure length", simp)
  fix s w
  assume "find (\<lambda>w. starts_with w s) white_space = Some w"
  then have "w \<in> set white_space" and "starts_with w s" by (auto dest: find_SomeD)
  then have "w \<noteq> []" and "length w \<le> length s"
    using white_space_nonempty by (auto simp: starts_with_iff)
  then show "(drop (length w) s, s) \<in> measure length" by (cases w) auto
qed

declare trim_start.simps [simp del]

function trim_end :: "string \<Rightarrow> string" where
  "trim_end s =
     (case find (\<lambda>w. starts_with (rev w) (rev s)) white_space of
        None \<Rightarrow> s
      | Some w \<Rightarrow> trim_end (take (length s - length w) s))"
  by pat_completeness auto
termination
proof (relation "measure length", simp)
  fix s w
  assume "find (\<lambda>w. starts_with (rev w) (rev s)) white_space = Some w"
  then have "w \<in> set white_space" and "starts_with (rev w) (rev s)" by (auto dest: find_SomeD)
  then have "w \<noteq> []" and "length w \<le> length s"
    using white_space_nonempty by (auto simp: starts_with_iff dest: arg_cong [where f = length])
  then show "(take (length s - length w) s, s) \<in> measure length" by (cases w) auto
qed

declare trim_end.simps [simp del]

definition trim :: "string \<Rightarrow> string" where
  "trim s = trim_end (trim_start s)"

text \<open>The decimal grammar of \<open>u16::from_str\<close> and \<open>i64::from_str\<close>.\<close>

definition all_digits :: "string \<Rightarrow> bool" where
  "all_digits s \<longleftrightarrow> s \<noteq> [] \<and> list_all is_ascii_digit s"

definition digits_value :: "string \<Rightarrow> nat" where
  "digits_value s = foldl (\<lambda>n c. 10 * n + (byte c - 48)) 0 s"

definition parse_u16 :: "string \<Rightarrow> 16 word option" where
  "parse_u16 s =
     (let ds = (case s of c # cs \<Rightarrow> if c = CHR ''+'' then cs else s | [] \<Rightarrow> s)
      in if all_digits ds \<and> digits_value ds < 65536 then Some (of_nat (digits_value ds)) else None)"

definition parse_i64 :: "string \<Rightarrow> int option" where
  "parse_i64 s =
     (case s of
        [] \<Rightarrow> None
      | c # cs \<Rightarrow>
          if c = CHR ''-'' then
            (if all_digits cs \<and> digits_value cs \<le> 9223372036854775808
             then Some (- int (digits_value cs)) else None)
          else
            (let ds = (if c = CHR ''+'' then cs else s)
             in if all_digits ds \<and> digits_value ds \<le> 9223372036854775807
                then Some (int (digits_value ds)) else None))"

text \<open>Decimal rendering of a natural number (\<open>format!("{}", n)\<close>).\<close>

fun show_nat :: "nat \<Rightarrow> string" where
  "show_nat n = (if n < 10 then [char_of (48 + n)] else show_nat (n div 10) @ [char_of (48 + n mod 10)])"

declare show_nat.simps [simp del]

definition show_int :: "int \<Rightarrow> string" where
  "show_int i = (if i < 0 then ''-'' @ show_nat (nat (- i)) else show_nat (nat i))"

end
