(* ===== verification/ParameterPolicy.thy ===== *)
theory ParameterPolicy
  imports Prelude
begin

text \<open>
  \<open>knowledge/catalog/parameter_policy.rs\<close>: the declared acquisition policy of a capability
  parameter, the fixed grammar of its default expression with its evaluation, and the policy
  validator.  Calendar arithmetic is the \<open>chrono\<close> crate's and is a parameter: the record
  \<open>chrono\<close> holds the operations the code calls, on dates counted as days of the common era.
\<close>

section \<open>Declared policies\<close>

type_synonym naive_date = int

datatype parameter_type = TDate | TInteger | TIntegerArray | TString | TCurrency

datatype default_expr =
    BusinessToday
  | WallToday
  | BusinessTodayMinusDays "16 word"
  | BusinessTodayMinusMonths "16 word"
  | BusinessTodayMinusYears "16 word"
  | StartOfMonthBusinessToday
  | EndOfMonthBusinessToday
  | Unbounded
  | AuthorizedScopeDefault
  | LiteralInt int
  | LiteralDate naive_date

datatype resolution_strategy =
    ResAuthorizedScope
  | ResCatalogDefault
  | ResDeterministicExtraction
  | ResVerifiedUserText
  | ResSafePriorSelection
  | ResPriorStep
  | ResAuthorizedDataProbe
  | ResClarify

record probe_ref =
  probe_dataset_id :: string
  probe_shape_id :: string
  probe_output_slot :: string

record parameter_policy =
  pp_name :: string
  pp_kind :: parameter_type
  pp_required :: bool
  pp_default :: "default_expr option"
  pp_fill_when_missing :: bool
  pp_user_may_override :: bool
  pp_hard_cap :: "int option"
  pp_user_required :: bool
  pp_resolution :: "resolution_strategy list"
  pp_probe :: "probe_ref option"

section \<open>Default expressions\<close>

record chrono =
  ch_parse_ymd :: "string \<Rightarrow> naive_date option"
  ch_from_ymd :: "int \<Rightarrow> nat \<Rightarrow> nat \<Rightarrow> naive_date option"
  ch_year :: "naive_date \<Rightarrow> int"
  ch_month :: "naive_date \<Rightarrow> nat"
  ch_sub_months :: "naive_date \<Rightarrow> nat \<Rightarrow> naive_date option"
  ch_add_months :: "naive_date \<Rightarrow> nat \<Rightarrow> naive_date option"
  ch_sub_days :: "naive_date \<Rightarrow> nat \<Rightarrow> naive_date option"

record evaluation_context =
  business_today :: naive_date
  wall_today :: naive_date
  authorized_office_ids :: "int list"

datatype resolved_value =
    RDate naive_date
  | RInteger int
  | RIntegerArray "int list"
  | RUnbounded

datatype default_parse_error = InvalidDuration string | UnknownUnit string | NotAllowed string

text \<open>
  The duration branch slices \<open>rest[..rest.len() - 1]\<close>.  The slice ends on a character boundary
  only when the last character is one byte long; otherwise the indexing panics.
\<close>

definition parse_duration :: "string \<Rightarrow> string \<Rightarrow> (default_parse_error + default_expr) exec" where
  "parse_duration input rest =
     (let unit_byte = last rest in
      if byte unit_byte \<ge> 128 then Panic
      else Ret
        (case parse_u16 (butlast rest) of
           None \<Rightarrow> Inl (InvalidDuration input)
         | Some n \<Rightarrow>
             if unit_byte = CHR ''d'' then Inr (BusinessTodayMinusDays n)
             else if unit_byte = CHR ''m'' then Inr (BusinessTodayMinusMonths n)
             else if unit_byte = CHR ''y'' then Inr (BusinessTodayMinusYears n)
             else Inl (UnknownUnit input)))"

definition parse_literal :: "chrono \<Rightarrow> string \<Rightarrow> string \<Rightarrow> default_parse_error + default_expr" where
  "parse_literal ch input trimmed =
     (case ch_parse_ymd ch trimmed of
        Some d \<Rightarrow> Inr (LiteralDate d)
      | None \<Rightarrow>
          (case parse_i64 trimmed of
             Some i \<Rightarrow> Inr (LiteralInt i)
           | None \<Rightarrow> Inl (NotAllowed input)))"

definition default_expr_parse :: "chrono \<Rightarrow> string \<Rightarrow> (default_parse_error + default_expr) exec" where
  "default_expr_parse ch input =
     (let trimmed = trim input in
      if trimmed = ''business_today'' then Ret (Inr BusinessToday)
      else if trimmed = ''wall_today'' then Ret (Inr WallToday)
      else if trimmed = ''unbounded'' then Ret (Inr Unbounded)
      else if trimmed = ''authorized_scope'' then Ret (Inr AuthorizedScopeDefault)
      else if trimmed = ''start_of_month(business_today)'' then Ret (Inr StartOfMonthBusinessToday)
      else if trimmed = ''end_of_month(business_today)'' then Ret (Inr EndOfMonthBusinessToday)
      else
        (case strip_prefix ''business_today - '' trimmed of
           Some rest \<Rightarrow>
             if rest = [] then Ret (parse_literal ch input trimmed)
             else parse_duration input rest
         | None \<Rightarrow> Ret (parse_literal ch input trimmed)))"

definition subtract_months :: "chrono \<Rightarrow> naive_date \<Rightarrow> nat \<Rightarrow> naive_date" where
  "subtract_months ch d m = (case ch_sub_months ch d m of Some d' \<Rightarrow> d' | None \<Rightarrow> d)"

definition start_of_month :: "chrono \<Rightarrow> naive_date \<Rightarrow> naive_date" where
  "start_of_month ch d =
     (case ch_from_ymd ch (ch_year ch d) (ch_month ch d) 1 of Some d' \<Rightarrow> d' | None \<Rightarrow> d)"

text \<open>Subtracting a duration from a date panics when the result is out of range.\<close>

definition sub_days :: "chrono \<Rightarrow> naive_date \<Rightarrow> nat \<Rightarrow> naive_date exec" where
  "sub_days ch d n = (case ch_sub_days ch d n of Some d' \<Rightarrow> Ret d' | None \<Rightarrow> Panic)"

definition end_of_month :: "chrono \<Rightarrow> naive_date \<Rightarrow> naive_date exec" where
  "end_of_month ch d =
     (let next = (case ch_add_months ch (start_of_month ch d) 1 of Some d' \<Rightarrow> d' | None \<Rightarrow> d)
      in sub_days ch next 1)"

definition ret_date :: "naive_date exec \<Rightarrow> resolved_value exec" where
  "ret_date x = (case x of Panic \<Rightarrow> Panic | Ret d \<Rightarrow> Ret (RDate d))"

definition default_expr_evaluate :: "chrono \<Rightarrow> default_expr \<Rightarrow> evaluation_context \<Rightarrow> resolved_value exec" where
  "default_expr_evaluate ch e ctx =
     (case e of
        BusinessToday \<Rightarrow> Ret (RDate (business_today ctx))
      | WallToday \<Rightarrow> Ret (RDate (wall_today ctx))
      | BusinessTodayMinusDays n \<Rightarrow> ret_date (sub_days ch (business_today ctx) (unat n))
      | BusinessTodayMinusMonths n \<Rightarrow> Ret (RDate (subtract_months ch (business_today ctx) (unat n)))
      | BusinessTodayMinusYears n \<Rightarrow>
          Ret (RDate (subtract_months ch (business_today ctx) (unat (ucast n * 12 :: 32 word))))
      | StartOfMonthBusinessToday \<Rightarrow> Ret (RDate (start_of_month ch (business_today ctx)))
      | EndOfMonthBusinessToday \<Rightarrow> ret_date (end_of_month ch (business_today ctx))
      | Unbounded \<Rightarrow> Ret RUnbounded
      | AuthorizedScopeDefault \<Rightarrow> Ret (RIntegerArray (authorized_office_ids ctx))
      | LiteralInt v \<Rightarrow> Ret (RInteger v)
      | LiteralDate d \<Rightarrow> Ret (RDate d))"

section \<open>Policy validation\<close>

datatype policy_validation_error =
    QueryRequiredParamHasNoDefault string
  | HardCapOnNonIntegerType string
  | OfficeIdsMustNotAllowOverride
  | DuplicateParameterName string

fun validate_declared :: "string list \<Rightarrow> parameter_policy list \<Rightarrow> policy_validation_error + unit" where
  "validate_declared seen [] = Inr ()"
| "validate_declared seen (p # ps) =
     (if pp_name p \<in> set seen then Inl (DuplicateParameterName (pp_name p))
      else if pp_hard_cap p \<noteq> None \<and> pp_kind p \<notin> {TInteger, TIntegerArray}
        then Inl (HardCapOnNonIntegerType (pp_name p))
      else if pp_name p = ''office_ids'' \<and> pp_user_may_override p
        then Inl OfficeIdsMustNotAllowOverride
      else validate_declared (pp_name p # seen) ps)"

definition validate_required :: "parameter_policy list \<Rightarrow> string \<Rightarrow> policy_validation_error + unit" where
  "validate_required policies required =
     res_bind (ok_or (find (\<lambda>p. pp_name p = required) policies) (QueryRequiredParamHasNoDefault required))
       (\<lambda>p. if \<not> pp_required p \<and> pp_default p = None
             then Inl (QueryRequiredParamHasNoDefault (pp_name p)) else Inr ())"

definition validate_policies ::
  "parameter_policy list \<Rightarrow> string list \<Rightarrow> policy_validation_error + unit" where
  "validate_policies policies query_required_names =
     res_bind (validate_declared [] policies)
       (\<lambda>_. res_iter (validate_required policies) query_required_names)"

section \<open>Lemmas\<close>

lemma validate_declared_ok_iff:
  "validate_declared seen ps = Inr () \<longleftrightarrow>
     distinct (map pp_name ps) \<and> set (map pp_name ps) \<inter> set seen = {} \<and>
     (\<forall>p \<in> set ps. (pp_hard_cap p \<noteq> None \<longrightarrow> pp_kind p \<in> {TInteger, TIntegerArray}) \<and>
        (pp_name p = ''office_ids'' \<longrightarrow> \<not> pp_user_may_override p))"
proof (induction seen ps rule: validate_declared.induct)
  case (1 seen)
  then show ?case by simp
next
  case (2 seen p ps)
  show ?case
  proof (cases "pp_name p \<in> set seen \<or> (pp_hard_cap p \<noteq> None \<and> pp_kind p \<notin> {TInteger, TIntegerArray})
      \<or> (pp_name p = ''office_ids'' \<and> pp_user_may_override p)")
    case True
    then show ?thesis by auto
  next
    case False
    then have "validate_declared seen (p # ps) = validate_declared (pp_name p # seen) ps"
      by auto
    moreover have "validate_declared (pp_name p # seen) ps = Inr () \<longleftrightarrow>
      distinct (map pp_name ps) \<and> set (map pp_name ps) \<inter> set (pp_name p # seen) = {} \<and>
      (\<forall>p \<in> set ps. (pp_hard_cap p \<noteq> None \<longrightarrow> pp_kind p \<in> {TInteger, TIntegerArray}) \<and>
        (pp_name p = ''office_ids'' \<longrightarrow> \<not> pp_user_may_override p))"
      using False by (intro "2.IH") auto
    ultimately show ?thesis using False by auto
  qed
qed

lemma validate_required_ok_iff:
  "validate_required ps r = Inr () \<longleftrightarrow>
     (\<exists>p. find (\<lambda>p. pp_name p = r) ps = Some p \<and> (pp_required p \<or> pp_default p \<noteq> None))"
  by (auto simp: validate_required_def res_bind_Inr_iff ok_or_Inr_iff)

end
