(* ===== verification/Json.thy ===== *)
theory Json
  imports Prelude
begin

text \<open>
  The \<open>serde_json::Value\<close> documents the workflow runtime stores and exchanges.  An object
  is the association list of a \<open>BTreeMap<String, Value>\<close> (the crate is built without
  \<open>preserve_order\<close>): keys are strictly increasing in byte order, and insertion keeps that.
  A number is one of the three variants of \<open>serde_json::Number\<close>; a float carries its text,
  since the runtime never computes with one.
\<close>

datatype number = PosInt nat | NegInt int | Float string

datatype json =
    JNull
  | JBool bool
  | JNumber number
  | JString string
  | JArray "json list"
  | JObject "(string \<times> json) list"

type_synonym object = "(string \<times> json) list"

section \<open>Object maps\<close>

fun obj_insert :: "string \<Rightarrow> json \<Rightarrow> object \<Rightarrow> object" where
  "obj_insert k v [] = [(k, v)]"
| "obj_insert k v ((k', v') # rest) =
     (if k = k' then (k, v) # rest
      else if k < k' then (k, v) # (k', v') # rest
      else (k', v') # obj_insert k v rest)"

definition obj_remove :: "string \<Rightarrow> object \<Rightarrow> object" where
  "obj_remove k obj = filter (\<lambda>(k', _). k' \<noteq> k) obj"

definition obj_of :: "(string \<times> json) list \<Rightarrow> json" where
  "obj_of kvs = JObject (fold (\<lambda>(k, v). obj_insert k v) kvs [])"

lemma map_of_obj_insert: "map_of (obj_insert k v obj) = (map_of obj)(k \<mapsto> v)"
  by (induction k v obj rule: obj_insert.induct) (auto simp: fun_eq_iff)

lemma map_of_obj_remove: "map_of (obj_remove k obj) = (map_of obj)(k := None)"
  by (induction obj) (auto simp: obj_remove_def fun_eq_iff)

lemma fst_obj_insert: "fst ` set (obj_insert k v obj) = insert k (fst ` set obj)"
  by (induction k v obj rule: obj_insert.induct) auto

lemma fst_obj_remove: "fst ` set (obj_remove k obj) = fst ` set obj - {k}"
  by (auto simp: obj_remove_def)

definition obj_sorted :: "object \<Rightarrow> bool" where
  "obj_sorted obj \<longleftrightarrow> sorted_wrt (<) (map fst obj)"

lemma obj_insert_sorted: "obj_sorted obj \<Longrightarrow> obj_sorted (obj_insert k v obj)"
  unfolding obj_sorted_def
proof (induction k v obj rule: obj_insert.induct)
  case (1 k v)
  then show ?case by simp
next
  case (2 k v k' v' rest)
  have keys: "\<And>q. q \<in> set (map fst (obj_insert k v rest)) \<longleftrightarrow> q = k \<or> q \<in> set (map fst rest)"
    using fst_obj_insert [of k v rest] by auto
  from 2 show ?case
    using keys by (auto simp del: set_map simp add: less_trans)
qed

lemma obj_remove_sorted: "obj_sorted obj \<Longrightarrow> obj_sorted (obj_remove k obj)"
  unfolding obj_sorted_def obj_remove_def
  by (induction obj) (auto simp: sorted_wrt_append)

section \<open>Accessors\<close>

text \<open>\<open>Value::get\<close> with a string index, \<open>as_str\<close>, \<open>as_array\<close>, \<open>as_i64\<close>.\<close>

definition json_get :: "json \<Rightarrow> string \<Rightarrow> json option" where
  "json_get v k = (case v of JObject obj \<Rightarrow> map_of obj k | _ \<Rightarrow> None)"

definition as_str :: "json \<Rightarrow> string option" where
  "as_str v = (case v of JString s \<Rightarrow> Some s | _ \<Rightarrow> None)"

definition as_array :: "json \<Rightarrow> json list option" where
  "as_array v = (case v of JArray vs \<Rightarrow> Some vs | _ \<Rightarrow> None)"

definition as_i64 :: "json \<Rightarrow> int option" where
  "as_i64 v =
     (case v of
        JNumber (PosInt n) \<Rightarrow> (if int n \<le> 9223372036854775807 then Some (int n) else None)
      | JNumber (NegInt i) \<Rightarrow> Some i
      | _ \<Rightarrow> None)"

definition json_int :: "int \<Rightarrow> json" where
  "json_int i = JNumber (if i < 0 then NegInt i else PosInt (nat i))"

definition json_opt :: "('a \<Rightarrow> json) \<Rightarrow> 'a option \<Rightarrow> json" where
  "json_opt f x = (case x of None \<Rightarrow> JNull | Some v \<Rightarrow> f v)"

lemma as_i64_json_int: "i \<le> 9223372036854775807 \<Longrightarrow> as_i64 (json_int i) = Some i"
  by (simp add: as_i64_def json_int_def)

lemma json_get_obj_insert:
  "json_get (JObject (obj_insert k v obj)) k' = (if k' = k then Some v else json_get (JObject obj) k')"
  by (simp add: json_get_def map_of_obj_insert)

lemma map_of_fold_obj_insert:
  "map_of (fold (\<lambda>(k, v). obj_insert k v) kvs obj) = map_of obj ++ map_of (rev kvs)"
  by (induction kvs arbitrary: obj)
    (auto simp: map_of_obj_insert map_add_def fun_eq_iff split: option.splits)

lemma json_get_obj_of: "json_get (obj_of kvs) k = map_of (rev kvs) k"
  by (simp add: json_get_def obj_of_def map_of_fold_obj_insert)

section \<open>PostgreSQL jsonb operators the SQL uses\<close>

text \<open>
  \<open>a || b\<close> on two objects is a shallow merge in which the right operand wins.  On any other
  pair the operator builds an array; every \<open>state_json\<close> the SQL writes is an object, and the
  remaining pairs are written out as the documented concatenation.
\<close>

definition jsonb_concat :: "json \<Rightarrow> json \<Rightarrow> json" where
  "jsonb_concat a b =
     (case (a, b) of
        (JObject x, JObject y) \<Rightarrow> JObject (fold (\<lambda>(k, v). obj_insert k v) y x)
      | (JArray x, JArray y) \<Rightarrow> JArray (x @ y)
      | (JArray x, y) \<Rightarrow> JArray (x @ [y])
      | (x, JArray y) \<Rightarrow> JArray (x # y)
      | (x, y) \<Rightarrow> JArray [x, y])"

text \<open>
  \<open>jsonb_set(target, path, value)\<close> for a path of object keys: the last key is created when
  absent, but a missing or non-object intermediate value leaves the target unchanged.
\<close>

fun jsonb_set :: "json \<Rightarrow> string list \<Rightarrow> json \<Rightarrow> json" where
  "jsonb_set t [] v = t"
| "jsonb_set t [k] v = (case t of JObject obj \<Rightarrow> JObject (obj_insert k v obj) | _ \<Rightarrow> t)"
| "jsonb_set t (k # k2 # ks) v =
     (case t of
        JObject obj \<Rightarrow>
          (case map_of obj k of
             None \<Rightarrow> t
           | Some u \<Rightarrow> JObject (obj_insert k (jsonb_set u (k2 # ks) v) obj))
      | _ \<Rightarrow> t)"

fun json_path :: "json \<Rightarrow> string list \<Rightarrow> json option" where
  "json_path t [] = Some t"
| "json_path t (k # ks) = (case json_get t k of None \<Rightarrow> None | Some u \<Rightarrow> json_path u ks)"

lemma json_get_concat:
  "json_get (jsonb_concat (JObject x) (JObject y)) k =
     (case map_of (rev y) k of None \<Rightarrow> map_of x k | Some v \<Rightarrow> Some v)"
  by (simp add: jsonb_concat_def json_get_def map_of_fold_obj_insert map_add_def)

lemma json_path_jsonb_set_same:
  "json_path t ks = Some (JObject obj) \<Longrightarrow> json_path (jsonb_set t (ks @ [k]) v) (ks @ [k]) = Some v"
proof (induction ks arbitrary: t)
  case Nil
  then show ?case by (simp add: json_get_def map_of_obj_insert)
next
  case (Cons k' ks)
  from Cons.prems obtain o' u where t: "t = JObject o'" "map_of o' k' = Some u"
    and u: "json_path u ks = Some (JObject obj)"
    by (auto simp: json_get_def split: option.splits json.splits)
  have "jsonb_set t (k' # ks @ [k]) v = JObject (obj_insert k' (jsonb_set u (ks @ [k]) v) o')"
    using t by (cases ks) auto
  then show ?case
    using Cons.IH [OF u] by (simp add: json_get_def map_of_obj_insert)
qed

lemma json_path_jsonb_set_sibling:
  assumes "json_path t ks = Some (JObject obj)" and "k' \<noteq> k"
  shows "json_path (jsonb_set t (ks @ [k]) v) (ks @ [k']) = map_of obj k'"
  using assms(1)
proof (induction ks arbitrary: t)
  case Nil
  then show ?case using assms(2) by (simp add: json_get_def map_of_obj_insert split: option.split)
next
  case (Cons q ks)
  from Cons.prems obtain o' u where t: "t = JObject o'" "map_of o' q = Some u"
    and u: "json_path u ks = Some (JObject obj)"
    by (auto simp: json_get_def split: option.splits json.splits)
  have "jsonb_set t (q # ks @ [k]) v = JObject (obj_insert q (jsonb_set u (ks @ [k]) v) o')"
    using t by (cases ks) auto
  then show ?case
    using Cons.IH [OF u] by (simp add: json_get_def map_of_obj_insert)
qed

end
