(* ===== verification/Knowledge.thy ===== *)
theory Knowledge
  imports ParameterPolicy Json
begin

text \<open>
  The approved knowledge catalog as the compiler, verifier and runner read it:
  \<open>knowledge/model.rs\<close> and \<open>knowledge/dataset/model.rs\<close>, with the request-shape and
  constraint-field enumerations they mention.  Catalog loading from YAML is not part of the model.
\<close>

section \<open>Enumerations\<close>

datatype constraint_field =
    CfLimitMode | CfLimitValue | CfFromDate | CfToDate | CfCurrencyCode | CfMetric
  | CfTransactionAmount | CfDomain | CfPersonName | CfClientId | CfOffice | CfProduct
  | CfProductIds | CfOfficeIds | CfChargeType | CfAccountNumber

datatype request_operation =
    OpTotal | OpSummary | OpList | OpRank | OpTrend | OpLookup | OpRandomSample | OpUnknown

datatype request_subject =
    SubjSavingsTransaction | SubjSavingsAccount | SubjSavingsAccountCharge | SubjClient
  | SubjOffice | SubjOrganizationHierarchy | SubjProduct | SubjUnknown

datatype request_grouping = GroupNone | GroupMonth | GroupOffice | GroupProduct | GroupUnknown

datatype request_output =
    OutScalar | OutSummary | OutList | OutRanking | OutTimeSeries | OutLookup | OutUnknown

datatype request_pii = PiiNone | PiiClientIdentity | PiiConditionalClientIdentity | PiiUnknown

record request_shape =
  rs_operation :: request_operation
  rs_subject :: request_subject
  rs_grouping :: request_grouping
  rs_output :: request_output
  rs_pii :: request_pii

datatype sensitivity = PublicBusiness | Pii | FilterOnly | MaskedOutput | NeverUse

definition sensitivity_as_str :: "sensitivity \<Rightarrow> string" where
  "sensitivity_as_str s =
     (case s of
        PublicBusiness \<Rightarrow> ''public_business''
      | Pii \<Rightarrow> ''pii''
      | FilterOnly \<Rightarrow> ''filter_only''
      | MaskedOutput \<Rightarrow> ''masked_output''
      | NeverUse \<Rightarrow> ''never_use'')"

section \<open>Datasets\<close>

record query_parameter =
  qp_name :: string
  qp_kind :: string
  qp_required :: bool
  qp_source :: "string option"

record query_output_field =
  qof_name :: string
  qof_kind :: string
  qof_sensitivity :: sensitivity

datatype filter_input_policy = Ordinary | ExactIdentifier

datatype filter_operator = FEq | FIn | FLt | FLte | FGt | FGte | FBetween

definition filter_operator_as_sql :: "filter_operator \<Rightarrow> string" where
  "filter_operator_as_sql op =
     (case op of
        FEq \<Rightarrow> ''=''
      | FIn \<Rightarrow> ''= ANY''
      | FLt \<Rightarrow> ''<''
      | FLte \<Rightarrow> ''<=''
      | FGt \<Rightarrow> ''>''
      | FGte \<Rightarrow> ''>=''
      | FBetween \<Rightarrow> ''BETWEEN'')"

record filter_slot =
  fs_id :: string
  fs_expr :: string
  fs_kind :: string
  fs_case_insensitive :: bool
  fs_input_policy :: filter_input_policy
  fs_operators :: "filter_operator list"

record entity_metadata =
  em_kind :: string
  em_id_field :: string
  em_label_fields :: "string list"
  em_label_fallback :: string

datatype shape_role = RoleTerminal | RoleResolver | RoleProbe

datatype cardinality = Zero | One | Many

record produced_slot =
  ps_slot :: string
  ps_kind :: string
  ps_sensitivity :: sensitivity
  ps_cardinality :: cardinality

record dataset_output_field =
  dof_name :: string
  dof_kind :: string
  dof_sensitivity :: sensitivity
  dof_core :: bool

record order_by_option =
  ob_id :: string
  ob_expr :: string

record shape_option =
  sh_id :: string
  sh_request_shape :: request_shape
  sh_role :: shape_role
  sh_expected_cardinality :: "cardinality option"
  sh_row_cap :: "32 word option"
  sh_grouped_by :: "string option"
  sh_produces :: "produced_slot list"
  sh_fragment :: "string option"
  sh_order_by :: "string list"
  sh_output_fields :: "dataset_output_field list"
  sh_parameters :: "query_parameter list"

record dataset_knowledge =
  ds_id :: string
  ds_database :: string
  ds_source_sql :: string
  ds_tables :: "string list"
  ds_filters :: "filter_slot list"
  ds_entity :: "entity_metadata option"
  ds_filters_exempt :: "string list"
  ds_shapes :: "shape_option list"
  ds_order_by :: "order_by_option list"
  ds_output_fields :: "dataset_output_field list"
  ds_parameters :: "query_parameter list"
  ds_timeout_ms :: "64 word option"

record dataset_recipe_filter =
  rf_filter_id :: string
  rf_operator :: filter_operator
  rf_parameter :: "string option"
  rf_value :: "json option"

record dataset_recipe =
  dr_dataset_id :: string
  dr_shape_id :: string
  dr_order_by_id :: "string option"
  dr_filters :: "dataset_recipe_filter list"
  dr_projection :: "string list"

definition core_field_names :: "dataset_knowledge \<Rightarrow> string list" where
  "core_field_names d = map dof_name (filter dof_core (ds_output_fields d))"

definition dataset_shape :: "dataset_knowledge \<Rightarrow> string \<Rightarrow> shape_option option" where
  "dataset_shape d shape_id = find (\<lambda>s. sh_id s = shape_id) (ds_shapes d)"

definition order_by_expr :: "dataset_knowledge \<Rightarrow> string \<Rightarrow> string option" where
  "order_by_expr d order_by_id = map_option ob_expr (find (\<lambda>o'. ob_id o' = order_by_id) (ds_order_by d))"

definition shape_output_fields :: "shape_option \<Rightarrow> dataset_knowledge \<Rightarrow> dataset_output_field list" where
  "shape_output_fields s d = (if sh_output_fields s = [] then ds_output_fields d else sh_output_fields s)"

definition shape_parameters :: "shape_option \<Rightarrow> dataset_knowledge \<Rightarrow> query_parameter list" where
  "shape_parameters s d = (if sh_parameters s = [] then ds_parameters d else sh_parameters s)"

section \<open>Capabilities, queries and the catalog\<close>

datatype capability_kind = CapTerminal | CapResolver | CapProbe | CapComposite

record capability_guards =
  cg_max_limit :: "int option"
  cg_max_date_range_days :: "32 word option"

record capability_defaults =
  cd_default_limit :: "int option"

record capability_knowledge =
  cap_id :: string
  cap_status :: string
  cap_domain :: string
  cap_query_id :: string
  cap_output_mode :: string
  cap_request_shape :: request_shape
  cap_kind :: capability_kind
  cap_member_capability_ids :: "string list"
  cap_display_name :: "string option"
  cap_description :: "string option"
  cap_data_areas :: "string list"
  cap_metrics :: "string list"
  cap_examples :: "string list"
  cap_supported_intents :: "string list"
  cap_unsupported_intents :: "string list"
  cap_continuation :: bool
  cap_required_parameters :: "string list"
  cap_optional_parameters :: "string list"
  cap_defaults :: capability_defaults
  cap_guards :: capability_guards
  cap_dataset_recipe :: "dataset_recipe option"
  cap_parameter_policies :: "parameter_policy list"

record query_knowledge =
  q_id :: string
  q_database :: string
  q_sql_file :: string
  q_data_areas :: "string list"
  q_tables :: "string list"
  q_metrics :: "string list"
  q_parameters :: "query_parameter list"
  q_output_fields :: "query_output_field list"
  q_timeout_ms :: "64 word option"

record generic_knowledge =
  gk_id :: string
  gk_status :: "string option"
  gk_domain :: "string option"
  gk_data_areas :: "string list"
  gk_checks :: "json list"
  gk_content :: object

record data_areas_knowledge =
  da_id :: string
  da_status :: string
  da_included_tables :: "string list"
  da_conditional_tables :: "string list"
  da_excluded_tables :: "string list"
  da_allowed_domains :: "string list"

record domain_concept =
  dc_id :: string
  dc_meaning :: "string option"
  dc_synonyms :: "string list"

record domain_knowledge =
  dk_id :: string
  dk_status :: string
  dk_display_name :: "string option"
  dk_description :: "string option"
  dk_data_areas :: "string list"
  dk_concepts :: "domain_concept list"
  dk_supported_intents :: "string list"
  dk_unsupported_intents :: "string list"

datatype clarification_field_type = CftDateRange | CftInteger | CftText

record clarification_validation =
  cv_min_integer :: "int option"
  cv_max_integer :: "int option"
  cv_max_length :: "32 word option"
  cv_max_range_days :: "32 word option"

record parameter_input_knowledge =
  pi_id :: string
  pi_parameters :: "string list"
  pi_field_type :: clarification_field_type
  pi_label :: string
  pi_help_text :: "string option"
  pi_required :: bool
  pi_validation :: clarification_validation

text \<open>
  The thresholds of the classification are \<open>f32\<close> values: an integer times a power of two, an infinity
  with its sign, or a value that compares with nothing.
\<close>

datatype f32 = F32 int int | F32Inf bool | F32NaN

definition f32_positive :: "f32 \<Rightarrow> bool" where
  "f32_positive x = (case x of F32 m _ \<Rightarrow> 0 < m | F32Inf negative \<Rightarrow> \<not> negative | F32NaN \<Rightarrow> False)"

definition f32_below_one :: "f32 \<Rightarrow> bool" where
  "f32_below_one x =
     (case x of
        F32 m e \<Rightarrow> if 0 \<le> e then m * 2 ^ nat e < 1 else m < 2 ^ nat (- e)
      | F32Inf negative \<Rightarrow> negative
      | F32NaN \<Rightarrow> False)"

datatype score_aggregation = AggMin | AggMean | AggProduct

record lqr_policy =
  lqr_domain_min_floor :: f32
  lqr_domain_min_gap :: f32
  lqr_capability_min_floor :: f32
  lqr_capability_min_gap :: f32
  lqr_retry_budget :: "8 word"
  lqr_score_aggregation :: score_aggregation

record classification_policy =
  cls_min_gap :: f32
  cls_min_floor :: f32
  cls_others_key :: string
  cls_others_label :: string
  cls_lqr :: lqr_policy

definition default_lqr :: lqr_policy where
  "default_lqr =
     \<lparr>lqr_domain_min_floor = F32 9227469 (- 24), lqr_domain_min_gap = F32 13421773 (- 27),
      lqr_capability_min_floor = F32 13421773 (- 25), lqr_capability_min_gap = F32 13421773 (- 28),
      lqr_retry_budget = 2, lqr_score_aggregation = AggMin\<rparr>"

definition default_classification :: classification_policy where
  "default_classification =
     \<lparr>cls_min_gap = F32 13421773 (- 28), cls_min_floor = F32 13421773 (- 25), cls_others_key = ''other_activity'',
      cls_others_label = ''Others '' @ [CHR 0xE2, CHR 0x80, CHR 0x94] @ '' let me describe it in my own words'',
      cls_lqr = default_lqr\<rparr>"

record knowledge_catalog =
  kc_root_path :: string
  kc_query_path :: string
  kc_data_areas :: "data_areas_knowledge list"
  kc_domains :: "domain_knowledge list"
  kc_schemas :: "generic_knowledge list"
  kc_metrics :: "generic_knowledge list"
  kc_capabilities :: "capability_knowledge list"
  kc_queries :: "query_knowledge list"
  kc_policies :: "generic_knowledge list"
  kc_responses :: "generic_knowledge list"
  kc_parameter_inputs :: "parameter_input_knowledge list"
  kc_parameter_bindings :: "(string \<times> constraint_field list) list"
  kc_classification :: classification_policy
  kc_datasets :: "dataset_knowledge list"

definition binding_fields :: "knowledge_catalog \<Rightarrow> string \<Rightarrow> constraint_field list" where
  "binding_fields cat parameter =
     (case map_of (kc_parameter_bindings cat) parameter of None \<Rightarrow> [] | Some fs \<Rightarrow> fs)"

definition metric_aliases :: "generic_knowledge \<Rightarrow> string list" where
  "metric_aliases m =
     (case Option.bind (map_of (gk_content m) ''aliases'') as_array of
        None \<Rightarrow> []
      | Some vs \<Rightarrow> List.map_filter as_str vs)"

definition normalize_metric_key :: "string \<Rightarrow> string" where
  "normalize_metric_key value =
     List.map_filter
       (\<lambda>c. if c = CHR ''.'' \<or> c = CHR ''_'' \<or> c = CHR ''-'' \<or> c = CHR '' '' then None
            else Some (to_ascii_lowercase c)) value"

definition resolve_metric_id :: "knowledge_catalog \<Rightarrow> string \<Rightarrow> string option" where
  "resolve_metric_id cat raw =
     (let needle = normalize_metric_key raw in
      map_option gk_id
        (find (\<lambda>m. normalize_metric_key (gk_id m) = needle \<or>
                   (\<exists>a \<in> set (metric_aliases m). normalize_metric_key a = needle))
              (kc_metrics cat)))"

text \<open>The lookups the workflow code repeats, by identifier.\<close>

definition find_capability :: "knowledge_catalog \<Rightarrow> string \<Rightarrow> capability_knowledge option" where
  "find_capability cat i =
     find (\<lambda>c. cap_id c = i \<and> cap_status c = ''approved_mvp'') (kc_capabilities cat)"

definition find_query :: "knowledge_catalog \<Rightarrow> string \<Rightarrow> query_knowledge option" where
  "find_query cat i = find (\<lambda>q. q_id q = i) (kc_queries cat)"

definition find_dataset :: "knowledge_catalog \<Rightarrow> string \<Rightarrow> dataset_knowledge option" where
  "find_dataset cat i = find (\<lambda>d. ds_id d = i) (kc_datasets cat)"

section \<open>Lemmas\<close>

lemma find_capabilityD:
  "find_capability cat i = Some c \<Longrightarrow>
     c \<in> set (kc_capabilities cat) \<and> cap_id c = i \<and> cap_status c = ''approved_mvp''"
  by (auto simp: find_capability_def dest: find_SomeD)

lemma find_queryD: "find_query cat i = Some q \<Longrightarrow> q \<in> set (kc_queries cat) \<and> q_id q = i"
  by (auto simp: find_query_def dest: find_SomeD)

lemma find_datasetD: "find_dataset cat i = Some d \<Longrightarrow> d \<in> set (kc_datasets cat) \<and> ds_id d = i"
  by (auto simp: find_dataset_def dest: find_SomeD)

lemma dataset_shapeD: "dataset_shape d i = Some s \<Longrightarrow> s \<in> set (ds_shapes d) \<and> sh_id s = i"
  by (auto simp: dataset_shape_def dest: find_SomeD)

end
