(* ===== verification/Contract.thy ===== *)
theory Contract
  imports Knowledge
begin

text \<open>
  \<open>assistant/workflow/contract.rs\<close>: the execution workflow the planner proposes and the
  compiler produces.  A \<open>NodeId\<close> is a string checked by its constructor; budgets keep the
  integer widths of the code.
\<close>

section \<open>Node identifiers\<close>

type_synonym node_id = string

datatype node_id_error = NodeIdError

definition node_id_new :: "string \<Rightarrow> node_id_error + node_id" where
  "node_id_new value =
     (let valid =
            1 \<le> length value \<and> length value \<le> 48 \<and>
            (case value of [] \<Rightarrow> False | c # _ \<Rightarrow> is_ascii_lowercase c) \<and>
            list_all (\<lambda>b. is_ascii_lowercase b \<or> is_ascii_digit b \<or> b = CHR ''_'') value
      in if valid then Inr value else Inl NodeIdError)"

definition valid_node_id :: "string \<Rightarrow> bool" where
  "valid_node_id value \<longleftrightarrow> node_id_new value = Inr value"

lemma node_id_new_Inr_iff: "node_id_new v = Inr i \<longleftrightarrow> i = v \<and> valid_node_id v"
  by (auto simp: valid_node_id_def node_id_new_def Let_def split: if_splits)

section \<open>Nodes, edges, budgets\<close>

datatype fail_policy = FailFast | ContinueLabelled

datatype output_mode = ModeTable | ModeScalar | ModeComparison | ModeGrouped | ModeNotFound

record workflow_budgets =
  shared_timeout_ms :: "64 word"
  shared_row_cap :: "32 word"
  max_query_count :: "8 word"
  max_parallel_queries :: "8 word"
  max_model_turns :: "8 word"
  max_node_retries :: "8 word"

record output_contract =
  oc_mode :: output_mode
  oc_allows_partial :: bool
  oc_max_sensitivity :: sensitivity

record iterate_over =
  it_source :: node_id
  it_slot :: string
  it_max :: "8 word"

record resolve_entity_node =
  re_dataset_id :: string
  re_resolver_shape_id :: string
  re_entity_kind :: string
  re_probe_row_cap :: "32 word"

record execute_query_node =
  eq_capability_id :: "string option"
  eq_dataset_id :: "string option"
  eq_shape_id :: "string option"
  eq_query_id :: "string option"
  eq_iterate_over :: "iterate_over option"

record cardinality_branch_node =
  cb_source :: node_id
  cb_zero :: node_id
  cb_one :: node_id
  cb_many :: node_id

record clarification_interrupt_node =
  ci_clarification_kind :: string
  ci_option_source :: node_id
  ci_resume :: node_id

datatype composition = CompSingle | CompComparison | CompGrouped

record compose_result_node =
  cr_sources :: "node_id list"
  cr_composition :: composition

datatype terminal_state = TermSuccess | TermUnsupported | TermNotFound | TermFailedOperational

datatype node_kind =
    ResolveEntity resolve_entity_node
  | ExecuteQuery execute_query_node
  | CardinalityBranch cardinality_branch_node
  | ClarificationInterrupt clarification_interrupt_node
  | ComposeResult compose_result_node
  | Complete terminal_state

datatype office_scope = AuthorizedIntersection

record node_policy =
  np_required_capability :: "string option"
  np_office_scope :: office_scope
  np_max_sensitivity :: sensitivity
  np_pii_required :: bool

record node_budget =
  nb_timeout_ms :: "64 word"
  nb_row_cap :: "32 word"
  nb_query_cost :: "8 word"

datatype idempotency = Pure | Replayable | ExecuteOnce

datatype edge_condition = Always | CardinalityIs cardinality | ClarificationAnswered

datatype binding_source =
    AuthorizedScope
  | CatalogDefault
  | DeterministicExtraction constraint_field
  | VerifiedUserText constraint_field
  | ExactSensitiveInput
  | SafePriorSelection node_id
  | PriorStep node_id string
  | AuthorizedDataProbe node_id string

record node_input =
  ni_parameter :: string
  ni_kind :: parameter_type
  ni_source :: binding_source

record node_output_slot =
  no_name :: string
  no_kind :: parameter_type
  no_sensitivity :: sensitivity
  no_cardinality :: cardinality

record workflow_node =
  wn_id :: node_id
  wn_kind :: node_kind
  wn_inputs :: "node_input list"
  wn_outputs :: "node_output_slot list"
  wn_policy :: node_policy
  wn_budget :: node_budget
  wn_idempotency :: idempotency
  wn_retry_max_attempts :: "8 word"

record workflow_edge =
  we_from :: node_id
  we_to :: node_id
  we_condition :: edge_condition

record execution_workflow =
  ew_id :: uuid
  ew_contract_version :: "16 word"
  ew_catalog_version :: uuid
  ew_nodes :: "workflow_node list"
  ew_edges :: "workflow_edge list"
  ew_budgets :: workflow_budgets
  ew_fail_policy :: fail_policy
  ew_output_contract :: output_contract

record workflow_proposal =
  wp_capability_ids :: "string list"
  wp_nodes :: "workflow_node list"
  wp_edges :: "workflow_edge list"

definition WORKFLOW_CONTRACT_VERSION :: "16 word" where
  "WORKFLOW_CONTRACT_VERSION = 1"

text \<open>\<open>Iterator::find\<close> of a node by its identifier, which the workflow code repeats.\<close>

definition find_node :: "execution_workflow \<Rightarrow> node_id \<Rightarrow> workflow_node option" where
  "find_node w i = find (\<lambda>n. wn_id n = i) (ew_nodes w)"

lemma find_nodeD: "find_node w i = Some n \<Longrightarrow> n \<in> set (ew_nodes w) \<and> wn_id n = i"
  by (auto simp: find_node_def dest: find_SomeD)

lemma find_node_distinct:
  "distinct (map wn_id (ew_nodes w)) \<Longrightarrow> n \<in> set (ew_nodes w) \<Longrightarrow> find_node w (wn_id n) = Some n"
  unfolding find_node_def by (rule find_key_distinct)

definition is_complete :: "workflow_node \<Rightarrow> bool" where
  "is_complete n = (case wn_kind n of Complete _ \<Rightarrow> True | _ \<Rightarrow> False)"

section \<open>SQL in a proposal\<close>

definition sql_needles :: "string list" where
  "sql_needles = [''select '', ''insert '', ''update '', ''delete '', '' from '', '';--'']"

fun contains_sql :: "json \<Rightarrow> bool" where
  "contains_sql (JString s) =
     (let s' = map to_ascii_lowercase s in list_ex (\<lambda>needle. str_contains needle s') sql_needles)"
| "contains_sql (JArray vs) = list_ex contains_sql vs"
| "contains_sql (JObject kvs) = list_ex (\<lambda>kv. contains_sql (snd kv)) kvs"
| "contains_sql _ = False"

text \<open>The strings a document holds in value position, at any depth (object keys are not values).\<close>

fun json_strings :: "json \<Rightarrow> string list" where
  "json_strings (JString s) = [s]"
| "json_strings (JArray vs) = concat (map json_strings vs)"
| "json_strings (JObject kvs) = concat (map (\<lambda>kv. json_strings (snd kv)) kvs)"
| "json_strings _ = []"

lemma contains_sql_iff:
  "contains_sql v \<longleftrightarrow>
     (\<exists>s \<in> set (json_strings v). \<exists>needle \<in> set sql_needles. str_contains needle (map to_ascii_lowercase s))"
proof (induction v)
  case (JArray vs)
  then show ?case by (force simp: list_ex_iff)
next
  case (JObject kvs)
  then have "\<And>kv. kv \<in> set kvs \<Longrightarrow> contains_sql (snd kv) \<longleftrightarrow>
      (\<exists>s \<in> set (json_strings (snd kv)). \<exists>needle \<in> set sql_needles.
        str_contains needle (map to_ascii_lowercase s))"
    by (metis prod.collapse snds.intros)
  then show ?case by (force simp: list_ex_iff)
qed (auto simp: list_ex_iff)

end
