(* ===== verification/Graph.thy ===== *)
theory Graph
  imports Contract
begin

text \<open>
  \<open>assistant/workflow/graph.rs\<close>: the dependency graph the compiler and the verifier share.
  The graph container and its algorithms are the \<open>petgraph\<close> crate's.  A graph value is the
  list of its node weights (a node index is a position) and the list of its edges in insertion
  order; the traversals and algorithms the code calls are the fields of a \<open>petgraph\<close> record,
  an argument of every definition that uses them.  The locale \<open>petgraph_laws\<close> states what the
  crate documents of them, and \<open>ref_petgraph\<close> is an implementation that satisfies it.
\<close>

section \<open>Graphs and the petgraph interface\<close>

record digraph =
  dg_weights :: "node_id list"
  dg_edges :: "(nat \<times> nat) list"

record petgraph =
  pg_out :: "digraph \<Rightarrow> nat \<Rightarrow> nat list"
  pg_in :: "digraph \<Rightarrow> nat \<Rightarrow> nat list"
  pg_sources :: "digraph \<Rightarrow> nat list"
  pg_cyclic :: "digraph \<Rightarrow> bool"
  pg_toposort :: "digraph \<Rightarrow> nat list option"

definition dg_wf :: "digraph \<Rightarrow> bool" where
  "dg_wf g \<longleftrightarrow> (\<forall>(i, j) \<in> set (dg_edges g). i < length (dg_weights g) \<and> j < length (dg_weights g))"

text \<open>\<open>x\<close> stands before \<open>y\<close> in a list.\<close>

definition before :: "'a list \<Rightarrow> 'a \<Rightarrow> 'a \<Rightarrow> bool" where
  "before xs x y \<longleftrightarrow> (\<exists>us vs. xs = us @ x # vs \<and> y \<in> set vs)"

locale petgraph_laws =
  fixes pg :: petgraph
  assumes out_edges: "dg_wf g \<Longrightarrow> set (pg_out pg g i) = {j. (i, j) \<in> set (dg_edges g)}"
    and in_edges: "dg_wf g \<Longrightarrow> set (pg_in pg g i) = {j. (j, i) \<in> set (dg_edges g)}"
    and sources: "dg_wf g \<Longrightarrow> distinct (pg_sources pg g) \<and>
      set (pg_sources pg g) = {i. i < length (dg_weights g) \<and> (\<forall>j. (j, i) \<notin> set (dg_edges g))}"
    and cyclic: "dg_wf g \<Longrightarrow> pg_cyclic pg g \<longleftrightarrow> \<not> acyclic (set (dg_edges g))"
    and toposort_order: "dg_wf g \<Longrightarrow> pg_toposort pg g = Some ord \<Longrightarrow>
      distinct ord \<and> set ord = {..<length (dg_weights g)} \<and>
      (\<forall>(i, j) \<in> set (dg_edges g). before ord i j)"
    and toposort_cyclic: "dg_wf g \<Longrightarrow> pg_toposort pg g = None \<longleftrightarrow> \<not> acyclic (set (dg_edges g))"

section \<open>WorkflowGraph\<close>

record workflow_graph =
  wg_graph :: digraph
  wg_by_id :: "node_id \<Rightarrow> nat option"

definition graph_index :: "execution_workflow \<Rightarrow> node_id \<Rightarrow> nat option" where
  "graph_index w = collect_map (zip (map wn_id (ew_nodes w)) [0..<length (ew_nodes w)])"

definition graph_edge :: "execution_workflow \<Rightarrow> workflow_edge \<Rightarrow> (nat \<times> nat) option" where
  "graph_edge w e =
     (case (graph_index w (we_from e), graph_index w (we_to e)) of
        (Some i, Some j) \<Rightarrow> Some (i, j)
      | _ \<Rightarrow> None)"

definition workflow_graph_new :: "execution_workflow \<Rightarrow> workflow_graph" where
  "workflow_graph_new w =
     \<lparr>wg_graph = \<lparr>dg_weights = map wn_id (ew_nodes w),
                  dg_edges = List.map_filter (graph_edge w) (ew_edges w)\<rparr>,
      wg_by_id = graph_index w\<rparr>"

definition graph_is_cyclic :: "petgraph \<Rightarrow> workflow_graph \<Rightarrow> bool" where
  "graph_is_cyclic pg g = pg_cyclic pg (wg_graph g)"

datatype cyclic_graph = CyclicGraph

definition weight_of :: "workflow_graph \<Rightarrow> nat \<Rightarrow> node_id" where
  "weight_of g i = dg_weights (wg_graph g) ! i"

definition topological_order :: "petgraph \<Rightarrow> workflow_graph \<Rightarrow> cyclic_graph + node_id list" where
  "topological_order pg g =
     (case pg_toposort pg (wg_graph g) of
        None \<Rightarrow> Inl CyclicGraph
      | Some ord \<Rightarrow> Inr (map (weight_of g) ord))"

text \<open>
  The body of the breadth-first loop: a neighbour that was not seen is marked and queued.  Node
  indices the graph yields are in range; the range test makes the termination argument local.
\<close>

definition visit :: "nat \<Rightarrow> nat \<Rightarrow> nat list \<times> nat list \<Rightarrow> nat list \<times> nat list" where
  "visit n next sq =
     (if next < n \<and> next \<notin> set (fst sq) then (fst sq @ [next], snd sq @ [next]) else sq)"

definition unseen :: "digraph \<Rightarrow> nat list \<Rightarrow> nat" where
  "unseen g seen = card ({..<length (dg_weights g)} - set seen)"

lemma visit_fold_measure:
  "unseen g (fst (fold (visit (length (dg_weights g))) ns (seen, queue)))
     + length (snd (fold (visit (length (dg_weights g))) ns (seen, queue)))
   = unseen g seen + length queue"
proof (induction ns arbitrary: seen queue)
  case Nil
  then show ?case by simp
next
  case (Cons a ns)
  let ?n = "length (dg_weights g)"
  show ?case
  proof (cases "a < ?n \<and> a \<notin> set seen")
    case True
    have "{..<?n} - set seen = insert a ({..<?n} - set (seen @ [a]))" using True by auto
    then have "unseen g seen = card (insert a ({..<?n} - set (seen @ [a])))"
      by (simp only: unseen_def)
    also have "\<dots> = Suc (unseen g (seen @ [a]))"
      unfolding unseen_def by (rule card_insert_disjoint) auto
    finally have fresh: "unseen g seen = Suc (unseen g (seen @ [a]))" .
    have "visit ?n a (seen, queue) = (seen @ [a], queue @ [a])" using True by (simp add: visit_def)
    then show ?thesis using fresh Cons.IH [of "seen @ [a]" "queue @ [a]"] by simp
  next
    case False
    then have "visit ?n a (seen, queue) = (seen, queue)" by (auto simp: visit_def)
    then show ?thesis using Cons.IH [of seen queue] by simp
  qed
qed

function reach_loop :: "petgraph \<Rightarrow> digraph \<Rightarrow> nat list \<Rightarrow> nat list \<Rightarrow> nat list" where
  "reach_loop pg g seen [] = seen"
| "reach_loop pg g seen (x # queue) =
     (let sq = fold (visit (length (dg_weights g))) (pg_out pg g x) (seen, queue)
      in reach_loop pg g (fst sq) (snd sq))"
  by pat_completeness auto
termination
proof (relation "measure (\<lambda>(pg, g, seen, queue). unseen g seen + length queue)", simp)
  fix pg g seen x queue sq
  assume "sq = fold (visit (length (dg_weights g))) (pg_out pg g x) (seen, queue)"
  then show "((pg, g, fst sq, snd sq), pg, g, seen, x # queue)
      \<in> measure (\<lambda>(pg, g, seen, queue). unseen g seen + length queue)"
    using visit_fold_measure [of g "pg_out pg g x" seen queue] by (simp add: case_prod_beta)
qed

definition reachable_from :: "petgraph \<Rightarrow> workflow_graph \<Rightarrow> node_id \<Rightarrow> node_id list" where
  "reachable_from pg g entry =
     (case wg_by_id g entry of
        None \<Rightarrow> []
      | Some start \<Rightarrow> remdups (map (weight_of g) (reach_loop pg (wg_graph g) [start] [start])))"

definition graph_runnable :: "petgraph \<Rightarrow> workflow_graph \<Rightarrow> node_id list \<Rightarrow> node_id list" where
  "graph_runnable pg g completed =
     map (weight_of g)
       (filter
          (\<lambda>i. weight_of g i \<notin> set completed \<and>
               list_all (\<lambda>parent. weight_of g parent \<in> set completed) (pg_in pg (wg_graph g) i))
          [0..<length (dg_weights (wg_graph g))])"

lemma graph_runnable_subset:
  "set (graph_runnable pg g completed) \<subseteq> set (dg_weights (wg_graph g)) - set completed"
  by (auto simp: graph_runnable_def weight_of_def)

function width_loop :: "petgraph \<Rightarrow> workflow_graph \<Rightarrow> node_id list \<Rightarrow> nat \<Rightarrow> nat" where
  "width_loop pg g completed width =
     (let runnable = graph_runnable pg g completed in
      if runnable = [] then width
      else width_loop pg g (completed @ runnable) (max width (length runnable)))"
  by pat_completeness auto
termination
proof (relation "measure (\<lambda>(pg, g, completed, width). card (set (dg_weights (wg_graph g)) - set completed))")
  fix pg g completed and width :: nat and runnable
  assume r: "runnable = graph_runnable pg g completed" and ne: "runnable \<noteq> []"
  obtain i rest where rest: "runnable = i # rest" using ne by (cases runnable) auto
  then have i: "i \<in> set (dg_weights (wg_graph g)) - set completed"
    using graph_runnable_subset [of pg g completed] r by auto
  have "set (dg_weights (wg_graph g)) - set (completed @ runnable)
      \<subset> set (dg_weights (wg_graph g)) - set completed"
    by (rule psubsetI) (use i rest in auto)
  then show "((pg, g, completed @ runnable, max width (length runnable)), pg, g, completed, width)
      \<in> measure (\<lambda>(pg, g, completed, width). card (set (dg_weights (wg_graph g)) - set completed))"
    by (simp add: psubset_card_mono)
qed simp

declare width_loop.simps [simp del]

definition max_runnable_width :: "petgraph \<Rightarrow> workflow_graph \<Rightarrow> nat" where
  "max_runnable_width pg g = width_loop pg g [] 0"

definition entry_nodes :: "petgraph \<Rightarrow> workflow_graph \<Rightarrow> node_id list" where
  "entry_nodes pg g = map (weight_of g) (pg_sources pg (wg_graph g))"

definition graph_contains :: "workflow_graph \<Rightarrow> node_id \<Rightarrow> bool" where
  "graph_contains g i = (wg_by_id g i \<noteq> None)"

end
