(* ===== verification/GraphFacts.thy ===== *)
theory GraphFacts
  imports Graph
begin

text \<open>
  What the graph operations compute, under the petgraph contract: the index of a node, the
  edge relation on node identifiers, reachability as the reflexive transitive closure, the
  topological order, and the waves the width loop runs through.
\<close>

section \<open>Lists in order\<close>

lemma beforeI: "xs = us @ x # vs \<Longrightarrow> y \<in> set vs \<Longrightarrow> before xs x y"
  by (auto simp: before_def)

lemma before_in_set: "before xs x y \<Longrightarrow> x \<in> set xs \<and> y \<in> set xs"
  by (auto simp: before_def)

lemma before_map: "before xs x y \<Longrightarrow> before (map f xs) (f x) (f y)"
  by (auto simp: before_def) (metis list.set_map imageI list.map(2) map_append)

lemma before_irrefl: "distinct xs \<Longrightarrow> \<not> before xs x x"
  by (auto simp: before_def)

lemma before_Cons: "before (z # xs) x y \<longleftrightarrow> (x = z \<and> y \<in> set xs) \<or> before xs x y"
proof
  assume "before (z # xs) x y"
  then obtain us vs where u: "z # xs = us @ x # vs" "y \<in> set vs" by (auto simp: before_def)
  then show "(x = z \<and> y \<in> set xs) \<or> before xs x y"
    by (cases us) (auto simp: before_def)
next
  assume "(x = z \<and> y \<in> set xs) \<or> before xs x y"
  then show "before (z # xs) x y"
  proof
    assume "x = z \<and> y \<in> set xs"
    then show ?thesis by (intro beforeI [where us = "[]"]) auto
  next
    assume "before xs x y"
    then obtain us vs where "xs = us @ x # vs" "y \<in> set vs" by (auto simp: before_def)
    then show ?thesis by (intro beforeI [where us = "z # us"]) auto
  qed
qed

lemma before_trans: "distinct xs \<Longrightarrow> before xs x y \<Longrightarrow> before xs y z \<Longrightarrow> before xs x z"
proof (induction xs)
  case Nil
  then show ?case by (simp add: before_def)
next
  case (Cons a xs)
  then show ?case by (auto simp: before_Cons dest: before_in_set)
qed

lemma before_antisym: "distinct xs \<Longrightarrow> before xs x y \<Longrightarrow> \<not> before xs y x"
  using before_trans before_irrefl by metis

lemma before_acyclic: "distinct xs \<Longrightarrow> (\<forall>(i, j) \<in> r. before xs i j) \<Longrightarrow> acyclic r"
proof -
  assume d: "distinct xs" and r: "\<forall>(i, j) \<in> r. before xs i j"
  have "before xs i j" if "(i, j) \<in> r\<^sup>+" for i j
    using that
  proof (induction rule: trancl.induct)
    case (r_into_trancl a b)
    then show ?case using r by auto
  next
    case (trancl_into_trancl a b c)
    then show ?case using r before_trans [OF d] by blast
  qed
  then show "acyclic r" using before_irrefl [OF d] by (auto simp: acyclic_def)
qed

section \<open>Indices and identifiers\<close>

definition wf_ids :: "execution_workflow \<Rightarrow> bool" where
  "wf_ids w \<longleftrightarrow> distinct (map wn_id (ew_nodes w)) \<and>
     (\<forall>e \<in> set (ew_edges w). we_from e \<in> wn_id ` set (ew_nodes w) \<and> we_to e \<in> wn_id ` set (ew_nodes w))"

definition edge_rel :: "execution_workflow \<Rightarrow> (node_id \<times> node_id) set" where
  "edge_rel w = {(we_from e, we_to e) | e. e \<in> set (ew_edges w)}"

lemma graph_index_Some:
  "graph_index w i = Some k \<Longrightarrow> k < length (ew_nodes w) \<and> wn_id (ew_nodes w ! k) = i"
  by (auto simp: graph_index_def dest!: collect_map_Some simp: set_zip)

lemma graph_index_nth:
  assumes "distinct (map wn_id (ew_nodes w))" and "k < length (ew_nodes w)"
  shows "graph_index w (wn_id (ew_nodes w ! k)) = Some k"
  unfolding graph_index_def
proof (rule collect_map_distinct)
  show "distinct (map fst (zip (map wn_id (ew_nodes w)) [0..<length (ew_nodes w)]))"
    using assms(1) by simp
  show "(wn_id (ew_nodes w ! k), k) \<in> set (zip (map wn_id (ew_nodes w)) [0..<length (ew_nodes w)])"
    using assms(2) by (force simp: set_zip)
qed

lemma graph_index_None_iff: "graph_index w i = None \<longleftrightarrow> i \<notin> wn_id ` set (ew_nodes w)"
proof -
  have "map fst (zip (map wn_id (ew_nodes w)) [0..<length (ew_nodes w)]) = map wn_id (ew_nodes w)"
    by simp
  then have "fst ` set (zip (map wn_id (ew_nodes w)) [0..<length (ew_nodes w)]) = wn_id ` set (ew_nodes w)"
    by (metis list.set_map)
  then show ?thesis by (simp add: graph_index_def collect_map_None_iff)
qed

lemma graph_simps [simp]:
  "dg_weights (wg_graph (workflow_graph_new w)) = map wn_id (ew_nodes w)"
  "wg_by_id (workflow_graph_new w) = graph_index w"
  "length (dg_weights (wg_graph (workflow_graph_new w))) = length (ew_nodes w)"
  by (simp_all add: workflow_graph_new_def)

lemma weight_of_new [simp]:
  "k < length (ew_nodes w) \<Longrightarrow> weight_of (workflow_graph_new w) k = wn_id (ew_nodes w ! k)"
  by (simp add: weight_of_def)

lemma graph_edges_iff:
  "(i, j) \<in> set (dg_edges (wg_graph (workflow_graph_new w))) \<longleftrightarrow>
     (\<exists>e \<in> set (ew_edges w). graph_index w (we_from e) = Some i \<and> graph_index w (we_to e) = Some j)"
  by (force simp: workflow_graph_new_def graph_edge_def List.map_filter_def split: option.splits)

lemma graph_new_wf: "dg_wf (wg_graph (workflow_graph_new w))"
  by (auto simp: dg_wf_def graph_edges_iff dest: graph_index_Some)

lemma graph_edge_ids:
  "(i, j) \<in> set (dg_edges (wg_graph (workflow_graph_new w))) \<Longrightarrow>
     i < length (ew_nodes w) \<and> j < length (ew_nodes w) \<and>
     (wn_id (ew_nodes w ! i), wn_id (ew_nodes w ! j)) \<in> edge_rel w"
  by (auto simp: graph_edges_iff edge_rel_def dest: graph_index_Some)

lemma edge_rel_graph:
  assumes "wf_ids w" and "(a, b) \<in> edge_rel w"
  obtains i j where "i < length (ew_nodes w)" "j < length (ew_nodes w)"
    "a = wn_id (ew_nodes w ! i)" "b = wn_id (ew_nodes w ! j)"
    "(i, j) \<in> set (dg_edges (wg_graph (workflow_graph_new w)))"
proof -
  from assms(2) obtain e where e: "e \<in> set (ew_edges w)" "a = we_from e" "b = we_to e"
    by (auto simp: edge_rel_def)
  with assms(1) have "a \<in> wn_id ` set (ew_nodes w)" "b \<in> wn_id ` set (ew_nodes w)"
    by (auto simp: wf_ids_def)
  then obtain i j where ij: "graph_index w a = Some i" "graph_index w b = Some j"
    using graph_index_None_iff [of w a] graph_index_None_iff [of w b] by auto
  then have "(i, j) \<in> set (dg_edges (wg_graph (workflow_graph_new w)))"
    using e by (auto simp: graph_edges_iff)
  with ij that show ?thesis by (metis graph_index_Some)
qed

text \<open>With distinct identifiers the index graph and the identifier relation are isomorphic.\<close>

lemma trancl_graph_ids:
  "(i, j) \<in> (set (dg_edges (wg_graph (workflow_graph_new w))))\<^sup>+ \<Longrightarrow>
     (wn_id (ew_nodes w ! i), wn_id (ew_nodes w ! j)) \<in> (edge_rel w)\<^sup>+"
  by (induction rule: trancl.induct) (auto dest: graph_edge_ids intro: trancl_into_trancl)

lemma trancl_ids_graph:
  assumes "wf_ids w" and "(a, b) \<in> (edge_rel w)\<^sup>+"
  shows "\<exists>i j. i < length (ew_nodes w) \<and> j < length (ew_nodes w) \<and> a = wn_id (ew_nodes w ! i) \<and>
    b = wn_id (ew_nodes w ! j) \<and> (i, j) \<in> (set (dg_edges (wg_graph (workflow_graph_new w))))\<^sup>+"
  using assms(2)
proof (induction rule: trancl.induct)
  case (r_into_trancl a b)
  then show ?case using edge_rel_graph [OF assms(1)] by (metis trancl.r_into_trancl)
next
  case (trancl_into_trancl a b c)
  then obtain i j where ij: "i < length (ew_nodes w)" "j < length (ew_nodes w)"
    "a = wn_id (ew_nodes w ! i)" "b = wn_id (ew_nodes w ! j)"
    "(i, j) \<in> (set (dg_edges (wg_graph (workflow_graph_new w))))\<^sup>+" by blast
  obtain j' k where jk: "j' < length (ew_nodes w)" "k < length (ew_nodes w)"
    "b = wn_id (ew_nodes w ! j')" "c = wn_id (ew_nodes w ! k)"
    "(j', k) \<in> set (dg_edges (wg_graph (workflow_graph_new w)))"
    using edge_rel_graph [OF assms(1) trancl_into_trancl.hyps(2)] by blast
  have "distinct (map wn_id (ew_nodes w))" using assms(1) by (simp add: wf_ids_def)
  then have "j' = j"
    using ij jk by (metis graph_index_nth option.inject)
  with ij jk show ?case by (metis trancl.trancl_into_trancl)
qed

lemma acyclic_graph_iff:
  assumes "wf_ids w"
  shows "acyclic (set (dg_edges (wg_graph (workflow_graph_new w)))) \<longleftrightarrow> acyclic (edge_rel w)"
proof
  assume a: "acyclic (set (dg_edges (wg_graph (workflow_graph_new w))))"
  show "acyclic (edge_rel w)"
  proof (rule acyclicI, rule allI, rule notI)
    fix x
    assume "(x, x) \<in> (edge_rel w)\<^sup>+"
    then obtain i j where "i < length (ew_nodes w)" "j < length (ew_nodes w)"
      "x = wn_id (ew_nodes w ! i)" "x = wn_id (ew_nodes w ! j)"
      "(i, j) \<in> (set (dg_edges (wg_graph (workflow_graph_new w))))\<^sup>+"
      using trancl_ids_graph [OF assms] by blast
    moreover from this assms have "i = j"
      by (metis graph_index_nth option.inject wf_ids_def)
    ultimately show False using a by (auto simp: acyclic_def)
  qed
next
  assume "acyclic (edge_rel w)"
  then show "acyclic (set (dg_edges (wg_graph (workflow_graph_new w))))"
    using trancl_graph_ids by (force simp: acyclic_def)
qed

lemma weight_of_inj:
  "distinct (map wn_id (ew_nodes w)) \<Longrightarrow> inj_on (weight_of (workflow_graph_new w)) {..<length (ew_nodes w)}"
  by (auto simp: inj_on_def distinct_conv_nth)

lemma node_ids_nth: "i \<in> wn_id ` set (ew_nodes w) \<longleftrightarrow> (\<exists>k < length (ew_nodes w). i = wn_id (ew_nodes w ! k))"
  by (metis (no_types, lifting) image_iff in_set_conv_nth)

section \<open>Reachability\<close>

lemma visit_fold_props:
  "set (fst (fold (visit n) ns (seen, queue))) = set seen \<union> (set ns \<inter> {..<n})
   \<and> set (snd (fold (visit n) ns (seen, queue))) = set queue \<union> ((set ns \<inter> {..<n}) - set seen)"
proof (induction ns arbitrary: seen queue)
  case Nil
  then show ?case by simp
next
  case (Cons a ns)
  show ?case
  proof (cases "a < n \<and> a \<notin> set seen")
    case True
    then show ?thesis using Cons.IH [of "seen @ [a]" "queue @ [a]"] by (auto simp: visit_def)
  next
    case False
    then show ?thesis using Cons.IH [of seen queue] by (auto simp: visit_def)
  qed
qed

context petgraph_laws begin

text \<open>The loop invariant: every edge out of a seen node that is not queued ends in a seen node.\<close>

lemma reach_loop_closed:
  assumes "dg_wf g" and "set queue \<subseteq> set seen"
    and "\<And>i j. i \<in> set seen \<Longrightarrow> i \<notin> set queue \<Longrightarrow> (i, j) \<in> set (dg_edges g) \<Longrightarrow> j \<in> set seen"
  shows "set seen \<subseteq> set (reach_loop pg g seen queue) \<and>
    (\<forall>i j. i \<in> set (reach_loop pg g seen queue) \<longrightarrow> (i, j) \<in> set (dg_edges g) \<longrightarrow>
       j \<in> set (reach_loop pg g seen queue))"
  using assms(2,3)
proof (induction "unseen g seen + length queue" arbitrary: seen queue rule: less_induct)
  case less
  show ?case
  proof (cases queue)
    case Nil
    then show ?thesis using less.prems by auto
  next
    case (Cons x q)
    let ?n = "length (dg_weights g)"
    let ?sq = "fold (visit ?n) (pg_out pg g x) (seen, q)"
    note fp = visit_fold_props [of ?n "pg_out pg g x" seen q]
    have nb: "set (pg_out pg g x) = {j. (x, j) \<in> set (dg_edges g)}" by (rule out_edges [OF assms(1)])
    have inr: "(x, j) \<in> set (dg_edges g) \<Longrightarrow> j < ?n" for j using assms(1) by (auto simp: dg_wf_def)
    have "unseen g (fst ?sq) + length (snd ?sq) < unseen g seen + length queue"
      using visit_fold_measure [of g "pg_out pg g x" seen q] Cons by simp
    moreover have "set (snd ?sq) \<subseteq> set (fst ?sq)" using fp less.prems(1) Cons by auto
    moreover have "j \<in> set (fst ?sq)"
      if "i \<in> set (fst ?sq)" "i \<notin> set (snd ?sq)" "(i, j) \<in> set (dg_edges g)" for i j
    proof (cases "i = x")
      case True
      then show ?thesis using that(3) fp nb inr by auto
    next
      case False
      then have "i \<in> set seen" "i \<notin> set queue" using that fp Cons by auto
      then show ?thesis using less.prems(2) that(3) fp by auto
    qed
    ultimately have "set (fst ?sq) \<subseteq> set (reach_loop pg g (fst ?sq) (snd ?sq)) \<and>
      (\<forall>i j. i \<in> set (reach_loop pg g (fst ?sq) (snd ?sq)) \<longrightarrow> (i, j) \<in> set (dg_edges g) \<longrightarrow>
        j \<in> set (reach_loop pg g (fst ?sq) (snd ?sq)))"
      by (rule less.hyps)
    moreover have "set seen \<subseteq> set (fst ?sq)" using fp by auto
    ultimately show ?thesis using Cons by (simp add: Let_def) blast
  qed
qed

lemma reach_loop_sound:
  assumes "dg_wf g" and "set seen \<subseteq> (set (dg_edges g))\<^sup>* `` {s}" and "set queue \<subseteq> set seen"
  shows "set (reach_loop pg g seen queue) \<subseteq> (set (dg_edges g))\<^sup>* `` {s}"
  using assms(2,3)
proof (induction "unseen g seen + length queue" arbitrary: seen queue rule: less_induct)
  case less
  show ?case
  proof (cases queue)
    case Nil
    then show ?thesis using less.prems by auto
  next
    case (Cons x q)
    let ?n = "length (dg_weights g)"
    let ?sq = "fold (visit ?n) (pg_out pg g x) (seen, q)"
    note fp = visit_fold_props [of ?n "pg_out pg g x" seen q]
    have nb: "set (pg_out pg g x) = {j. (x, j) \<in> set (dg_edges g)}" by (rule out_edges [OF assms(1)])
    have x: "(s, x) \<in> (set (dg_edges g))\<^sup>*" using less.prems Cons by auto
    have "unseen g (fst ?sq) + length (snd ?sq) < unseen g seen + length queue"
      using visit_fold_measure [of g "pg_out pg g x" seen q] Cons by simp
    moreover have "set (fst ?sq) \<subseteq> (set (dg_edges g))\<^sup>* `` {s}"
      using fp nb less.prems(1) x by (auto intro: rtrancl_into_rtrancl)
    moreover have "set (snd ?sq) \<subseteq> set (fst ?sq)" using fp less.prems(2) Cons by auto
    ultimately have "set (reach_loop pg g (fst ?sq) (snd ?sq)) \<subseteq> (set (dg_edges g))\<^sup>* `` {s}"
      by (rule less.hyps)
    then show ?thesis using Cons by (simp add: Let_def)
  qed
qed

lemma reach_loop_set:
  assumes "dg_wf g"
  shows "set (reach_loop pg g [s] [s]) = (set (dg_edges g))\<^sup>* `` {s}"
proof
  show "set (reach_loop pg g [s] [s]) \<subseteq> (set (dg_edges g))\<^sup>* `` {s}"
    by (rule reach_loop_sound [OF assms]) auto
  have c: "set [s] \<subseteq> set (reach_loop pg g [s] [s]) \<and>
    (\<forall>i j. i \<in> set (reach_loop pg g [s] [s]) \<longrightarrow> (i, j) \<in> set (dg_edges g) \<longrightarrow>
       j \<in> set (reach_loop pg g [s] [s]))"
    by (rule reach_loop_closed [OF assms]) auto
  have "j \<in> set (reach_loop pg g [s] [s])" if "(s, j) \<in> (set (dg_edges g))\<^sup>*" for j
    using that
  proof (induction rule: rtrancl_induct)
    case base
    show ?case using c by (simp del: reach_loop.simps)
  next
    case (step y z)
    then show ?case using c by blast
  qed
  then show "(set (dg_edges g))\<^sup>* `` {s} \<subseteq> set (reach_loop pg g [s] [s])" by auto
qed

lemma reachable_set:
  assumes wf: "wf_ids w" and a: "a \<in> wn_id ` set (ew_nodes w)"
  shows "set (reachable_from pg (workflow_graph_new w) a) = (edge_rel w)\<^sup>* `` {a}"
proof -
  let ?g = "wg_graph (workflow_graph_new w)"
  obtain s where s: "graph_index w a = Some s" using a graph_index_None_iff [of w a] by auto
  then have sl: "s < length (ew_nodes w)" "wn_id (ew_nodes w ! s) = a" by (auto dest: graph_index_Some)
  have d: "distinct (map wn_id (ew_nodes w))" using wf by (simp add: wf_ids_def)
  have r: "set (reach_loop pg ?g [s] [s]) = (set (dg_edges ?g))\<^sup>* `` {s}"
    by (rule reach_loop_set [OF graph_new_wf])
  have "b \<in> weight_of (workflow_graph_new w) ` ((set (dg_edges ?g))\<^sup>* `` {s}) \<longleftrightarrow> (a, b) \<in> (edge_rel w)\<^sup>*" for b
  proof
    assume "b \<in> weight_of (workflow_graph_new w) ` ((set (dg_edges ?g))\<^sup>* `` {s})"
    then obtain j where j: "(s, j) \<in> (set (dg_edges ?g))\<^sup>*" "b = weight_of (workflow_graph_new w) j" by auto
    show "(a, b) \<in> (edge_rel w)\<^sup>*"
    proof (cases "s = j")
      case True
      then show ?thesis using j sl by simp
    next
      case False
      then have t: "(s, j) \<in> (set (dg_edges ?g))\<^sup>+" using j(1) by (simp add: rtrancl_eq_or_trancl)
      then have "j < length (ew_nodes w)" by (auto dest: graph_edge_ids elim: tranclE)
      with trancl_graph_ids [OF t] j sl show ?thesis by (auto dest: trancl_into_rtrancl)
    qed
  next
    assume ab: "(a, b) \<in> (edge_rel w)\<^sup>*"
    show "b \<in> weight_of (workflow_graph_new w) ` ((set (dg_edges ?g))\<^sup>* `` {s})"
    proof (cases "a = b")
      case True
      then have "b = weight_of (workflow_graph_new w) s" using sl by simp
      then show ?thesis by blast
    next
      case False
      then have "(a, b) \<in> (edge_rel w)\<^sup>+" using ab by (simp add: rtrancl_eq_or_trancl)
      then obtain i j where ij: "i < length (ew_nodes w)" "j < length (ew_nodes w)"
        "a = wn_id (ew_nodes w ! i)" "b = wn_id (ew_nodes w ! j)" "(i, j) \<in> (set (dg_edges ?g))\<^sup>+"
        using trancl_ids_graph [OF wf] by blast
      then have "i = s" using s graph_index_nth [OF d] by auto
      moreover have "b = weight_of (workflow_graph_new w) j" using ij by simp
      ultimately show ?thesis using ij(5) by (auto intro: trancl_into_rtrancl)
    qed
  qed
  then show ?thesis using s r by (auto simp: reachable_from_def)
qed

section \<open>Topological order\<close>

lemma topological_order_ids:
  assumes wf: "wf_ids w" and t: "topological_order pg (workflow_graph_new w) = Inr ids"
  shows "distinct ids" and "set ids = wn_id ` set (ew_nodes w)"
    and "(a, b) \<in> edge_rel w \<Longrightarrow> before ids a b"
proof -
  let ?g = "wg_graph (workflow_graph_new w)"
  obtain ord where o: "pg_toposort pg ?g = Some ord" "ids = map (weight_of (workflow_graph_new w)) ord"
    using t by (auto simp: topological_order_def split: option.splits)
  have ord: "distinct ord" "set ord = {..<length (ew_nodes w)}"
    "\<forall>(i, j) \<in> set (dg_edges ?g). before ord i j"
    using toposort_order [OF graph_new_wf o(1)] by auto
  have d: "distinct (map wn_id (ew_nodes w))" using wf by (simp add: wf_ids_def)
  have inj: "inj_on (weight_of (workflow_graph_new w)) {..<length (ew_nodes w)}"
    by (rule weight_of_inj [OF d])
  show "distinct ids" using o(2) ord(1,2) inj by (simp add: distinct_map)
  have "set ids = (\<lambda>i. wn_id (ew_nodes w ! i)) ` {..<length (ew_nodes w)}"
    using o(2) ord(2) by (auto simp: image_iff)
  also have "\<dots> = wn_id ` set (ew_nodes w)" by (force simp: set_conv_nth image_iff)
  finally show "set ids = wn_id ` set (ew_nodes w)" .
  assume "(a, b) \<in> edge_rel w"
  then obtain i j where ij: "i < length (ew_nodes w)" "j < length (ew_nodes w)"
    "a = wn_id (ew_nodes w ! i)" "b = wn_id (ew_nodes w ! j)" "(i, j) \<in> set (dg_edges ?g)"
    using edge_rel_graph [OF wf] by blast
  then have "before ord i j" using ord(3) by auto
  then show "before ids a b" using o(2) ij before_map [of ord i j "weight_of (workflow_graph_new w)"] by simp
qed

lemma is_cyclic_iff: "wf_ids w \<Longrightarrow> graph_is_cyclic pg (workflow_graph_new w) \<longleftrightarrow> \<not> acyclic (edge_rel w)"
  using cyclic [OF graph_new_wf] acyclic_graph_iff by (auto simp: graph_is_cyclic_def)

lemma topological_order_fails_iff:
  "wf_ids w \<Longrightarrow> topological_order pg (workflow_graph_new w) = Inl CyclicGraph \<longleftrightarrow> \<not> acyclic (edge_rel w)"
  using toposort_cyclic [OF graph_new_wf, of w] acyclic_graph_iff [of w]
  by (cases "pg_toposort pg (wg_graph (workflow_graph_new w))") (simp_all add: topological_order_def)

lemma entry_nodes_set:
  assumes wf: "wf_ids w"
  shows "distinct (entry_nodes pg (workflow_graph_new w))"
    and "set (entry_nodes pg (workflow_graph_new w)) =
      {i \<in> wn_id ` set (ew_nodes w). \<forall>e \<in> set (ew_edges w). we_to e \<noteq> i}"
proof -
  let ?g = "wg_graph (workflow_graph_new w)"
  have s: "distinct (pg_sources pg ?g)"
    "set (pg_sources pg ?g) = {i. i < length (ew_nodes w) \<and> (\<forall>j. (j, i) \<notin> set (dg_edges ?g))}"
    using sources [OF graph_new_wf, of w] by auto
  have d: "distinct (map wn_id (ew_nodes w))" using wf by (simp add: wf_ids_def)
  have inj: "inj_on (weight_of (workflow_graph_new w)) {..<length (ew_nodes w)}"
    by (rule weight_of_inj [OF d])
  show "distinct (entry_nodes pg (workflow_graph_new w))"
    using s inj by (auto simp: entry_nodes_def distinct_map intro: inj_on_subset)
  have src: "(\<forall>j. (j, i) \<notin> set (dg_edges ?g)) \<longleftrightarrow> (\<forall>e \<in> set (ew_edges w). we_to e \<noteq> wn_id (ew_nodes w ! i))"
    if i: "i < length (ew_nodes w)" for i
  proof
    assume no: "\<forall>j. (j, i) \<notin> set (dg_edges ?g)"
    show "\<forall>e \<in> set (ew_edges w). we_to e \<noteq> wn_id (ew_nodes w ! i)"
    proof (intro ballI notI)
      fix e assume e: "e \<in> set (ew_edges w)" "we_to e = wn_id (ew_nodes w ! i)"
      then have "we_from e \<in> wn_id ` set (ew_nodes w)" using wf by (auto simp: wf_ids_def)
      then obtain j where "graph_index w (we_from e) = Some j"
        using graph_index_None_iff [of w "we_from e"] by auto
      moreover have "graph_index w (we_to e) = Some i" using e(2) graph_index_nth [OF d i] by simp
      ultimately show False using no e(1) by (auto simp: graph_edges_iff)
    qed
  next
    assume "\<forall>e \<in> set (ew_edges w). we_to e \<noteq> wn_id (ew_nodes w ! i)"
    then show "\<forall>j. (j, i) \<notin> set (dg_edges ?g)"
      using graph_index_Some by (metis graph_edges_iff)
  qed
  have "set (entry_nodes pg (workflow_graph_new w)) = weight_of (workflow_graph_new w) `
      {i. i < length (ew_nodes w) \<and> (\<forall>j. (j, i) \<notin> set (dg_edges ?g))}"
    using s(2) by (simp add: entry_nodes_def)
  also have "\<dots> = {i \<in> wn_id ` set (ew_nodes w). \<forall>e \<in> set (ew_edges w). we_to e \<noteq> i}"
    using src by (force simp: set_conv_nth image_iff)
  finally show "set (entry_nodes pg (workflow_graph_new w)) =
      {i \<in> wn_id ` set (ew_nodes w). \<forall>e \<in> set (ew_edges w). we_to e \<noteq> i}" .
qed

end

end
