(* ===== verification/GraphModel.thy ===== *)
theory GraphModel
  imports GraphFacts
begin

text \<open>
  An implementation of the petgraph interface that meets its contract (neighbour lists by
  filtering, Kahn's algorithm for the order), used to evaluate the model, and the waves of the
  width loop: \<open>max_runnable_width\<close> runs the graph level by level.
\<close>

section \<open>A reference implementation\<close>

definition ref_out :: "digraph \<Rightarrow> nat \<Rightarrow> nat list" where
  "ref_out g i = map snd (filter (\<lambda>e. fst e = i) (dg_edges g))"

definition ref_in :: "digraph \<Rightarrow> nat \<Rightarrow> nat list" where
  "ref_in g i = map fst (filter (\<lambda>e. snd e = i) (dg_edges g))"

definition ref_sources :: "digraph \<Rightarrow> nat list" where
  "ref_sources g = filter (\<lambda>i. list_all (\<lambda>e. snd e \<noteq> i) (dg_edges g)) [0..<length (dg_weights g)]"

definition no_pred :: "(nat \<times> nat) list \<Rightarrow> nat list \<Rightarrow> nat \<Rightarrow> bool" where
  "no_pred es rs i = list_all (\<lambda>e. snd e = i \<longrightarrow> fst e \<notin> set rs) es"

function kahn :: "(nat \<times> nat) list \<Rightarrow> nat list \<Rightarrow> nat list option" where
  "kahn es rs =
     (if rs = [] then Some []
      else (case find (no_pred es rs) rs of
              None \<Rightarrow> None
            | Some i \<Rightarrow> map_option (Cons i) (kahn es (remove1 i rs))))"
  by pat_completeness auto
termination
  by (relation "measure (\<lambda>(es, rs). length rs)") (auto dest!: find_SomeD simp: length_remove1 neq_Nil_conv)

declare kahn.simps [simp del]

definition ref_toposort :: "digraph \<Rightarrow> nat list option" where
  "ref_toposort g = kahn (dg_edges g) [0..<length (dg_weights g)]"

definition ref_petgraph :: petgraph where
  "ref_petgraph =
     \<lparr>pg_out = ref_out, pg_in = ref_in, pg_sources = ref_sources,
      pg_cyclic = (\<lambda>g. ref_toposort g = None), pg_toposort = ref_toposort\<rparr>"

text \<open>Kahn's algorithm emits a permutation of the remaining nodes in dependency order.\<close>

lemma kahn_Some:
  assumes "distinct rs" and "kahn es rs = Some ord"
  shows "distinct ord \<and> set ord = set rs \<and>
    (\<forall>(i, j) \<in> set es. i \<in> set rs \<longrightarrow> j \<in> set rs \<longrightarrow> before ord i j)"
  using assms
proof (induction es rs arbitrary: ord rule: kahn.induct)
  case (1 es rs)
  show ?case
  proof (cases "rs = []")
    case True
    then show ?thesis using 1 by (simp add: kahn.simps)
  next
    case False
    then obtain i ord' where i: "find (no_pred es rs) rs = Some i"
      and o: "kahn es (remove1 i rs) = Some ord'" "ord = i # ord'"
      using "1.prems" by (subst (asm) kahn.simps) (auto split: option.splits)
    have irs: "i \<in> set rs" "no_pred es rs i" using i by (auto dest: find_SomeD)
    have ih: "distinct ord' \<and> set ord' = set (remove1 i rs) \<and>
      (\<forall>(a, b) \<in> set es. a \<in> set (remove1 i rs) \<longrightarrow> b \<in> set (remove1 i rs) \<longrightarrow> before ord' a b)"
      using "1.IH" [OF False i] "1.prems"(1) o(1) by simp
    have rem: "set (remove1 i rs) = set rs - {i}" using "1.prems"(1) by simp
    have "before ord a b" if "(a, b) \<in> set es" "a \<in> set rs" "b \<in> set rs" for a b
    proof -
      have "b \<noteq> i" using irs(2) that by (auto simp: no_pred_def list_all_iff)
      then show ?thesis using ih rem that o(2) by (auto simp: before_Cons)
    qed
    then show ?thesis using ih rem irs o(2) by auto
  qed
qed

lemma kahn_None:
  assumes "distinct rs" and "kahn es rs = None"
  shows "\<not> acyclic (set es)"
  using assms
proof (induction es rs rule: kahn.induct)
  case (1 es rs)
  have ne: "rs \<noteq> []" using "1.prems" by (auto simp: kahn.simps)
  show ?case
  proof (cases "find (no_pred es rs) rs")
    case (Some i)
    then show ?thesis using 1 ne by (subst (asm) (2) kahn.simps) auto
  next
    case None
    then have pred: "\<exists>j \<in> set rs. (j, i) \<in> set es" if "i \<in> set rs" for i
      using that by (simp add: find_None_iff_all no_pred_def list_all_iff) (metis prod.collapse)
    show ?thesis
    proof
      assume "acyclic (set es)"
      then have "wf (set es)" by (simp add: finite_acyclic_wf)
      then obtain m where "m \<in> set rs" "\<And>y. (y, m) \<in> set es \<Longrightarrow> y \<notin> set rs"
        using ne wfE_min [of "set es" "hd rs" "set rs"] by (metis list.set_sel(1))
      then show False using pred by blast
    qed
  qed
qed

lemma ref_toposort_Some:
  assumes "dg_wf g" and "ref_toposort g = Some ord"
  shows "distinct ord \<and> set ord = {..<length (dg_weights g)} \<and>
    (\<forall>(i, j) \<in> set (dg_edges g). before ord i j)"
  using kahn_Some [of "[0..<length (dg_weights g)]" "dg_edges g" ord] assms
  by (fastforce simp: ref_toposort_def dg_wf_def)

lemma ref_toposort_None: "dg_wf g \<Longrightarrow> ref_toposort g = None \<longleftrightarrow> \<not> acyclic (set (dg_edges g))"
proof
  assume "ref_toposort g = None"
  then show "\<not> acyclic (set (dg_edges g))"
    unfolding ref_toposort_def by (intro kahn_None [of "[0..<length (dg_weights g)]"]) simp_all
next
  assume wf: "dg_wf g" and c: "\<not> acyclic (set (dg_edges g))"
  show "ref_toposort g = None"
  proof (rule ccontr)
    assume "ref_toposort g \<noteq> None"
    then obtain ord where "ref_toposort g = Some ord" by auto
    from ref_toposort_Some [OF wf this] have "acyclic (set (dg_edges g))"
      by (intro before_acyclic) auto
    with c show False by contradiction
  qed
qed

interpretation ref: petgraph_laws ref_petgraph
proof unfold_locales
  fix g i
  show "set (pg_out ref_petgraph g i) = {j. (i, j) \<in> set (dg_edges g)}"
    by (force simp: ref_petgraph_def ref_out_def)
  show "set (pg_in ref_petgraph g i) = {j. (j, i) \<in> set (dg_edges g)}"
    by (force simp: ref_petgraph_def ref_in_def)
  show "distinct (pg_sources ref_petgraph g) \<and>
      set (pg_sources ref_petgraph g) = {i. i < length (dg_weights g) \<and> (\<forall>j. (j, i) \<notin> set (dg_edges g))}"
    by (auto simp: ref_petgraph_def ref_sources_def list_all_iff)
next
  fix g ord
  assume "dg_wf g"
  then show "pg_cyclic ref_petgraph g \<longleftrightarrow> \<not> acyclic (set (dg_edges g))"
    and "pg_toposort ref_petgraph g = None \<longleftrightarrow> \<not> acyclic (set (dg_edges g))"
    by (simp_all add: ref_petgraph_def ref_toposort_None)
  assume "pg_toposort ref_petgraph g = Some ord"
  with \<open>dg_wf g\<close> show "distinct ord \<and> set ord = {..<length (dg_weights g)} \<and>
      (\<forall>(i, j) \<in> set (dg_edges g). before ord i j)"
    by (intro ref_toposort_Some) (simp_all add: ref_petgraph_def)
qed

section \<open>The waves of the width loop\<close>

function waves :: "petgraph \<Rightarrow> workflow_graph \<Rightarrow> node_id list \<Rightarrow> node_id list list" where
  "waves pg g completed =
     (let runnable = graph_runnable pg g completed in
      if runnable = [] then [] else runnable # waves pg g (completed @ runnable))"
  by pat_completeness auto
termination
proof (relation "measure (\<lambda>(pg, g, completed). card (set (dg_weights (wg_graph g)) - set completed))")
  fix pg g completed runnable
  assume r: "runnable = graph_runnable pg g completed" and ne: "runnable \<noteq> []"
  obtain i rest where rest: "runnable = i # rest" using ne by (cases runnable) auto
  then have i: "i \<in> set (dg_weights (wg_graph g)) - set completed"
    using graph_runnable_subset [of pg g completed] r by auto
  have "set (dg_weights (wg_graph g)) - set (completed @ runnable)
      \<subset> set (dg_weights (wg_graph g)) - set completed"
    by (rule psubsetI) (use i rest in auto)
  then show "((pg, g, completed @ runnable), pg, g, completed)
      \<in> measure (\<lambda>(pg, g, completed). card (set (dg_weights (wg_graph g)) - set completed))"
    by (simp add: psubset_card_mono)
qed simp

declare waves.simps [simp del]

lemma width_loop_waves: "width_loop pg g completed wd = foldl max wd (map length (waves pg g completed))"
proof (induction pg g completed wd rule: width_loop.induct)
  case (1 pg g completed wd)
  then show ?case
    by (simp add: width_loop.simps [of pg g completed wd] waves.simps [of pg g completed] Let_def)
qed

lemma foldl_max_Max: "foldl max (a :: nat) xs = Max (insert a (set xs))"
proof (induction xs arbitrary: a)
  case (Cons x xs)
  have "Max (insert (max a x) (set xs)) = Max (insert a (insert x (set xs)))"
    by (cases "xs = []") (simp_all add: max.assoc)
  then show ?case using Cons by simp
qed simp

context petgraph_laws begin

lemma graph_runnable_iff:
  assumes wf: "wf_ids w"
  shows "i \<in> set (graph_runnable pg (workflow_graph_new w) completed) \<longleftrightarrow>
    i \<in> wn_id ` set (ew_nodes w) \<and> i \<notin> set completed \<and> (\<forall>p. (p, i) \<in> edge_rel w \<longrightarrow> p \<in> set completed)"
    (is "?l \<longleftrightarrow> ?r")
proof -
  let ?g = "wg_graph (workflow_graph_new w)"
  have d: "distinct (map wn_id (ew_nodes w))" using wf by (simp add: wf_ids_def)
  have parents: "list_all (\<lambda>p. weight_of (workflow_graph_new w) p \<in> set completed) (pg_in pg ?g k) \<longleftrightarrow>
      (\<forall>p. (p, wn_id (ew_nodes w ! k)) \<in> edge_rel w \<longrightarrow> p \<in> set completed)"
    if k: "k < length (ew_nodes w)" for k
  proof
    assume a: "list_all (\<lambda>p. weight_of (workflow_graph_new w) p \<in> set completed) (pg_in pg ?g k)"
    show "\<forall>p. (p, wn_id (ew_nodes w ! k)) \<in> edge_rel w \<longrightarrow> p \<in> set completed"
    proof (intro allI impI)
      fix p assume "(p, wn_id (ew_nodes w ! k)) \<in> edge_rel w"
      then obtain i j where ij: "i < length (ew_nodes w)" "j < length (ew_nodes w)"
        "p = wn_id (ew_nodes w ! i)" "wn_id (ew_nodes w ! k) = wn_id (ew_nodes w ! j)"
        "(i, j) \<in> set (dg_edges ?g)" using edge_rel_graph [OF wf] by blast
      then have "j = k" using k graph_index_nth [OF d] by (metis option.inject)
      then have "i \<in> set (pg_in pg ?g k)" using ij(5) in_edges [OF graph_new_wf] by blast
      then show "p \<in> set completed" using a ij(1,3) by (auto simp: list_all_iff)
    qed
  next
    assume "\<forall>p. (p, wn_id (ew_nodes w ! k)) \<in> edge_rel w \<longrightarrow> p \<in> set completed"
    then show "list_all (\<lambda>p. weight_of (workflow_graph_new w) p \<in> set completed) (pg_in pg ?g k)"
      using in_edges [OF graph_new_wf, of w k] graph_edge_ids by (fastforce simp: list_all_iff)
  qed
  have "?l \<longleftrightarrow> (\<exists>k < length (ew_nodes w). i = wn_id (ew_nodes w ! k) \<and> i \<notin> set completed \<and>
      (\<forall>p. (p, i) \<in> edge_rel w \<longrightarrow> p \<in> set completed))"
    using parents by (auto simp: graph_runnable_def)
  also have "\<dots> \<longleftrightarrow> ?r" using node_ids_nth [of i w] by blast
  finally show ?thesis .
qed

lemma graph_runnable_distinct:
  "wf_ids w \<Longrightarrow> distinct (graph_runnable pg (workflow_graph_new w) completed)"
proof -
  assume "wf_ids w"
  then have "inj_on (weight_of (workflow_graph_new w)) {..<length (ew_nodes w)}"
    by (intro weight_of_inj) (simp add: wf_ids_def)
  then show ?thesis by (auto simp: graph_runnable_def distinct_map intro: inj_on_subset)
qed

lemma graph_runnable_progress:
  assumes wf: "wf_ids w" and ac: "acyclic (edge_rel w)"
    and left: "wn_id ` set (ew_nodes w) - set completed \<noteq> {}"
  shows "graph_runnable pg (workflow_graph_new w) completed \<noteq> []"
proof -
  have "edge_rel w \<subseteq> (\<lambda>e. (we_from e, we_to e)) ` set (ew_edges w)" by (auto simp: edge_rel_def)
  then have "finite (edge_rel w)" by (rule finite_subset) simp
  then have "wf (edge_rel w)" using ac by (rule finite_acyclic_wf)
  then obtain m where m: "m \<in> wn_id ` set (ew_nodes w) - set completed"
    and min: "\<And>y. (y, m) \<in> edge_rel w \<Longrightarrow> y \<notin> wn_id ` set (ew_nodes w) - set completed"
    using left by (metis ex_in_conv wfE_min)
  have "y \<in> wn_id ` set (ew_nodes w)" if "(y, m) \<in> edge_rel w" for y
    using that wf by (auto simp: edge_rel_def wf_ids_def)
  then have "m \<in> set (graph_runnable pg (workflow_graph_new w) completed)"
    using m min graph_runnable_iff [OF wf] by blast
  then show ?thesis by auto
qed

lemma waves_partition:
  assumes wf: "wf_ids w" and ac: "acyclic (edge_rel w)"
  shows "distinct (concat (waves pg (workflow_graph_new w) completed)) \<and>
    set (concat (waves pg (workflow_graph_new w) completed)) = wn_id ` set (ew_nodes w) - set completed"
proof (induction "card (wn_id ` set (ew_nodes w) - set completed)" arbitrary: completed rule: less_induct)
  case less
  let ?r = "graph_runnable pg (workflow_graph_new w) completed"
  have sub: "set ?r \<subseteq> wn_id ` set (ew_nodes w) - set completed"
    using graph_runnable_subset [of pg "workflow_graph_new w" completed] by simp
  show ?case
  proof (cases "?r = []")
    case True
    then have "wn_id ` set (ew_nodes w) - set completed = {}"
      using graph_runnable_progress [OF wf ac] by blast
    then show ?thesis using True by (subst (1 2) waves.simps) (simp add: Let_def)
  next
    case False
    then have "wn_id ` set (ew_nodes w) - set (completed @ ?r) \<subset> wn_id ` set (ew_nodes w) - set completed"
      using sub by (cases ?r) auto
    then have "card (wn_id ` set (ew_nodes w) - set (completed @ ?r)) < card (wn_id ` set (ew_nodes w) - set completed)"
      by (intro psubset_card_mono) auto
    note ih = less [OF this]
    show ?thesis
      using False ih sub graph_runnable_distinct [OF wf, of completed]
      by (subst (1 2) waves.simps) (auto simp: Let_def)
  qed
qed

lemma waves_nth:
  assumes "k < length (waves pg g completed)"
  shows "waves pg g completed ! k = graph_runnable pg g (completed @ concat (take k (waves pg g completed)))"
  using assms
proof (induction k arbitrary: completed)
  case 0
  then have "graph_runnable pg g completed \<noteq> []" by (subst (asm) waves.simps) (auto simp: Let_def)
  then show ?case by (subst waves.simps) (simp add: Let_def)
next
  case (Suc k)
  then have ne: "graph_runnable pg g completed \<noteq> []" by (subst (asm) waves.simps) (auto simp: Let_def split: if_splits)
  then have w: "waves pg g completed = graph_runnable pg g completed # waves pg g (completed @ graph_runnable pg g completed)"
    by (subst waves.simps) (simp add: Let_def)
  then show ?case using Suc by simp
qed

end

end
