(* ===== verification/Authorization.thy ===== *)
theory Authorization
  imports Knowledge
begin

text \<open>
  \<open>policy/authorization.rs\<close> and the principal of \<open>core/src/auth/model.rs\<close>: the capability,
  office-scope and PII guards every plan and every workflow node passes, and the projection of
  an administrator's principal from the tenant's office list.
\<close>

record principal_context =
  pc_user_id :: uuid
  pc_role :: string
  pc_capability_ids :: "string list"
  pc_office_ids :: "int list"
  pc_can_view_pii :: bool
  pc_legacy_api_key_id :: "uuid option"

datatype authorization_error =
    CapabilityNotAllowed string
  | MissingOfficeScope
  | OfficeNotAllowed int
  | PiiNotAllowed

definition ensure_capability_allowed :: "principal_context \<Rightarrow> string \<Rightarrow> authorization_error + unit" where
  "ensure_capability_allowed pr capability =
     (if capability \<in> set (pc_capability_ids pr) then Inr ()
      else Inl (CapabilityNotAllowed capability))"

definition effective_office_scope ::
  "principal_context \<Rightarrow> int list option \<Rightarrow> authorization_error + int list" where
  "effective_office_scope pr requested_office_ids =
     (if pc_office_ids pr = [] then Inl MissingOfficeScope
      else
        (case requested_office_ids of
           Some requested \<Rightarrow>
             res_bind
               (res_iter
                  (\<lambda>office. if office \<in> set (pc_office_ids pr) then Inr ()
                            else Inl (OfficeNotAllowed office)) requested)
               (\<lambda>_. Inr requested)
         | None \<Rightarrow> Inr (pc_office_ids pr)))"

definition ensure_pii_allowed :: "principal_context \<Rightarrow> bool \<Rightarrow> authorization_error + unit" where
  "ensure_pii_allowed pr output_requires_pii =
     (if \<not> output_requires_pii \<or> pc_can_view_pii pr then Inr () else Inl PiiNotAllowed)"

definition pii_output_allowed :: "principal_context \<Rightarrow> bool \<Rightarrow> bool" where
  "pii_output_allowed pr output_requires_pii = is_ok (ensure_pii_allowed pr output_requires_pii)"

section \<open>Administrator projection\<close>

definition intersect_office_scope :: "int list \<Rightarrow> int list \<Rightarrow> int list" where
  "intersect_office_scope principal_office_ids tenant_office_ids =
     (if principal_office_ids = [] then tenant_office_ids
      else filter (\<lambda>office. office \<in> set principal_office_ids) tenant_office_ids)"

definition finalize_admin_projection ::
  "principal_context \<Rightarrow> string list \<Rightarrow> int list \<Rightarrow> authorization_error + principal_context" where
  "finalize_admin_projection pr capability_ids office_ids =
     (if office_ids = [] then Inl MissingOfficeScope
      else Inr (pr\<lparr>pc_capability_ids := capability_ids, pc_office_ids := office_ids,
                         pc_can_view_pii := True\<rparr>))"

text \<open>\<open>project_admin_principal\<close>; \<open>tenant_office_ids\<close> is the result of the office query.\<close>

definition project_admin_principal ::
  "principal_context \<Rightarrow> knowledge_catalog \<Rightarrow> int list \<Rightarrow> authorization_error + principal_context" where
  "project_admin_principal pr catalog tenant_office_ids =
     finalize_admin_projection pr
       (map cap_id (filter (\<lambda>c. cap_status c = ''approved_mvp'') (kc_capabilities catalog)))
       (intersect_office_scope (pc_office_ids pr) tenant_office_ids)"

section \<open>Lemmas\<close>

lemma ensure_capability_allowed_iff [simp, res_simps]:
  "ensure_capability_allowed p c = Inr u \<longleftrightarrow> c \<in> set (pc_capability_ids p)"
  by (simp add: ensure_capability_allowed_def)

lemma ensure_pii_allowed_iff [simp, res_simps]:
  "ensure_pii_allowed p b = Inr u \<longleftrightarrow> (b \<longrightarrow> pc_can_view_pii p)"
  by (auto simp: ensure_pii_allowed_def)

lemma effective_office_scope_None_iff:
  "effective_office_scope p None = Inr os \<longleftrightarrow> pc_office_ids p \<noteq> [] \<and> os = pc_office_ids p"
  by (auto simp: effective_office_scope_def)

lemma effective_office_scope_subset:
  "effective_office_scope p req = Inr os \<Longrightarrow> set os \<subseteq> set (pc_office_ids p)"
  by (auto simp: effective_office_scope_def res_bind_Inr_iff res_iter_Inr_iff
        split: if_splits option.splits)

lemma intersect_office_scope_set:
  "set (intersect_office_scope ps ts) = (if ps = [] then set ts else set ts \<inter> set ps)"
  by (auto simp: intersect_office_scope_def)

end
