(* ===== verification/Verify.thy ===== *)
theory Verify
  imports GraphModel Authorization
begin

text \<open>
  \<open>assistant/workflow/verify.rs\<close>: the checks V1 to V12 a compiled workflow passes before any
  node runs.  Sums keep the widths of the code (\<open>u16\<close> for query costs, \<open>u64\<close> for rows and
  time) and wrap as the release build does.
\<close>

section \<open>Errors\<close>

datatype verify_error =
    VerCycle
  | VerUnknownResource
  | VerTypeIncompatibleBinding
  | VerDataDependentSqlIdentifier
  | VerMissingOfficeScope
  | VerBudgetExceeded
  | VerPartialResultsNotPermitted
  | VerSensitivityWidening
  | VerUnreachableOrOrphanNode
  | VerDanglingResume
  | VerUnboundRequiredInput
  | VerCapabilityNotPermitted

definition client_message :: "verify_error \<Rightarrow> string" where
  "client_message e =
     (case e of
        VerCycle \<Rightarrow> ''The requested workflow is invalid.''
      | VerUnknownResource \<Rightarrow> ''The requested report is unavailable.''
      | VerTypeIncompatibleBinding \<Rightarrow> ''The requested workflow has incompatible inputs.''
      | VerDataDependentSqlIdentifier \<Rightarrow> ''The requested report contains an invalid identifier.''
      | VerMissingOfficeScope \<Rightarrow> ''The requested report has no authorized office scope.''
      | VerBudgetExceeded \<Rightarrow> ''The requested report exceeds its execution budget.''
      | VerPartialResultsNotPermitted \<Rightarrow> ''The requested report does not permit partial results.''
      | VerSensitivityWidening \<Rightarrow> ''The requested report exceeds its data sensitivity.''
      | VerUnreachableOrOrphanNode \<Rightarrow> ''The requested workflow is incomplete.''
      | VerDanglingResume \<Rightarrow> ''The requested workflow cannot be resumed.''
      | VerUnboundRequiredInput \<Rightarrow> ''The requested report is missing a required input.''
      | VerCapabilityNotPermitted \<Rightarrow> ''The requested report is not permitted.'')"

definition audit_reason_code :: "verify_error \<Rightarrow> string" where
  "audit_reason_code e =
     (case e of
        VerCycle \<Rightarrow> ''V1_CYCLE''
      | VerUnknownResource \<Rightarrow> ''V2_UNKNOWN_RESOURCE''
      | VerTypeIncompatibleBinding \<Rightarrow> ''V3_TYPE_INCOMPATIBLE_BINDING''
      | VerDataDependentSqlIdentifier \<Rightarrow> ''V4_DATA_DEPENDENT_SQL_IDENTIFIER''
      | VerMissingOfficeScope \<Rightarrow> ''V5_MISSING_OFFICE_SCOPE''
      | VerBudgetExceeded \<Rightarrow> ''V6_BUDGET_EXCEEDED''
      | VerPartialResultsNotPermitted \<Rightarrow> ''V7_PARTIAL_RESULTS_NOT_PERMITTED''
      | VerSensitivityWidening \<Rightarrow> ''V8_SENSITIVITY_WIDENING''
      | VerUnreachableOrOrphanNode \<Rightarrow> ''V9_UNREACHABLE_OR_ORPHAN_NODE''
      | VerDanglingResume \<Rightarrow> ''V10_DANGLING_RESUME''
      | VerUnboundRequiredInput \<Rightarrow> ''V11_UNBOUND_REQUIRED_INPUT''
      | VerCapabilityNotPermitted \<Rightarrow> ''V12_CAPABILITY_NOT_PERMITTED'')"

datatype verified_workflow = VerifiedWorkflow (verified: execution_workflow)

section \<open>Helpers\<close>

definition sensitivity_rank :: "sensitivity \<Rightarrow> nat" where
  "sensitivity_rank s =
     (case s of PublicBusiness \<Rightarrow> 0 | MaskedOutput \<Rightarrow> 1 | FilterOnly \<Rightarrow> 2 | Pii \<Rightarrow> 3 | NeverUse \<Rightarrow> 4)"

definition looks_like_sql_identifier :: "string \<Rightarrow> bool" where
  "looks_like_sql_identifier value \<longleftrightarrow>
     list_ex (\<lambda>c. c \<in> {CHR '' '', CHR '';'', char_of (34 :: nat), char_of (39 :: nat), CHR ''('', CHR '')'', CHR ''.''}) value
     \<or> str_contains ''--'' value"

definition query_parameter_type :: "string \<Rightarrow> parameter_type option" where
  "query_parameter_type value =
     (if value = ''date'' then Some TDate
      else if value = ''integer'' then Some TInteger
      else if value = ''integer_array'' \<or> value = ''array_bigint'' then Some TIntegerArray
      else if value = ''string'' then Some TString
      else if value = ''currency'' \<or> value = ''decimal'' then Some TCurrency
      else None)"

text \<open>\<open>>=\<close> on \<open>Option\<close>: \<open>None\<close> is below every \<open>Some\<close>.\<close>

definition opt_ge :: "nat option \<Rightarrow> nat option \<Rightarrow> bool" where
  "opt_ge a b = (case b of None \<Rightarrow> True | Some y \<Rightarrow> (case a of None \<Rightarrow> False | Some x \<Rightarrow> y \<le> x))"

section \<open>Node resources (V2)\<close>

definition verify_execute_resources :: "knowledge_catalog \<Rightarrow> execute_query_node \<Rightarrow> verify_error + unit" where
  "verify_execute_resources cat exec =
     res_bind
       (case eq_capability_id exec of
          None \<Rightarrow> Inr ()
        | Some i \<Rightarrow>
            res_bind
              (ok_or (Option.bind (find (\<lambda>c. cap_id c = i) (kc_capabilities cat))
                        (\<lambda>c. if cap_status c = ''approved_mvp'' then Some c else None))
                 VerUnknownResource)
              (\<lambda>c. guard_err (case eq_query_id exec of None \<Rightarrow> False | Some q \<Rightarrow> q \<noteq> cap_query_id c)
                     VerUnknownResource))
       (\<lambda>_. res_bind
         (guard_err (case eq_query_id exec of None \<Rightarrow> False | Some q \<Rightarrow> find_query cat q = None) VerUnknownResource)
         (\<lambda>_. res_bind
           (guard_err ((eq_dataset_id exec \<noteq> None) \<noteq> (eq_shape_id exec \<noteq> None)) VerUnknownResource)
           (\<lambda>_.
             (case (eq_dataset_id exec, eq_shape_id exec) of
                (Some d, Some s) \<Rightarrow>
                  res_bind (ok_or (find_dataset cat d) VerUnknownResource)
                    (\<lambda>ds. guard_err (dataset_shape ds s = None) VerUnknownResource)
              | _ \<Rightarrow> Inr ()))))"

definition verify_node_resources :: "workflow_node \<Rightarrow> knowledge_catalog \<Rightarrow> verify_error + unit" where
  "verify_node_resources node cat =
     (case wn_kind node of
        ExecuteQuery exec \<Rightarrow> verify_execute_resources cat exec
      | ResolveEntity n \<Rightarrow>
          res_bind (ok_or (find_dataset cat (re_dataset_id n)) VerUnknownResource)
            (\<lambda>ds. guard_err
               (map_option sh_role (dataset_shape ds (re_resolver_shape_id n)) \<noteq> Some RoleResolver)
               VerUnknownResource)
      | _ \<Rightarrow> Inr ())"

section \<open>Inputs (V3, V4, V8, V11)\<close>

text \<open>The binding of an input to an earlier node: the producer's position and slot.\<close>

definition verify_prior_slot ::
  "node_input \<Rightarrow> workflow_node \<Rightarrow> (node_id \<Rightarrow> workflow_node option) \<Rightarrow> (node_id \<Rightarrow> nat option) \<Rightarrow>
   node_id \<Rightarrow> string \<Rightarrow> verify_error + unit" where
  "verify_prior_slot input consumer nodes positions node slot =
     res_bind (ok_or (nodes node) VerTypeIncompatibleBinding)
       (\<lambda>producer. res_bind
         (guard_err (opt_ge (positions node) (positions (wn_id consumer))) VerTypeIncompatibleBinding)
         (\<lambda>_. res_bind (ok_or (find (\<lambda>out. no_name out = slot) (wn_outputs producer)) VerTypeIncompatibleBinding)
           (\<lambda>out. guard_err
              (no_kind out \<noteq> ni_kind input \<or>
               sensitivity_rank (no_sensitivity out) > sensitivity_rank (np_max_sensitivity (wn_policy consumer)))
              VerSensitivityWidening)))"

definition verify_source ::
  "node_input \<Rightarrow> workflow_node \<Rightarrow> (node_id \<Rightarrow> workflow_node option) \<Rightarrow> (node_id \<Rightarrow> nat option) \<Rightarrow>
   verify_error + unit" where
  "verify_source input consumer nodes positions =
     (case ni_source input of
        SafePriorSelection clarification \<Rightarrow>
          (case nodes clarification of
             None \<Rightarrow> Inl VerTypeIncompatibleBinding
           | Some producer \<Rightarrow>
               guard_err
                 (opt_ge (positions clarification) (positions (wn_id consumer)) \<or>
                  \<not> (case wn_kind producer of ClarificationInterrupt _ \<Rightarrow> True | _ \<Rightarrow> False))
                 VerTypeIncompatibleBinding)
      | PriorStep node slot \<Rightarrow> verify_prior_slot input consumer nodes positions node slot
      | AuthorizedDataProbe node slot \<Rightarrow> verify_prior_slot input consumer nodes positions node slot
      | _ \<Rightarrow> Inr ())"

definition verify_query_parameter ::
  "node_input \<Rightarrow> workflow_node \<Rightarrow> knowledge_catalog \<Rightarrow> verify_error + unit" where
  "verify_query_parameter input consumer cat =
     (case wn_kind consumer of
        ExecuteQuery exec \<Rightarrow>
          (case Option.bind (Option.bind (eq_query_id exec) (find_query cat))
                  (\<lambda>q. find (\<lambda>p. qp_name p = ni_parameter input) (q_parameters q)) of
             None \<Rightarrow> Inr ()
           | Some p \<Rightarrow>
               res_bind
                 (guard_err (query_parameter_type (qp_kind p) \<noteq> Some (ni_kind input)) VerTypeIncompatibleBinding)
                 (\<lambda>_. guard_err
                    (qp_required p \<and> ni_source input = ExactSensitiveInput \<and> ni_kind input \<noteq> TString)
                    VerUnboundRequiredInput))
      | _ \<Rightarrow> Inr ())"

definition verify_input ::
  "node_input \<Rightarrow> workflow_node \<Rightarrow> (node_id \<Rightarrow> workflow_node option) \<Rightarrow> (node_id \<Rightarrow> nat option) \<Rightarrow>
   knowledge_catalog \<Rightarrow> verify_error + unit" where
  "verify_input input consumer nodes positions cat =
     res_bind (guard_err (looks_like_sql_identifier (ni_parameter input)) VerDataDependentSqlIdentifier)
       (\<lambda>_. res_bind
         (guard_err
            (ni_source input = AuthorizedScope \<and>
             (ni_parameter input \<noteq> ''office_ids'' \<or> ni_kind input \<noteq> TIntegerArray))
            VerTypeIncompatibleBinding)
         (\<lambda>_. res_bind (verify_source input consumer nodes positions)
           (\<lambda>_. verify_query_parameter input consumer cat)))"

section \<open>One node\<close>

definition referenced_nodes :: "workflow_node \<Rightarrow> node_id list" where
  "referenced_nodes node =
     (case wn_kind node of
        CardinalityBranch b \<Rightarrow> [cb_source b, cb_zero b, cb_one b, cb_many b]
      | ComposeResult c \<Rightarrow> cr_sources c
      | _ \<Rightarrow> [])"

definition has_office_scope :: "workflow_node \<Rightarrow> bool" where
  "has_office_scope node \<longleftrightarrow>
     (\<exists>input \<in> set (wn_inputs node). ni_parameter input = ''office_ids'' \<and> ni_source input = AuthorizedScope)"

definition empty_compose :: "workflow_node \<Rightarrow> bool" where
  "empty_compose node = (case wn_kind node of ComposeResult c \<Rightarrow> cr_sources c = [] | _ \<Rightarrow> False)"

definition verify_permissions :: "workflow_node \<Rightarrow> principal_context \<Rightarrow> verify_error + unit" where
  "verify_permissions node pr =
     res_bind (guard_err (np_pii_required (wn_policy node) \<and> \<not> pc_can_view_pii pr) VerCapabilityNotPermitted)
       (\<lambda>_. case np_required_capability (wn_policy node) of
              None \<Rightarrow> Inr ()
            | Some c \<Rightarrow> map_err (\<lambda>_. VerCapabilityNotPermitted) (ensure_capability_allowed pr c))"

definition verify_execute_node ::
  "workflow_node \<Rightarrow> principal_context \<Rightarrow> knowledge_catalog \<Rightarrow> verify_error + unit" where
  "verify_execute_node node pr cat =
     (case wn_kind node of
        ExecuteQuery exec \<Rightarrow>
          res_bind
            (case eq_capability_id exec of
               None \<Rightarrow> Inr ()
             | Some c \<Rightarrow> map_err (\<lambda>_. VerCapabilityNotPermitted) (ensure_capability_allowed pr c))
            (\<lambda>_. guard_err
               (case Option.bind (eq_query_id exec) (find_query cat) of
                  None \<Rightarrow> False
                | Some q \<Rightarrow>
                    list_ex (\<lambda>p. qp_required p \<and>
                      \<not> list_ex (\<lambda>input. ni_parameter input = qp_name p) (wn_inputs node)) (q_parameters q))
               VerUnboundRequiredInput)
      | _ \<Rightarrow> Inr ())"

definition verify_resume :: "petgraph \<Rightarrow> workflow_graph \<Rightarrow> workflow_node \<Rightarrow> verify_error + unit" where
  "verify_resume pg graph node =
     (case wn_kind node of
        ClarificationInterrupt interrupt \<Rightarrow>
          guard_err
            (\<not> graph_contains graph (ci_resume interrupt) \<or>
             ci_resume interrupt \<notin> set (reachable_from pg graph (wn_id node)))
            VerDanglingResume
      | _ \<Rightarrow> Inr ())"

definition verify_node ::
  "petgraph \<Rightarrow> execution_workflow \<Rightarrow> workflow_graph \<Rightarrow> (node_id \<Rightarrow> workflow_node option) \<Rightarrow>
   (node_id \<Rightarrow> nat option) \<Rightarrow> principal_context \<Rightarrow> knowledge_catalog \<Rightarrow> workflow_node \<Rightarrow> verify_error + unit" where
  "verify_node pg w graph nodes positions pr cat node =
     res_bind (verify_node_resources node cat) (\<lambda>_.
     res_bind (guard_err ((\<exists>r \<in> set (referenced_nodes node). nodes r = None) \<or> empty_compose node)
       VerUnreachableOrOrphanNode) (\<lambda>_.
     res_bind (guard_err (nb_query_cost (wn_budget node) > 0 \<and> \<not> has_office_scope node) VerMissingOfficeScope) (\<lambda>_.
     res_bind (guard_err
       (sensitivity_rank (np_max_sensitivity (wn_policy node)) > sensitivity_rank (oc_max_sensitivity (ew_output_contract w)) \<or>
        (\<exists>out \<in> set (wn_outputs node).
           sensitivity_rank (no_sensitivity out) > sensitivity_rank (oc_max_sensitivity (ew_output_contract w))))
       VerSensitivityWidening) (\<lambda>_.
     res_bind (verify_permissions node pr) (\<lambda>_.
     res_bind (verify_execute_node node pr cat) (\<lambda>_.
     res_bind (res_iter (\<lambda>input. verify_input input node nodes positions cat) (wn_inputs node)) (\<lambda>_.
     verify_resume pg graph node)))))))"

section \<open>The whole workflow\<close>

definition verify_structure :: "petgraph \<Rightarrow> execution_workflow \<Rightarrow> workflow_graph \<Rightarrow> verify_error + unit" where
  "verify_structure pg w graph =
     (let ids = map wn_id (ew_nodes w) in
      res_bind (guard_err
        (length (remdups ids) \<noteq> length (ew_nodes w) \<or>
         (\<exists>e \<in> set (ew_edges w). we_from e \<notin> set ids \<or> we_to e \<notin> set ids) \<or>
         length (entry_nodes pg graph) \<noteq> 1 \<or>
         \<not> list_ex is_complete (ew_nodes w))
        VerUnreachableOrOrphanNode) (\<lambda>_.
      guard_err
        (length (reachable_from pg graph (last (entry_nodes pg graph))) \<noteq> length (ew_nodes w))
        VerUnreachableOrOrphanNode))"

definition spent_queries :: "workflow_node list \<Rightarrow> 16 word" where
  "spent_queries ns = sum_list (map (\<lambda>n. ucast (nb_query_cost (wn_budget n))) ns)"

definition spent_rows :: "workflow_node list \<Rightarrow> 64 word" where
  "spent_rows ns = sum_list (map (\<lambda>n. ucast (nb_row_cap (wn_budget n))) ns)"

definition spent_time :: "workflow_node list \<Rightarrow> 64 word" where
  "spent_time ns = sum_list (map (\<lambda>n. nb_timeout_ms (wn_budget n)) ns)"

definition verify_budget :: "petgraph \<Rightarrow> execution_workflow \<Rightarrow> workflow_graph \<Rightarrow> verify_error + unit" where
  "verify_budget pg w graph =
     guard_err
       (spent_queries (ew_nodes w) > ucast (max_query_count (ew_budgets w)) \<or>
        spent_rows (ew_nodes w) > ucast (shared_row_cap (ew_budgets w)) \<or>
        spent_time (ew_nodes w) > shared_timeout_ms (ew_budgets w) \<or>
        max_parallel_queries (ew_budgets w) = 0 \<or>
        max_runnable_width pg graph > unat (max_parallel_queries (ew_budgets w)))
       VerBudgetExceeded"

definition verify ::
  "petgraph \<Rightarrow> execution_workflow \<Rightarrow> principal_context \<Rightarrow> knowledge_catalog \<Rightarrow> verify_error + verified_workflow" where
  "verify pg w pr cat =
     (let graph = workflow_graph_new w in
      res_bind (guard_err (graph_is_cyclic pg graph) VerCycle) (\<lambda>_.
      res_bind (verify_structure pg w graph) (\<lambda>_.
      res_bind (guard_err (ew_fail_policy w = ContinueLabelled \<and> \<not> oc_allows_partial (ew_output_contract w))
        VerPartialResultsNotPermitted) (\<lambda>_.
      res_bind (verify_budget pg w graph) (\<lambda>_.
      res_bind (map_err (\<lambda>_. VerCycle) (topological_order pg graph)) (\<lambda>topo.
      let positions = collect_map (zip topo [0..<length topo]);
          nodes = collect_map (map (\<lambda>n. (wn_id n, n)) (ew_nodes w)) in
      res_bind (res_iter (verify_node pg w graph nodes positions pr cat) (ew_nodes w)) (\<lambda>_.
      Inr (VerifiedWorkflow w))))))))"

definition verify_before_execute ::
  "petgraph \<Rightarrow> execution_workflow \<Rightarrow> principal_context \<Rightarrow> knowledge_catalog \<Rightarrow> (verified_workflow \<Rightarrow> 't) \<Rightarrow>
   verify_error + 't" where
  "verify_before_execute pg w pr cat execute =
     res_bind (verify pg w pr cat) (\<lambda>verified. Inr (execute verified))"

end
