(* ===== verification/VerifyFacts.thy ===== *)
theory VerifyFacts
  imports Verify
begin

text \<open>
  What a successful verification guarantees.  \<open>verify_Inr\<close> unpacks it once into the structural
  facts and \<open>verify_node\<close> of every node; the properties project what the runner relies on.
\<close>

section \<open>Positions in the topological order\<close>

definition positions_of :: "node_id list \<Rightarrow> node_id \<Rightarrow> nat option" where
  "positions_of topo = collect_map (zip topo [0..<length topo])"

lemma positions_of_Some: "positions_of topo i = Some k \<Longrightarrow> k < length topo \<and> topo ! k = i"
  by (auto simp: positions_of_def dest!: collect_map_Some simp: set_zip)

lemma positions_of_nth: "distinct topo \<Longrightarrow> k < length topo \<Longrightarrow> positions_of topo (topo ! k) = Some k"
  unfolding positions_of_def by (rule collect_map_distinct) (force simp: set_zip)+

lemma positions_of_in: "distinct topo \<Longrightarrow> i \<in> set topo \<Longrightarrow> \<exists>k. positions_of topo i = Some k"
  by (metis in_set_conv_nth positions_of_nth)

lemma before_nth: "before xs x y \<Longrightarrow> \<exists>i j. i < j \<and> j < length xs \<and> xs ! i = x \<and> xs ! j = y"
proof -
  assume "before xs x y"
  then obtain us vs where xs: "xs = us @ x # vs" "y \<in> set vs" by (auto simp: before_def)
  then obtain k where "k < length vs" "vs ! k = y" by (auto simp: in_set_conv_nth)
  with xs show ?thesis by (intro exI [of _ "length us"] exI [of _ "length us + Suc k"]) (auto simp: nth_append)
qed

lemma positions_of_less_not_before:
  assumes "distinct topo" and "\<not> opt_ge (positions_of topo a) (positions_of topo b)"
    and "a \<in> set topo" and "b \<in> set topo"
  shows "a \<noteq> b \<and> \<not> before topo b a"
proof -
  obtain i j where p: "positions_of topo a = Some i" "positions_of topo b = Some j"
    using assms positions_of_in by blast
  then have "i < j" using assms(2) by (simp add: opt_ge_def)
  moreover have "\<not> before topo b a"
  proof
    assume "before topo b a"
    then obtain m n where mn: "m < n" "n < length topo" "topo ! m = b" "topo ! n = a"
      using before_nth [OF \<open>before topo b a\<close>] by (elim exE conjE)
    then have "positions_of topo a = Some n" "positions_of topo b = Some m"
      using positions_of_nth [OF assms(1), of n] positions_of_nth [OF assms(1), of m] by auto
    with p \<open>m < n\<close> \<open>i < j\<close> show False by simp
  qed
  ultimately show ?thesis using p by auto
qed

section \<open>Unpacking a verification\<close>

definition node_map :: "execution_workflow \<Rightarrow> node_id \<Rightarrow> workflow_node option" where
  "node_map w = collect_map (map (\<lambda>n. (wn_id n, n)) (ew_nodes w))"

lemma node_map_Some: "node_map w i = Some n \<Longrightarrow> n \<in> set (ew_nodes w) \<and> wn_id n = i"
  by (auto simp: node_map_def dest!: collect_map_Some)

lemma verify_Inr:
  assumes "verify pg w pr cat = Inr vw"
  obtains topo where "vw = VerifiedWorkflow w"
    and "\<not> graph_is_cyclic pg (workflow_graph_new w)"
    and "verify_structure pg w (workflow_graph_new w) = Inr ()"
    and "ew_fail_policy w = ContinueLabelled \<Longrightarrow> oc_allows_partial (ew_output_contract w)"
    and "verify_budget pg w (workflow_graph_new w) = Inr ()"
    and "topological_order pg (workflow_graph_new w) = Inr topo"
    and "\<And>n. n \<in> set (ew_nodes w) \<Longrightarrow>
      verify_node pg w (workflow_graph_new w) (node_map w) (positions_of topo) pr cat n = Inr ()"
  using assms that
  by (auto simp: verify_def Let_def res_bind_Inr_iff res_iter_Inr_iff positions_of_def node_map_def)

lemma verify_node_InrD:
  assumes "verify_node pg w graph nodes positions pr cat n = Inr ()"
  shows "verify_node_resources n cat = Inr ()"
    and "\<And>r. r \<in> set (referenced_nodes n) \<Longrightarrow> nodes r \<noteq> None"
    and "nb_query_cost (wn_budget n) > 0 \<Longrightarrow> has_office_scope n"
    and "sensitivity_rank (np_max_sensitivity (wn_policy n)) \<le> sensitivity_rank (oc_max_sensitivity (ew_output_contract w))"
    and "\<And>out. out \<in> set (wn_outputs n) \<Longrightarrow>
      sensitivity_rank (no_sensitivity out) \<le> sensitivity_rank (oc_max_sensitivity (ew_output_contract w))"
    and "verify_permissions n pr = Inr ()"
    and "verify_execute_node n pr cat = Inr ()"
    and "\<And>input. input \<in> set (wn_inputs n) \<Longrightarrow> verify_input input n nodes positions cat = Inr ()"
    and "verify_resume pg graph n = Inr ()"
  using assms by (auto simp: verify_node_def res_bind_Inr_iff res_iter_Inr_iff not_less)

lemma verify_input_InrD:
  assumes "verify_input input n nodes positions cat = Inr ()"
  shows "\<not> looks_like_sql_identifier (ni_parameter input)"
    and "ni_source input = AuthorizedScope \<Longrightarrow> ni_parameter input = ''office_ids'' \<and> ni_kind input = TIntegerArray"
    and "verify_source input n nodes positions = Inr ()"
    and "verify_query_parameter input n cat = Inr ()"
  using assms by (auto simp: verify_input_def res_bind_Inr_iff)

lemma verify_prior_slot_InrD:
  assumes "verify_prior_slot input n nodes positions p slot = Inr ()"
  obtains producer out where "nodes p = Some producer"
    and "\<not> opt_ge (positions p) (positions (wn_id n))"
    and "out \<in> set (wn_outputs producer)" and "no_name out = slot" and "no_kind out = ni_kind input"
    and "sensitivity_rank (no_sensitivity out) \<le> sensitivity_rank (np_max_sensitivity (wn_policy n))"
  using assms
  by (auto simp: verify_prior_slot_def res_bind_Inr_iff ok_or_Inr_iff not_less dest!: find_SomeD)

lemma card_remdups_distinct: "length (remdups xs) = length xs \<longleftrightarrow> distinct xs"
  by (metis length_remdups_card_conv card_distinct distinct_card)

lemma verify_structure_ids:
  "verify_structure pg w (workflow_graph_new w) = Inr () \<Longrightarrow> wf_ids w"
  using card_remdups_distinct [of "map wn_id (ew_nodes w)"]
  by (auto simp: verify_structure_def Let_def res_bind_Inr_iff wf_ids_def)

lemma verify_structure_complete:
  "verify_structure pg w (workflow_graph_new w) = Inr () \<Longrightarrow> \<exists>n \<in> set (ew_nodes w). is_complete n"
  by (auto simp: verify_structure_def Let_def res_bind_Inr_iff list_ex_iff)

lemma unat_ucast_widen:
  "LENGTH('a) \<le> LENGTH('b) \<Longrightarrow> unat (ucast (x :: 'a :: len word) :: 'b :: len word) = unat x"
proof -
  assume l: "LENGTH('a) \<le> LENGTH('b)"
  have "unat x < 2 ^ LENGTH('a)" by (rule unsigned_less)
  also have "(2 :: nat) ^ LENGTH('a) \<le> 2 ^ LENGTH('b)" using l by (intro power_increasing) auto
  finally show ?thesis by (simp add: unsigned_ucast_eq take_bit_nat_eq_self)
qed

lemma spent_queries_exact:
  assumes "length ns \<le> 257"
  shows "unat (spent_queries ns) = sum_list (map (\<lambda>n. unat (nb_query_cost (wn_budget n))) ns)"
proof -
  have c: "unat (ucast (nb_query_cost (wn_budget n)) :: 16 word) = unat (nb_query_cost (wn_budget n))" for n
    by (rule unat_ucast_widen) simp
  have "unat (nb_query_cost (wn_budget n)) \<le> 255" for n
    using unsigned_less [of "nb_query_cost (wn_budget n)", where 'a = nat] by simp
  then have "sum_list (map (\<lambda>n. unat (nb_query_cost (wn_budget n))) ns) \<le> length ns * 255"
    by (intro sum_list_bound)
  also have "\<dots> < 2 ^ LENGTH(16)" using assms by simp
  finally show ?thesis
    unfolding spent_queries_def by (subst unat_sum_list_exact) (simp_all add: c)
qed

lemma spent_rows_exact:
  assumes "length ns < 2 ^ 32"
  shows "unat (spent_rows ns) = sum_list (map (\<lambda>n. unat (nb_row_cap (wn_budget n))) ns)"
proof -
  have c: "unat (ucast (nb_row_cap (wn_budget n)) :: 64 word) = unat (nb_row_cap (wn_budget n))" for n
    by (rule unat_ucast_widen) simp
  have "unat (nb_row_cap (wn_budget n)) \<le> 2 ^ 32 - 1" for n
    using unsigned_less [of "nb_row_cap (wn_budget n)", where 'a = nat] by simp
  then have "sum_list (map (\<lambda>n. unat (nb_row_cap (wn_budget n))) ns) \<le> length ns * (2 ^ 32 - 1)"
    by (intro sum_list_bound)
  also have "\<dots> < 2 ^ LENGTH(64)"
  proof -
    have "length ns * (2 ^ 32 - 1) \<le> (2 ^ 32 - 1) * (2 ^ 32 - 1)" using assms by (intro mult_right_mono) simp_all
    then show ?thesis by simp
  qed
  finally show ?thesis
    unfolding spent_rows_def by (subst unat_sum_list_exact) (simp_all add: c)
qed

text \<open>Only the cycle checks report a cycle.\<close>

lemma guard_err_Inl_iff [simp, res_simps]: "guard_err b e = Inl e' \<longleftrightarrow> b \<and> e' = e"
  by (auto simp: guard_err_def)

lemma ok_or_Inl_iff [simp, res_simps]: "ok_or x e = Inl e' \<longleftrightarrow> x = None \<and> e' = e"
  by (cases x) auto

lemma map_err_Inl_iff [simp, res_simps]: "map_err f r = Inl e \<longleftrightarrow> (\<exists>e'. r = Inl e' \<and> e = f e')"
  by (cases r) (auto simp: map_err_def)

lemma res_iter_Inl: "res_iter f xs = Inl e \<Longrightarrow> \<exists>x \<in> set xs. f x = Inl e"
  by (induction xs) (auto simp: res_bind_Inl_iff)

lemma verify_input_not_cycle: "verify_input input n nodes positions cat \<noteq> Inl VerCycle"
  by (auto simp: verify_input_def verify_source_def verify_prior_slot_def verify_query_parameter_def
      res_bind_Inl_iff split: binding_source.splits option.splits node_kind.splits)

lemma verify_node_resources_not_cycle: "verify_node_resources n cat \<noteq> Inl VerCycle"
  by (auto simp: verify_node_resources_def verify_execute_resources_def res_bind_Inl_iff
      split: node_kind.splits option.splits)

lemma verify_node_not_cycle: "verify_node pg w graph nodes positions pr cat n \<noteq> Inl VerCycle"
  using verify_node_resources_not_cycle [of n cat] verify_input_not_cycle
  by (auto simp: verify_node_def verify_permissions_def verify_execute_node_def verify_resume_def
      res_bind_Inl_iff dest!: res_iter_Inl split: node_kind.splits option.splits)

context petgraph_laws begin

lemma verify_structure_entry:
  assumes "verify_structure pg w (workflow_graph_new w) = Inr ()"
  obtains entry where
    "{i \<in> wn_id ` set (ew_nodes w). \<forall>e \<in> set (ew_edges w). we_to e \<noteq> i} = {entry}"
    and "\<And>i. i \<in> wn_id ` set (ew_nodes w) \<Longrightarrow> (entry, i) \<in> (edge_rel w)\<^sup>*"
proof -
  have wf: "wf_ids w" by (rule verify_structure_ids [OF assms])
  obtain entry where e: "entry_nodes pg (workflow_graph_new w) = [entry]"
    using assms by (auto simp: verify_structure_def Let_def res_bind_Inr_iff length_Suc_conv)
  have len: "length (reachable_from pg (workflow_graph_new w) entry) = length (ew_nodes w)"
    using assms e by (auto simp: verify_structure_def Let_def res_bind_Inr_iff)
  have set1: "{i \<in> wn_id ` set (ew_nodes w). \<forall>e \<in> set (ew_edges w). we_to e \<noteq> i} = {entry}"
    using entry_nodes_set(2) [OF wf] e by simp
  then have ent: "entry \<in> wn_id ` set (ew_nodes w)" by blast
  note reach = reachable_set [OF wf ent]
  have sub: "(edge_rel w)\<^sup>* `` {entry} \<subseteq> wn_id ` set (ew_nodes w)"
  proof
    fix i assume "i \<in> (edge_rel w)\<^sup>* `` {entry}"
    then have "(entry, i) \<in> (edge_rel w)\<^sup>*" by simp
    then show "i \<in> wn_id ` set (ew_nodes w)"
      by (induction rule: rtrancl_induct) (use ent wf in \<open>auto simp: edge_rel_def wf_ids_def\<close>)
  qed
  have "distinct (reachable_from pg (workflow_graph_new w) entry)"
    by (simp add: reachable_from_def split: option.split)
  then have "card ((edge_rel w)\<^sup>* `` {entry}) = length (ew_nodes w)"
    using len reach distinct_card [of "reachable_from pg (workflow_graph_new w) entry"] by simp
  moreover have "card (wn_id ` set (ew_nodes w)) = length (ew_nodes w)"
    using distinct_card [of "map wn_id (ew_nodes w)"] wf by (simp add: wf_ids_def)
  ultimately have "(edge_rel w)\<^sup>* `` {entry} = wn_id ` set (ew_nodes w)"
    using sub by (intro card_subset_eq) auto
  with set1 show ?thesis by (intro that [of entry]) auto
qed

lemma verified_facts:
  assumes "verify pg w pr cat = Inr vw"
  obtains topo where "vw = VerifiedWorkflow w" and "wf_ids w" and "acyclic (edge_rel w)"
    and "distinct topo" and "set topo = wn_id ` set (ew_nodes w)"
    and "\<And>a b. (a, b) \<in> (edge_rel w)\<^sup>+ \<Longrightarrow> before topo a b"
    and "\<And>n. n \<in> set (ew_nodes w) \<Longrightarrow>
      verify_node pg w (workflow_graph_new w) (node_map w) (positions_of topo) pr cat n = Inr ()"
proof -
  obtain topo where v: "vw = VerifiedWorkflow w" "\<not> graph_is_cyclic pg (workflow_graph_new w)"
    "verify_structure pg w (workflow_graph_new w) = Inr ()"
    and topo: "topological_order pg (workflow_graph_new w) = Inr topo"
    and n: "\<And>n. n \<in> set (ew_nodes w) \<Longrightarrow>
      verify_node pg w (workflow_graph_new w) (node_map w) (positions_of topo) pr cat n = Inr ()"
    using verify_Inr [OF assms] by metis
  have wf: "wf_ids w" using v(3) by (rule verify_structure_ids)
  have "acyclic (edge_rel w)" using v(2) is_cyclic_iff [OF wf] by simp
  note t = topological_order_ids [OF wf topo]
  have "before topo a b" if "(a, b) \<in> (edge_rel w)\<^sup>+" for a b
    using that
  proof (induction rule: trancl.induct)
    case (r_into_trancl a b)
    then show ?case by (rule t(3))
  next
    case (trancl_into_trancl a b c)
    then show ?case using t(3) before_trans [OF t(1)] by blast
  qed
  with v(1) wf \<open>acyclic (edge_rel w)\<close> t(1,2) n that show ?thesis by blast
qed

text \<open>A binding to an earlier node never reads from the node itself or from one after it.\<close>

lemma verified_producer:
  assumes "verify pg w pr cat = Inr vw" and n: "n \<in> set (ew_nodes w)" and i: "input \<in> set (wn_inputs n)"
    and s: "ni_source input = PriorStep p slot \<or> ni_source input = AuthorizedDataProbe p slot"
  obtains producer out where "producer \<in> set (ew_nodes w)" and "wn_id producer = p"
    and "out \<in> set (wn_outputs producer)" and "no_name out = slot" and "no_kind out = ni_kind input"
    and "sensitivity_rank (no_sensitivity out) \<le> sensitivity_rank (np_max_sensitivity (wn_policy n))"
    and "(wn_id n, p) \<notin> (edge_rel w)\<^sup>*"
proof -
  obtain topo where f: "distinct topo" "set topo = wn_id ` set (ew_nodes w)"
    "\<And>a b. (a, b) \<in> (edge_rel w)\<^sup>+ \<Longrightarrow> before topo a b"
    "verify_node pg w (workflow_graph_new w) (node_map w) (positions_of topo) pr cat n = Inr ()"
    using verified_facts [OF assms(1)] n by metis
  have "verify_source input n (node_map w) (positions_of topo) = Inr ()"
    by (rule verify_input_InrD(3) [OF verify_node_InrD(8) [OF f(4) i]])
  then have "verify_prior_slot input n (node_map w) (positions_of topo) p slot = Inr ()"
    using s by (auto simp: verify_source_def)
  then obtain producer out where p: "node_map w p = Some producer"
    "\<not> opt_ge (positions_of topo p) (positions_of topo (wn_id n))"
    "out \<in> set (wn_outputs producer)" "no_name out = slot" "no_kind out = ni_kind input"
    "sensitivity_rank (no_sensitivity out) \<le> sensitivity_rank (np_max_sensitivity (wn_policy n))"
    by (rule verify_prior_slot_InrD)
  have pn: "producer \<in> set (ew_nodes w)" "wn_id producer = p" using node_map_Some [OF p(1)] by auto
  have "p \<noteq> wn_id n \<and> \<not> before topo (wn_id n) p"
    by (rule positions_of_less_not_before [OF f(1) p(2)]) (use f(2) pn n in auto)
  then have "(wn_id n, p) \<notin> (edge_rel w)\<^sup>*" using f(3) by (auto simp: rtrancl_eq_or_trancl)
  with pn p that show ?thesis by blast
qed

end

end
