(* ===== verification/Samples.thy ===== *)
theory Samples
  imports VerifyFacts
begin

text \<open>
  A small report the properties are applied to: a clarification, a query that produces a client
  id, a second query that reads it, the composition of its rows and the end of the run, with
  the catalog it refers to and a principal allowed to run it.
\<close>

definition sample_policy :: node_policy where
  "sample_policy =
     \<lparr>np_required_capability = None, np_office_scope = AuthorizedIntersection,
      np_max_sensitivity = PublicBusiness, np_pii_required = False\<rparr>"

definition sample_budget :: "8 word \<Rightarrow> node_budget" where
  "sample_budget cost = \<lparr>nb_timeout_ms = 100, nb_row_cap = 10, nb_query_cost = cost\<rparr>"

definition sample_node :: "node_id \<Rightarrow> node_kind \<Rightarrow> node_input list \<Rightarrow> node_output_slot list \<Rightarrow> 8 word \<Rightarrow> workflow_node" where
  "sample_node i kind ins outs cost =
     \<lparr>wn_id = i, wn_kind = kind, wn_inputs = ins, wn_outputs = outs, wn_policy = sample_policy,
      wn_budget = sample_budget cost, wn_idempotency = Pure, wn_retry_max_attempts = 1\<rparr>"

definition sample_office_input :: node_input where
  "sample_office_input = \<lparr>ni_parameter = ''office_ids'', ni_kind = TIntegerArray, ni_source = AuthorizedScope\<rparr>"

definition sample_slot :: node_output_slot where
  "sample_slot = \<lparr>no_name = ''client_id'', no_kind = TInteger, no_sensitivity = PublicBusiness, no_cardinality = One\<rparr>"

definition sample_prior_input :: node_input where
  "sample_prior_input = \<lparr>ni_parameter = ''client_id'', ni_kind = TInteger, ni_source = PriorStep ''total'' ''client_id''\<rparr>"

definition sample_query :: execute_query_node where
  "sample_query =
     \<lparr>eq_capability_id = Some ''loan_count'', eq_dataset_id = None, eq_shape_id = None,
      eq_query_id = Some ''loan_count_q'', eq_iterate_over = None\<rparr>"

definition sample_ask :: workflow_node where
  "sample_ask =
     sample_node ''ask''
       (ClarificationInterrupt
          \<lparr>ci_clarification_kind = ''dataset_filter_value'', ci_option_source = ''ask'', ci_resume = ''total''\<rparr>) [] [] 0"

definition sample_total :: workflow_node where
  "sample_total = sample_node ''total'' (ExecuteQuery sample_query) [sample_office_input] [sample_slot] 1"

definition sample_detail :: workflow_node where
  "sample_detail =
     sample_node ''detail'' (ExecuteQuery sample_query) [sample_office_input, sample_prior_input] [sample_slot] 2"

definition sample_compose :: workflow_node where
  "sample_compose =
     sample_node ''compose'' (ComposeResult \<lparr>cr_sources = [''detail''], cr_composition = CompSingle\<rparr>) [] [] 0"

definition sample_done :: workflow_node where
  "sample_done = sample_node ''done'' (Complete TermSuccess) [] [] 0"

definition sample_edge :: "node_id \<Rightarrow> node_id \<Rightarrow> edge_condition \<Rightarrow> workflow_edge" where
  "sample_edge a b c = \<lparr>we_from = a, we_to = b, we_condition = c\<rparr>"

definition sample_workflow :: execution_workflow where
  "sample_workflow =
     \<lparr>ew_id = 7, ew_contract_version = 1, ew_catalog_version = 3,
      ew_nodes = [sample_ask, sample_total, sample_detail, sample_compose, sample_done],
      ew_edges = [sample_edge ''ask'' ''total'' ClarificationAnswered, sample_edge ''total'' ''detail'' Always,
                  sample_edge ''detail'' ''compose'' Always, sample_edge ''compose'' ''done'' Always],
      ew_budgets = \<lparr>shared_timeout_ms = 1000, shared_row_cap = 100, max_query_count = 4, max_parallel_queries = 2,
                    max_model_turns = 1, max_node_retries = 1\<rparr>,
      ew_fail_policy = FailFast,
      ew_output_contract = \<lparr>oc_mode = ModeTable, oc_allows_partial = False, oc_max_sensitivity = PublicBusiness\<rparr>\<rparr>"

definition sample_request_shape :: request_shape where
  "sample_request_shape =
     \<lparr>rs_operation = OpTotal, rs_subject = SubjClient, rs_grouping = GroupNone, rs_output = OutScalar,
      rs_pii = PiiNone\<rparr>"

definition sample_capability :: capability_knowledge where
  "sample_capability =
     \<lparr>cap_id = ''loan_count'', cap_status = ''approved_mvp'', cap_domain = ''loans'', cap_query_id = ''loan_count_q'',
      cap_output_mode = ''table'', cap_request_shape = sample_request_shape, cap_kind = CapTerminal,
      cap_member_capability_ids = [], cap_display_name = None, cap_description = None, cap_data_areas = [],
      cap_metrics = [], cap_examples = [], cap_supported_intents = [], cap_unsupported_intents = [],
      cap_continuation = False, cap_required_parameters = [''client_id''], cap_optional_parameters = [],
      cap_defaults = \<lparr>cd_default_limit = None\<rparr>,
      cap_guards = \<lparr>cg_max_limit = None, cg_max_date_range_days = None\<rparr>,
      cap_dataset_recipe = None, cap_parameter_policies = []\<rparr>"

definition sample_query_knowledge :: query_knowledge where
  "sample_query_knowledge =
     \<lparr>q_id = ''loan_count_q'', q_database = ''core'', q_sql_file = ''loan_count.sql'', q_data_areas = [],
      q_tables = [], q_metrics = [],
      q_parameters = [\<lparr>qp_name = ''office_ids'', qp_kind = ''integer_array'', qp_required = True, qp_source = None\<rparr>],
      q_output_fields = [], q_timeout_ms = None\<rparr>"

definition sample_catalog :: knowledge_catalog where
  "sample_catalog =
     \<lparr>kc_root_path = [], kc_query_path = [], kc_data_areas = [], kc_domains = [], kc_schemas = [], kc_metrics = [],
      kc_capabilities = [sample_capability], kc_queries = [sample_query_knowledge], kc_policies = [], kc_responses = [],
      kc_parameter_inputs = [], kc_parameter_bindings = [], kc_classification = default_classification, kc_datasets = []\<rparr>"

definition sample_principal :: principal_context where
  "sample_principal =
     \<lparr>pc_user_id = 11, pc_role = ''analyst'', pc_capability_ids = [''loan_count''], pc_office_ids = [1, 2],
      pc_can_view_pii = False, pc_legacy_api_key_id = None\<rparr>"

lemma sample_verified:
  "verify ref_petgraph sample_workflow sample_principal sample_catalog = Inr (VerifiedWorkflow sample_workflow)"
  by code_simp

end
