(* ===== verification/VerifyProps.thy ===== *)
theory VerifyProps
  imports Samples
begin

text \<open>
  The properties of the graph and of the verifier.  Each is stated for any implementation of
  the graph library that meets its contract and applied to the sample report.
\<close>

section \<open>The graph\<close>

text \<open>C1: The breadth-first search computes exactly the nodes a path of workflow edges leads to.\<close>

theorem reachable_from_paths:
  assumes "petgraph_laws pg" and "wf_ids w" and "a \<in> wn_id ` set (ew_nodes w)"
  shows "set (reachable_from pg (workflow_graph_new w) a) = {b. (a, b) \<in> (edge_rel w)\<^sup>*}"
  using petgraph_laws.reachable_set [OF assms] by auto

lemma sample_wf: "wf_ids sample_workflow"
  by (simp add: wf_ids_def sample_workflow_def sample_ask_def sample_total_def sample_detail_def
      sample_compose_def sample_done_def sample_node_def sample_edge_def)

lemma sample_ids: "wn_id ` set (ew_nodes sample_workflow) = {''ask'', ''total'', ''detail'', ''compose'', ''done''}"
  by (auto simp: sample_workflow_def sample_ask_def sample_total_def sample_detail_def
      sample_compose_def sample_done_def sample_node_def)

theorem reachable_from_paths_witness:
  "set (reachable_from ref_petgraph (workflow_graph_new sample_workflow) ''total'') =
     {b. (''total'', b) \<in> (edge_rel sample_workflow)\<^sup>*}"
  by (rule reachable_from_paths [OF ref.petgraph_laws_axioms sample_wf]) (simp add: sample_ids)

text \<open>
  The parallelism the verifier charges is the largest wave of a level-by-level execution:
  the waves partition the nodes, each wave is what is runnable once all earlier waves are
  complete, and the width is the size of the largest one.
\<close>

theorem width_is_largest_wave:
  assumes "petgraph_laws pg" and "wf_ids w" and "acyclic (edge_rel w)"
    and "ws = waves pg (workflow_graph_new w) []"
  shows "max_runnable_width pg (workflow_graph_new w) = Max (insert 0 (set (map length ws))) \<and>
    distinct (concat ws) \<and> set (concat ws) = wn_id ` set (ew_nodes w) \<and>
    (\<forall>k i. k < length ws \<longrightarrow>
      (i \<in> set (ws ! k) \<longleftrightarrow>
        i \<in> wn_id ` set (ew_nodes w) \<and> i \<notin> set (concat (take k ws)) \<and>
        (\<forall>p. (p, i) \<in> edge_rel w \<longrightarrow> p \<in> set (concat (take k ws)))))"
proof (intro conjI allI impI)
  show "max_runnable_width pg (workflow_graph_new w) = Max (insert 0 (set (map length ws)))"
    by (simp only: max_runnable_width_def width_loop_waves foldl_max_Max assms(4))
  show "distinct (concat ws)" "set (concat ws) = wn_id ` set (ew_nodes w)"
    using petgraph_laws.waves_partition [OF assms(1-3), of "[]"] assms(4) by simp_all
  fix k i
  assume "k < length ws"
  then show "i \<in> set (ws ! k) \<longleftrightarrow>
      i \<in> wn_id ` set (ew_nodes w) \<and> i \<notin> set (concat (take k ws)) \<and>
      (\<forall>p. (p, i) \<in> edge_rel w \<longrightarrow> p \<in> set (concat (take k ws)))"
    using petgraph_laws.waves_nth [OF assms(1)] petgraph_laws.graph_runnable_iff [OF assms(1,2)] assms(4)
    by simp
qed

lemma sample_acyclic: "acyclic (edge_rel sample_workflow)"
  using ref.verified_facts [OF sample_verified] by metis

theorem width_is_largest_wave_witness:
  "max_runnable_width ref_petgraph (workflow_graph_new sample_workflow) =
     Max (insert 0 (set (map length (waves ref_petgraph (workflow_graph_new sample_workflow) []))))"
  by (rule width_is_largest_wave [OF ref.petgraph_laws_axioms sample_wf sample_acyclic refl, THEN conjunct1])

section \<open>What verification guarantees\<close>

text \<open>
  C2: A verified workflow is a rooted acyclic graph over distinct nodes: edges connect its nodes,
  exactly one node has no incoming edge, every node is reachable from it, and a terminal node
  exists.  Verification returns the workflow unchanged.
\<close>

theorem verified_structure:
  assumes "petgraph_laws pg" and "verify pg w pr cat = Inr vw"
  shows "verified vw = w \<and> acyclic (edge_rel w) \<and> distinct (map wn_id (ew_nodes w)) \<and>
    (\<forall>e \<in> set (ew_edges w). we_from e \<in> wn_id ` set (ew_nodes w) \<and> we_to e \<in> wn_id ` set (ew_nodes w)) \<and>
    (\<exists>entry. {i \<in> wn_id ` set (ew_nodes w). \<forall>e \<in> set (ew_edges w). we_to e \<noteq> i} = {entry} \<and>
      (\<forall>i \<in> wn_id ` set (ew_nodes w). (entry, i) \<in> (edge_rel w)\<^sup>*)) \<and>
    (\<exists>n \<in> set (ew_nodes w). is_complete n)"
proof -
  have f: "vw = VerifiedWorkflow w" "wf_ids w" "acyclic (edge_rel w)"
    using petgraph_laws.verified_facts [OF assms] by metis+
  have s: "verify_structure pg w (workflow_graph_new w) = Inr ()"
    using verify_Inr [OF assms(2)] by metis
  note e = petgraph_laws.verify_structure_entry [OF assms(1) s]
  show ?thesis
  proof (intro conjI)
    show "\<exists>entry. {i \<in> wn_id ` set (ew_nodes w). \<forall>e \<in> set (ew_edges w). we_to e \<noteq> i} = {entry} \<and>
        (\<forall>i \<in> wn_id ` set (ew_nodes w). (entry, i) \<in> (edge_rel w)\<^sup>*)"
      by (rule e) (intro exI conjI ballI; assumption)
    show "\<exists>n \<in> set (ew_nodes w). is_complete n" by (rule verify_structure_complete [OF s])
  qed (use f in \<open>auto simp: wf_ids_def\<close>)
qed

theorem verified_structure_witness: "\<exists>n \<in> set (ew_nodes sample_workflow). is_complete n"
  using verified_structure [OF ref.petgraph_laws_axioms sample_verified] by (elim conjE)

text \<open>
  C3: Data flows forward only: an input a verified node binds to an earlier node's slot names an
  existing producer with that slot, of the same type, no more sensitive than the consumer may
  read, and the producer is neither the consumer nor downstream of it.
\<close>

theorem verified_dataflow:
  assumes "petgraph_laws pg" and "verify pg w pr cat = Inr vw"
    and "n \<in> set (ew_nodes w)" and "input \<in> set (wn_inputs n)"
    and "ni_source input = PriorStep p slot \<or> ni_source input = AuthorizedDataProbe p slot"
  shows "\<exists>producer \<in> set (ew_nodes w). wn_id producer = p \<and>
    (\<exists>out \<in> set (wn_outputs producer). no_name out = slot \<and> no_kind out = ni_kind input \<and>
       sensitivity_rank (no_sensitivity out) \<le> sensitivity_rank (np_max_sensitivity (wn_policy n))) \<and>
    (wn_id n, p) \<notin> (edge_rel w)\<^sup>*"
  using petgraph_laws.verified_producer [OF assms] by metis

theorem verified_dataflow_witness:
  "\<exists>producer \<in> set (ew_nodes sample_workflow). wn_id producer = ''total'' \<and>
    (\<exists>out \<in> set (wn_outputs producer). no_name out = ''client_id'' \<and> no_kind out = ni_kind sample_prior_input \<and>
       sensitivity_rank (no_sensitivity out) \<le> sensitivity_rank (np_max_sensitivity (wn_policy sample_detail))) \<and>
    (wn_id sample_detail, ''total'') \<notin> (edge_rel sample_workflow)\<^sup>*"
  by (rule verified_dataflow [OF ref.petgraph_laws_axioms sample_verified])
    (simp_all add: sample_workflow_def sample_detail_def sample_node_def sample_prior_input_def)



text \<open>
  C5: A verified workflow stays inside its declared budgets.  Query costs are summed in 16 bits
  and cannot wrap for up to 257 nodes, row caps not for fewer than \<open>2 ^ 32\<close>; the timeout sum is
  bounded modulo \<open>2 ^ 64\<close>, and no wave is wider than the permitted parallelism.
\<close>

theorem verified_budget:
  assumes "petgraph_laws pg" and "verify pg w pr cat = Inr vw"
  shows "(length (ew_nodes w) \<le> 257 \<longrightarrow>
      sum_list (map (\<lambda>n. unat (nb_query_cost (wn_budget n))) (ew_nodes w)) \<le> unat (max_query_count (ew_budgets w))) \<and>
    (length (ew_nodes w) < 2 ^ 32 \<longrightarrow>
      sum_list (map (\<lambda>n. unat (nb_row_cap (wn_budget n))) (ew_nodes w)) \<le> unat (shared_row_cap (ew_budgets w))) \<and>
    sum_list (map (\<lambda>n. unat (nb_timeout_ms (wn_budget n))) (ew_nodes w)) mod 2 ^ 64 \<le> unat (shared_timeout_ms (ew_budgets w)) \<and>
    (\<forall>wave. wave \<in> set (waves pg (workflow_graph_new w) []) \<longrightarrow>
      length wave \<le> unat (max_parallel_queries (ew_budgets w)))"
proof (intro conjI allI impI)
  have b: "verify_budget pg w (workflow_graph_new w) = Inr ()" using verify_Inr [OF assms(2)] by metis
  have q: "unat (spent_queries (ew_nodes w)) \<le> unat (max_query_count (ew_budgets w))"
    and r: "unat (spent_rows (ew_nodes w)) \<le> unat (shared_row_cap (ew_budgets w))"
    and t: "unat (spent_time (ew_nodes w)) \<le> unat (shared_timeout_ms (ew_budgets w))"
    and m: "max_runnable_width pg (workflow_graph_new w) \<le> unat (max_parallel_queries (ew_budgets w))"
    using b by (simp_all add: verify_budget_def not_less word_le_nat_alt unat_ucast_widen)
  show "sum_list (map (\<lambda>n. unat (nb_query_cost (wn_budget n))) (ew_nodes w)) \<le> unat (max_query_count (ew_budgets w))"
    if l: "length (ew_nodes w) \<le> 257"
    using q spent_queries_exact [OF l] by simp
  show "sum_list (map (\<lambda>n. unat (nb_row_cap (wn_budget n))) (ew_nodes w)) \<le> unat (shared_row_cap (ew_budgets w))"
    if l: "length (ew_nodes w) < 2 ^ 32"
    using r spent_rows_exact [OF l] by simp
  show "sum_list (map (\<lambda>n. unat (nb_timeout_ms (wn_budget n))) (ew_nodes w)) mod 2 ^ 64 \<le> unat (shared_timeout_ms (ew_budgets w))"
    using t by (simp add: spent_time_def unat_sum_list_mod)
  fix wave
  assume "wave \<in> set (waves pg (workflow_graph_new w) [])"
  then have "length wave \<le> max_runnable_width pg (workflow_graph_new w)"
    by (simp add: max_runnable_width_def width_loop_waves foldl_max_Max)
  with m show "length wave \<le> unat (max_parallel_queries (ew_budgets w))" by simp
qed

theorem verified_budget_witness:
  "sum_list (map (\<lambda>n. unat (nb_query_cost (wn_budget n))) (ew_nodes sample_workflow)) \<le> 4"
  using verified_budget [OF ref.petgraph_laws_axioms sample_verified, THEN conjunct1, THEN mp]
  by (simp add: sample_workflow_def)

definition sample_wrap :: execution_workflow where
  "sample_wrap = sample_workflow
     \<lparr>ew_nodes := map (\<lambda>n. if nb_query_cost (wn_budget n) > 0
                          then n\<lparr>wn_budget := (wn_budget n)\<lparr>nb_timeout_ms := 9223372036854775808\<rparr>\<rparr>
                          else n) (ew_nodes sample_workflow)\<rparr>"

text \<open>
  The timeout check itself wraps: a workflow whose two queries declare \<open>2 ^ 63\<close> milliseconds
  each is accepted under a shared limit of one second.
\<close>

theorem timeout_sum_wraps:
  "verify ref_petgraph sample_wrap sample_principal sample_catalog = Inr (VerifiedWorkflow sample_wrap) \<and>
   sum_list (map (\<lambda>n. unat (nb_timeout_ms (wn_budget n))) (ew_nodes sample_wrap)) > 2 ^ 64 \<and>
   shared_timeout_ms (ew_budgets sample_wrap) = 1000"
proof (intro conjI)
  show "verify ref_petgraph sample_wrap sample_principal sample_catalog = Inr (VerifiedWorkflow sample_wrap)"
    by code_simp
  show "sum_list (map (\<lambda>n. unat (nb_timeout_ms (wn_budget n))) (ew_nodes sample_wrap)) > 2 ^ 64"
    and "shared_timeout_ms (ew_budgets sample_wrap) = 1000"
    by (simp_all add: sample_wrap_def sample_workflow_def sample_ask_def sample_total_def sample_detail_def
        sample_compose_def sample_done_def sample_node_def sample_budget_def)
qed

text \<open>
  The cycle error is exact: for a workflow over distinct nodes and edges between them,
  verification reports a cycle exactly when a node depends on itself along the edges.
\<close>

theorem cycle_error_iff:
  assumes "petgraph_laws pg" and "wf_ids w"
  shows "verify pg w pr cat = Inl VerCycle \<longleftrightarrow> (\<exists>i. (i, i) \<in> (edge_rel w)\<^sup>+)"
proof
  assume v: "verify pg w pr cat = Inl VerCycle"
  have "\<not> acyclic (edge_rel w)"
  proof
    assume ac: "acyclic (edge_rel w)"
    then have nc: "\<not> graph_is_cyclic pg (workflow_graph_new w)"
      using petgraph_laws.is_cyclic_iff [OF assms] by simp
    obtain topo where topo: "topological_order pg (workflow_graph_new w) = Inr topo"
      using petgraph_laws.topological_order_fails_iff [OF assms] ac
      by (metis cyclic_graph.exhaust obj_sumE)
    show False using v nc topo verify_node_not_cycle
      by (auto simp: verify_def Let_def verify_structure_def verify_budget_def res_bind_Inl_iff dest!: res_iter_Inl)
  qed
  then show "\<exists>i. (i, i) \<in> (edge_rel w)\<^sup>+" by (auto simp: acyclic_def)
next
  assume "\<exists>i. (i, i) \<in> (edge_rel w)\<^sup>+"
  then have "graph_is_cyclic pg (workflow_graph_new w)"
    using petgraph_laws.is_cyclic_iff [OF assms] by (auto simp: acyclic_def)
  then show "verify pg w pr cat = Inl VerCycle" by (simp add: verify_def)
qed

definition sample_cycle :: execution_workflow where
  "sample_cycle = sample_workflow\<lparr>ew_edges := sample_edge ''compose'' ''total'' Always # ew_edges sample_workflow\<rparr>"

theorem cycle_error_iff_witness:
  "verify ref_petgraph sample_cycle sample_principal sample_catalog = Inl VerCycle \<and>
   (\<exists>i. (i, i) \<in> (edge_rel sample_cycle)\<^sup>+)"
proof -
  have "wf_ids sample_cycle"
    using sample_wf by (simp add: wf_ids_def sample_cycle_def sample_ids sample_edge_def)
  note iff = cycle_error_iff [OF ref.petgraph_laws_axioms this]
  have "verify ref_petgraph sample_cycle sample_principal sample_catalog = Inl VerCycle" by code_simp
  with iff show ?thesis by blast
qed

text \<open>
  C6: A clarification can always be resumed: the node a verified interrupt resumes at is a node of
  the workflow and the interrupt leads to it along the edges.
\<close>

theorem verified_resume:
  assumes "petgraph_laws pg" and "verify pg w pr cat = Inr vw"
    and "n \<in> set (ew_nodes w)" and "wn_kind n = ClarificationInterrupt interrupt"
  shows "ci_resume interrupt \<in> wn_id ` set (ew_nodes w) \<and> (wn_id n, ci_resume interrupt) \<in> (edge_rel w)\<^sup>*"
proof -
  obtain topo where wf: "wf_ids w"
    and v: "verify_node pg w (workflow_graph_new w) (node_map w) (positions_of topo) pr cat n = Inr ()"
    using petgraph_laws.verified_facts [OF assms(1,2)] assms(3) by metis
  have "n \<in> set (ew_nodes w) \<Longrightarrow> wn_id n \<in> wn_id ` set (ew_nodes w)" by simp
  note reach = petgraph_laws.reachable_set [OF assms(1) wf this [OF assms(3)]]
  show ?thesis
    using verify_node_InrD(9) [OF v] assms(4) reach graph_index_None_iff
    by (auto simp: verify_resume_def graph_contains_def)
qed

theorem verified_resume_witness: "(''ask'', ''total'') \<in> (edge_rel sample_workflow)\<^sup>*"
  using verified_resume [OF ref.petgraph_laws_axioms sample_verified, of sample_ask]
  by (simp add: sample_workflow_def sample_ask_def sample_node_def)

end
