(* ===== verification/Compile.thy ===== *)
theory Compile
  imports Contract
begin

text \<open>
  \<open>assistant/workflow/compile.rs\<close>: the ambiguity gate, and the compiler from a planner proposal
  to an execution workflow.  The compiler appends to two vectors while it acquires parameters;
  they are threaded as the pair of nodes and edges built so far.  The fresh workflow identifier
  (\<open>Uuid::new_v4\<close>) is an argument.
\<close>

section \<open>Facts and parameter constraints\<close>

record acquisition_facts =
  af_deterministic :: "constraint_field list"
  af_verified_user :: "constraint_field list"
  af_safe_prior :: "string \<Rightarrow> node_id option"
  af_prior_steps :: "string \<Rightarrow> (node_id \<times> string) option"

definition no_facts :: acquisition_facts where
  "no_facts = \<lparr>af_deterministic = [], af_verified_user = [], af_safe_prior = (\<lambda>_. None), af_prior_steps = (\<lambda>_. None)\<rparr>"

definition constraint_for :: "string \<Rightarrow> constraint_field option" where
  "constraint_for parameter =
     (if parameter = ''client_id'' then Some CfClientId
      else if parameter = ''office_ids'' then Some CfOfficeIds
      else if parameter = ''product_ids'' then Some CfProductIds
      else if parameter = ''currency_code'' then Some CfCurrencyCode
      else if parameter = ''from_date'' then Some CfFromDate
      else if parameter = ''to_date'' then Some CfToDate
      else if parameter = ''limit'' then Some CfLimitValue
      else None)"

definition is_scope_or_temporal :: "string \<Rightarrow> bool" where
  "is_scope_or_temporal parameter =
     (case constraint_for parameter of
        None \<Rightarrow> False
      | Some f \<Rightarrow> f \<in> {CfClientId, CfOfficeIds, CfProductIds, CfFromDate, CfToDate})"

definition parse_kind :: "string \<Rightarrow> parameter_type" where
  "parse_kind kind =
     (if kind = ''date'' then TDate
      else if kind = ''integer_array'' then TIntegerArray
      else if kind = ''string'' then TString
      else if kind = ''currency'' then TCurrency
      else TInteger)"

definition map_cardinality :: "cardinality \<Rightarrow> cardinality" where
  "map_cardinality v = (case v of Zero \<Rightarrow> Zero | One \<Rightarrow> One | Many \<Rightarrow> Many)"

definition compile_policy :: "string option \<Rightarrow> node_policy" where
  "compile_policy capability =
     \<lparr>np_required_capability = capability, np_office_scope = AuthorizedIntersection,
      np_max_sensitivity = Pii, np_pii_required = False\<rparr>"

definition parse_output_mode :: "string \<Rightarrow> output_mode" where
  "parse_output_mode v =
     (if v = ''scalar'' then ModeScalar
      else if v = ''comparison'' then ModeComparison
      else if v = ''grouped'' then ModeGrouped
      else if v = ''not_found'' then ModeNotFound
      else ModeTable)"

section \<open>The ambiguity gate\<close>

datatype ambiguity_outcome =
    AmbSelect string bool
  | AmbProbe string string
  | AmbClarify "(string \<times> string) list"
  | AmbUnsupported

definition ambiguity_candidates :: "string list \<Rightarrow> knowledge_catalog \<Rightarrow> capability_knowledge list" where
  "ambiguity_candidates candidate_ids cat =
     dedup_by cap_id (sort_key cap_id (List.map_filter (find_capability cat) candidate_ids))"

definition fact_compatible :: "acquisition_facts \<Rightarrow> capability_knowledge \<Rightarrow> bool" where
  "fact_compatible facts cap =
     list_all
       (\<lambda>p. \<not> pp_required p \<or>
            (case constraint_for (pp_name p) of
               None \<Rightarrow> True
             | Some f \<Rightarrow> f \<in> set (af_deterministic facts) \<or> f \<in> set (af_verified_user facts)))
       (cap_parameter_policies cap)"

definition probe_shape :: "knowledge_catalog \<Rightarrow> (string \<times> string) option" where
  "probe_shape cat =
     find_map
       (\<lambda>d. find_map (\<lambda>s. if sh_role s \<in> {RoleResolver, RoleProbe} then Some (ds_id d, sh_id s) else None)
              (ds_shapes d))
       (kc_datasets cat)"

definition resolve_ambiguity ::
  "string list \<Rightarrow> acquisition_facts \<Rightarrow> knowledge_catalog \<Rightarrow> ambiguity_outcome" where
  "resolve_ambiguity candidate_ids facts cat =
     (let candidates = ambiguity_candidates candidate_ids cat;
          fact_filtered = filter (fact_compatible facts) candidates
      in if length candidates = 1 then AmbSelect (cap_id (candidates ! 0)) True
         else if length fact_filtered = 1 then AmbSelect (cap_id (fact_filtered ! 0)) True
         else
           (case (if length candidates > 1 then probe_shape cat else None) of
              Some (d, s) \<Rightarrow> AmbProbe d s
            | None \<Rightarrow>
                if length candidates = 0 then AmbUnsupported
                else AmbClarify
                  (map (\<lambda>c. (cap_id c, case cap_display_name c of None \<Rightarrow> cap_id c | Some n \<Rightarrow> n)) candidates)))"

section \<open>Compile errors\<close>

datatype compile_error =
    UnknownCapability string
  | CompUnsupported
  | GroupedQueryPreferred string
  | CompBudgetExceeded
  | InvalidProposal
  | ComparisonFactsDiverge node_id

definition approved_capability :: "knowledge_catalog \<Rightarrow> string \<Rightarrow> compile_error + capability_knowledge" where
  "approved_capability cat i = ok_or (find_capability cat i) (UnknownCapability i)"

definition compile_node_id :: "string \<Rightarrow> compile_error + node_id" where
  "compile_node_id s = map_err (\<lambda>_. InvalidProposal) (node_id_new s)"

section \<open>Comparison facts\<close>

definition comparison_facts :: "workflow_node \<Rightarrow> (string \<times> binding_source) list" where
  "comparison_facts n =
     bt_of (map (\<lambda>i. (ni_parameter i, ni_source i)) (filter (\<lambda>i. is_scope_or_temporal (ni_parameter i)) (wn_inputs n)))"

fun check_sources ::
  "execution_workflow \<Rightarrow> node_id \<Rightarrow> (string \<times> binding_source) list option \<Rightarrow> node_id list \<Rightarrow> compile_error + unit" where
  "check_sources w node ref [] = Inr ()"
| "check_sources w node ref (s # ss) =
     (case find_node w s of
        None \<Rightarrow> Inl InvalidProposal
      | Some n \<Rightarrow>
          (case ref of
             None \<Rightarrow> check_sources w node (Some (comparison_facts n)) ss
           | Some facts \<Rightarrow>
               if facts \<noteq> comparison_facts n then Inl (ComparisonFactsDiverge node)
               else check_sources w node ref ss))"

definition check_comparison_facts :: "execution_workflow \<Rightarrow> compile_error + unit" where
  "check_comparison_facts w =
     res_iter
       (\<lambda>node. case wn_kind node of
          ComposeResult c \<Rightarrow>
            if cr_composition c \<noteq> CompComparison then Inr ()
            else check_sources w (wn_id node) None (cr_sources c)
        | _ \<Rightarrow> Inr ())
       (ew_nodes w)"

section \<open>Nodes the compiler emits\<close>

type_synonym build = "workflow_node list \<times> workflow_edge list"

definition mk_node ::
  "node_id \<Rightarrow> node_kind \<Rightarrow> node_input list \<Rightarrow> node_output_slot list \<Rightarrow> string option \<Rightarrow> node_budget \<Rightarrow>
   idempotency \<Rightarrow> 8 word \<Rightarrow> workflow_node" where
  "mk_node i kind inputs outputs capability budget idem attempts =
     \<lparr>wn_id = i, wn_kind = kind, wn_inputs = inputs, wn_outputs = outputs,
      wn_policy = compile_policy capability, wn_budget = budget, wn_idempotency = idem,
      wn_retry_max_attempts = attempts\<rparr>"

definition mk_edge :: "node_id \<Rightarrow> node_id \<Rightarrow> edge_condition \<Rightarrow> workflow_edge" where
  "mk_edge a b c = \<lparr>we_from = a, we_to = b, we_condition = c\<rparr>"

definition zero_budget :: node_budget where
  "zero_budget = \<lparr>nb_timeout_ms = 0, nb_row_cap = 0, nb_query_cost = 0\<rparr>"

definition office_input :: node_input where
  "office_input = \<lparr>ni_parameter = ''office_ids'', ni_kind = TIntegerArray, ni_source = AuthorizedScope\<rparr>"

definition unwrap_or :: "'a \<Rightarrow> 'a option \<Rightarrow> 'a" where
  "unwrap_or d x = (case x of None \<Rightarrow> d | Some v \<Rightarrow> v)"

definition clarify_node :: "node_id \<Rightarrow> string \<Rightarrow> node_id \<Rightarrow> node_id \<Rightarrow> workflow_node" where
  "clarify_node i kind option_source resume =
     mk_node i
       (ClarificationInterrupt
          \<lparr>ci_clarification_kind = kind, ci_option_source = option_source, ci_resume = resume\<rparr>)
       [] [] None zero_budget Replayable 0"

definition resolver_node ::
  "node_id \<Rightarrow> dataset_knowledge \<Rightarrow> shape_option \<Rightarrow> produced_slot \<Rightarrow> capability_knowledge \<Rightarrow> workflow_node" where
  "resolver_node i d s out backing =
     mk_node i
       (ResolveEntity
          \<lparr>re_dataset_id = ds_id d, re_resolver_shape_id = sh_id s,
           re_entity_kind = (case ds_entity d of None \<Rightarrow> ''entity'' | Some e \<Rightarrow> em_kind e),
           re_probe_row_cap = unwrap_or 25 (sh_row_cap s)\<rparr>)
       [office_input]
       [\<lparr>no_name = ps_slot out, no_kind = parse_kind (ps_kind out), no_sensitivity = ps_sensitivity out,
         no_cardinality = map_cardinality (ps_cardinality out)\<rparr>]
       (Some (cap_id backing))
       \<lparr>nb_timeout_ms = unwrap_or 5000 (ds_timeout_ms d), nb_row_cap = unwrap_or 25 (sh_row_cap s),
        nb_query_cost = 1\<rparr>
       ExecuteOnce 0"

text \<open>
  The probe fragment: the resolver, the branch on its cardinality, the not-found terminal and
  the selection clarification, with the edges between them and into the execute node.
\<close>

definition probe_fragment ::
  "workflow_node \<Rightarrow> node_id \<Rightarrow> node_id \<Rightarrow> node_id \<Rightarrow> node_id \<Rightarrow> build" where
  "probe_fragment resolver branch not_found select execute =
     ([resolver,
       mk_node branch
         (CardinalityBranch \<lparr>cb_source = wn_id resolver, cb_zero = not_found, cb_one = execute, cb_many = select\<rparr>)
         [] [] None zero_budget Pure 0,
       mk_node not_found (Complete TermNotFound) [] [] None zero_budget Pure 0,
       clarify_node select ''select_entity'' (wn_id resolver) execute],
      [mk_edge (wn_id resolver) branch Always,
       mk_edge branch not_found (CardinalityIs Zero),
       mk_edge branch execute (CardinalityIs One),
       mk_edge branch select (CardinalityIs Many),
       mk_edge select execute ClarificationAnswered])"

definition build_append :: "build \<Rightarrow> build \<Rightarrow> build" where
  "build_append b c = (fst b @ fst c, snd b @ snd c)"

section \<open>Acquiring one parameter\<close>

definition is_exact_identifier_param ::
  "capability_knowledge \<Rightarrow> string \<Rightarrow> knowledge_catalog \<Rightarrow> bool" where
  "is_exact_identifier_param cap name cat =
     (case cap_dataset_recipe cap of
        None \<Rightarrow> False
      | Some recipe \<Rightarrow>
          (case find_dataset cat (dr_dataset_id recipe) of
             None \<Rightarrow> False
           | Some d \<Rightarrow>
               list_ex
                 (\<lambda>m. rf_parameter m = Some name \<and>
                      list_ex (\<lambda>slot. fs_id slot = rf_filter_id m \<and> fs_input_policy slot = ExactIdentifier)
                        (ds_filters d))
                 (dr_filters recipe)))"

definition default_strategies :: "resolution_strategy list" where
  "default_strategies =
     [ResAuthorizedScope, ResCatalogDefault, ResDeterministicExtraction, ResVerifiedUserText,
      ResSafePriorSelection, ResPriorStep, ResAuthorizedDataProbe, ResClarify]"

definition probe_backing :: "knowledge_catalog \<Rightarrow> probe_ref \<Rightarrow> capability_knowledge option" where
  "probe_backing cat p =
     find (\<lambda>c. cap_status c = ''approved_mvp'' \<and>
               (case cap_dataset_recipe c of
                  None \<Rightarrow> False
                | Some r \<Rightarrow> dr_dataset_id r = probe_dataset_id p \<and> dr_shape_id r = probe_shape_id p))
       (kc_capabilities cat)"

definition acquire_probe ::
  "string \<Rightarrow> probe_ref \<Rightarrow> node_id \<Rightarrow> knowledge_catalog \<Rightarrow> build \<Rightarrow> compile_error + (binding_source \<times> build)" where
  "acquire_probe name probe execute cat b =
     res_bind (ok_or (find_dataset cat (probe_dataset_id probe)) InvalidProposal) (\<lambda>d.
     res_bind
       (ok_or
          (Option.bind (dataset_shape d (probe_shape_id probe))
             (\<lambda>s. if sh_role s \<in> {RoleResolver, RoleProbe} then Some s else None)) InvalidProposal) (\<lambda>s.
     res_bind (compile_node_id (''resolve_'' @ name)) (\<lambda>i.
     res_bind (ok_or (find (\<lambda>slot. ps_slot slot = probe_output_slot probe) (sh_produces s)) InvalidProposal) (\<lambda>out.
     res_bind (ok_or (probe_backing cat probe) InvalidProposal) (\<lambda>backing.
     res_bind (compile_node_id (''branch_'' @ name)) (\<lambda>branch.
     res_bind (compile_node_id (''not_found_'' @ name)) (\<lambda>not_found.
     res_bind (compile_node_id (''select_'' @ name)) (\<lambda>select.
     Inr (AuthorizedDataProbe i (probe_output_slot probe),
          build_append b (probe_fragment (resolver_node i d s out backing) branch not_found select execute))))))))))"

definition acquire_clarify ::
  "string \<Rightarrow> node_id \<Rightarrow> build \<Rightarrow> compile_error + (binding_source \<times> build)" where
  "acquire_clarify name execute b =
     res_bind (compile_node_id (''clarify_'' @ name)) (\<lambda>i.
       Inr (SafePriorSelection i,
            build_append b ([clarify_node i ''collect_fields'' execute execute], [mk_edge i execute ClarificationAnswered])))"

text \<open>One strategy: \<open>None\<close> when it does not apply and the next one is tried.\<close>

definition try_strategy ::
  "parameter_policy \<Rightarrow> acquisition_facts \<Rightarrow> node_id \<Rightarrow> knowledge_catalog \<Rightarrow> build \<Rightarrow> resolution_strategy \<Rightarrow>
   compile_error + (binding_source \<times> build) option" where
  "try_strategy p facts execute cat b strategy =
     (case strategy of
        ResAuthorizedScope \<Rightarrow> Inr (if pp_name p = ''office_ids'' then Some (AuthorizedScope, b) else None)
      | ResCatalogDefault \<Rightarrow> Inr (if pp_default p \<noteq> None then Some (CatalogDefault, b) else None)
      | ResDeterministicExtraction \<Rightarrow>
          Inr (map_option (\<lambda>f. (DeterministicExtraction f, b))
            (find (\<lambda>f. f \<in> set (af_deterministic facts)) (binding_fields cat (pp_name p))))
      | ResVerifiedUserText \<Rightarrow>
          Inr (map_option (\<lambda>f. (VerifiedUserText f, b))
            (find (\<lambda>f. f \<in> set (af_verified_user facts)) (binding_fields cat (pp_name p))))
      | ResSafePriorSelection \<Rightarrow>
          Inr (map_option (\<lambda>c. (SafePriorSelection c, b)) (af_safe_prior facts (pp_name p)))
      | ResPriorStep \<Rightarrow>
          Inr (map_option (\<lambda>(node, slot). (PriorStep node slot, b)) (af_prior_steps facts (pp_name p)))
      | ResAuthorizedDataProbe \<Rightarrow>
          (case pp_probe p of
             None \<Rightarrow> Inr None
           | Some probe \<Rightarrow> res_bind (acquire_probe (pp_name p) probe execute cat b) (\<lambda>r. Inr (Some r)))
      | ResClarify \<Rightarrow>
          if pp_user_required p \<or> pp_required p
          then res_bind (acquire_clarify (pp_name p) execute b) (\<lambda>r. Inr (Some r))
          else Inr None)"

fun strategy_loop ::
  "(resolution_strategy \<Rightarrow> compile_error + (binding_source \<times> build) option) \<Rightarrow> resolution_strategy list \<Rightarrow>
   compile_error + (binding_source \<times> build)" where
  "strategy_loop try [] = Inl CompUnsupported"
| "strategy_loop try (s # ss) =
     res_bind (try s) (\<lambda>r. case r of Some x \<Rightarrow> Inr x | None \<Rightarrow> strategy_loop try ss)"

definition acquisition_source ::
  "capability_knowledge \<Rightarrow> parameter_policy \<Rightarrow> acquisition_facts \<Rightarrow> build \<Rightarrow> node_id \<Rightarrow> knowledge_catalog \<Rightarrow>
   compile_error + (binding_source \<times> build)" where
  "acquisition_source cap p facts b execute cat =
     (if is_exact_identifier_param cap (pp_name p) cat then Inr (ExactSensitiveInput, b)
      else
        strategy_loop (try_strategy p facts execute cat b)
          (if pp_resolution p = [] then default_strategies else pp_resolution p))"

section \<open>Acquiring the inputs of a capability\<close>

definition query_required_names :: "capability_knowledge \<Rightarrow> knowledge_catalog \<Rightarrow> string list" where
  "query_required_names cap cat =
     (case find_query cat (cap_query_id cap) of
        None \<Rightarrow> []
      | Some q \<Rightarrow> map qp_name (filter qp_required (q_parameters q)))"

definition acquired_policies :: "capability_knowledge \<Rightarrow> knowledge_catalog \<Rightarrow> parameter_policy list" where
  "acquired_policies cap cat =
     filter (\<lambda>p. pp_name p \<noteq> ''office_ids'' \<and> (pp_required p \<or> pp_name p \<in> set (query_required_names cap cat)))
       (cap_parameter_policies cap)"

fun acquire_loop ::
  "(parameter_policy \<Rightarrow> build \<Rightarrow> compile_error + (binding_source \<times> build)) \<Rightarrow> parameter_policy list \<Rightarrow>
   node_input list \<Rightarrow> build \<Rightarrow> compile_error + (node_input list \<times> build)" where
  "acquire_loop acq [] inputs b = Inr (inputs, b)"
| "acquire_loop acq (p # ps) inputs b =
     res_bind (acq p b) (\<lambda>(source, b').
       acquire_loop acq ps
         (inputs @ [\<lparr>ni_parameter = pp_name p, ni_kind = pp_kind p, ni_source = source\<rparr>]) b')"

definition acquisition_inputs ::
  "capability_knowledge \<Rightarrow> knowledge_catalog \<Rightarrow> acquisition_facts \<Rightarrow> build \<Rightarrow> node_id \<Rightarrow>
   compile_error + (node_input list \<times> build)" where
  "acquisition_inputs cap cat facts b execute =
     acquire_loop (\<lambda>p b. acquisition_source cap p facts b execute cat) (acquired_policies cap cat) [office_input] b"

section \<open>Proposals that carry nodes\<close>

definition resolve_execute_resources :: "knowledge_catalog \<Rightarrow> execute_query_node \<Rightarrow> compile_error + unit" where
  "resolve_execute_resources cat exec =
     res_bind
       (case eq_capability_id exec of
          None \<Rightarrow> Inr ()
        | Some i \<Rightarrow>
            res_bind (approved_capability cat i)
              (\<lambda>c. guard_err
                 (eq_query_id exec \<noteq> Some (cap_query_id c) \<or>
                  eq_dataset_id exec \<noteq> map_option dr_dataset_id (cap_dataset_recipe c) \<or>
                  eq_shape_id exec \<noteq> map_option dr_shape_id (cap_dataset_recipe c))
                 InvalidProposal))
       (\<lambda>_. res_bind
         (guard_err (case eq_query_id exec of None \<Rightarrow> False | Some q \<Rightarrow> find_query cat q = None) InvalidProposal)
         (\<lambda>_. case (eq_dataset_id exec, eq_shape_id exec) of
                (Some d, Some s) \<Rightarrow>
                  res_bind (ok_or (find_dataset cat d) InvalidProposal)
                    (\<lambda>ds. guard_err (dataset_shape ds s = None) InvalidProposal)
              | _ \<Rightarrow> Inr ()))"

definition resolve_node_resources :: "knowledge_catalog \<Rightarrow> workflow_node \<Rightarrow> compile_error + unit" where
  "resolve_node_resources cat node =
     (case wn_kind node of
        ExecuteQuery exec \<Rightarrow> resolve_execute_resources cat exec
      | ResolveEntity r \<Rightarrow>
          res_bind (ok_or (find_dataset cat (re_dataset_id r)) InvalidProposal)
            (\<lambda>ds. guard_err
               (case dataset_shape ds (re_resolver_shape_id r) of
                  None \<Rightarrow> True
                | Some s \<Rightarrow> sh_role s \<notin> {RoleResolver, RoleProbe})
               InvalidProposal)
      | _ \<Rightarrow> Inr ())"

definition resolve_proposal_resources :: "workflow_proposal \<Rightarrow> knowledge_catalog \<Rightarrow> compile_error + unit" where
  "resolve_proposal_resources proposal cat =
     res_bind (res_iter (\<lambda>i. res_bind (approved_capability cat i) (\<lambda>_. Inr ())) (wp_capability_ids proposal))
       (\<lambda>_. res_iter (resolve_node_resources cat) (wp_nodes proposal))"

section \<open>Expanding iteration\<close>

definition check_iteration ::
  "workflow_budgets \<Rightarrow> knowledge_catalog \<Rightarrow> execute_query_node \<Rightarrow> iterate_over \<Rightarrow> compile_error + unit" where
  "check_iteration budgets cat exec it =
     res_bind
       (guard_err (it_max it = 0 \<or> (ucast (it_max it) :: 16 word) > ucast (max_query_count budgets)) CompBudgetExceeded)
       (\<lambda>_. case (eq_dataset_id exec, eq_shape_id exec) of
              (Some d, Some s) \<Rightarrow>
                res_bind (ok_or (find_dataset cat d) InvalidProposal) (\<lambda>ds.
                  (case find (\<lambda>sh. sh_grouped_by sh = Some (it_slot it)) (ds_shapes ds) of
                     Some grouped \<Rightarrow> Inl (GroupedQueryPreferred (sh_id grouped))
                   | None \<Rightarrow>
                       guard_err
                         (dataset_shape ds s = None \<or>
                          \<not> list_ex (\<lambda>f. fs_kind f = ''integer'' \<and> FIn \<in> set (fs_operators f)) (ds_filters ds))
                         InvalidProposal))
            | _ \<Rightarrow> Inl InvalidProposal)"

definition sibling_ids :: "node_id \<Rightarrow> iterate_over \<Rightarrow> compile_error + node_id list" where
  "sibling_ids i it =
     res_map (\<lambda>k. compile_node_id (i @ ''_iter_'' @ show_nat k)) [0..<unat (it_max it)]"

definition sibling_node :: "workflow_node \<Rightarrow> node_id \<Rightarrow> workflow_node" where
  "sibling_node node s =
     node\<lparr>wn_id := s,
          wn_kind := (case wn_kind node of
                        ExecuteQuery exec \<Rightarrow> ExecuteQuery (exec\<lparr>eq_iterate_over := None\<rparr>)
                      | k \<Rightarrow> k)\<rparr>"

definition iteration_of :: "workflow_node \<Rightarrow> (execute_query_node \<times> iterate_over) option" where
  "iteration_of node =
     (case wn_kind node of
        ExecuteQuery exec \<Rightarrow> map_option (\<lambda>it. (exec, it)) (eq_iterate_over exec)
      | _ \<Rightarrow> None)"

fun expand_nodes ::
  "workflow_budgets \<Rightarrow> knowledge_catalog \<Rightarrow> workflow_node list \<Rightarrow> workflow_node list \<Rightarrow>
   (node_id \<times> node_id list) list \<Rightarrow> compile_error + (workflow_node list \<times> (node_id \<times> node_id list) list)" where
  "expand_nodes budgets cat [] expanded repl = Inr (expanded, repl)"
| "expand_nodes budgets cat (node # nodes) expanded repl =
     (case iteration_of node of
        None \<Rightarrow> expand_nodes budgets cat nodes (expanded @ [node]) repl
      | Some (exec, it) \<Rightarrow>
          res_bind (check_iteration budgets cat exec it) (\<lambda>_.
          res_bind (sibling_ids (wn_id node) it) (\<lambda>siblings.
          expand_nodes budgets cat nodes (expanded @ map (sibling_node node) siblings)
            (bt_insert (wn_id node) siblings repl))))"

definition expand_edge :: "(node_id \<times> node_id list) list \<Rightarrow> workflow_edge \<Rightarrow> workflow_edge list" where
  "expand_edge repl e =
     (let from = unwrap_or [we_from e] (map_of repl (we_from e));
          to = unwrap_or [we_to e] (map_of repl (we_to e))
      in concat (map (\<lambda>f. map (\<lambda>t. mk_edge f t (we_condition e)) to) from))"

definition expanded_cost :: "workflow_node list \<Rightarrow> 16 word" where
  "expanded_cost ns = sum_list (map (\<lambda>n. ucast (nb_query_cost (wn_budget n))) ns)"

definition expand_iteration ::
  "execution_workflow \<Rightarrow> knowledge_catalog \<Rightarrow> compile_error + execution_workflow" where
  "expand_iteration w cat =
     res_bind (expand_nodes (ew_budgets w) cat (ew_nodes w) [] []) (\<lambda>(expanded, repl).
       if repl = [] then Inr (w\<lparr>ew_nodes := expanded\<rparr>)
       else
         let edges = concat (map (expand_edge repl) (ew_edges w)) in
         if expanded_cost expanded > ucast (max_query_count (ew_budgets w)) then Inl CompBudgetExceeded
         else Inr (w\<lparr>ew_nodes := expanded, ew_edges := edges\<rparr>))"

section \<open>The compiler\<close>

definition compiled_execute_node ::
  "capability_knowledge \<Rightarrow> knowledge_catalog \<Rightarrow> workflow_budgets \<Rightarrow> node_input list \<Rightarrow> workflow_node" where
  "compiled_execute_node cap cat budgets inputs =
     mk_node ''execute_query''
       (ExecuteQuery
          \<lparr>eq_capability_id = Some (cap_id cap),
           eq_dataset_id = map_option dr_dataset_id (cap_dataset_recipe cap),
           eq_shape_id = map_option dr_shape_id (cap_dataset_recipe cap),
           eq_query_id = Some (cap_query_id cap), eq_iterate_over = None\<rparr>)
       inputs [] (Some (cap_id cap))
       \<lparr>nb_timeout_ms = unwrap_or 5000 (Option.bind (find_query cat (cap_query_id cap)) q_timeout_ms),
        nb_row_cap =
          (let limit = unwrap_or 100 (cg_max_limit (cap_guards cap))
           in if 0 \<le> limit \<and> limit < 4294967296 then of_int limit else 100),
        nb_query_cost = 1\<rparr>
       ExecuteOnce (max_node_retries budgets)"

definition complete_node_of :: workflow_node where
  "complete_node_of = mk_node ''complete'' (Complete TermSuccess) [] [] None zero_budget Pure 0"

definition compiled_workflow ::
  "uuid \<Rightarrow> uuid \<Rightarrow> workflow_budgets \<Rightarrow> output_mode \<Rightarrow> build \<Rightarrow> execution_workflow" where
  "compiled_workflow fresh catalog_version budgets mode b =
     \<lparr>ew_id = fresh, ew_contract_version = WORKFLOW_CONTRACT_VERSION, ew_catalog_version = catalog_version,
      ew_nodes = fst b, ew_edges = snd b, ew_budgets = budgets, ew_fail_policy = FailFast,
      ew_output_contract = \<lparr>oc_mode = mode, oc_allows_partial = False, oc_max_sensitivity = Pii\<rparr>\<rparr>"

definition finish_compile :: "execution_workflow \<Rightarrow> knowledge_catalog \<Rightarrow> compile_error + execution_workflow" where
  "finish_compile w cat =
     res_bind (expand_iteration w cat) (\<lambda>w'. res_bind (check_comparison_facts w') (\<lambda>_. Inr w'))"

definition compile_capability ::
  "uuid \<Rightarrow> capability_knowledge \<Rightarrow> knowledge_catalog \<Rightarrow> uuid \<Rightarrow> workflow_budgets \<Rightarrow> acquisition_facts \<Rightarrow>
   compile_error + execution_workflow" where
  "compile_capability fresh cap cat catalog_version budgets facts =
     res_bind (acquisition_inputs cap cat facts ([], []) ''execute_query'') (\<lambda>(inputs, b).
       finish_compile
         (compiled_workflow fresh catalog_version budgets (parse_output_mode (cap_output_mode cap))
            (build_append b
               ([compiled_execute_node cap cat budgets inputs, complete_node_of],
                [mk_edge ''execute_query'' ''complete'' Always])))
         cat)"

definition compile_with_facts ::
  "uuid \<Rightarrow> workflow_proposal \<Rightarrow> knowledge_catalog \<Rightarrow> uuid \<Rightarrow> workflow_budgets \<Rightarrow> acquisition_facts \<Rightarrow>
   compile_error + execution_workflow" where
  "compile_with_facts fresh proposal cat catalog_version budgets facts =
     (if wp_nodes proposal \<noteq> [] then
        res_bind (resolve_proposal_resources proposal cat) (\<lambda>_.
          finish_compile
            (compiled_workflow fresh catalog_version budgets ModeTable (wp_nodes proposal, wp_edges proposal)) cat)
      else
        res_bind (res_iter (\<lambda>i. res_bind (approved_capability cat i) (\<lambda>_. Inr ())) (wp_capability_ids proposal)) (\<lambda>_.
        res_bind (ok_or (case wp_capability_ids proposal of [] \<Rightarrow> None | i # _ \<Rightarrow> Some i) CompUnsupported) (\<lambda>i.
        res_bind (approved_capability cat i) (\<lambda>cap.
        compile_capability fresh cap cat catalog_version budgets facts))))"

definition compile ::
  "uuid \<Rightarrow> workflow_proposal \<Rightarrow> knowledge_catalog \<Rightarrow> uuid \<Rightarrow> workflow_budgets \<Rightarrow> compile_error + execution_workflow" where
  "compile fresh proposal cat catalog_version budgets =
     compile_with_facts fresh proposal cat catalog_version budgets no_facts"

end
