(* ===== verification/CompileFacts.thy ===== *)
theory CompileFacts
  imports Compile Samples
begin

text \<open>
  The ambiguity gate picks among the approved candidates whatever their order; the compiler's
  output has no iteration left, comparable comparisons, and an office scope on every query.
\<close>

section \<open>The candidates of the ambiguity gate\<close>

lemma find_capability_id: "find_capability cat i = Some c \<Longrightarrow> cap_id c = i"
  by (blast dest: find_capabilityD)

lemma map_filter_candidates:
  "set (List.map_filter (find_capability cat) ids) = {c. \<exists>i \<in> set ids. find_capability cat i = Some c}"
  by (force simp: List.map_filter_def)

lemma candidates_inj: "inj_on cap_id {c. \<exists>i \<in> set ids. find_capability cat i = Some c}"
proof (rule inj_onI)
  fix c d
  assume "c \<in> {c. \<exists>i \<in> set ids. find_capability cat i = Some c}"
    and "d \<in> {c. \<exists>i \<in> set ids. find_capability cat i = Some c}" and eq: "cap_id c = cap_id d"
  then obtain i j where "find_capability cat i = Some c" "find_capability cat j = Some d" by blast
  moreover from this have "i = j" using eq find_capability_id by metis
  ultimately show "c = d" by simp
qed

lemma candidates_set:
  "set (ambiguity_candidates ids cat) = {c. \<exists>i \<in> set ids. find_capability cat i = Some c}"
proof -
  let ?xs = "List.map_filter (find_capability cat) ids"
  have sub: "set (ambiguity_candidates ids cat) \<subseteq> set ?xs"
    using dedup_by_subset [of cap_id "sort_key cap_id ?xs"] by (simp add: ambiguity_candidates_def)
  have "cap_id ` set (ambiguity_candidates ids cat) = cap_id ` set ?xs"
    by (simp add: ambiguity_candidates_def set_dedup_by_key)
  moreover have "inj_on cap_id (set ?xs)" using candidates_inj by (simp only: map_filter_candidates)
  ultimately have "set (ambiguity_candidates ids cat) = set ?xs"
    using sub by (metis inj_on_image_eq_iff order_refl)
  then show ?thesis by (simp only: map_filter_candidates)
qed

lemma candidates_sorted: "sorted_wrt (<) (map cap_id (ambiguity_candidates ids cat))"
  unfolding ambiguity_candidates_def by (rule dedup_by_strict) simp

lemma candidates_cong:
  assumes "set ids = set ids'"
  shows "ambiguity_candidates ids cat = ambiguity_candidates ids' cat"
proof (rule map_sorted_distinct_set_unique [of cap_id])
  have eq: "set (ambiguity_candidates ids cat) = set (ambiguity_candidates ids' cat)"
    using assms by (simp add: candidates_set)
  then show "set (ambiguity_candidates ids cat) = set (ambiguity_candidates ids' cat)" .
  show "inj_on cap_id (set (ambiguity_candidates ids cat) \<union> set (ambiguity_candidates ids' cat))"
    using candidates_inj [of ids cat] eq by (simp add: candidates_set)
qed (use candidates_sorted in \<open>simp_all add: strict_sorted_iff\<close>)

lemma resolve_ambiguity_select:
  assumes "resolve_ambiguity ids facts cat = AmbSelect i overridden"
  obtains c where "c \<in> set (ambiguity_candidates ids cat)" and "cap_id c = i"
proof -
  let ?cs = "ambiguity_candidates ids cat"
  from assms consider "length ?cs = 1" "cap_id (?cs ! 0) = i"
    | "length (filter (fact_compatible facts) ?cs) = 1" "cap_id (filter (fact_compatible facts) ?cs ! 0) = i"
    by (auto simp: resolve_ambiguity_def Let_def split: if_splits option.splits)
  then show thesis
  proof cases
    case 1
    then show ?thesis using that [of "?cs ! 0"] by simp
  next
    case 2
    then have "filter (fact_compatible facts) ?cs ! 0 \<in> set (filter (fact_compatible facts) ?cs)"
      by (intro nth_mem) simp
    with 2 show ?thesis using that [of "filter (fact_compatible facts) ?cs ! 0"] by simp
  qed
qed

section \<open>Iteration\<close>

lemma sibling_simps [simp]:
  "wn_id (sibling_node n s) = s"
  "wn_inputs (sibling_node n s) = wn_inputs n"
  "wn_policy (sibling_node n s) = wn_policy n"
  "wn_budget (sibling_node n s) = wn_budget n"
  by (simp_all add: sibling_node_def)

lemma sibling_not_iterating: "iteration_of (sibling_node n s) = None"
  by (simp add: sibling_node_def iteration_of_def split: node_kind.splits)

lemma sibling_complete: "is_complete (sibling_node n s) \<longleftrightarrow> is_complete n"
  by (simp add: sibling_node_def is_complete_def split: node_kind.splits)

lemma expand_nodes_from:
  "expand_nodes budgets cat ns acc repl = Inr (ex, repl') \<Longrightarrow> n \<in> set ex \<Longrightarrow>
     n \<in> set acc \<or> (n \<in> set ns \<and> iteration_of n = None) \<or> (\<exists>m \<in> set ns. \<exists>s. n = sibling_node m s)"
proof (induction budgets cat ns acc repl arbitrary: ex repl' rule: expand_nodes.induct)
  case (2 budgets cat node nodes expanded repl)
  show ?case
  proof (cases "iteration_of node")
    case None
    then show ?thesis using "2.IH"(1) [OF None, of ex repl'] "2.prems" by auto
  next
    case (Some p)
    obtain exec it where p: "p = (exec, it)" by (cases p)
    then obtain siblings where s: "check_iteration budgets cat exec it = Inr ()"
      "sibling_ids (wn_id node) it = Inr siblings"
      and r: "expand_nodes budgets cat nodes (expanded @ map (sibling_node node) siblings)
        (bt_insert (wn_id node) siblings repl) = Inr (ex, repl')"
      using "2.prems"(1) Some by (auto simp: res_bind_Inr_iff)
    show ?thesis using "2.IH"(2) [OF Some p [symmetric] r "2.prems"(2)] by auto
  qed
qed simp

lemma expand_nodes_not_iterating:
  assumes "expand_nodes budgets cat ns [] repl = Inr (ex, repl')" and "n \<in> set ex"
  shows "iteration_of n = None"
  using expand_nodes_from [OF assms] sibling_not_iterating by auto

text \<open>A node without iteration survives; an iterating one leaves only its numbered siblings.\<close>

lemma sibling_ids_InrD:
  assumes "sibling_ids i it = Inr ss" and "s \<in> set ss"
  shows "\<exists>k. s = i @ ''_iter_'' @ show_nat k"
  using assms
  by (auto simp: sibling_ids_def res_map_Inr_iff compile_node_id_def node_id_new_Inr_iff in_set_conv_nth
      list_all2_conv_all_nth)

definition iter_ids :: "workflow_node list \<Rightarrow> node_id set" where
  "iter_ids ns = {i. \<exists>m \<in> set ns. \<exists>k. i = wn_id m @ ''_iter_'' @ show_nat k}"

definition kept :: "workflow_node list \<Rightarrow> workflow_node set" where
  "kept ns = {n \<in> set ns. iteration_of n = None}"

lemma kept_Cons: "kept (n # ns) = (if iteration_of n = None then insert n (kept ns) else kept ns)"
  by (auto simp: kept_def)

lemma iter_ids_Cons: "iter_ids ns \<subseteq> iter_ids (n # ns)"
  by (auto simp: iter_ids_def)

lemma sibling_ids_iter: "sibling_ids (wn_id n) it = Inr ss \<Longrightarrow> set ss \<subseteq> iter_ids (n # ns)"
  using sibling_ids_InrD by (auto simp: iter_ids_def)

lemma subset_absorb: "A \<subseteq> (E \<union> B) \<union> K \<union> I \<Longrightarrow> B \<subseteq> J \<Longrightarrow> I \<subseteq> J \<Longrightarrow> A \<subseteq> E \<union> K \<union> J"
  by blast

lemma expand_nodes_ids:
  "expand_nodes budgets cat ns acc repl = Inr (ex, repl') \<Longrightarrow>
     set acc \<subseteq> set ex \<and> kept ns \<subseteq> set ex \<and>
     wn_id ` set ex \<subseteq> wn_id ` set acc \<union> wn_id ` kept ns \<union> iter_ids ns"
proof (induction budgets cat ns acc repl arbitrary: ex repl' rule: expand_nodes.induct)
  case (1 budgets cat expanded repl)
  then show ?case by (simp add: kept_def)
next
  case (2 budgets cat node nodes expanded repl)
  show ?case
  proof (cases "iteration_of node")
    case None
    then have "expand_nodes budgets cat nodes (expanded @ [node]) repl = Inr (ex, repl')"
      using "2.prems" by simp
    note ih = "2.IH"(1) [OF None this]
    have "kept (node # nodes) = insert node (kept nodes)" using None by (simp add: kept_Cons)
    with ih iter_ids_Cons [of nodes node] show ?thesis by (simp add: subset_iff) blast
  next
    case (Some p)
    obtain exec it where p: "p = (exec, it)" by (cases p)
    then obtain siblings where s: "sibling_ids (wn_id node) it = Inr siblings"
      and r: "expand_nodes budgets cat nodes (expanded @ map (sibling_node node) siblings)
        (bt_insert (wn_id node) siblings repl) = Inr (ex, repl')"
      using "2.prems"(1) Some by (auto simp: res_bind_Inr_iff)
    note ih = "2.IH"(2) [OF Some p [symmetric] r]
    have "wn_id ` set (expanded @ map (sibling_node node) siblings) = wn_id ` set expanded \<union> set siblings"
      by (simp add: image_Un image_image)
    then have "wn_id ` set ex \<subseteq> (wn_id ` set expanded \<union> set siblings) \<union> wn_id ` kept nodes \<union> iter_ids nodes"
      using ih by simp
    from subset_absorb [OF this sibling_ids_iter [OF s] iter_ids_Cons]
    have "wn_id ` set ex \<subseteq> wn_id ` set expanded \<union> wn_id ` kept nodes \<union> iter_ids (node # nodes)" .
    moreover have "kept (node # nodes) = kept nodes" using Some by (simp add: kept_Cons)
    ultimately show ?thesis using ih by simp
  qed
qed

lemma expand_iteration_InrD:
  assumes "expand_iteration w cat = Inr w'"
  obtains repl where "expand_nodes (ew_budgets w) cat (ew_nodes w) [] [] = Inr (ew_nodes w', repl)"
    and "repl \<noteq> [] \<Longrightarrow> expanded_cost (ew_nodes w') \<le> ucast (max_query_count (ew_budgets w))"
    and "ew_budgets w' = ew_budgets w" "ew_output_contract w' = ew_output_contract w"
    "ew_fail_policy w' = ew_fail_policy w" "ew_contract_version w' = ew_contract_version w"
    "ew_catalog_version w' = ew_catalog_version w" "ew_id w' = ew_id w"
  using assms that
  by (auto simp: expand_iteration_def res_bind_Inr_iff Let_def not_less split: if_splits prod.splits)

lemma finish_compile_InrD:
  "finish_compile w cat = Inr w' \<Longrightarrow> expand_iteration w cat = Inr w' \<and> check_comparison_facts w' = Inr ()"
  by (auto simp: finish_compile_def res_bind_Inr_iff)

lemma compile_InrD:
  assumes "compile_with_facts fresh proposal cat version budgets facts = Inr w'"
  obtains mode b where "finish_compile (compiled_workflow fresh version budgets mode b) cat = Inr w'"
  using assms
  by (auto simp: compile_with_facts_def compile_capability_def res_bind_Inr_iff build_append_def split: if_splits)

section \<open>Comparisons\<close>

lemma check_sources_Some:
  "check_sources w node (Some facts) ss = Inr () \<longleftrightarrow>
     (\<forall>s \<in> set ss. map_option comparison_facts (find_node w s) = Some facts)"
  by (induction ss) (auto split: option.splits)

lemma check_sources_None:
  "check_sources w node None ss = Inr () \<longleftrightarrow>
     (\<exists>facts. \<forall>s \<in> set ss. map_option comparison_facts (find_node w s) = Some facts)"
proof (cases ss)
  case (Cons s ss')
  then show ?thesis using check_sources_Some [of w node _ ss'] by (cases "find_node w s") auto
qed simp

lemma comparison_facts_map:
  "comparison_facts n = comparison_facts m \<longleftrightarrow>
     map_of (comparison_facts n) = map_of (comparison_facts m)"
  unfolding comparison_facts_def by (rule bt_eq_iff) (rule bt_of_sorted)+

section \<open>The acquired fragment\<close>

text \<open>Every node the compiler emits for a capability is scoped and approved.\<close>

definition scoped_node :: "knowledge_catalog \<Rightarrow> workflow_node \<Rightarrow> bool" where
  "scoped_node cat n \<longleftrightarrow>
     (nb_query_cost (wn_budget n) > 0 \<longrightarrow> has_office_scope n) \<and>
     (\<forall>c. np_required_capability (wn_policy n) = Some c \<longrightarrow>
        (\<exists>cap \<in> set (kc_capabilities cat). cap_id cap = c \<and> cap_status cap = ''approved_mvp'')) \<and>
     (nb_query_cost (wn_budget n) > 0 \<longrightarrow> np_required_capability (wn_policy n) \<noteq> None)"

lemma scoped_free [simp]: "scoped_node cat (mk_node i kind inputs outputs None zero_budget idem attempts)"
  by (simp add: scoped_node_def mk_node_def compile_policy_def zero_budget_def)

lemma scoped_resolver:
  "probe_backing cat probe = Some backing \<Longrightarrow> scoped_node cat (resolver_node i d s out backing)"
  by (auto simp: scoped_node_def resolver_node_def mk_node_def compile_policy_def has_office_scope_def
      office_input_def probe_backing_def dest!: find_SomeD)

lemma scoped_probe_fragment:
  assumes "scoped_node cat r" and "n \<in> set (fst (probe_fragment r branch not_found select execute))"
  shows "scoped_node cat n"
  using assms
  by (auto simp: probe_fragment_def clarify_node_def)

definition scoped_build :: "knowledge_catalog \<Rightarrow> build \<Rightarrow> bool" where
  "scoped_build cat b \<longleftrightarrow> (\<forall>n \<in> set (fst b). scoped_node cat n)"

lemma scoped_build_append:
  "scoped_build cat (build_append b c) \<longleftrightarrow> scoped_build cat b \<and> scoped_build cat c"
  by (auto simp: scoped_build_def build_append_def)

lemma acquire_probe_scoped:
  "acquire_probe name probe execute cat b = Inr (src, b') \<Longrightarrow> scoped_build cat b \<Longrightarrow> scoped_build cat b'"
  using scoped_probe_fragment [OF scoped_resolver]
  by (auto simp: acquire_probe_def res_bind_Inr_iff ok_or_Inr_iff scoped_build_append)
    (auto simp: scoped_build_def)

lemma acquire_clarify_scoped:
  "acquire_clarify name execute b = Inr (src, b') \<Longrightarrow> scoped_build cat b \<Longrightarrow> scoped_build cat b'"
  by (auto simp: acquire_clarify_def res_bind_Inr_iff scoped_build_append)
    (simp add: scoped_build_def clarify_node_def)

lemma try_strategy_scoped:
  assumes "try_strategy p facts execute cat b s = Inr (Some x)" and "scoped_build cat b"
  shows "scoped_build cat (snd x)"
proof (cases s)
  case ResAuthorizedDataProbe
  with assms(1) obtain probe where "acquire_probe (pp_name p) probe execute cat b = Inr x"
    by (auto simp: try_strategy_def res_bind_Inr_iff split: option.splits)
  then show ?thesis using acquire_probe_scoped assms(2) by (metis prod.collapse)
next
  case ResClarify
  with assms(1) have "acquire_clarify (pp_name p) execute b = Inr x"
    by (auto simp: try_strategy_def res_bind_Inr_iff split: if_splits)
  then show ?thesis using acquire_clarify_scoped assms(2) by (metis prod.collapse)
qed (use assms in \<open>auto simp: try_strategy_def split: if_splits\<close>)

lemma strategy_loop_Inr:
  "strategy_loop f ss = Inr x \<Longrightarrow> \<exists>s \<in> set ss. f s = Inr (Some x)"
  by (induction f ss rule: strategy_loop.induct) (auto simp: res_bind_Inr_iff split: option.splits)

lemma strategy_loop_first:
  "strategy_loop f ss = Inr x \<longleftrightarrow>
     (\<exists>us s vs. ss = us @ s # vs \<and> f s = Inr (Some x) \<and> (\<forall>u \<in> set us. f u = Inr None))"
proof (induction ss)
  case (Cons s ss)
  show ?case
  proof (cases "f s = Inr None")
    case True
    then show ?thesis using Cons.IH by (auto simp: Cons_eq_append_conv) (metis set_ConsD)+
  next
    case False
    then have "strategy_loop f (s # ss) = Inr x \<longleftrightarrow> f s = Inr (Some x)"
      by (cases "f s") (auto split: option.splits)
    moreover have "f s = Inr (Some x) \<Longrightarrow>
        \<exists>us t vs. s # ss = us @ t # vs \<and> f t = Inr (Some x) \<and> (\<forall>u \<in> set us. f u = Inr None)"
      by (intro exI [of _ "[]"] exI [of _ s] exI [of _ ss]) simp
    ultimately show ?thesis using False by (auto simp: Cons_eq_append_conv)
  qed
qed simp

lemma strategy_loop_none: "\<forall>s \<in> set ss. f s = Inr None \<Longrightarrow> strategy_loop f ss = Inl CompUnsupported"
  by (induction ss) auto

lemma acquisition_source_scoped:
  assumes "acquisition_source cap p facts b execute cat = Inr x" and "scoped_build cat b"
  shows "scoped_build cat (snd x)"
proof (cases "is_exact_identifier_param cap (pp_name p) cat")
  case True
  then show ?thesis using assms by (auto simp: acquisition_source_def)
next
  case False
  then have "strategy_loop (try_strategy p facts execute cat b)
      (if pp_resolution p = [] then default_strategies else pp_resolution p) = Inr x"
    using assms(1) by (simp add: acquisition_source_def)
  from strategy_loop_Inr [OF this] obtain s where "try_strategy p facts execute cat b s = Inr (Some x)"
    by blast
  then show ?thesis using try_strategy_scoped assms(2) by blast
qed

lemma acquire_loop_scoped:
  assumes "\<And>p b x. acq p b = Inr x \<Longrightarrow> scoped_build cat b \<Longrightarrow> scoped_build cat (snd x)"
  shows "acquire_loop acq ps inputs b = Inr x \<Longrightarrow> scoped_build cat b \<Longrightarrow>
    scoped_build cat (snd x) \<and> set inputs \<subseteq> set (fst x)"
proof (induction ps arbitrary: inputs b)
  case (Cons p ps)
  then obtain y where y: "acq p b = Inr y"
    and "acquire_loop acq ps (inputs @ [\<lparr>ni_parameter = pp_name p, ni_kind = pp_kind p, ni_source = fst y\<rparr>]) (snd y) = Inr x"
    by (auto simp: res_bind_Inr_iff)
  then show ?case using Cons.IH assms Cons.prems(2) by fastforce
qed auto

lemma acquisition_inputs_scoped:
  assumes "acquisition_inputs cap cat facts ([], []) execute = Inr x"
  shows "scoped_build cat (snd x) \<and> office_input \<in> set (fst x)"
proof -
  have "scoped_build cat ([], [])" by (simp add: scoped_build_def)
  from acquire_loop_scoped [OF acquisition_source_scoped assms [unfolded acquisition_inputs_def] this]
  show ?thesis by simp
qed

lemma office_input_scope: "office_input \<in> set (wn_inputs n) \<Longrightarrow> has_office_scope n"
  unfolding has_office_scope_def by (rule bexI [of _ office_input]) (simp_all add: office_input_def)

lemma compile_capability_scoped:
  assumes "compile_capability fresh cap cat version budgets facts = Inr w"
    and "cap \<in> set (kc_capabilities cat)" and "cap_status cap = ''approved_mvp''"
  shows "\<forall>n \<in> set (ew_nodes w). scoped_node cat n"
proof -
  obtain x where x: "acquisition_inputs cap cat facts ([], []) ''execute_query'' = Inr x"
    and f: "finish_compile
         (compiled_workflow fresh version budgets (parse_output_mode (cap_output_mode cap))
            (build_append (snd x)
               ([compiled_execute_node cap cat budgets (fst x), complete_node_of],
                [mk_edge ''execute_query'' ''complete'' Always]))) cat = Inr w"
    using assms(1) by (auto simp: compile_capability_def res_bind_Inr_iff)
  note s = acquisition_inputs_scoped [OF x]
  have e: "scoped_node cat (compiled_execute_node cap cat budgets (fst x))"
    using s assms(2,3)
    by (auto simp: scoped_node_def compiled_execute_node_def mk_node_def compile_policy_def intro!: office_input_scope)
  define ns where "ns = fst (snd x) @ [compiled_execute_node cap cat budgets (fst x), complete_node_of]"
  obtain repl where r: "expand_nodes budgets cat ns [] [] = Inr (ew_nodes w, repl)"
    by (rule expand_iteration_InrD [OF finish_compile_InrD [OF f, THEN conjunct1]])
      (simp add: build_append_def compiled_workflow_def ns_def)
  have orig: "scoped_node cat m" if "m \<in> set ns" for m
    using that s e by (auto simp: scoped_build_def complete_node_of_def ns_def)
  show ?thesis
  proof
    fix n assume "n \<in> set (ew_nodes w)"
    from expand_nodes_from [OF r this] have "n \<in> set ns \<or> (\<exists>m \<in> set ns. \<exists>s. n = sibling_node m s)" by auto
    then show "scoped_node cat n"
    proof (elim disjE bexE exE)
      fix m s
      assume "m \<in> set ns" and "n = sibling_node m s"
      then show ?thesis using orig [of m] by (simp add: scoped_node_def has_office_scope_def)
    qed (rule orig)
  qed
qed

end
