(* ===== verification/CompileProps.thy ===== *)
theory CompileProps
  imports CompileFacts
begin

text \<open>The properties of the ambiguity gate and of the compiler.\<close>

definition sample_budgets :: workflow_budgets where
  "sample_budgets = ew_budgets sample_workflow"

definition sample_proposal :: workflow_proposal where
  "sample_proposal = \<lparr>wp_capability_ids = [''loan_count''], wp_nodes = [], wp_edges = []\<rparr>"

section \<open>The ambiguity gate\<close>

text \<open>
  The ambiguity gate ignores the order and multiplicity of the retrieved candidates; what it
  selects is a retrieved candidate the catalog approves, and what it offers for clarification is
  exactly the approved candidates, in increasing order of identifier.
\<close>

theorem resolve_ambiguity_candidates:
  assumes "set ids = set ids'"
  shows "resolve_ambiguity ids facts cat = resolve_ambiguity ids' facts cat \<and>
    (\<forall>i overridden. resolve_ambiguity ids facts cat = AmbSelect i overridden \<longrightarrow>
       i \<in> set ids \<and> (\<exists>c \<in> set (kc_capabilities cat). cap_id c = i \<and> cap_status c = ''approved_mvp'')) \<and>
    (\<forall>options. resolve_ambiguity ids facts cat = AmbClarify options \<longrightarrow>
       sorted_wrt (<) (map fst options) \<and>
       set (map fst options) = {i \<in> set ids. find_capability cat i \<noteq> None})"
proof (intro conjI allI impI)
  show "resolve_ambiguity ids facts cat = resolve_ambiguity ids' facts cat"
    using candidates_cong [OF assms] by (simp add: resolve_ambiguity_def)
next
  fix i overridden
  assume sel: "resolve_ambiguity ids facts cat = AmbSelect i overridden"
  then obtain c where "c \<in> set (ambiguity_candidates ids cat)" "cap_id c = i"
    by (rule resolve_ambiguity_select)
  then show "i \<in> set ids" "\<exists>c \<in> set (kc_capabilities cat). cap_id c = i \<and> cap_status c = ''approved_mvp''"
    by (auto simp: candidates_set dest: find_capabilityD)
next
  fix options
  assume "resolve_ambiguity ids facts cat = AmbClarify options"
  then have o: "map fst options = map cap_id (ambiguity_candidates ids cat)"
    by (auto simp: resolve_ambiguity_def Let_def comp_def split: if_splits option.splits)
  then show "sorted_wrt (<) (map fst options)" using candidates_sorted by (simp only:)
  have "set (map fst options) = cap_id ` {c. \<exists>i \<in> set ids. find_capability cat i = Some c}"
    by (simp only: o set_map candidates_set)
  also have "\<dots> = {i \<in> set ids. find_capability cat i \<noteq> None}"
    by (auto dest: find_capability_id simp: image_iff)
  finally show "set (map fst options) = {i \<in> set ids. find_capability cat i \<noteq> None}" .
qed

theorem resolve_ambiguity_candidates_witness:
  "resolve_ambiguity [''loan_count'', ''none'', ''loan_count''] no_facts sample_catalog =
     resolve_ambiguity [''none'', ''loan_count''] no_facts sample_catalog"
  by (rule resolve_ambiguity_candidates [THEN conjunct1]) auto

section \<open>Acquisition\<close>

text \<open>
  A parameter is acquired by the first of its declared strategies that applies, in the
  documented order when none is declared; with no applicable strategy the request is unsupported.
\<close>

theorem acquisition_first_applicable:
  assumes "\<not> is_exact_identifier_param cap (pp_name p) cat"
    and "strategies = (if pp_resolution p = [] then default_strategies else pp_resolution p)"
  shows "(acquisition_source cap p facts b execute cat = Inr x \<longleftrightarrow>
      (\<exists>earlier s later. strategies = earlier @ s # later \<and>
         try_strategy p facts execute cat b s = Inr (Some x) \<and>
         (\<forall>u \<in> set earlier. try_strategy p facts execute cat b u = Inr None))) \<and>
    ((\<forall>s \<in> set strategies. try_strategy p facts execute cat b s = Inr None) \<longrightarrow>
      acquisition_source cap p facts b execute cat = Inl CompUnsupported)"
  using assms strategy_loop_first [of "try_strategy p facts execute cat b" strategies]
    strategy_loop_none [of strategies "try_strategy p facts execute cat b"]
  by (simp add: acquisition_source_def)

definition sample_parameter :: parameter_policy where
  "sample_parameter =
     \<lparr>pp_name = ''client_id'', pp_kind = TInteger, pp_required = True, pp_default = None,
      pp_fill_when_missing = False, pp_user_may_override = True, pp_hard_cap = None,
      pp_user_required = False, pp_resolution = [], pp_probe = None\<rparr>"

theorem acquisition_first_applicable_witness:
  "\<exists>earlier s later. default_strategies = earlier @ s # later \<and>
     try_strategy sample_parameter no_facts ''execute_query'' sample_catalog ([], []) s =
       Inr (Some (SafePriorSelection ''clarify_client_id'',
         ([clarify_node ''clarify_client_id'' ''collect_fields'' ''execute_query'' ''execute_query''],
          [mk_edge ''clarify_client_id'' ''execute_query'' ClarificationAnswered]))) \<and>
     (\<forall>u \<in> set earlier. try_strategy sample_parameter no_facts ''execute_query'' sample_catalog ([], []) u = Inr None)"
proof -
  have exact: "\<not> is_exact_identifier_param sample_capability (pp_name sample_parameter) sample_catalog"
    by code_simp
  have src: "acquisition_source sample_capability sample_parameter no_facts ([], []) ''execute_query'' sample_catalog =
      Inr (SafePriorSelection ''clarify_client_id'',
         ([clarify_node ''clarify_client_id'' ''collect_fields'' ''execute_query'' ''execute_query''],
          [mk_edge ''clarify_client_id'' ''execute_query'' ClarificationAnswered]))"
    by code_simp
  have "default_strategies = (if pp_resolution sample_parameter = [] then default_strategies else pp_resolution sample_parameter)"
    by (simp add: sample_parameter_def)
  from acquisition_first_applicable [OF exact this, THEN conjunct1] src show ?thesis by blast
qed

section \<open>The compiled workflow\<close>

text \<open>
  Every node of a workflow compiled from capability identifiers that charges a query carries
  the principal's office scope and requires a capability the catalog approves.
\<close>

theorem compiled_scope:
  assumes "compile_with_facts fresh proposal cat version budgets facts = Inr w" and "wp_nodes proposal = []"
    and "n \<in> set (ew_nodes w)" and "nb_query_cost (wn_budget n) > 0"
  shows "has_office_scope n \<and>
    (\<exists>cap \<in> set (kc_capabilities cat). np_required_capability (wn_policy n) = Some (cap_id cap) \<and>
       cap_status cap = ''approved_mvp'')"
proof -
  obtain i cap where "find_capability cat i = Some cap"
    and c: "compile_capability fresh cap cat version budgets facts = Inr w"
    using assms(1,2)
    by (auto simp: compile_with_facts_def res_bind_Inr_iff ok_or_Inr_iff approved_capability_def)
  then have "cap \<in> set (kc_capabilities cat)" "cap_status cap = ''approved_mvp''"
    by (auto dest: find_capabilityD)
  from compile_capability_scoped [OF c this] assms(3) have "scoped_node cat n" by blast
  then show ?thesis using assms(4) by (auto simp: scoped_node_def)
qed

definition sample_compiled :: execution_workflow where
  "sample_compiled =
     compiled_workflow 9 3 sample_budgets ModeTable
       ([compiled_execute_node sample_capability sample_catalog sample_budgets [office_input], complete_node_of],
        [mk_edge ''execute_query'' ''complete'' Always])"

lemma sample_compiles: "compile_with_facts 9 sample_proposal sample_catalog 3 sample_budgets no_facts = Inr sample_compiled"
  by code_simp

theorem compiled_scope_witness:
  "has_office_scope (compiled_execute_node sample_capability sample_catalog sample_budgets [office_input])"
  using compiled_scope [OF sample_compiles, of "compiled_execute_node sample_capability sample_catalog sample_budgets [office_input]"]
  by (simp add: sample_proposal_def sample_compiled_def compiled_workflow_def compiled_execute_node_def mk_node_def)

text \<open>
  Whatever the proposal, the compiled workflow keeps the catalog version and the budgets,
  fails fast without partial results, iterates over nothing any more, and the sources of each of
  its comparisons exist and agree on every scope and temporal binding.
\<close>

theorem compiled_shape:
  assumes "compile_with_facts fresh proposal cat version budgets facts = Inr w"
  shows "ew_catalog_version w = version \<and> ew_budgets w = budgets \<and> ew_fail_policy w = FailFast \<and>
    \<not> oc_allows_partial (ew_output_contract w) \<and>
    (\<forall>n \<in> set (ew_nodes w). iteration_of n = None) \<and>
    (\<forall>n \<in> set (ew_nodes w). \<forall>c. wn_kind n = ComposeResult c \<longrightarrow> cr_composition c = CompComparison \<longrightarrow>
       (\<exists>bindings. \<forall>s \<in> set (cr_sources c). \<exists>m. find_node w s = Some m \<and>
          map_of (comparison_facts m) = bindings))"
proof -
  obtain mode b where f: "finish_compile (compiled_workflow fresh version budgets mode b) cat = Inr w"
    using compile_InrD [OF assms] by blast
  then have e: "expand_iteration (compiled_workflow fresh version budgets mode b) cat = Inr w"
    and c: "check_comparison_facts w = Inr ()" using finish_compile_InrD by blast+
  have basic: "ew_catalog_version w = version \<and> ew_budgets w = budgets \<and> ew_fail_policy w = FailFast \<and>
      \<not> oc_allows_partial (ew_output_contract w)"
    by (rule expand_iteration_InrD [OF e]) (simp add: compiled_workflow_def)
  have iter: "\<forall>n \<in> set (ew_nodes w). iteration_of n = None"
    by (rule expand_iteration_InrD [OF e]) (blast dest: expand_nodes_not_iterating)
  have "\<exists>bindings. \<forall>s \<in> set (cr_sources k). \<exists>m. find_node w s = Some m \<and> map_of (comparison_facts m) = bindings"
    if n: "n \<in> set (ew_nodes w)" "wn_kind n = ComposeResult k" "cr_composition k = CompComparison" for n k
  proof -
    have "check_sources w (wn_id n) None (cr_sources k) = Inr ()"
      using c n by (auto simp: check_comparison_facts_def res_iter_Inr_iff dest!: bspec [of _ _ n])
    then obtain fs where "\<forall>s \<in> set (cr_sources k). map_option comparison_facts (find_node w s) = Some fs"
      by (auto simp: check_sources_None)
    then show ?thesis by (intro exI [of _ "map_of fs"]) auto
  qed
  with basic iter show ?thesis by blast
qed

theorem compiled_shape_witness: "ew_catalog_version sample_compiled = 3 \<and> ew_budgets sample_compiled = sample_budgets"
  using compiled_shape [OF sample_compiles] by blast

text \<open>
  Expansion rewrites the edges of an iterated node but not the references to it: when another
  node of the proposal composes or branches on the iterated node, the compiler may accept the
  proposal but the verifier rejects the compiled workflow.
\<close>

theorem iterated_source_rejected:
  assumes "compile_with_facts fresh proposal cat version budgets facts = Inr w"
    and "n \<in> set (wp_nodes proposal)" and "distinct (map wn_id (wp_nodes proposal))"
    and "iteration_of n \<noteq> None"
    and "\<forall>m \<in> set (wp_nodes proposal). \<forall>k. wn_id n \<noteq> wn_id m @ ''_iter_'' @ show_nat k"
    and "m \<in> set (wp_nodes proposal)" and "wn_id n \<in> set (referenced_nodes m)"
  shows "verify pg w pr cat' \<noteq> Inr vw"
proof
  assume "verify pg w pr cat' = Inr vw"
  then obtain topo where v: "\<And>x. x \<in> set (ew_nodes w) \<Longrightarrow>
      verify_node pg w (workflow_graph_new w) (node_map w) (positions_of topo) pr cat' x = Inr ()"
    using verify_Inr by metis
  have "finish_compile (compiled_workflow fresh version budgets ModeTable (wp_nodes proposal, wp_edges proposal)) cat = Inr w"
    using assms(1,2) by (auto simp: compile_with_facts_def res_bind_Inr_iff split: if_splits)
  then have e: "expand_iteration (compiled_workflow fresh version budgets ModeTable (wp_nodes proposal, wp_edges proposal)) cat = Inr w"
    using finish_compile_InrD by blast
  obtain repl where r: "expand_nodes budgets cat (wp_nodes proposal) [] [] = Inr (ew_nodes w, repl)"
    by (rule expand_iteration_InrD [OF e]) (simp add: compiled_workflow_def)
  note ids = expand_nodes_ids [OF r]
  have "iteration_of m = None"
    using assms(7) by (auto simp: referenced_nodes_def iteration_of_def split: node_kind.splits)
  then have "m \<in> set (ew_nodes w)" using ids assms(6) by (auto simp: kept_def)
  from verify_node_InrD(2) [OF v [OF this] assms(7)] obtain q where "node_map w (wn_id n) = Some q" by auto
  then have "wn_id n \<in> wn_id ` set (ew_nodes w)" using node_map_Some by (metis imageI)
  then have "wn_id n \<in> wn_id ` kept (wp_nodes proposal) \<union> iter_ids (wp_nodes proposal)"
    using ids by auto
  moreover have "wn_id n \<notin> iter_ids (wp_nodes proposal)"
    using assms(5) by (simp only: iter_ids_def) blast
  ultimately obtain q where "q \<in> set (wp_nodes proposal)" "iteration_of q = None" "wn_id q = wn_id n"
    by (auto simp: kept_def)
  then have "q = n" using assms(2,3) by (auto simp: distinct_map dest: inj_onD)
  with \<open>iteration_of q = None\<close> assms(4) show False by simp
qed

definition sample_shape :: shape_option where
  "sample_shape =
     \<lparr>sh_id = ''by_client'', sh_request_shape = sample_request_shape, sh_role = RoleTerminal,
      sh_expected_cardinality = None, sh_row_cap = None, sh_grouped_by = None, sh_produces = [],
      sh_fragment = None, sh_order_by = [], sh_output_fields = [], sh_parameters = []\<rparr>"

definition sample_dataset :: dataset_knowledge where
  "sample_dataset =
     \<lparr>ds_id = ''loans'', ds_database = ''core'', ds_source_sql = [], ds_tables = [],
      ds_filters = [\<lparr>fs_id = ''client_id'', fs_expr = ''client_id'', fs_kind = ''integer'', fs_case_insensitive = False,
                     fs_input_policy = Ordinary, fs_operators = [FIn]\<rparr>],
      ds_entity = None, ds_filters_exempt = [], ds_shapes = [sample_shape], ds_order_by = [],
      ds_output_fields = [], ds_parameters = [], ds_timeout_ms = None\<rparr>"

definition sample_iter_catalog :: knowledge_catalog where
  "sample_iter_catalog = sample_catalog\<lparr>kc_datasets := [sample_dataset]\<rparr>"

definition sample_each :: workflow_node where
  "sample_each =
     sample_node ''each''
       (ExecuteQuery
          \<lparr>eq_capability_id = None, eq_dataset_id = Some ''loans'', eq_shape_id = Some ''by_client'', eq_query_id = None,
           eq_iterate_over = Some \<lparr>it_source = ''total'', it_slot = ''client_id'', it_max = 2\<rparr>\<rparr>)
       [sample_office_input] [] 1"

definition sample_join :: workflow_node where
  "sample_join =
     sample_node ''join'' (ComposeResult \<lparr>cr_sources = [''each''], cr_composition = CompGrouped\<rparr>) [] [] 0"

definition sample_iter_proposal :: workflow_proposal where
  "sample_iter_proposal =
     \<lparr>wp_capability_ids = [], wp_nodes = [sample_total, sample_each, sample_join, sample_done],
      wp_edges = [mk_edge ''total'' ''each'' Always, mk_edge ''each'' ''join'' Always, mk_edge ''join'' ''done'' Always]\<rparr>"

definition sample_iter_result :: "compile_error + execution_workflow" where
  "sample_iter_result = compile_with_facts 9 sample_iter_proposal sample_iter_catalog 3 sample_budgets no_facts"

lemma sample_iter_compiles: "is_ok sample_iter_result"
  by code_simp

lemma show_nat_digits: "c \<in> set (show_nat k) \<Longrightarrow> is_ascii_digit c"
proof (induction k rule: show_nat.induct)
  case (1 n)
  then show ?case
    by (subst (asm) (2) show_nat.simps) (auto simp: is_ascii_digit_def split: if_splits)
qed

theorem iterated_source_rejected_witness:
  "\<exists>w. sample_iter_result = Inr w \<and> verify ref_petgraph w sample_principal sample_iter_catalog \<noteq> Inr (VerifiedWorkflow w)"
proof -
  obtain w where w: "sample_iter_result = Inr w" using sample_iter_compiles by (auto simp: is_ok_iff)
  have ids: "\<forall>m \<in> set (wp_nodes sample_iter_proposal). \<forall>k. wn_id sample_each \<noteq> wn_id m @ ''_iter_'' @ show_nat k"
    by (auto simp: sample_iter_proposal_def sample_total_def sample_each_def sample_join_def sample_done_def sample_node_def)
  have "verify ref_petgraph w sample_principal sample_iter_catalog \<noteq> Inr (VerifiedWorkflow w)"
    by (rule iterated_source_rejected [OF w [unfolded sample_iter_result_def], of sample_each sample_join])
      (use ids in \<open>simp_all add: sample_iter_proposal_def sample_total_def sample_each_def sample_join_def
        sample_done_def sample_node_def iteration_of_def referenced_nodes_def\<close>)
  with w show ?thesis by blast
qed

definition sample_two_catalog :: knowledge_catalog where
  "sample_two_catalog = sample_catalog
     \<lparr>kc_capabilities :=
        [sample_capability\<lparr>cap_parameter_policies := [sample_parameter, sample_parameter\<lparr>pp_name := ''limit''\<rparr>]\<rparr>]\<rparr>"

text \<open>
  A capability with two required parameters that only the user can supply compiles to a
  workflow with two unconnected clarifications, hence two entry nodes, which verification rejects
  as orphaned.
\<close>

theorem two_clarifications_rejected:
  "\<exists>w. compile_with_facts 9 sample_proposal sample_two_catalog 3 sample_budgets no_facts = Inr w \<and>
     map wn_id (ew_nodes w) = [''clarify_client_id'', ''clarify_limit'', ''execute_query'', ''complete''] \<and>
     verify ref_petgraph w sample_principal sample_two_catalog = Inl VerUnreachableOrOrphanNode"
proof -
  have "case compile_with_facts 9 sample_proposal sample_two_catalog 3 sample_budgets no_facts of
      Inl _ \<Rightarrow> False
    | Inr w \<Rightarrow> map wn_id (ew_nodes w) = [''clarify_client_id'', ''clarify_limit'', ''execute_query'', ''complete''] \<and>
        verify ref_petgraph w sample_principal sample_two_catalog = Inl VerUnreachableOrOrphanNode"
    by code_simp
  then show ?thesis by (auto split: sum.splits)
qed

end
