(* ===== verification/Clarification.thy ===== *)
theory Clarification
  imports Knowledge
begin

text \<open>
  \<open>assistant/context/clarification.rs\<close>: the clarification payload a paused workflow persists and
  the view of it that leaves the service.  The intent snapshot the payload retains is kept as
  its serialized document.
\<close>

datatype clarification_kind = SelectOption | SelectEntity | CollectFields | FreeText

record clarification_field =
  cf_key :: string
  cf_label :: string
  cf_field_type :: clarification_field_type
  cf_required :: bool
  cf_value :: "json option"
  cf_default_value :: "json option"
  cf_help_text :: "string option"
  cf_validation :: clarification_validation
  cf_errors :: "string list"

record clarification_option =
  co_id :: string
  co_label :: string
  co_description :: "string option"
  co_fields :: "clarification_field list"

record clarification_view =
  vw_version :: "8 word"
  vw_id :: uuid
  vw_revision :: "32 word"
  vw_kind :: clarification_kind
  vw_question :: string
  vw_options :: "clarification_option list"
  vw_fields :: "clarification_field list"
  vw_allow_free_text :: bool
  vw_workflow_id :: "uuid option"
  vw_node_id :: "string option"
  vw_resume_node_id :: "string option"
  vw_entity_kind :: "string option"

record clarification_payload =
  cp_version :: "8 word"
  cp_id :: uuid
  cp_revision :: "32 word"
  cp_kind :: clarification_kind
  cp_question :: string
  cp_options :: "clarification_option list"
  cp_fields :: "clarification_field list"
  cp_attempt :: "32 word"
  cp_source_intent :: "json option"
  cp_allow_free_text :: bool
  cp_is_missing_execution_parameters :: bool
  cp_workflow_id :: "uuid option"
  cp_node_id :: "string option"
  cp_resume_node_id :: "string option"
  cp_entity_kind :: "string option"

definition payload_view :: "clarification_payload \<Rightarrow> clarification_view" where
  "payload_view p =
     \<lparr>vw_version = cp_version p, vw_id = cp_id p, vw_revision = cp_revision p, vw_kind = cp_kind p,
      vw_question = cp_question p,
      vw_options = map (\<lambda>o'. \<lparr>co_id = co_id o', co_label = co_label o', co_description = co_description o',
                               co_fields = co_fields o'\<rparr>) (cp_options p),
      vw_fields = cp_fields p, vw_allow_free_text = cp_allow_free_text p, vw_workflow_id = cp_workflow_id p,
      vw_node_id = cp_node_id p, vw_resume_node_id = cp_resume_node_id p, vw_entity_kind = cp_entity_kind p\<rparr>"

datatype view_error = SelectWithoutOption | CollectWithoutField | FreeTextWithFields

definition view_validate :: "clarification_view \<Rightarrow> view_error + unit" where
  "view_validate v =
     (case vw_kind v of
        SelectOption \<Rightarrow> guard_err (vw_options v = []) SelectWithoutOption
      | SelectEntity \<Rightarrow> guard_err (vw_options v = []) SelectWithoutOption
      | CollectFields \<Rightarrow> guard_err (vw_fields v = []) CollectWithoutField
      | FreeText \<Rightarrow> guard_err (vw_fields v \<noteq> []) FreeTextWithFields)"

text \<open>\<open>run/node/clarify.rs\<close>.\<close>

definition is_interrupt :: "clarification_payload \<Rightarrow> bool" where
  "is_interrupt p = (cp_kind p \<in> {SelectEntity, SelectOption, CollectFields, FreeText})"

end
