(* ===== verification/Tables.thy ===== *)
theory Tables
  imports Contract Clarification
begin

text \<open>
  The application's tables in PostgreSQL and the statements that read and write them.  The tables are
  lists of rows of one \<open>database\<close> record, with the constraints of \<open>migrations\<close> that a statement can
  violate.  Every SQL statement is one step: it draws the next tick, which decides whether the
  connection fails there and supplies the fresh identifier and the clock of that statement, in
  milliseconds.  Statements outside a transaction take effect at once, also when a later one of the
  same operation fails; a transaction restores the database when its body or its commit fails.
  An uncommitted row of the job is locked, so the operations of one job do not overlap.
\<close>

section \<open>Rows\<close>

record node_run_row =
  row_id :: uuid
  row_job_id :: uuid
  row_workflow_id :: uuid
  row_node_id :: string
  row_attempt :: int
  row_status :: string
  row_output :: "json option"
  row_provenance :: json
  row_rows :: int
  row_duration :: "int option"
  row_started :: "nat option"
  row_finished :: "nat option"

record job_row =
  job_id :: uuid
  job_session_id :: uuid
  job_user_id :: "uuid option"
  job_api_key_id :: "uuid option"
  job_user_message_id :: "uuid option"
  job_status :: string
  job_step :: string
  job_resume_step :: "string option"
  job_message :: string
  job_state :: json
  job_state_revision :: int
  job_result :: "json option"
  job_error :: "json option"
  job_created :: nat
  job_updated :: nat
  job_expires :: int
  job_completed :: "nat option"
  job_failed :: "nat option"
  job_cancelled :: "nat option"
  job_workflow_id :: "uuid option"
  job_contract_version :: "int option"
  job_revision :: int
  job_current_node :: "string option"

record memory_row =
  mem_job_id :: uuid
  mem_graph_state :: string
  mem_terminal_state :: "string option"
  mem_metadata :: json
  mem_intent :: "json option"
  mem_source_intent :: "json option"
  mem_retrieval_plan :: json
  mem_evidence :: json
  mem_decision :: json
  mem_capability :: "string option"
  mem_tool :: "string option"
  mem_params :: json
  mem_policy :: json
  mem_summary :: json
  mem_response :: "json option"
  mem_pending :: "json option"
  mem_warnings :: json
  mem_revision :: int

text \<open>A row of the checkpoints, which always have a step, or of the events.\<close>

record log_row =
  log_id :: uuid
  log_job_id :: uuid
  log_type :: string
  log_step :: "string option"
  log_payload :: json
  log_created :: nat

record session_row =
  ses_id :: uuid
  ses_user_id :: "uuid option"
  ses_api_key_id :: "uuid option"
  ses_title :: "string option"
  ses_status :: string
  ses_context :: json
  ses_created :: nat
  ses_updated :: nat
  ses_expires :: "nat option"
  ses_archived :: "nat option"

record message_row =
  msg_id :: uuid
  msg_session_id :: uuid
  msg_job_id :: "uuid option"
  msg_role :: string
  msg_content :: string
  msg_metadata :: json
  msg_created :: nat

record outbox_row =
  ob_id :: uuid
  ob_aggregate_type :: string
  ob_aggregate_id :: uuid
  ob_job_id :: "uuid option"
  ob_session_id :: "uuid option"
  ob_actor :: "uuid option"
  ob_payload :: json
  ob_occurred :: nat
  ob_published :: "nat option"
  ob_next_attempt :: nat
  ob_attempts :: int
  ob_last_error :: "string option"
  ob_created :: nat

record audit_row =
  ar_id :: uuid
  ar_outbox_id :: "uuid option"
  ar_job_id :: "uuid option"
  ar_session_id :: "uuid option"
  ar_aggregate_type :: string
  ar_aggregate_id :: uuid
  ar_actor :: "uuid option"
  ar_event_type :: string
  ar_outcome :: string
  ar_summary :: json
  ar_error :: "json option"
  ar_occurred :: nat

record graph_row =
  gr_id :: uuid
  gr_job_id :: uuid
  gr_previous :: "string option"
  gr_current :: string
  gr_terminal :: "string option"
  gr_reason :: "string option"
  gr_revision :: int
  gr_payload :: json
  gr_event :: json
  gr_created :: nat

record session_memory_row =
  sm_session_id :: uuid
  sm_summary :: "string option"
  sm_active_domain :: "string option"
  sm_pending :: "json option"
  sm_source_intent :: "json option"
  sm_entities :: json
  sm_relevant_jobs :: json
  sm_warnings :: json
  sm_revision :: int

record database =
  db_users :: "uuid list"
  db_sessions :: "session_row list"
  db_messages :: "message_row list"
  db_jobs :: "job_row list"
  db_runs :: "node_run_row list"
  db_memory :: "memory_row list"
  db_session_memory :: "session_memory_row list"
  db_checkpoints :: "log_row list"
  db_events :: "log_row list"
  db_graph :: "graph_row list"
  db_outbox :: "outbox_row list"
  db_audit :: "audit_row list"

section \<open>Statements and transactions\<close>

text \<open>
  A statement fails, a document does not decode, or the program gives up with a message.
\<close>

datatype state_error = DbError | SerdeError | Bail string

record env =
  ev_fault :: "nat \<Rightarrow> bool"
  ev_uuid :: "nat \<Rightarrow> uuid"
  ev_now :: "nat \<Rightarrow> nat"

record store =
  st_db :: database
  st_tick :: nat

type_synonym 'a sq = "store \<Rightarrow> (state_error + 'a) \<times> store"

definition sq_return :: "'a \<Rightarrow> 'a sq" where
  "sq_return x s = (Inr x, s)"

definition sq_fail :: "state_error \<Rightarrow> 'a sq" where
  "sq_fail e s = (Inl e, s)"

definition sq_bind :: "'a sq \<Rightarrow> ('a \<Rightarrow> 'b sq) \<Rightarrow> 'b sq" where
  "sq_bind m f s = (case m s of (Inl e, s') \<Rightarrow> (Inl e, s') | (Inr x, s') \<Rightarrow> f x s')"

definition sq_of :: "state_error + 'a \<Rightarrow> 'a sq" where
  "sq_of r s = (r, s)"

definition sq_guard :: "bool \<Rightarrow> string \<Rightarrow> unit sq" where
  "sq_guard bad msg = (if bad then sq_fail (Bail msg) else sq_return ())"

definition stmt :: "env \<Rightarrow> (nat \<Rightarrow> database \<Rightarrow> state_error + ('r \<times> database)) \<Rightarrow> 'r sq" where
  "stmt env f s =
     (let t = st_tick s; s' = s\<lparr>st_tick := Suc t\<rparr> in
      if ev_fault env t then (Inl DbError, s')
      else (case f t (st_db s) of
              Inl e \<Rightarrow> (Inl e, s')
            | Inr (r, d) \<Rightarrow> (Inr r, s'\<lparr>st_db := d\<rparr>)))"

text \<open>\<open>Uuid::new_v4\<close> and \<open>Utc::now\<close> of the program itself.\<close>

definition fresh_uuid :: "env \<Rightarrow> uuid sq" where
  "fresh_uuid env s = (Inr (ev_uuid env (st_tick s)), s\<lparr>st_tick := Suc (st_tick s)\<rparr>)"

definition clock :: "env \<Rightarrow> nat sq" where
  "clock env s = (Inr (ev_now env (st_tick s)), s\<lparr>st_tick := Suc (st_tick s)\<rparr>)"

text \<open>A transaction whose body returns its result and whether it reaches the commit.\<close>

definition sq_tx :: "env \<Rightarrow> ('a \<times> bool) sq \<Rightarrow> 'a sq" where
  "sq_tx env body s =
     (case sq_bind (stmt env (\<lambda>_ d. Inr ((), d)))
             (\<lambda>_. sq_bind body
               (\<lambda>(x, commit).
                 if commit then sq_bind (stmt env (\<lambda>_ d. Inr ((), d))) (\<lambda>_. sq_return (x, True))
                 else sq_return (x, False))) s of
        (Inl e, s') \<Rightarrow> (Inl e, s'\<lparr>st_db := st_db s\<rparr>)
      | (Inr (x, commit), s') \<Rightarrow> (Inr x, if commit then s' else s'\<lparr>st_db := st_db s\<rparr>))"

text \<open>\<open>UPDATE t SET \<dots> WHERE p\<close>: the rows that match are replaced and counted.\<close>

definition update_rows :: "('r \<Rightarrow> bool) \<Rightarrow> ('r \<Rightarrow> 'r) \<Rightarrow> 'r list \<Rightarrow> nat \<times> 'r list" where
  "update_rows p f rows = (length (filter p rows), map (\<lambda>r. if p r then f r else r) rows)"

lemma update_rows_in: "x \<in> set xs \<Longrightarrow> p x \<Longrightarrow> f x \<in> set (map (\<lambda>r. if p r then f r else r) xs)"
  by (auto intro: image_eqI [of _ _ x])

definition update_jobs :: "env \<Rightarrow> (job_row \<Rightarrow> bool) \<Rightarrow> (nat \<Rightarrow> job_row \<Rightarrow> job_row) \<Rightarrow> nat sq" where
  "update_jobs env p f =
     stmt env (\<lambda>t d. let (n, rows) = update_rows p (f (ev_now env t)) (db_jobs d) in Inr (n, d\<lparr>db_jobs := rows\<rparr>))"

definition update_runs :: "env \<Rightarrow> (node_run_row \<Rightarrow> bool) \<Rightarrow> (nat \<Rightarrow> node_run_row \<Rightarrow> node_run_row) \<Rightarrow> nat sq" where
  "update_runs env p f =
     stmt env (\<lambda>t d. let (n, rows) = update_rows p (f (ev_now env t)) (db_runs d) in Inr (n, d\<lparr>db_runs := rows\<rparr>))"

definition update_memory :: "env \<Rightarrow> uuid \<Rightarrow> json option \<Rightarrow> nat sq" where
  "update_memory env j v =
     stmt env (\<lambda>_ d. let (n, rows) = update_rows (\<lambda>r. mem_job_id r = j) (\<lambda>r. r\<lparr>mem_pending := v\<rparr>) (db_memory d)
       in Inr (n, d\<lparr>db_memory := rows\<rparr>))"

definition pending_of :: "database \<Rightarrow> uuid \<Rightarrow> json option" where
  "pending_of d j = Option.bind (find (\<lambda>m. mem_job_id m = j) (db_memory d)) mem_pending"

definition event_types :: "string list" where
  "event_types =
     [''status'', ''clarification'', ''partial_result'', ''final'', ''error'', ''heartbeat'', ''stage'', ''delta'',
      ''workflow_node_started'', ''workflow_node_completed'', ''workflow_branch_decided'', ''workflow_paused'',
      ''workflow_resumed'']"

definition checkpoint_types :: "string list" where
  "checkpoint_types =
     [''job_created'', ''step_started'', ''step_completed'', ''clarification_required'', ''user_response_received'',
      ''decision_completed'', ''query_completed'', ''response_completed'', ''job_failed'', ''job_cancelled'',
      ''node_started'', ''node_completed'', ''workflow_paused'', ''workflow_resumed'']"

definition job_exists :: "database \<Rightarrow> uuid \<Rightarrow> bool" where
  "job_exists d j \<longleftrightarrow> (\<exists>r \<in> set (db_jobs d). job_id r = j)"

text \<open>The check constraints of \<open>chat_jobs\<close>.\<close>

definition job_statuses :: "string list" where
  "job_statuses = [''queued'', ''running'', ''waiting_for_user_input'', ''completed'', ''failed'', ''expired'', ''cancelled'']"

definition job_steps :: "string list" where
  "job_steps =
     [''queued'', ''understanding'', ''planning'', ''verifying'', ''executing_node'', ''composing'',
      ''waiting_for_user_input'', ''completed'', ''failed'']"

definition job_wf :: "job_row \<Rightarrow> bool" where
  "job_wf r \<longleftrightarrow> job_status r \<in> set job_statuses \<and> job_step r \<in> set job_steps \<and>
     (case job_resume_step r of None \<Rightarrow> True | Some t \<Rightarrow> t \<in> set job_steps)"

text \<open>The log inserts check the primary key, the job reference and the type list of their table.\<close>

definition log_ok :: "database \<Rightarrow> log_row list \<Rightarrow> string list \<Rightarrow> uuid \<Rightarrow> uuid \<Rightarrow> string \<Rightarrow> bool" where
  "log_ok d table types i j typ \<longleftrightarrow>
     job_exists d j \<and> typ \<in> set types \<and> \<not> (\<exists>r \<in> set table. log_id r = i)"

end
