(* ===== verification/State.thy ===== *)
theory State
  imports Tables
begin

text \<open>
  \<open>assistant/workflow/state.rs\<close>: the durable state of a workflow run, over the tables of \<open>Tables\<close>.
\<close>

section \<open>Rows\<close>

datatype node_run_status = Runnable | Running | Completed | Failed | Skipped | Waiting

definition status_as_str :: "node_run_status \<Rightarrow> string" where
  "status_as_str s =
     (case s of
        Runnable \<Rightarrow> ''runnable''
      | Running \<Rightarrow> ''running''
      | Completed \<Rightarrow> ''completed''
      | Failed \<Rightarrow> ''failed''
      | Skipped \<Rightarrow> ''skipped''
      | Waiting \<Rightarrow> ''waiting'')"

definition status_of_str :: "string \<Rightarrow> node_run_status option" where
  "status_of_str s =
     (if s = ''runnable'' then Some Runnable
      else if s = ''running'' then Some Running
      else if s = ''completed'' then Some Completed
      else if s = ''failed'' then Some Failed
      else if s = ''skipped'' then Some Skipped
      else if s = ''waiting'' then Some Waiting
      else None)"

record node_run =
  nr_id :: uuid
  nr_job_id :: uuid
  nr_workflow_id :: uuid
  nr_node_id :: node_id
  nr_attempt :: int
  nr_status :: node_run_status
  nr_output :: "json option"
  nr_provenance :: json
  nr_rows :: int
  nr_duration :: "int option"
  nr_started :: "nat option"
  nr_finished :: "nat option"

record resume_request =
  rq_job_id :: uuid
  rq_user_id :: uuid
  rq_workflow_id :: uuid
  rq_node_id :: node_id
  rq_clarification_id :: uuid
  rq_workflow_revision :: int
  rq_selected_value :: json

datatype resume_outcome = Resumed | NotFound | NotWaiting | Stale

text \<open>The serde encodings the repository stores, and the text of an identifier.\<close>

record codec =
  cd_workflow_to :: "execution_workflow \<Rightarrow> json"
  cd_workflow_from :: "json \<Rightarrow> execution_workflow option"
  cd_payload_to :: "clarification_payload \<Rightarrow> json"
  cd_payload_from :: "json \<Rightarrow> clarification_payload option"
  cd_uuid :: "uuid \<Rightarrow> string"

section \<open>Log entries\<close>

definition insert_checkpoint :: "env \<Rightarrow> uuid \<Rightarrow> string \<Rightarrow> string \<Rightarrow> json \<Rightarrow> unit sq" where
  "insert_checkpoint env j step typ state =
     stmt env (\<lambda>t d.
       if log_ok d (db_checkpoints d) checkpoint_types (ev_uuid env t) j typ
       then Inr ((), d\<lparr>db_checkpoints := db_checkpoints d @
         [\<lparr>log_id = ev_uuid env t, log_job_id = j, log_type = typ, log_step = Some step, log_payload = state,
           log_created = ev_now env t\<rparr>]\<rparr>)
       else Inl DbError)"

definition insert_event :: "env \<Rightarrow> uuid \<Rightarrow> string \<Rightarrow> string option \<Rightarrow> json \<Rightarrow> unit sq" where
  "insert_event env j typ step payload =
     stmt env (\<lambda>t d.
       if log_ok d (db_events d) event_types (ev_uuid env t) j typ
       then Inr ((), d\<lparr>db_events := db_events d @
         [\<lparr>log_id = ev_uuid env t, log_job_id = j, log_type = typ, log_step = step, log_payload = payload,
           log_created = ev_now env t\<rparr>]\<rparr>)
       else Inl DbError)"

section \<open>Installing and loading a workflow\<close>

definition empty_runtime :: json where
  "empty_runtime =
     obj_of [(''completed_node_ids'', JArray []), (''node_outputs'', obj_of []),
             (''budget_consumed'', obj_of [(''queries'', json_int 0), (''rows'', json_int 0), (''ms'', json_int 0)])]"

definition install_workflow :: "env \<Rightarrow> codec \<Rightarrow> uuid \<Rightarrow> uuid \<Rightarrow> execution_workflow \<Rightarrow> unit sq" where
  "install_workflow env cd j user w =
     sq_bind (sq_guard (uint (ew_contract_version w) > 32767) ''workflow contract version is invalid'') (\<lambda>_.
     sq_bind
       (update_jobs env (\<lambda>r. job_id r = j \<and> job_user_id r = Some user)
          (\<lambda>now r. r\<lparr>job_workflow_id := Some (ew_id w), job_contract_version := Some (uint (ew_contract_version w)),
                 job_revision := job_revision r + 1, job_current_node := None, job_step := ''planning'',
                 job_state := jsonb_concat (job_state r)
                   (obj_of [(''workflow'', cd_workflow_to cd w), (''workflow_runtime'', empty_runtime)]),
                     job_updated := now\<rparr>))
       (\<lambda>n. sq_guard (n \<noteq> 1) ''workflow job was not found''))"

definition load_workflow :: "env \<Rightarrow> codec \<Rightarrow> uuid \<Rightarrow> uuid \<Rightarrow> execution_workflow option sq" where
  "load_workflow env cd j user =
     sq_bind
       (stmt env (\<lambda>_ d. Inr (map_option job_state (find (\<lambda>r. job_id r = j \<and> job_user_id r = Some user) (db_jobs d)), d)))
       (\<lambda>state. case state of
          None \<Rightarrow> sq_return None
        | Some v \<Rightarrow>
            (case json_get v ''workflow'' of
               None \<Rightarrow> sq_fail (Bail ''workflow is not installed'')
             | Some wj \<Rightarrow>
                 (case cd_workflow_from cd wj of
                    None \<Rightarrow> sq_fail (Bail ''workflow does not deserialize'')
                  | Some w \<Rightarrow> sq_return (Some w))))"

definition load_pending_clarification :: "env \<Rightarrow> codec \<Rightarrow> uuid \<Rightarrow> clarification_payload option sq" where
  "load_pending_clarification env cd j =
     sq_bind (stmt env (\<lambda>_ d. Inr (pending_of d j, d)))
       (\<lambda>v. case v of
          None \<Rightarrow> sq_return None
        | Some pj \<Rightarrow>
            (case cd_payload_from cd pj of
               None \<Rightarrow> sq_fail (Bail ''clarification does not deserialize'')
             | Some p \<Rightarrow> sq_return (Some p)))"

section \<open>Node runs\<close>

definition run_of_row :: "node_run_row \<Rightarrow> state_error + node_run" where
  "run_of_row r =
     res_bind (map_err (\<lambda>_. Bail ''persisted node id is invalid'') (node_id_new (row_node_id r))) (\<lambda>i.
     res_bind (ok_or (status_of_str (row_status r)) (Bail ''persisted workflow node status is invalid'')) (\<lambda>st.
     Inr \<lparr>nr_id = row_id r, nr_job_id = row_job_id r, nr_workflow_id = row_workflow_id r, nr_node_id = i,
          nr_attempt = row_attempt r, nr_status = st, nr_output = row_output r, nr_provenance = row_provenance r,
          nr_rows = row_rows r, nr_duration = row_duration r, nr_started = row_started r,
          nr_finished = row_finished r\<rparr>))"

text \<open>\<open>ORDER BY started_at NULLS FIRST, id\<close>.\<close>

definition run_order :: "node_run_row \<Rightarrow> nat \<times> uuid" where
  "run_order r = ((case row_started r of None \<Rightarrow> 0 | Some t \<Rightarrow> Suc t), row_id r)"

definition select_runs :: "uuid \<Rightarrow> uuid \<Rightarrow> database \<Rightarrow> node_run_row list" where
  "select_runs j w d =
     sort_key (\<lambda>r. fst (run_order r))
       (sort_key row_id (filter (\<lambda>r. row_job_id r = j \<and> row_workflow_id r = w) (db_runs d)))"

definition node_runs :: "env \<Rightarrow> uuid \<Rightarrow> uuid \<Rightarrow> node_run list sq" where
  "node_runs env j w =
     sq_bind (stmt env (\<lambda>_ d. Inr (select_runs j w d, d))) (\<lambda>rows. sq_of (res_map run_of_row rows))"

definition run_payload :: "codec \<Rightarrow> uuid \<Rightarrow> node_id \<Rightarrow> (string \<times> json) list \<Rightarrow> json" where
  "run_payload cd w node extra =
     obj_of ([(''workflow_id'', JString (cd_uuid cd w)), (''node_id'', JString node)] @ extra)"

definition new_run_row :: "uuid \<Rightarrow> nat \<Rightarrow> uuid \<Rightarrow> uuid \<Rightarrow> node_id \<Rightarrow> int \<Rightarrow> json \<Rightarrow> node_run_row" where
  "new_run_row i now j w node attempt provenance =
     \<lparr>row_id = i, row_job_id = j, row_workflow_id = w, row_node_id = node, row_attempt = attempt,
      row_status = ''running'', row_output = None, row_provenance = provenance, row_rows = 0,
      row_duration = None, row_started = Some now, row_finished = None\<rparr>"

text \<open>The insert checks the primary key, the job reference and \<open>UNIQUE (job_id, workflow_id, node_id, attempt)\<close>.\<close>

definition insert_run :: "env \<Rightarrow> uuid \<Rightarrow> uuid \<Rightarrow> node_id \<Rightarrow> int \<Rightarrow> json \<Rightarrow> node_run_row sq" where
  "insert_run env j w node attempt provenance =
     stmt env (\<lambda>t d.
       if job_exists d j \<and>
          \<not> (\<exists>r \<in> set (db_runs d). row_id r = ev_uuid env t \<or>
               (row_job_id r = j \<and> row_workflow_id r = w \<and> row_node_id r = node \<and> row_attempt r = attempt))
       then (let row = new_run_row (ev_uuid env t) (ev_now env t) j w node attempt provenance
             in Inr (row, d\<lparr>db_runs := db_runs d @ [row]\<rparr>))
       else Inl DbError)"

definition begin_node :: "env \<Rightarrow> codec \<Rightarrow> uuid \<Rightarrow> uuid \<Rightarrow> node_id \<Rightarrow> int \<Rightarrow> json \<Rightarrow> node_run sq" where
  "begin_node env cd j w node attempt provenance =
     sq_bind (insert_run env j w node attempt provenance) (\<lambda>row.
     sq_bind (sq_of (run_of_row row)) (\<lambda>run.
     sq_bind (insert_checkpoint env j node ''node_started'' (run_payload cd w node [(''attempt'', json_int attempt)])) (\<lambda>_.
     sq_bind (insert_event env j ''workflow_node_started'' (Some node) (run_payload cd w node [(''attempt'', json_int attempt)])) (\<lambda>_.
     sq_return run))))"

definition complete_node :: "env \<Rightarrow> codec \<Rightarrow> node_run \<Rightarrow> json \<Rightarrow> int \<Rightarrow> int \<Rightarrow> unit sq" where
  "complete_node env cd run output rows ms =
     sq_bind
       (update_runs env (\<lambda>r. row_id r = nr_id run \<and> row_status r = ''running'')
          (\<lambda>now r. r\<lparr>row_status := ''completed'', row_output := Some output, row_rows := rows,
                     row_duration := Some ms, row_finished := Some now\<rparr>)) (\<lambda>n.
     sq_bind (sq_guard (n \<noteq> 1) ''workflow node completion was stale'') (\<lambda>_.
     (let payload = run_payload cd (nr_workflow_id run) (nr_node_id run)
            [(''attempt'', json_int (nr_attempt run)), (''rows_returned'', json_int rows)] in
      sq_bind (insert_checkpoint env (nr_job_id run) (nr_node_id run) ''node_completed'' payload) (\<lambda>_.
      insert_event env (nr_job_id run) ''workflow_node_completed'' (Some (nr_node_id run)) payload))))"

definition record_branch_decision :: "env \<Rightarrow> codec \<Rightarrow> uuid \<Rightarrow> uuid \<Rightarrow> node_id \<Rightarrow> string \<Rightarrow> unit sq" where
  "record_branch_decision env cd j w node cardinality =
     insert_event env j ''workflow_branch_decided'' (Some node)
       (run_payload cd w node [(''cardinality'', JString cardinality)])"

definition record_sensitivity_drop :: "env \<Rightarrow> codec \<Rightarrow> uuid \<Rightarrow> uuid \<Rightarrow> node_id \<Rightarrow> string list \<Rightarrow> unit sq" where
  "record_sensitivity_drop env cd j w node dropped =
     (if dropped = [] then sq_return ()
      else insert_event env j ''workflow_field_dropped'' (Some node)
        (run_payload cd w node [(''dropped_fields'', JArray (map JString dropped))]))"

definition fail_node :: "env \<Rightarrow> node_run \<Rightarrow> int \<Rightarrow> unit sq" where
  "fail_node env run ms =
     sq_bind
       (update_runs env (\<lambda>r. row_id r = nr_id run \<and> row_status r = ''running'')
          (\<lambda>now r. r\<lparr>row_status := ''failed'', row_duration := Some ms, row_finished := Some now\<rparr>))
       (\<lambda>_. sq_return ())"

section \<open>Pausing and resuming\<close>

definition pause_runtime :: "codec \<Rightarrow> node_id \<Rightarrow> uuid \<Rightarrow> uuid \<Rightarrow> json" where
  "pause_runtime cd node clarification w =
     obj_of [(''waiting_node_id'', JString node), (''clarification_id'', JString (cd_uuid cd clarification)),
             (''workflow_id'', JString (cd_uuid cd w))]"

definition pause_row :: "uuid \<Rightarrow> uuid \<Rightarrow> node_id \<Rightarrow> node_run_row \<Rightarrow> bool" where
  "pause_row j w node r \<longleftrightarrow>
     row_job_id r = j \<and> row_workflow_id r = w \<and> row_node_id r = node \<and> row_status r = ''running''"

definition mark_workflow_paused ::
  "env \<Rightarrow> codec \<Rightarrow> uuid \<Rightarrow> uuid \<Rightarrow> uuid \<Rightarrow> node_id \<Rightarrow> clarification_payload \<Rightarrow> unit sq" where
  "mark_workflow_paused env cd j user w node clarification =
     sq_tx env
       (sq_bind
          (update_runs env
             (pause_row j w node)
             (\<lambda>_ r. r\<lparr>row_status := ''waiting''\<rparr>)) (\<lambda>waiting.
        sq_bind (sq_guard (waiting \<noteq> 1) ''workflow interrupt node was not running'') (\<lambda>_.
        sq_bind
          (update_jobs env (\<lambda>r. job_id r = j \<and> job_user_id r = Some user \<and> job_workflow_id r = Some w)
             (\<lambda>now r. r\<lparr>job_status := ''waiting_for_user_input'', job_step := ''waiting_for_user_input'',
                    job_current_node := Some node, job_revision := job_revision r + 1,
                    job_state := jsonb_concat (job_state r)
                      (obj_of [(''workflow_runtime'', pause_runtime cd node (cp_id clarification) w)]),
                    job_updated := now\<rparr>)) (\<lambda>updated.
        sq_bind (sq_guard (updated \<noteq> 1) ''workflow pause was stale'') (\<lambda>_.
        sq_bind (update_memory env j (Some (cd_payload_to cd clarification))) (\<lambda>_.
        sq_bind (insert_checkpoint env j node ''workflow_paused''
          (run_payload cd w node [(''clarification_id'', JString (cd_uuid cd (cp_id clarification)))])) (\<lambda>_.
        sq_bind (insert_event env j ''workflow_paused'' (Some node)
          (run_payload cd w node [(''status'', JString ''waiting_for_user_input'')])) (\<lambda>_.
        sq_return ((), True)))))))))"

text \<open>The row the resume locks: the job joined with its pending clarification.\<close>

definition resume_target :: "uuid \<Rightarrow> uuid \<Rightarrow> database \<Rightarrow> (job_row \<times> json option) option" where
  "resume_target j user d =
     map_option (\<lambda>r. (r, pending_of d (job_id r)))
       (find (\<lambda>r. job_id r = j \<and> job_user_id r = Some user) (db_jobs d))"

definition resume_matches :: "codec \<Rightarrow> resume_request \<Rightarrow> job_row \<Rightarrow> json option \<Rightarrow> bool" where
  "resume_matches cd rq r pending \<longleftrightarrow>
     job_workflow_id r = Some (rq_workflow_id rq) \<and>
     job_revision r = rq_workflow_revision rq \<and>
     job_current_node r = Some (rq_node_id rq) \<and>
     (case Option.bind pending (cd_payload_from cd) of None \<Rightarrow> False | Some p \<Rightarrow> cp_id p = rq_clarification_id rq)"

definition resume_writes :: "env \<Rightarrow> codec \<Rightarrow> resume_request \<Rightarrow> unit sq" where
  "resume_writes env cd rq =
     sq_bind
       (update_jobs env (\<lambda>r. job_id r = rq_job_id rq)
          (\<lambda>now r. r\<lparr>job_status := ''queued'', job_step := ''executing_node'', job_current_node := Some (rq_node_id rq),
                 job_revision := job_revision r + 1,
                 job_state := jsonb_concat (job_state r)
                   (obj_of [(''workflow_runtime'',
                      obj_of [(''selected_value'', rq_selected_value rq),
                              (''resumed_from_node_id'', JString (rq_node_id rq))])]),
                 job_updated := now\<rparr>)) (\<lambda>updated.
     sq_bind (sq_guard (updated \<noteq> 1) ''workflow resume update failed'') (\<lambda>_.
     sq_bind
       (update_runs env
          (\<lambda>r. row_job_id r = rq_job_id rq \<and> row_workflow_id r = rq_workflow_id rq \<and>
               row_node_id r = rq_node_id rq \<and> row_status r = ''waiting'')
          (\<lambda>now r. r\<lparr>row_status := ''completed'', row_finished := Some now\<rparr>)) (\<lambda>_.
     sq_bind (update_memory env (rq_job_id rq) None) (\<lambda>_.
     sq_bind (insert_checkpoint env (rq_job_id rq) (rq_node_id rq) ''workflow_resumed''
       (run_payload cd (rq_workflow_id rq) (rq_node_id rq) [])) (\<lambda>_.
     insert_event env (rq_job_id rq) ''workflow_resumed'' (Some (rq_node_id rq))
       (run_payload cd (rq_workflow_id rq) (rq_node_id rq) []))))))"

definition resume :: "env \<Rightarrow> codec \<Rightarrow> resume_request \<Rightarrow> resume_outcome sq" where
  "resume env cd rq =
     sq_tx env
       (sq_bind (stmt env (\<lambda>_ d. Inr (resume_target (rq_job_id rq) (rq_user_id rq) d, d))) (\<lambda>target.
          case target of
            None \<Rightarrow> sq_return (NotFound, False)
          | Some (r, pending) \<Rightarrow>
              if job_status r \<noteq> ''waiting_for_user_input'' then sq_return (NotWaiting, False)
              else if \<not> resume_matches cd rq r pending then sq_return (Stale, False)
              else sq_bind (resume_writes env cd rq) (\<lambda>_. sq_return (Resumed, True))))"

section \<open>The budget ledger\<close>

text \<open>\<open>(state_json #>> '{workflow_runtime,budget_consumed,k}')::bigint\<close> on the integers the ledger holds.\<close>

definition ledger :: "json \<Rightarrow> string \<Rightarrow> int" where
  "ledger v k = (case Option.bind (json_path v [''workflow_runtime'', ''budget_consumed'', k]) as_i64 of None \<Rightarrow> 0 | Some i \<Rightarrow> i)"

definition add_budget_consumed :: "env \<Rightarrow> uuid \<Rightarrow> int \<Rightarrow> int \<Rightarrow> int \<Rightarrow> unit sq" where
  "add_budget_consumed env j queries rows ms =
     sq_bind
       (update_jobs env (\<lambda>r. job_id r = j)
          (\<lambda>now r. r\<lparr>job_state := jsonb_set (job_state r) [''workflow_runtime'', ''budget_consumed'']
                  (obj_of [(''queries'', json_int (ledger (job_state r) ''queries'' + queries)),
                           (''rows'', json_int (ledger (job_state r) ''rows'' + rows)),
                           (''ms'', json_int (ledger (job_state r) ''ms'' + ms))]),
                 job_updated := now\<rparr>))
       (\<lambda>_. sq_return ())"

section \<open>Redaction\<close>

fun redact_fields :: "string list \<Rightarrow> json \<Rightarrow> json" where
  "redact_fields fs (JObject obj) =
     JObject (map (\<lambda>kv. (fst kv, redact_fields fs (snd kv))) (filter (\<lambda>kv. fst kv \<notin> set fs) obj))"
| "redact_fields fs (JArray vs) = JArray (map (redact_fields fs) vs)"
| "redact_fields fs v = v"

definition persisted_output :: "node_input list \<Rightarrow> json \<Rightarrow> json" where
  "persisted_output inputs output =
     (let fields = map ni_parameter (filter (\<lambda>i. ni_source i = ExactSensitiveInput) inputs) in
      if fields = [] then output else redact_fields fields output)"

end
