(* ===== verification/StateFacts.thy ===== *)
theory StateFacts
  imports State
begin

text \<open>
  How the repository operations compose: the shape of a successful sequence, the atomicity of a
  transaction, and the framework for properties that every statement of every operation keeps,
  whichever of them fails.
\<close>

section \<open>Sequencing\<close>

lemma sq_simps [simp]:
  "sq_return x s = (Inr x, s)"
  "sq_fail e s = (Inl e, s)"
  "sq_of r s = (r, s)"
  by (simp_all add: sq_return_def sq_fail_def sq_of_def)

lemma sq_bind_Inr_iff:
  "sq_bind m f s = (Inr y, s') \<longleftrightarrow> (\<exists>x s1. m s = (Inr x, s1) \<and> f x s1 = (Inr y, s'))"
  by (auto simp: sq_bind_def split: prod.splits sum.splits)

lemma sq_bind_fst_Inr:
  "fst (sq_bind m f s) = Inr y \<Longrightarrow> \<exists>x. fst (m s) = Inr x \<and> fst (f x (snd (m s))) = Inr y"
  by (auto simp: sq_bind_def split: prod.splits sum.splits)

lemma sq_guard_Inr_iff: "sq_guard bad msg s = (Inr u, s') \<longleftrightarrow> \<not> bad \<and> s' = s"
  by (auto simp: sq_guard_def)

lemma stmt_Inr_iff:
  "stmt env f s = (Inr r, s') \<longleftrightarrow>
     \<not> ev_fault env (st_tick s) \<and>
     (\<exists>d. f (st_tick s) (st_db s) = Inr (r, d) \<and> s' = s\<lparr>st_tick := Suc (st_tick s), st_db := d\<rparr>)"
  by (auto simp: stmt_def Let_def split: sum.splits)

lemma update_jobs_Inr_iff:
  "update_jobs env p f s = (Inr n, s') \<longleftrightarrow>
     \<not> ev_fault env (st_tick s) \<and> n = length (filter p (db_jobs (st_db s))) \<and>
     s' = s\<lparr>st_tick := Suc (st_tick s), st_db := (st_db s)
       \<lparr>db_jobs := map (\<lambda>r. if p r then f (ev_now env (st_tick s)) r else r) (db_jobs (st_db s))\<rparr>\<rparr>"
  by (auto simp: update_jobs_def update_rows_def stmt_Inr_iff Let_def)

lemma update_runs_Inr_iff:
  "update_runs env p f s = (Inr n, s') \<longleftrightarrow>
     \<not> ev_fault env (st_tick s) \<and> n = length (filter p (db_runs (st_db s))) \<and>
     s' = s\<lparr>st_tick := Suc (st_tick s), st_db := (st_db s)
       \<lparr>db_runs := map (\<lambda>r. if p r then f (ev_now env (st_tick s)) r else r) (db_runs (st_db s))\<rparr>\<rparr>"
  by (auto simp: update_runs_def update_rows_def stmt_Inr_iff Let_def)

lemma update_memory_Inr_iff:
  "update_memory env j v s = (Inr n, s') \<longleftrightarrow>
     \<not> ev_fault env (st_tick s) \<and> n = length (filter (\<lambda>m. mem_job_id m = j) (db_memory (st_db s))) \<and>
     s' = s\<lparr>st_tick := Suc (st_tick s), st_db := (st_db s)
       \<lparr>db_memory := map (\<lambda>m. if mem_job_id m = j then m\<lparr>mem_pending := v\<rparr> else m) (db_memory (st_db s))\<rparr>\<rparr>"
  by (auto simp: update_memory_def update_rows_def stmt_Inr_iff Let_def)

lemma insert_checkpoint_Inr_iff:
  "insert_checkpoint env j step typ v s = (Inr u, s') \<longleftrightarrow>
     \<not> ev_fault env (st_tick s) \<and> log_ok (st_db s) (db_checkpoints (st_db s)) checkpoint_types (ev_uuid env (st_tick s)) j typ \<and>
     s' = s\<lparr>st_tick := Suc (st_tick s), st_db := (st_db s)\<lparr>db_checkpoints := db_checkpoints (st_db s) @
       [\<lparr>log_id = ev_uuid env (st_tick s), log_job_id = j, log_type = typ, log_step = Some step, log_payload = v,
         log_created = ev_now env (st_tick s)\<rparr>]\<rparr>\<rparr>"
  by (auto simp: insert_checkpoint_def stmt_Inr_iff)

lemma insert_event_Inr_iff:
  "insert_event env j typ step v s = (Inr u, s') \<longleftrightarrow>
     \<not> ev_fault env (st_tick s) \<and> log_ok (st_db s) (db_events (st_db s)) event_types (ev_uuid env (st_tick s)) j typ \<and>
     s' = s\<lparr>st_tick := Suc (st_tick s), st_db := (st_db s)\<lparr>db_events := db_events (st_db s) @
       [\<lparr>log_id = ev_uuid env (st_tick s), log_job_id = j, log_type = typ, log_step = step, log_payload = v,
         log_created = ev_now env (st_tick s)\<rparr>]\<rparr>\<rparr>"
  by (auto simp: insert_event_def stmt_Inr_iff)

lemma pending_of_db_jobs [simp]:
  "pending_of (d\<lparr>db_jobs := x\<rparr>) j = pending_of d j"
  by (simp add: pending_of_def)

lemmas sq_iffs = sq_bind_Inr_iff sq_guard_Inr_iff stmt_Inr_iff update_jobs_Inr_iff update_runs_Inr_iff
  update_memory_Inr_iff insert_checkpoint_Inr_iff insert_event_Inr_iff

text \<open>A transaction that does not commit leaves the database as it was.\<close>

lemma tx_error: "sq_tx env body s = (Inl e, s') \<Longrightarrow> st_db s' = st_db s"
  by (auto simp: sq_tx_def split: prod.splits sum.splits)

lemma tx_Inr:
  assumes "sq_tx env body s = (Inr x, s')"
  obtains s1 commit where "body (s\<lparr>st_tick := Suc (st_tick s)\<rparr>) = (Inr (x, commit), s1)"
    and "st_db s' = (if commit then st_db s1 else st_db s)"
  using assms
  by (auto simp: sq_tx_def sq_bind_Inr_iff stmt_Inr_iff split: prod.splits sum.splits if_splits)

section \<open>Relations every operation keeps\<close>

text \<open>What an update of a job may change, besides its working state.\<close>

definition job_kept :: "job_row \<Rightarrow> job_row \<Rightarrow> bool" where
  "job_kept r r' \<longleftrightarrow>
     job_id r' = job_id r \<and> job_session_id r' = job_session_id r \<and> job_user_id r' = job_user_id r \<and>
     job_message r' = job_message r \<and> job_created r' = job_created r \<and> job_expires r' = job_expires r \<and>
     job_revision r \<le> job_revision r' \<and> job_state_revision r \<le> job_state_revision r' \<and> (job_wf r \<longrightarrow> job_wf r')"

lemma job_kept_refl: "job_kept r r"
  by (simp add: job_kept_def)

lemma job_kept_trans: "job_kept r r1 \<Longrightarrow> job_kept r1 r2 \<Longrightarrow> job_kept r r2"
  by (auto simp: job_kept_def)

lemmas job_kept_simps = job_kept_def job_wf_def job_statuses_def job_steps_def

locale db_preorder =
  fixes rel :: "database \<Rightarrow> database \<Rightarrow> bool"
  assumes rel_refl: "rel d d"
    and rel_trans: "rel d d1 \<Longrightarrow> rel d1 d2 \<Longrightarrow> rel d d2"
begin

definition keeps :: "'a sq \<Rightarrow> bool" where
  "keeps m \<longleftrightarrow> (\<forall>s. rel (st_db s) (st_db (snd (m s))))"

lemma keeps_return: "keeps (sq_return x)"
  by (simp add: keeps_def rel_refl)

lemma keeps_fail: "keeps (sq_fail e)"
  by (simp add: keeps_def rel_refl)

lemma keeps_of: "keeps (sq_of r)"
  by (simp add: keeps_def rel_refl)

lemma keeps_guard: "keeps (sq_guard b m)"
  by (simp add: sq_guard_def keeps_return keeps_fail)

lemma keeps_bind: "keeps m \<Longrightarrow> (\<And>x. keeps (f x)) \<Longrightarrow> keeps (sq_bind m f)"
  unfolding keeps_def
proof
  fix s
  assume m: "\<forall>s. rel (st_db s) (st_db (snd (m s)))" and f: "\<And>x. \<forall>s. rel (st_db s) (st_db (snd (f x s)))"
  show "rel (st_db s) (st_db (snd (sq_bind m f s)))"
  proof (cases "m s")
    case (Pair r s1)
    then have r1: "rel (st_db s) (st_db s1)" using m [rule_format, of s] by simp
    show ?thesis
    proof (cases r)
      case (Inl e)
      then show ?thesis using Pair r1 by (simp add: sq_bind_def)
    next
      case (Inr x)
      then show ?thesis using Pair rel_trans [OF r1 f [rule_format, of s1 x]] by (simp add: sq_bind_def)
    qed
  qed
qed

lemma keeps_stmt: "(\<And>t d r d'. f t d = Inr (r, d') \<Longrightarrow> rel d d') \<Longrightarrow> keeps (stmt env f)"
  unfolding keeps_def
proof
  fix s
  assume f: "\<And>t d r d'. f t d = Inr (r, d') \<Longrightarrow> rel d d'"
  show "rel (st_db s) (st_db (snd (stmt env f s)))"
  proof (cases "f (st_tick s) (st_db s)")
    case (Inl e)
    then show ?thesis by (simp add: stmt_def Let_def rel_refl)
  next
    case (Inr x)
    obtain r d' where x: "x = (r, d')" by (cases x)
    then have "rel (st_db s) d'" using f Inr by blast
    then show ?thesis using Inr x by (simp add: stmt_def Let_def rel_refl)
  qed
qed

lemma keeps_tx: "keeps body \<Longrightarrow> keeps (sq_tx env body)"
proof -
  assume b: "keeps body"
  let ?m = "sq_bind (stmt env (\<lambda>_ d. Inr ((), d)))
             (\<lambda>_. sq_bind body
               (\<lambda>(x, commit).
                 if commit then sq_bind (stmt env (\<lambda>_ d. Inr ((), d))) (\<lambda>_. sq_return (x, True))
                 else sq_return (x, False)))"
  have "keeps (stmt env (\<lambda>_ d. Inr ((), d)))" by (rule keeps_stmt) (auto simp: rel_refl)
  then have "keeps ?m" using b by (intro keeps_bind) (auto intro: keeps_bind keeps_return split: prod.splits)
  then have m: "rel (st_db s) (st_db (snd (?m s)))" for s by (simp add: keeps_def)
  show ?thesis
    unfolding keeps_def
  proof
    fix s
    obtain r s' where ms: "?m s = (r, s')" by (cases "?m s")
    show "rel (st_db s) (st_db (snd (sq_tx env body s)))"
    proof (cases r)
      case (Inl e)
      then have "snd (sq_tx env body s) = s'\<lparr>st_db := st_db s\<rparr>"
        unfolding sq_tx_def by (subst ms) simp
      then show ?thesis by (simp add: rel_refl)
    next
      case (Inr x)
      obtain y c where x: "x = (y, c)" by (cases x)
      have "snd (sq_tx env body s) = (if c then s' else s'\<lparr>st_db := st_db s\<rparr>)"
        unfolding sq_tx_def by (subst ms) (simp add: Inr x)
      then show ?thesis using m [of s] ms by (simp add: rel_refl)
    qed
  qed
qed

lemma keeps_select: "keeps (stmt env (\<lambda>t d. Inr (g t d, d)))"
  by (rule keeps_stmt) (auto simp: rel_refl)

end

text \<open>The statements of the repositories, one law each.\<close>

locale db_relation = db_preorder +
  assumes rel_jobs: "(\<And>r. p r \<Longrightarrow> job_kept r (f r)) \<Longrightarrow>
        rel d (d\<lparr>db_jobs := map (\<lambda>r. if p r then f r else r) (db_jobs d)\<rparr>)"
    and rel_memory: "(\<And>m. mem_job_id (g m) = mem_job_id m \<and> mem_revision m \<le> mem_revision (g m)) \<Longrightarrow>
        rel d (d\<lparr>db_memory := map (\<lambda>m. if q m then g m else m) (db_memory d)\<rparr>)"
    and rel_checkpoints: "log_ok d (db_checkpoints d) checkpoint_types (log_id l) (log_job_id l) (log_type l) \<Longrightarrow>
        rel d (d\<lparr>db_checkpoints := db_checkpoints d @ [l]\<rparr>)"
    and rel_events: "log_ok d (db_events d) event_types (log_id l) (log_job_id l) (log_type l) \<Longrightarrow>
        rel d (d\<lparr>db_events := db_events d @ [l]\<rparr>)"
    and rel_insert: "job_exists d (row_job_id row) \<Longrightarrow> \<not> (\<exists>r \<in> set (db_runs d). row_id r = row_id row \<or>
          (row_job_id r = row_job_id row \<and> row_workflow_id r = row_workflow_id row \<and>
           row_node_id r = row_node_id row \<and> row_attempt r = row_attempt row)) \<Longrightarrow>
        rel d (d\<lparr>db_runs := db_runs d @ [row]\<rparr>)"
    and rel_update: "(\<And>r. p' r \<Longrightarrow> row_status r = ''running'' \<or> row_status r = ''waiting'') \<Longrightarrow>
        (\<And>r. row_id (f' r) = row_id r \<and> row_job_id (f' r) = row_job_id r \<and> row_workflow_id (f' r) = row_workflow_id r \<and>
          row_node_id (f' r) = row_node_id r \<and> row_attempt (f' r) = row_attempt r) \<Longrightarrow>
        rel d (d\<lparr>db_runs := map (\<lambda>r. if p' r then f' r else r) (db_runs d)\<rparr>)"
begin

lemma keeps_update_jobs: "(\<And>now r. p r \<Longrightarrow> job_kept r (f now r)) \<Longrightarrow> keeps (update_jobs env p f)"
  unfolding update_jobs_def
  by (rule keeps_stmt) (auto simp: update_rows_def Let_def intro!: rel_jobs)

lemma keeps_update_memory: "keeps (update_memory env j v)"
  unfolding update_memory_def
  by (rule keeps_stmt) (auto simp: update_rows_def Let_def intro!: rel_memory)

lemma keeps_update_runs:
  assumes "\<And>r. p r \<Longrightarrow> row_status r = ''running'' \<or> row_status r = ''waiting''"
    and "\<And>now r. row_id (f now r) = row_id r \<and> row_job_id (f now r) = row_job_id r \<and>
      row_workflow_id (f now r) = row_workflow_id r \<and> row_node_id (f now r) = row_node_id r \<and>
      row_attempt (f now r) = row_attempt r"
  shows "keeps (update_runs env p f)"
  unfolding update_runs_def
proof (rule keeps_stmt)
  fix t r and d d' :: database
  assume "(let (n, rows) = update_rows p (f (ev_now env t)) (db_runs d) in Inr (n, d\<lparr>db_runs := rows\<rparr>)) =
      (Inr (r, d') :: state_error + _)"
  then have "d' = d\<lparr>db_runs := map (\<lambda>r. if p r then f (ev_now env t) r else r) (db_runs d)\<rparr>"
    by (auto simp: update_rows_def)
  then show "rel d d'" using rel_update [of p "f (ev_now env t)" d] assms by simp
qed

lemma keeps_checkpoint: "keeps (insert_checkpoint env j step typ v)"
  unfolding insert_checkpoint_def by (rule keeps_stmt) (auto intro: rel_checkpoints split: if_splits)

lemma keeps_event: "keeps (insert_event env j typ step v)"
  unfolding insert_event_def by (rule keeps_stmt) (auto intro: rel_events split: if_splits)

lemma keeps_insert_run: "keeps (insert_run env j w node attempt provenance)"
  unfolding insert_run_def
proof (rule keeps_stmt)
  fix t r and d d' :: database
  assume "(if job_exists d j \<and>
          \<not> (\<exists>r \<in> set (db_runs d). row_id r = ev_uuid env t \<or>
               (row_job_id r = j \<and> row_workflow_id r = w \<and> row_node_id r = node \<and> row_attempt r = attempt))
       then (let row = new_run_row (ev_uuid env t) (ev_now env t) j w node attempt provenance
             in Inr (row, d\<lparr>db_runs := db_runs d @ [row]\<rparr>))
       else Inl DbError) = Inr (r, d')"
  then show "rel d d'"
    by (auto simp: Let_def new_run_row_def intro!: rel_insert split: if_splits)
qed

lemmas keeps_intros =
  keeps_return keeps_fail keeps_of keeps_guard keeps_bind keeps_tx keeps_select keeps_update_jobs
  keeps_update_memory keeps_update_runs keeps_checkpoint keeps_event keeps_insert_run

lemma keeps_install: "keeps (install_workflow env cd j u w)"
  unfolding install_workflow_def by (intro keeps_intros) (simp_all add: job_kept_simps)

lemma keeps_load: "keeps (load_workflow env cd j u)"
  unfolding load_workflow_def by (intro keeps_intros) (auto intro: keeps_intros split: option.splits)

lemma keeps_load_pending: "keeps (load_pending_clarification env cd j)"
  unfolding load_pending_clarification_def by (intro keeps_intros) (auto intro: keeps_intros split: option.splits)

lemma keeps_node_runs: "keeps (node_runs env j w)"
  unfolding node_runs_def by (intro keeps_intros)

lemma keeps_begin: "keeps (begin_node env cd j w node attempt v)"
  unfolding begin_node_def by (intro keeps_intros)

lemma keeps_complete: "keeps (complete_node env cd run output rows ms)"
  unfolding complete_node_def Let_def by (intro keeps_intros) auto

lemma keeps_branch: "keeps (record_branch_decision env cd j w node c)"
  unfolding record_branch_decision_def by (intro keeps_intros)

lemma keeps_drop: "keeps (record_sensitivity_drop env cd j w node dropped)"
  unfolding record_sensitivity_drop_def by (auto intro: keeps_intros)

lemma keeps_fail_node: "keeps (fail_node env run ms)"
  unfolding fail_node_def by (intro keeps_intros) auto

lemma keeps_pause: "keeps (mark_workflow_paused env cd j u w node c)"
  unfolding mark_workflow_paused_def by (intro keeps_intros) (auto simp: pause_row_def job_kept_simps)

lemma keeps_resume: "keeps (resume env cd rq)"
  unfolding resume_def resume_writes_def
  by (intro keeps_tx keeps_bind keeps_select)
    (auto intro!: keeps_intros simp: job_kept_simps split: option.splits)

lemma keeps_add_budget: "keeps (add_budget_consumed env j q r m)"
  unfolding add_budget_consumed_def by (intro keeps_intros) (simp_all add: job_kept_simps del: jsonb_set.simps)

lemmas keeps_operations =
  keeps_install keeps_load keeps_load_pending keeps_node_runs keeps_begin keeps_complete keeps_branch
  keeps_drop keeps_fail_node keeps_pause keeps_resume keeps_add_budget

end

text \<open>Rows in a final status are never touched again.\<close>

definition final_row :: "node_run_row \<Rightarrow> bool" where
  "final_row r \<longleftrightarrow> row_status r \<noteq> ''running'' \<and> row_status r \<noteq> ''waiting''"

definition final_kept :: "database \<Rightarrow> database \<Rightarrow> bool" where
  "final_kept d d' \<longleftrightarrow> (\<forall>r \<in> set (db_runs d). final_row r \<longrightarrow> r \<in> set (db_runs d'))"

interpretation final: db_relation final_kept
proof unfold_locales
  fix p :: "node_run_row \<Rightarrow> bool" and f :: "node_run_row \<Rightarrow> node_run_row" and d :: database
  assume p: "\<And>r. p r \<Longrightarrow> row_status r = ''running'' \<or> row_status r = ''waiting''"
  show "final_kept d (d\<lparr>db_runs := map (\<lambda>r. if p r then f r else r) (db_runs d)\<rparr>)"
    unfolding final_kept_def
  proof (intro ballI impI)
    fix r assume "r \<in> set (db_runs d)" and "final_row r"
    moreover from this have "\<not> p r" using p by (auto simp: final_row_def)
    ultimately show "r \<in> set (db_runs (d\<lparr>db_runs := map (\<lambda>r. if p r then f r else r) (db_runs d)\<rparr>))"
      by (auto simp: image_iff intro!: bexI [of _ r])
  qed
qed (auto simp: final_kept_def)

text \<open>The key of a node run: the constraint \<open>UNIQUE (job_id, workflow_id, node_id, attempt)\<close>.\<close>

definition run_key :: "node_run_row \<Rightarrow> uuid \<times> uuid \<times> string \<times> int" where
  "run_key r = (row_job_id r, row_workflow_id r, row_node_id r, row_attempt r)"

definition unique_runs :: "database \<Rightarrow> bool" where
  "unique_runs d \<longleftrightarrow> distinct (map row_id (db_runs d)) \<and> distinct (map run_key (db_runs d))"

definition unique_kept :: "database \<Rightarrow> database \<Rightarrow> bool" where
  "unique_kept d d' \<longleftrightarrow> (unique_runs d \<longrightarrow> unique_runs d')"

interpretation uniq: db_relation unique_kept
proof unfold_locales
  fix p :: "node_run_row \<Rightarrow> bool" and f :: "node_run_row \<Rightarrow> node_run_row" and d :: database
  assume f: "\<And>r. row_id (f r) = row_id r \<and> row_job_id (f r) = row_job_id r \<and> row_workflow_id (f r) = row_workflow_id r \<and>
          row_node_id (f r) = row_node_id r \<and> row_attempt (f r) = row_attempt r"
  have "row_id \<circ> (\<lambda>r. if p r then f r else r) = row_id" and "run_key \<circ> (\<lambda>r. if p r then f r else r) = run_key"
    using f by (auto simp: run_key_def fun_eq_iff)
  then show "unique_kept d (d\<lparr>db_runs := map (\<lambda>r. if p r then f r else r) (db_runs d)\<rparr>)"
    by (simp add: unique_kept_def unique_runs_def)
qed (auto simp: unique_kept_def unique_runs_def run_key_def)

section \<open>Sequences of operations\<close>

text \<open>Any interleaving of whole repository operations, with any arguments and any failures.\<close>

inductive repo_step :: "env \<Rightarrow> codec \<Rightarrow> store \<Rightarrow> store \<Rightarrow> bool" for env cd where
  Install: "repo_step env cd s (snd (install_workflow env cd j u w s))"
| LoadRuns: "repo_step env cd s (snd (node_runs env j w s))"
| Begin: "repo_step env cd s (snd (begin_node env cd j w node attempt v s))"
| Finish: "repo_step env cd s (snd (complete_node env cd run output rows ms s))"
| Branch: "repo_step env cd s (snd (record_branch_decision env cd j w node c s))"
| Drop: "repo_step env cd s (snd (record_sensitivity_drop env cd j w node dropped s))"
| Abort: "repo_step env cd s (snd (fail_node env run ms s))"
| Pause: "repo_step env cd s (snd (mark_workflow_paused env cd j u w node payload s))"
| Resume: "repo_step env cd s (snd (resume env cd rq s))"
| Spend: "repo_step env cd s (snd (add_budget_consumed env j q r ms s))"

context db_relation begin

lemma step_rel: "repo_step env cd s s' \<Longrightarrow> rel (st_db s) (st_db s')"
  by (induction rule: repo_step.induct) (use keeps_operations in \<open>auto simp: keeps_def\<close>)

lemma steps_rel: "(repo_step env cd)\<^sup>*\<^sup>* s s' \<Longrightarrow> rel (st_db s) (st_db s')"
  by (induction rule: rtranclp_induct) (auto intro: rel_refl rel_trans step_rel)

end

end
