(* ===== verification/StateProps.thy ===== *)
theory StateProps
  imports StateFacts Samples
begin

text \<open>The properties of the durable state, with the small database they are applied to.\<close>

section \<open>A sample database\<close>

definition sample_env :: env where
  "sample_env = \<lparr>ev_fault = (\<lambda>_. False), ev_uuid = (\<lambda>t. 100 + t), ev_now = (\<lambda>t. t)\<rparr>"

definition sample_payload :: clarification_payload where
  "sample_payload =
     \<lparr>cp_version = 1, cp_id = 77, cp_revision = 0, cp_kind = CollectFields, cp_question = [], cp_options = [],
      cp_fields = [], cp_attempt = 0, cp_source_intent = None, cp_allow_free_text = False,
      cp_is_missing_execution_parameters = False, cp_workflow_id = None, cp_node_id = None,
      cp_resume_node_id = None, cp_entity_kind = None\<rparr>"

definition sample_codec :: codec where
  "sample_codec =
     \<lparr>cd_workflow_to = (\<lambda>w. json_int (int (ew_id w))), cd_workflow_from = (\<lambda>_. None),
      cd_payload_to = (\<lambda>p. json_int (int (cp_id p))),
      cd_payload_from = (\<lambda>v. map_option (\<lambda>i. sample_payload\<lparr>cp_id := nat i\<rparr>) (as_i64 v)),
      cd_uuid = (\<lambda>i. if i = 7 then ''w'' else ''c'')\<rparr>"

definition sample_job :: job_row where
  "sample_job =
     \<lparr>job_id = 5, job_session_id = 3, job_user_id = Some 11, job_api_key_id = None, job_user_message_id = None,
      job_status = ''running'', job_step = ''executing_node'', job_resume_step = None, job_message = ''Loans?'',
      job_state = obj_of [(''workflow_runtime'', obj_of
        [(''note'', JBool True),
         (''budget_consumed'', obj_of [(''queries'', json_int 3), (''rows'', json_int 40), (''ms'', json_int 500)])])],
      job_state_revision = 0, job_result = None, job_error = None, job_created = 0, job_updated = 0,
      job_expires = 60, job_completed = None, job_failed = None, job_cancelled = None,
      job_workflow_id = Some 7, job_contract_version = Some 1, job_revision = 4, job_current_node = None\<rparr>"

definition sample_memory :: memory_row where
  "sample_memory =
     \<lparr>mem_job_id = 5, mem_graph_state = ''receive_message'', mem_terminal_state = None, mem_metadata = obj_of [],
      mem_intent = None, mem_source_intent = None, mem_retrieval_plan = obj_of [], mem_evidence = obj_of [],
      mem_decision = obj_of [], mem_capability = None, mem_tool = None, mem_params = obj_of [], mem_policy = obj_of [],
      mem_summary = obj_of [], mem_response = None, mem_pending = None, mem_warnings = JArray [], mem_revision = 0\<rparr>"

definition sample_session :: session_row where
  "sample_session =
     \<lparr>ses_id = 3, ses_user_id = Some 11, ses_api_key_id = None, ses_title = None, ses_status = ''active'',
      ses_context = obj_of [], ses_created = 0, ses_updated = 0, ses_expires = None, ses_archived = None\<rparr>"

definition sample_db :: "job_row list \<Rightarrow> node_run_row list \<Rightarrow> database" where
  "sample_db jobs runs =
     \<lparr>db_users = [11], db_sessions = [sample_session], db_messages = [], db_jobs = jobs, db_runs = runs,
      db_memory = [sample_memory], db_session_memory = [], db_checkpoints = [], db_events = [], db_graph = [], db_outbox = [], db_audit = []\<rparr>"

definition sample_store :: store where
  "sample_store =
     \<lparr>st_db = sample_db [sample_job] [new_run_row 1 0 5 7 ''ask'' 0 JNull], st_tick = 0\<rparr>"

lemma sample_store_simps:
  "db_jobs (st_db sample_store) = [sample_job]" "job_id sample_job = 5" "job_user_id sample_job = Some 11"
  "job_workflow_id sample_job = Some 7"
  by (simp_all add: sample_store_def sample_db_def sample_job_def)

definition sample_paused :: store where
  "sample_paused = snd (mark_workflow_paused sample_env sample_codec 5 11 7 ''ask'' sample_payload sample_store)"

definition sample_answer :: resume_request where
  "sample_answer =
     \<lparr>rq_job_id = 5, rq_user_id = 11, rq_workflow_id = 7, rq_node_id = ''ask'', rq_clarification_id = 77,
      rq_workflow_revision = 5, rq_selected_value = json_int 9\<rparr>"

definition sample_resumed :: store where
  "sample_resumed = snd (resume sample_env sample_codec sample_answer sample_paused)"

lemma sample_pauses:
  "mark_workflow_paused sample_env sample_codec 5 11 7 ''ask'' sample_payload sample_store = (Inr (), sample_paused)"
proof -
  have "fst (mark_workflow_paused sample_env sample_codec 5 11 7 ''ask'' sample_payload sample_store) = Inr ()"
    by code_simp
  then show ?thesis by (simp add: sample_paused_def prod_eq_iff)
qed

lemma sample_resumes: "resume sample_env sample_codec sample_answer sample_paused = (Inr Resumed, sample_resumed)"
proof -
  have "fst (resume sample_env sample_codec sample_answer sample_paused) = Inr Resumed" by code_simp
  then show ?thesis by (simp add: sample_resumed_def prod_eq_iff)
qed

section \<open>History\<close>

text \<open>
  C7: The history of a run is append-only.  Whatever operations the repository performs, with any
  arguments and whichever statements fail, a node run that has completed, failed or been skipped is
  never changed or removed, and the keys of the node runs stay unique.
\<close>

theorem final_runs_immutable:
  assumes "(repo_step env cd)\<^sup>*\<^sup>* s s'"
  shows "(\<forall>r \<in> set (db_runs (st_db s)). final_row r \<longrightarrow> r \<in> set (db_runs (st_db s'))) \<and>
    (unique_runs (st_db s) \<longrightarrow> unique_runs (st_db s'))"
  using final.steps_rel [OF assms] uniq.steps_rel [OF assms]
  by (simp add: final_kept_def unique_kept_def)

lemma sample_steps: "(repo_step sample_env sample_codec)\<^sup>*\<^sup>* sample_store sample_resumed"
proof -
  have "repo_step sample_env sample_codec sample_store sample_paused"
    unfolding sample_paused_def by (rule repo_step.Pause)
  moreover have "repo_step sample_env sample_codec sample_paused sample_resumed"
    unfolding sample_resumed_def by (rule repo_step.Resume)
  ultimately show ?thesis by simp
qed

theorem final_runs_immutable_witness: "unique_runs (st_db sample_resumed)"
proof -
  have "unique_runs (st_db sample_store)" by (simp add: unique_runs_def sample_store_def sample_db_def)
  with final_runs_immutable [OF sample_steps] show ?thesis by blast
qed

section \<open>Pausing\<close>

definition pause_job :: "codec \<Rightarrow> uuid \<Rightarrow> node_id \<Rightarrow> clarification_payload \<Rightarrow> nat \<Rightarrow> job_row \<Rightarrow> job_row" where
  "pause_job cd w node c now r =
     r\<lparr>job_status := ''waiting_for_user_input'', job_step := ''waiting_for_user_input'',
       job_current_node := Some node, job_revision := job_revision r + 1,
       job_state := jsonb_concat (job_state r) (obj_of [(''workflow_runtime'', pause_runtime cd node (cp_id c) w)]),
       job_updated := now\<rparr>"

lemma pause_Inr:
  assumes "mark_workflow_paused env cd j u w node c s = (Inr (), s')"
  shows "length (filter (pause_row j w node) (db_runs (st_db s))) = 1"
    and "db_runs (st_db s') = map (\<lambda>r. if pause_row j w node r then r\<lparr>row_status := ''waiting''\<rparr> else r) (db_runs (st_db s))"
    and "length (filter (\<lambda>r. job_id r = j \<and> job_user_id r = Some u \<and> job_workflow_id r = Some w) (db_jobs (st_db s))) = 1"
    and "db_jobs (st_db s') = map (\<lambda>r. if job_id r = j \<and> job_user_id r = Some u \<and> job_workflow_id r = Some w
           then pause_job cd w node c (ev_now env (Suc (Suc (st_tick s)))) r else r) (db_jobs (st_db s))"
    and "db_memory (st_db s') = map (\<lambda>m. if mem_job_id m = j then m\<lparr>mem_pending := Some (cd_payload_to cd c)\<rparr> else m) (db_memory (st_db s))"
  using assms
  by (auto simp: mark_workflow_paused_def pause_job_def sq_iffs elim!: tx_Inr)

text \<open>
  C8: Pausing is atomic.  If any statement of the pause fails, or the node was not running, or the
  job is not the user's, the database is unchanged; if it succeeds, exactly one run of the node went
  from running to waiting and the job waits at that node, in a new revision, with the clarification
  pending.
\<close>

theorem pause_atomic:
  assumes "mark_workflow_paused env cd j u w node c s = (r, s')"
  shows "(r \<noteq> Inr () \<longrightarrow> st_db s' = st_db s) \<and>
    (r = Inr () \<longrightarrow>
      length (filter (pause_row j w node) (db_runs (st_db s))) = 1 \<and>
      db_runs (st_db s') = map (\<lambda>r. if pause_row j w node r then r\<lparr>row_status := ''waiting''\<rparr> else r) (db_runs (st_db s)) \<and>
      (\<exists>old \<in> set (db_jobs (st_db s)). \<exists>new \<in> set (db_jobs (st_db s')). job_id old = j \<and> job_user_id old = Some u \<and>
         job_id new = j \<and> job_status new = ''waiting_for_user_input'' \<and> job_current_node new = Some node \<and>
         job_workflow_id new = Some w \<and> job_revision new = job_revision old + 1) \<and>
      (\<forall>m \<in> set (db_memory (st_db s')). mem_job_id m = j \<longrightarrow> mem_pending m = Some (cd_payload_to cd c)))"
proof (cases r)
  case (Inl e)
  then show ?thesis using assms tx_error by (auto simp: mark_workflow_paused_def)
next
  case (Inr u')
  then have r: "r = Inr ()" by simp
  note p = pause_Inr [OF assms [unfolded r]]
  have "filter (\<lambda>r. job_id r = j \<and> job_user_id r = Some u \<and> job_workflow_id r = Some w) (db_jobs (st_db s)) \<noteq> []"
    using p(3) by auto
  then obtain old where old: "old \<in> set (db_jobs (st_db s))" "job_id old = j" "job_user_id old = Some u" "job_workflow_id old = Some w"
    by (auto simp: filter_empty_conv)
  have "\<exists>new \<in> set (db_jobs (st_db s')). job_id new = j \<and> job_status new = ''waiting_for_user_input'' \<and>
      job_current_node new = Some node \<and> job_workflow_id new = Some w \<and> job_revision new = job_revision old + 1"
  proof -
    have "pause_job cd w node c (ev_now env (Suc (Suc (st_tick s)))) old \<in> set (db_jobs (st_db s'))"
      unfolding p(4) using update_rows_in [of old _ "\<lambda>r. job_id r = j \<and> job_user_id r = Some u \<and> job_workflow_id r = Some w"] old by simp
    then show ?thesis using old by (intro bexI) (auto simp: pause_job_def)
  qed
  then have "\<exists>old \<in> set (db_jobs (st_db s)). \<exists>new \<in> set (db_jobs (st_db s')). job_id old = j \<and> job_user_id old = Some u \<and>
         job_id new = j \<and> job_status new = ''waiting_for_user_input'' \<and> job_current_node new = Some node \<and>
         job_workflow_id new = Some w \<and> job_revision new = job_revision old + 1"
    using old by (simp add: Bex_def) blast
  moreover have "\<forall>m \<in> set (db_memory (st_db s')). mem_job_id m = j \<longrightarrow> mem_pending m = Some (cd_payload_to cd c)"
    unfolding p(5) set_map ball_simps by simp
  ultimately show ?thesis using r p(1,2) by simp
qed

theorem pause_atomic_witness:
  "\<exists>new \<in> set (db_jobs (st_db sample_paused)). job_status new = ''waiting_for_user_input'' \<and> job_current_node new = Some ''ask''"
  using pause_atomic [OF sample_pauses] by blast

section \<open>Resuming\<close>

definition resume_job :: "resume_request \<Rightarrow> nat \<Rightarrow> job_row \<Rightarrow> job_row" where
  "resume_job rq now r = r\<lparr>job_status := ''queued'', job_step := ''executing_node'', job_current_node := Some (rq_node_id rq),
     job_revision := job_revision r + 1,
     job_state := jsonb_concat (job_state r)
       (obj_of [(''workflow_runtime'',
          obj_of [(''selected_value'', rq_selected_value rq),
                  (''resumed_from_node_id'', JString (rq_node_id rq))])]),
     job_updated := now\<rparr>"

lemma resume_writes_Inr:
  assumes "resume_writes env cd rq s = (Inr (), s')"
  shows "length (filter (\<lambda>r. job_id r = rq_job_id rq) (db_jobs (st_db s))) = 1"
    and "db_jobs (st_db s') = map (\<lambda>r. if job_id r = rq_job_id rq then resume_job rq (ev_now env (st_tick s)) r else r) (db_jobs (st_db s))"
    and "db_runs (st_db s') = map (\<lambda>r. if row_job_id r = rq_job_id rq \<and> row_workflow_id r = rq_workflow_id rq \<and>
           row_node_id r = rq_node_id rq \<and> row_status r = ''waiting''
           then r\<lparr>row_status := ''completed'', row_finished := Some (ev_now env (Suc (st_tick s)))\<rparr> else r) (db_runs (st_db s))"
    and "db_memory (st_db s') = map (\<lambda>m. if mem_job_id m = rq_job_id rq then m\<lparr>mem_pending := None\<rparr> else m) (db_memory (st_db s))"
  using assms
  by (auto simp: resume_writes_def resume_job_def sq_iffs)

lemma resume_Inr:
  assumes "resume env cd rq s = (Inr out, s')"
  shows "(out = Resumed \<and> (\<exists>row pending s1 s2. resume_target (rq_job_id rq) (rq_user_id rq) (st_db s) = Some (row, pending) \<and>
        job_status row = ''waiting_for_user_input'' \<and> resume_matches cd rq row pending \<and>
        st_db s1 = st_db s \<and> resume_writes env cd rq s1 = (Inr (), s2) \<and> st_db s' = st_db s2)) \<or>
    (out = NotFound \<and> resume_target (rq_job_id rq) (rq_user_id rq) (st_db s) = None \<and> st_db s' = st_db s) \<or>
    (\<exists>row pending. resume_target (rq_job_id rq) (rq_user_id rq) (st_db s) = Some (row, pending) \<and> st_db s' = st_db s \<and>
       (out = NotWaiting \<and> job_status row \<noteq> ''waiting_for_user_input'' \<or>
        out = Stale \<and> job_status row = ''waiting_for_user_input'' \<and> \<not> resume_matches cd rq row pending))"
proof -
  let ?s = "s\<lparr>st_tick := Suc (st_tick s)\<rparr>"
  obtain s1 commit where b: "sq_bind (stmt env (\<lambda>_ d. Inr (resume_target (rq_job_id rq) (rq_user_id rq) d, d))) (\<lambda>target.
          case target of
            None \<Rightarrow> sq_return (NotFound, False)
          | Some (r, pending) \<Rightarrow>
              if job_status r \<noteq> ''waiting_for_user_input'' then sq_return (NotWaiting, False)
              else if \<not> resume_matches cd rq r pending then sq_return (Stale, False)
              else sq_bind (resume_writes env cd rq) (\<lambda>_. sq_return (Resumed, True))) ?s = (Inr (out, commit), s1)"
    and s': "st_db s' = (if commit then st_db s1 else st_db s)"
    by (rule tx_Inr [OF assms [unfolded resume_def]])
  define s0 where "s0 = ?s\<lparr>st_tick := Suc (st_tick ?s), st_db := st_db s\<rparr>"
  have db0: "st_db s0 = st_db s" by (simp add: s0_def)
  show ?thesis
  proof (cases "resume_target (rq_job_id rq) (rq_user_id rq) (st_db s)")
    case None
    then show ?thesis using b s' by (auto simp: sq_bind_Inr_iff stmt_Inr_iff)
  next
    case (Some rp)
    obtain row pending where rp: "rp = (row, pending)" by (cases rp)
    have b': "(if job_status row \<noteq> ''waiting_for_user_input'' then sq_return (NotWaiting, False)
              else if \<not> resume_matches cd rq row pending then sq_return (Stale, False)
              else sq_bind (resume_writes env cd rq) (\<lambda>_. sq_return (Resumed, True))) s0 = (Inr (out, commit), s1)"
      using b Some rp by (auto simp: sq_bind_Inr_iff stmt_Inr_iff s0_def)
    show ?thesis
    proof (cases "job_status row = ''waiting_for_user_input'' \<and> resume_matches cd rq row pending")
      case True
      with b' obtain s2 where "resume_writes env cd rq s0 = (Inr (), s2)" "out = Resumed" "commit" "s1 = s2"
        by (auto simp: sq_bind_Inr_iff)
      then show ?thesis using Some rp True db0 s' by auto
    next
      case False
      then show ?thesis using b' Some rp s' by (auto split: if_splits)
    qed
  qed
qed

text \<open>
  A clarification answer continues exactly the workflow it was asked for.  The resume changes
  the database only when the job belongs to the user, waits for input, and its workflow, revision,
  current node and pending clarification are all those of the request; otherwise, and when any
  statement fails, nothing changes and the outcome names the mismatch.
\<close>

theorem resume_identity:
  assumes "resume env cd rq s = (r, s')"
  shows "(r = Inr Resumed \<longrightarrow>
      (\<exists>row \<in> set (db_jobs (st_db s)). \<exists>pending p. job_id row = rq_job_id rq \<and> job_user_id row = Some (rq_user_id rq) \<and>
         job_status row = ''waiting_for_user_input'' \<and> job_workflow_id row = Some (rq_workflow_id rq) \<and>
         job_revision row = rq_workflow_revision rq \<and> job_current_node row = Some (rq_node_id rq) \<and>
         pending_of (st_db s) (rq_job_id rq) = Some pending \<and> cd_payload_from cd pending = Some p \<and>
         cp_id p = rq_clarification_id rq \<and>
         (\<exists>now. resume_job rq now row \<in> set (db_jobs (st_db s'))))) \<and>
    (r \<noteq> Inr Resumed \<longrightarrow> st_db s' = st_db s) \<and>
    (r = Inr NotFound \<longrightarrow> \<not> (\<exists>row \<in> set (db_jobs (st_db s)). job_id row = rq_job_id rq \<and> job_user_id row = Some (rq_user_id rq)))"
proof (cases r)
  case (Inl e)
  then show ?thesis using assms tx_error by (auto simp: resume_def)
next
  case (Inr out)
  note cases = resume_Inr [OF assms [unfolded Inr]]
  have keep: "st_db s' = st_db s" if "out \<noteq> Resumed" using cases that by blast
  have missing: "\<not> (\<exists>row \<in> set (db_jobs (st_db s)). job_id row = rq_job_id rq \<and> job_user_id row = Some (rq_user_id rq))"
    if "out = NotFound"
    using cases that by (auto simp: resume_target_def find_None_iff_all)
  have finished: "\<exists>row \<in> set (db_jobs (st_db s)). \<exists>pending p. job_id row = rq_job_id rq \<and> job_user_id row = Some (rq_user_id rq) \<and>
         job_status row = ''waiting_for_user_input'' \<and> job_workflow_id row = Some (rq_workflow_id rq) \<and>
         job_revision row = rq_workflow_revision rq \<and> job_current_node row = Some (rq_node_id rq) \<and>
         pending_of (st_db s) (rq_job_id rq) = Some pending \<and> cd_payload_from cd pending = Some p \<and>
         cp_id p = rq_clarification_id rq \<and>
         (\<exists>now. resume_job rq now row \<in> set (db_jobs (st_db s')))"
    if res: "out = Resumed"
  proof -
    obtain row pending s1 s2 where t: "resume_target (rq_job_id rq) (rq_user_id rq) (st_db s) = Some (row, pending)"
      and w: "job_status row = ''waiting_for_user_input''" and m: "resume_matches cd rq row pending"
      and s1: "st_db s1 = st_db s" "resume_writes env cd rq s1 = (Inr (), s2)" "st_db s' = st_db s2"
      using cases res by auto
    from t have row: "row \<in> set (db_jobs (st_db s))" "job_id row = rq_job_id rq" "job_user_id row = Some (rq_user_id rq)"
      and mem: "pending = pending_of (st_db s) (job_id row)"
      by (auto simp: resume_target_def dest: find_SomeD)
    from m obtain v p where v: "pending = Some v" "cd_payload_from cd v = Some p" "cp_id p = rq_clarification_id rq"
      by (auto simp: resume_matches_def bind_eq_Some_conv split: option.splits)
    then have "pending_of (st_db s) (rq_job_id rq) = Some v"
      using mem row(2) by simp
    moreover have "(\<exists>now. resume_job rq now row \<in> set (db_jobs (st_db s')))"
      using resume_writes_Inr(2) [OF s1(2)] s1(1,3) row by (auto intro!: image_eqI [of _ _ row])
    ultimately show ?thesis using row w m v by (auto simp: resume_matches_def)
  qed
  show ?thesis using Inr keep missing finished by blast
qed

theorem resume_identity_witness:
  "\<exists>row \<in> set (db_jobs (st_db sample_paused)). job_id row = 5 \<and> job_current_node row = Some ''ask'' \<and>
     (\<exists>now. resume_job sample_answer now row \<in> set (db_jobs (st_db sample_resumed)))"
  using resume_identity [OF sample_resumes, THEN conjunct1] by (auto simp: sample_answer_def)



section \<open>The budget ledger\<close>

lemma filter_map_other:
  "(\<And>x. g (f x) = g x) \<Longrightarrow>
     filter (\<lambda>x. g x \<noteq> j) (map (\<lambda>x. if g x = j then f x else x) xs) = filter (\<lambda>x. g x \<noteq> j) xs"
  by (induction xs) auto

lemma ledger_path:
  "ledger v k = (case json_path v [''workflow_runtime'', ''budget_consumed''] of
     None \<Rightarrow> 0 | Some c \<Rightarrow> (case Option.bind (json_get c k) as_i64 of None \<Rightarrow> 0 | Some i \<Rightarrow> i))"
  by (auto simp: ledger_def split: option.splits)

lemma ledger_set:
  assumes "json_path v [''workflow_runtime''] = Some (JObject rt)" and "q \<le> 9223372036854775807"
    and "r \<le> 9223372036854775807" and "m \<le> 9223372036854775807"
    and "v' = jsonb_set v [''workflow_runtime'', ''budget_consumed'']
      (obj_of [(''queries'', json_int q), (''rows'', json_int r), (''ms'', json_int m)])"
  shows "ledger v' ''queries'' = q" and "ledger v' ''rows'' = r" and "ledger v' ''ms'' = m"
    and "k \<noteq> ''budget_consumed'' \<Longrightarrow> json_path v' [''workflow_runtime'', k] = json_path v [''workflow_runtime'', k]"
proof -
  have "json_path v' ([''workflow_runtime''] @ [''budget_consumed'']) =
      Some (obj_of [(''queries'', json_int q), (''rows'', json_int r), (''ms'', json_int m)])"
    unfolding assms(5) using json_path_jsonb_set_same [OF assms(1)] by simp
  then have p: "json_path v' [''workflow_runtime'', ''budget_consumed''] =
      Some (obj_of [(''queries'', json_int q), (''rows'', json_int r), (''ms'', json_int m)])" by simp
  show "ledger v' ''queries'' = q" "ledger v' ''rows'' = r" "ledger v' ''ms'' = m"
    by (simp_all add: ledger_path p json_get_obj_of as_i64_json_int assms(2-4) del: json_path.simps)
  assume k: "k \<noteq> ''budget_consumed''"
  show "json_path v' [''workflow_runtime'', k] = json_path v [''workflow_runtime'', k]"
    using json_path_jsonb_set_sibling [OF assms(1) k, of _] assms(1)
    unfolding assms(5) by (auto simp: json_get_def split: option.splits json.splits)
qed

text \<open>
  The ledger accumulates: as long as the totals fit in 64 bits, spending adds each amount to
  the job's ledger, keeps every other field of its runtime state, and leaves all other jobs alone.
\<close>

theorem budget_accumulates:
  assumes "add_budget_consumed env j q r m s = (Inr (), s')" and "row \<in> set (db_jobs (st_db s))" and "job_id row = j"
    and "json_path (job_state row) [''workflow_runtime''] = Some (JObject rt)"
    and "ledger (job_state row) ''queries'' + q \<le> 9223372036854775807"
    and "ledger (job_state row) ''rows'' + r \<le> 9223372036854775807"
    and "ledger (job_state row) ''ms'' + m \<le> 9223372036854775807"
  shows "(\<exists>row' \<in> set (db_jobs (st_db s')). job_id row' = j \<and>
      ledger (job_state row') ''queries'' = ledger (job_state row) ''queries'' + q \<and>
      ledger (job_state row') ''rows'' = ledger (job_state row) ''rows'' + r \<and>
      ledger (job_state row') ''ms'' = ledger (job_state row) ''ms'' + m \<and>
      (\<forall>k. k \<noteq> ''budget_consumed'' \<longrightarrow>
         json_path (job_state row') [''workflow_runtime'', k] = json_path (job_state row) [''workflow_runtime'', k])) \<and>
    filter (\<lambda>o'. job_id o' \<noteq> j) (db_jobs (st_db s')) = filter (\<lambda>o'. job_id o' \<noteq> j) (db_jobs (st_db s))"
proof
  let ?now = "ev_now env (st_tick s)"
  define upd :: "job_row \<Rightarrow> job_row" where "upd = (\<lambda>x. x\<lparr>job_state := jsonb_set (job_state x) [''workflow_runtime'', ''budget_consumed'']
                  (obj_of [(''queries'', json_int (ledger (job_state x) ''queries'' + q)),
                           (''rows'', json_int (ledger (job_state x) ''rows'' + r)),
                           (''ms'', json_int (ledger (job_state x) ''ms'' + m))]), job_updated := ?now\<rparr>)"
  have jobs: "db_jobs (st_db s') = map (\<lambda>x. if job_id x = j then upd x else x) (db_jobs (st_db s))"
    using assms(1) by (auto simp: add_budget_consumed_def sq_iffs upd_def)
  have id: "job_id (upd x) = job_id x" for x by (simp add: upd_def)
  have new: "upd row \<in> set (db_jobs (st_db s'))" "job_id (upd row) = j"
    unfolding jobs using assms(2,3) id by (auto intro!: image_eqI [of _ _ row])
  have st: "job_state (upd row) = jsonb_set (job_state row) [''workflow_runtime'', ''budget_consumed'']
                  (obj_of [(''queries'', json_int (ledger (job_state row) ''queries'' + q)),
                           (''rows'', json_int (ledger (job_state row) ''rows'' + r)),
                           (''ms'', json_int (ledger (job_state row) ''ms'' + m))])"
    by (simp add: upd_def)
  note l = ledger_set [OF assms(4-7) st]
  show "\<exists>row' \<in> set (db_jobs (st_db s')). job_id row' = j \<and>
      ledger (job_state row') ''queries'' = ledger (job_state row) ''queries'' + q \<and>
      ledger (job_state row') ''rows'' = ledger (job_state row) ''rows'' + r \<and>
      ledger (job_state row') ''ms'' = ledger (job_state row) ''ms'' + m \<and>
      (\<forall>k. k \<noteq> ''budget_consumed'' \<longrightarrow>
         json_path (job_state row') [''workflow_runtime'', k] = json_path (job_state row) [''workflow_runtime'', k])"
    using new l by (intro bexI [of _ "upd row"]) blast+
  show "filter (\<lambda>o'. job_id o' \<noteq> j) (db_jobs (st_db s')) = filter (\<lambda>o'. job_id o' \<noteq> j) (db_jobs (st_db s))"
    unfolding jobs by (rule filter_map_other) (rule id)
qed

theorem budget_accumulates_witness:
  "\<exists>row' \<in> set (db_jobs (st_db (snd (add_budget_consumed sample_env 5 1 10 25 sample_store)))).
     ledger (job_state row') ''queries'' = 4 \<and> ledger (job_state row') ''rows'' = 50"
proof -
  have "fst (add_budget_consumed sample_env 5 1 10 25 sample_store) = Inr ()" by code_simp
  then have run: "add_budget_consumed sample_env 5 1 10 25 sample_store =
      (Inr (), snd (add_budget_consumed sample_env 5 1 10 25 sample_store))" by (simp add: prod_eq_iff)
  have l: "ledger (job_state sample_job) ''queries'' = 3" "ledger (job_state sample_job) ''rows'' = 40"
    "ledger (job_state sample_job) ''ms'' = 500" by code_simp+
  have "json_path (job_state sample_job) [''workflow_runtime''] =
      Some (JObject [(''budget_consumed'', obj_of [(''queries'', json_int 3), (''rows'', json_int 40), (''ms'', json_int 500)]),
                     (''note'', JBool True)])" by code_simp
  from budget_accumulates [OF run _ _ this] l show ?thesis
    by (auto simp: sample_store_simps)
qed

text \<open>
  Pausing forgets what was spent: the merge that records the pause replaces the whole runtime
  object, so after a successful pause the ledger of the job reads zero whatever it held.
\<close>

theorem pause_resets_ledger:
  assumes "mark_workflow_paused env cd j u w node c s = (Inr (), s')"
    and "row \<in> set (db_jobs (st_db s))" and "job_id row = j" and "job_user_id row = Some u" and "job_workflow_id row = Some w"
    and "job_state row = JObject state"
  shows "\<exists>row' \<in> set (db_jobs (st_db s')). job_id row' = j \<and> (\<forall>k. ledger (job_state row') k = 0)"
proof -
  let ?rt = "pause_runtime cd node (cp_id c) w"
  define st where "st = jsonb_concat (job_state row) (obj_of [(''workflow_runtime'', ?rt)])"
  have "json_get st ''workflow_runtime'' = Some ?rt"
    unfolding st_def assms(6) obj_of_def by (simp add: json_get_concat)
  moreover have "json_get ?rt ''budget_consumed'' = None"
    by (simp add: pause_runtime_def json_get_obj_of)
  ultimately have "json_path st [''workflow_runtime'', ''budget_consumed''] = None" by simp
  then have "ledger st k = 0" for k by (simp add: ledger_path del: json_path.simps)
  moreover have "\<exists>row' \<in> set (db_jobs (st_db s')). job_id row' = j \<and> job_state row' = st"
  proof -
    have "pause_job cd w node c (ev_now env (Suc (Suc (st_tick s)))) row \<in> set (db_jobs (st_db s'))"
      unfolding pause_Inr(4) [OF assms(1)] using update_rows_in [of row _ "\<lambda>r. job_id r = j \<and> job_user_id r = Some u \<and> job_workflow_id r = Some w"] assms(2-5) by simp
    then show ?thesis using assms(3) by (intro bexI) (auto simp: pause_job_def st_def)
  qed
  ultimately show ?thesis by auto
qed

theorem pause_resets_ledger_witness:
  "ledger (job_state sample_job) ''queries'' = 3 \<and>
   (\<exists>row' \<in> set (db_jobs (st_db sample_paused)). job_id row' = 5 \<and> ledger (job_state row') ''queries'' = 0)"
proof
  show "ledger (job_state sample_job) ''queries'' = 3" by code_simp
  have "job_state sample_job = JObject (case job_state sample_job of JObject o' \<Rightarrow> o' | _ \<Rightarrow> [])" by code_simp
  from pause_resets_ledger [OF sample_pauses _ _ _ _ this]
  show "\<exists>row' \<in> set (db_jobs (st_db sample_paused)). job_id row' = 5 \<and> ledger (job_state row') ''queries'' = 0"
    by (auto simp: sample_store_simps)
qed

section \<open>Events\<close>

text \<open>
  A composition that drops a field can never record it: the event type it writes is not one the
  table accepts, so the operation fails for every non-empty list of dropped fields.
\<close>

theorem sensitivity_drop_rejected:
  assumes "dropped \<noteq> []"
  shows "\<exists>e. fst (record_sensitivity_drop env cd j w node dropped s) = Inl e"
proof -
  have "''workflow_field_dropped'' \<notin> set event_types" by (simp add: event_types_def)
  then show ?thesis
    using assms by (auto simp: record_sensitivity_drop_def insert_event_def stmt_def log_ok_def Let_def)
qed

theorem sensitivity_drop_rejected_witness:
  "\<exists>e. fst (record_sensitivity_drop sample_env sample_codec 5 7 ''compose'' [''national_id''] sample_store) = Inl e"
  by (rule sensitivity_drop_rejected) simp

section \<open>Installing and loading\<close>

text \<open>
  What is installed is what is loaded: after a successful installation of a workflow the same
  user loads exactly that workflow for the job, provided the encoding round-trips.
\<close>

theorem install_load:
  assumes "install_workflow env cd j u w s = (Inr (), s')"
    and "cd_workflow_from cd (cd_workflow_to cd w) = Some w"
    and "\<forall>row \<in> set (db_jobs (st_db s)). \<exists>state. job_state row = JObject state"
    and "\<not> ev_fault env (st_tick s')"
  shows "fst (load_workflow env cd j u s') = Inr (Some w)"
proof -
  let ?new = "obj_of [(''workflow'', cd_workflow_to cd w), (''workflow_runtime'', empty_runtime)]"
  define upd :: "job_row \<Rightarrow> job_row" where "upd = (\<lambda>r. r\<lparr>job_workflow_id := Some (ew_id w),
    job_contract_version := Some (uint (ew_contract_version w)), job_revision := job_revision r + 1,
    job_current_node := None, job_step := ''planning'', job_state := jsonb_concat (job_state r) ?new,
    job_updated := ev_now env (st_tick s)\<rparr>)"
  let ?p = "\<lambda>r. job_id r = j \<and> job_user_id r = Some u"
  have jobs: "db_jobs (st_db s') = map (\<lambda>r. if ?p r then upd r else r) (db_jobs (st_db s))"
    and one: "length (filter ?p (db_jobs (st_db s))) = 1"
    using assms(1) by (auto simp: install_workflow_def sq_iffs upd_def)
  have same: "?p (upd r) = ?p r" for r by (simp add: upd_def)
  from one obtain row where row: "find ?p (db_jobs (st_db s)) = Some row"
    by (cases "find ?p (db_jobs (st_db s))") (auto simp: find_None_iff_all filter_empty_conv [symmetric])
  have "find ?p (map (\<lambda>r. if ?p r then upd r else r) rs) = map_option upd (find ?p rs)" for rs
    by (induction rs) (use same in auto)
  then have found: "find ?p (db_jobs (st_db s')) = Some (upd row)" using jobs row by simp
  obtain state where "job_state row = JObject state" using assms(3) row by (meson find_SomeD)
  then have "json_get (job_state (upd row)) ''workflow'' = Some (cd_workflow_to cd w)"
    by (simp add: upd_def obj_of_def json_get_concat)
  then show ?thesis
    using found assms(2,4) by (simp add: load_workflow_def sq_bind_def stmt_def Let_def)
qed

theorem install_load_witness:
  "fst (load_workflow sample_env (sample_codec\<lparr>cd_workflow_from := (\<lambda>_. Some sample_workflow)\<rparr>) 5 11
     (snd (install_workflow sample_env (sample_codec\<lparr>cd_workflow_from := (\<lambda>_. Some sample_workflow)\<rparr>) 5 11 sample_workflow sample_store)))
   = Inr (Some sample_workflow)"
proof -
  let ?cd = "sample_codec\<lparr>cd_workflow_from := (\<lambda>_. Some sample_workflow)\<rparr>"
  have "fst (install_workflow sample_env ?cd 5 11 sample_workflow sample_store) = Inr ()" by code_simp
  then have run: "install_workflow sample_env ?cd 5 11 sample_workflow sample_store =
      (Inr (), snd (install_workflow sample_env ?cd 5 11 sample_workflow sample_store))" by (simp add: prod_eq_iff)
  show ?thesis
    by (rule install_load [OF run]) (simp_all add: sample_store_def sample_db_def sample_job_def obj_of_def sample_env_def)
qed

section \<open>Redaction\<close>

text \<open>The keys of a document at any depth.\<close>

fun json_keys :: "json \<Rightarrow> string set" where
  "json_keys (JObject obj) = fst ` set obj \<union> (\<Union>kv \<in> set obj. json_keys (snd kv))"
| "json_keys (JArray vs) = (\<Union>v \<in> set vs. json_keys v)"
| "json_keys _ = {}"

lemma redact_keys: "json_keys (redact_fields fs v) \<subseteq> json_keys v - set fs"
proof (induction fs v rule: redact_fields.induct)
  case (1 fs obj)
  have "q \<in> json_keys (snd kv) \<and> q \<notin> set fs"
    if "kv \<in> set (filter (\<lambda>kv. fst kv \<notin> set fs) obj)" and "q \<in> json_keys (redact_fields fs (snd kv))" for kv q
    using subsetD [OF 1 [OF that(1)] that(2)] by simp
  note nested = this
  show ?case
  proof
    fix q
    assume "q \<in> json_keys (redact_fields fs (JObject obj))"
    then consider kv where "kv \<in> set (filter (\<lambda>kv. fst kv \<notin> set fs) obj)" "q = fst kv"
      | kv where "kv \<in> set (filter (\<lambda>kv. fst kv \<notin> set fs) obj)" "q \<in> json_keys (redact_fields fs (snd kv))"
      by (simp add: image_iff) (metis fst_conv snd_conv)
    then show "q \<in> json_keys (JObject obj) - set fs"
    proof cases
      case 1
      then show ?thesis by simp
    next
      case (2 kv)
      from nested [OF this] 2(1) show ?thesis by (simp add: bexI [of _ kv])
    qed
  qed
next
  case (2 fs vs)
  then show ?case by auto
qed simp_all

lemma redact_get:
  "k \<notin> set fs \<Longrightarrow> json_get (redact_fields fs v) k = map_option (redact_fields fs) (json_get v k)"
proof (cases v)
  case (JObject obj)
  assume k: "k \<notin> set fs"
  have "map_of (map (\<lambda>kv. (fst kv, redact_fields fs (snd kv))) (filter (\<lambda>kv. fst kv \<notin> set fs) obj)) k =
      map_option (redact_fields fs) (map_of obj k)"
    using k by (induction obj) auto
  then show ?thesis using JObject by (simp add: json_get_def)
qed (simp_all add: json_get_def)

lemma redact_path:
  "set ks \<inter> set fs = {} \<Longrightarrow> json_path (redact_fields fs v) ks = map_option (redact_fields fs) (json_path v ks)"
  by (induction ks arbitrary: v) (auto simp: redact_get split: option.splits)



end
