(* ===== verification/Nodes.thy ===== *)
theory Nodes
  imports State Verify
begin

text \<open>
  The node operations of \<open>assistant/workflow/run/node\<close>: the decision of a cardinality branch, the
  composition of completed outputs with its sensitivity filter, and the row caps of query and
  resolver outputs.
\<close>

section \<open>Completed outputs\<close>

text \<open>\<open>runs.iter().rev().find(\<dots>)\<close>: the latest completed run of a node.\<close>

definition last_completed :: "node_run list \<Rightarrow> node_id \<Rightarrow> node_run option" where
  "last_completed runs node = find (\<lambda>r. nr_node_id r = node \<and> nr_status r = Completed) (rev runs)"

lemma last_completedD:
  "last_completed runs i = Some r \<Longrightarrow> r \<in> set runs \<and> nr_node_id r = i \<and> nr_status r = Completed"
  by (auto simp: last_completed_def dest: find_SomeD)

section \<open>Branches\<close>

definition cardinality_of_str :: "string \<Rightarrow> state_error + cardinality" where
  "cardinality_of_str s =
     (if s = ''zero'' then Inr Zero
      else if s = ''one'' then Inr One
      else if s = ''many'' then Inr Many
      else Inl (Bail ''branch cardinality decision is invalid''))"

definition cardinality_of_rows :: "int \<Rightarrow> state_error + cardinality" where
  "cardinality_of_rows rows =
     (if rows = 0 then Inr Zero
      else if rows = 1 then Inr One
      else if rows > 1 then Inr Many
      else Inl (Bail ''branch row count is invalid''))"

definition cardinality_for :: "node_run list \<Rightarrow> node_id \<Rightarrow> state_error + cardinality" where
  "cardinality_for runs source =
     res_bind (ok_or (last_completed runs source) (Bail ''branch source has not completed'')) (\<lambda>run.
       (case Option.bind (Option.bind (nr_output run) (\<lambda>v. json_get v ''cardinality'')) as_str of
          Some decision \<Rightarrow> cardinality_of_str decision
        | None \<Rightarrow>
            cardinality_of_rows
              (case Option.bind (Option.bind (nr_output run) (\<lambda>v. json_get v ''row_count'')) as_i64 of
                 Some n \<Rightarrow> n
               | None \<Rightarrow> nr_rows run)))"

definition cardinality_str :: "cardinality \<Rightarrow> string" where
  "cardinality_str c = (case c of Zero \<Rightarrow> ''zero'' | One \<Rightarrow> ''one'' | Many \<Rightarrow> ''many'')"

section \<open>Composition\<close>

record compose_source =
  cs_output :: json
  cs_slots :: "node_output_slot list"

record compose_outcome =
  cv_value :: json
  cv_dropped :: "string list"

fun filter_slots :: "sensitivity \<Rightarrow> node_output_slot list \<Rightarrow> object \<Rightarrow> string list \<Rightarrow> object \<times> string list" where
  "filter_slots visible [] obj dropped = (obj, dropped)"
| "filter_slots visible (slot # slots) obj dropped =
     (if sensitivity_rank (no_sensitivity slot) > sensitivity_rank visible \<and> map_of obj (no_name slot) \<noteq> None
      then filter_slots visible slots (obj_remove (no_name slot) obj) (dropped @ [no_name slot])
      else filter_slots visible slots obj dropped)"

definition filter_sensitivity :: "compose_source \<Rightarrow> sensitivity \<Rightarrow> string list \<Rightarrow> json \<times> string list" where
  "filter_sensitivity source visible dropped =
     (case cs_output source of
        JObject obj \<Rightarrow> (let (obj', dropped') = filter_slots visible (cs_slots source) obj dropped in (JObject obj', dropped'))
      | v \<Rightarrow> (v, dropped))"

fun filter_sources :: "compose_source list \<Rightarrow> sensitivity \<Rightarrow> string list \<Rightarrow> json list \<times> string list" where
  "filter_sources [] visible dropped = ([], dropped)"
| "filter_sources (s # ss) visible dropped =
     (let (v, d) = filter_sensitivity s visible dropped; (vs, d') = filter_sources ss visible d in (v # vs, d'))"

definition compose :: "composition \<Rightarrow> compose_source list \<Rightarrow> sensitivity \<Rightarrow> state_error + compose_outcome" where
  "compose mode sources visible =
     (let (filtered, dropped) = filter_sources sources visible [] in
      if mode = CompSingle \<and> length filtered = 1 then Inr \<lparr>cv_value = hd filtered, cv_dropped = dropped\<rparr>
      else if mode \<noteq> CompSingle \<and> filtered \<noteq> [] then
        Inr \<lparr>cv_value = obj_of [(''sources'', JArray filtered)], cv_dropped = dropped\<rparr>
      else Inl (Bail ''composition sources do not satisfy the workflow contract''))"

section \<open>Row caps\<close>

definition typed_query_output :: "json \<Rightarrow> 32 word \<Rightarrow> state_error + json" where
  "typed_query_output result row_cap =
     res_bind (ok_or (Option.bind (json_get result ''rows'') as_array) (Bail ''approved query result has no rows'')) (\<lambda>rows.
       if length rows > unat row_cap then Inl (Bail ''approved query exceeded node row cap'') else Inr result)"

definition typed_resolver_output :: "json list \<Rightarrow> 32 word \<Rightarrow> state_error + json" where
  "typed_resolver_output rows row_cap =
     (if length rows > unat row_cap then Inl (Bail ''resolver output exceeds its approved row cap'')
      else Inr (obj_of [(''row_count'', json_int (int (length rows))), (''rows'', JArray rows)]))"

end
