(* ===== verification/Run.thy ===== *)
theory Run
  imports Nodes
begin

text \<open>
  \<open>assistant/workflow/run.rs\<close>: the runner.  Each round schedules the dependency-ready nodes the
  shared budget admits, runs the batch, absorbs the outcomes and either stops or goes round again.
  The node executor (\<open>WorkflowNodeExecutor\<close>) is a parameter, a program on the store, so that two
  calls may answer differently.  The nodes of a batch are run in batch order, each to its end
  before the next starts: this is the schedule in which every failure is seen by the later nodes of
  its batch.  The loop has fuel; \<open>RunFacts\<close> shows that one more than the number of nodes is enough.
\<close>

section \<open>Executions\<close>

datatype node_execution =
    ExecCompleted json int
  | ExecWaiting clarification_payload
  | ExecFailed

type_synonym bindings = "(string \<times> json) list"
type_synonym executor = "workflow_node \<Rightarrow> bindings \<Rightarrow> node_execution sq"

text \<open>The executor reads the tables and draws ticks for its statements; it writes to none of the tables.\<close>

definition read_only :: "'a sq \<Rightarrow> 'a sq" where
  "read_only m s = (case m s of (r, s') \<Rightarrow> (r, s\<lparr>st_tick := st_tick s'\<rparr>))"

datatype run_outcome = RunCompleted | WaitingForUserInput node_id | RunFailed

datatype batch_outcome =
    BatchCompleted node_run "string option" node_id "8 word"
  | BatchWaiting node_id clarification_payload
  | BatchFailed
  | BatchCancelled

section \<open>The budget ledger of a run\<close>

record budget_totals =
  bt_queries :: "64 word"
  bt_rows :: "64 word"
  bt_ms :: "64 word"

definition zero_totals :: budget_totals where
  "zero_totals = \<lparr>bt_queries = 0, bt_rows = 0, bt_ms = 0\<rparr>"

definition non_negative :: "int \<Rightarrow> 64 word" where
  "non_negative i = of_int (max 0 i)"

definition run_ms :: "node_run \<Rightarrow> int" where
  "run_ms r = (case nr_duration r of None \<Rightarrow> 0 | Some d \<Rightarrow> d)"

definition add_actual :: "budget_totals \<Rightarrow> 8 word \<Rightarrow> node_run \<Rightarrow> budget_totals" where
  "add_actual t query_cost run =
     \<lparr>bt_queries = bt_queries t + ucast query_cost,
      bt_rows = bt_rows t + non_negative (nr_rows run),
      bt_ms = bt_ms t + non_negative (run_ms run)\<rparr>"

definition add_declared :: "budget_totals \<Rightarrow> node_budget \<Rightarrow> budget_totals" where
  "add_declared t b =
     \<lparr>bt_queries = bt_queries t + ucast (nb_query_cost b),
      bt_rows = bt_rows t + ucast (nb_row_cap b),
      bt_ms = bt_ms t + nb_timeout_ms b\<rparr>"

definition from_completed :: "execution_workflow \<Rightarrow> node_run list \<Rightarrow> budget_totals" where
  "from_completed w runs =
     (let nodes = collect_map (map (\<lambda>n. (wn_id n, n)) (ew_nodes w)) in
      fold (\<lambda>run t.
          \<lparr>bt_queries = (case nodes (nr_node_id run) of
                           None \<Rightarrow> bt_queries t
                         | Some n \<Rightarrow> bt_queries t + ucast (nb_query_cost (wn_budget n))),
           bt_rows = bt_rows t + non_negative (nr_rows run),
           bt_ms = bt_ms t + non_negative (run_ms run)\<rparr>)
        (filter (\<lambda>r. nr_status r = Completed) runs) zero_totals)"

definition would_exceed :: "budget_totals \<Rightarrow> workflow_budgets \<Rightarrow> node_budget \<Rightarrow> bool" where
  "would_exceed t budgets b \<longleftrightarrow>
     bt_queries t + ucast (nb_query_cost b) > ucast (max_query_count budgets) \<or>
     bt_rows t + ucast (nb_row_cap b) > ucast (shared_row_cap budgets) \<or>
     bt_ms t + nb_timeout_ms b > shared_timeout_ms budgets"

section \<open>Scheduling\<close>

definition completed_ids :: "node_run list \<Rightarrow> node_id list" where
  "completed_ids runs = map nr_node_id (filter (\<lambda>r. nr_status r = Completed) runs)"

definition edge_condition_matches :: "edge_condition \<Rightarrow> node_id \<Rightarrow> node_run list \<Rightarrow> bool" where
  "edge_condition_matches c source runs =
     (case c of
        Always \<Rightarrow> True
      | ClarificationAnswered \<Rightarrow> True
      | CardinalityIs expected \<Rightarrow> cardinality_for runs source = Inr expected)"

definition dependencies_met :: "workflow_node \<Rightarrow> execution_workflow \<Rightarrow> node_run list \<Rightarrow> node_id list \<Rightarrow> bool" where
  "dependencies_met node w runs completed =
     (let incoming = filter (\<lambda>e. we_to e = wn_id node) (ew_edges w) in
      incoming = [] \<or>
      list_ex (\<lambda>e. we_from e \<in> set completed \<and> edge_condition_matches (we_condition e) (we_from e) runs) incoming)"

definition runnable :: "workflow_node \<Rightarrow> execution_workflow \<Rightarrow> node_run list \<Rightarrow> node_id list \<Rightarrow> bool" where
  "runnable node w runs completed =
     (if wn_id node \<in> set completed \<or>
         list_ex (\<lambda>r. nr_node_id r = wn_id node \<and> nr_status r \<in> {Running, Waiting}) runs
      then False
      else dependencies_met node w runs completed)"

definition dependencies_satisfied :: "workflow_node \<Rightarrow> execution_workflow \<Rightarrow> node_run list \<Rightarrow> bool" where
  "dependencies_satisfied node w runs = dependencies_met node w runs (completed_ids runs)"

definition runnable_nodes :: "execution_workflow \<Rightarrow> node_run list \<Rightarrow> workflow_node list" where
  "runnable_nodes w runs = filter (\<lambda>n. runnable n w runs (completed_ids runs)) (ew_nodes w)"

fun admit :: "workflow_budgets \<Rightarrow> budget_totals \<Rightarrow> workflow_node list \<Rightarrow> workflow_node list" where
  "admit budgets projected [] = []"
| "admit budgets projected (n # ns) =
     (if would_exceed projected budgets (wn_budget n) then []
      else n # admit budgets (add_declared projected (wn_budget n)) ns)"

definition select_batch :: "execution_workflow \<Rightarrow> budget_totals \<Rightarrow> workflow_node list \<Rightarrow> workflow_node list" where
  "select_batch w consumed nodes =
     admit (ew_budgets w) consumed (take (max 1 (unat (max_parallel_queries (ew_budgets w)))) nodes)"

definition reached_twice :: "node_run list \<Rightarrow> workflow_node \<Rightarrow> bool" where
  "reached_twice runs n \<longleftrightarrow>
     wn_idempotency n = ExecuteOnce \<and> list_ex (\<lambda>r. nr_node_id r = wn_id n \<and> nr_status r = Completed) runs"

text \<open>\<open>attempt + 1\<close> on \<open>i16\<close>.\<close>

definition wrap_i16 :: "int \<Rightarrow> int" where
  "wrap_i16 i = (i + 32768) mod 65536 - 32768"

definition next_attempt :: "node_run list \<Rightarrow> node_id \<Rightarrow> int" where
  "next_attempt runs node =
     (case map nr_attempt (filter (\<lambda>r. nr_node_id r = node) runs) of
        [] \<Rightarrow> 0
      | a # as \<Rightarrow> wrap_i16 (fold max as a + 1))"

section \<open>One node\<close>

definition approved_id :: "knowledge_catalog \<Rightarrow> string \<Rightarrow> bool" where
  "approved_id cat c = list_ex (\<lambda>k. cap_id k = c \<and> cap_status k = ''approved_mvp'') (kc_capabilities cat)"

definition auth_bail :: "authorization_error + 'a \<Rightarrow> state_error + 'a" where
  "auth_bail r = map_err (\<lambda>_. Bail ''authorization'') r"

definition check_capability :: "knowledge_catalog \<Rightarrow> principal_context \<Rightarrow> string option \<Rightarrow> state_error + unit" where
  "check_capability cat pr c =
     (case c of
        None \<Rightarrow> Inr ()
      | Some i \<Rightarrow>
          res_bind (guard_err (\<not> approved_id cat i) (Bail ''workflow node capability is unavailable''))
            (\<lambda>_. auth_bail (ensure_capability_allowed pr i)))"

definition check_node_policy :: "workflow_node \<Rightarrow> principal_context \<Rightarrow> knowledge_catalog \<Rightarrow> state_error + unit" where
  "check_node_policy node pr cat =
     res_bind (check_capability cat pr (np_required_capability (wn_policy node))) (\<lambda>_.
     res_bind (check_capability cat pr (case wn_kind node of ExecuteQuery q \<Rightarrow> eq_capability_id q | _ \<Rightarrow> None)) (\<lambda>_.
     res_bind (auth_bail (ensure_pii_allowed pr (np_pii_required (wn_policy node)))) (\<lambda>_.
     res_bind (auth_bail (effective_office_scope pr None)) (\<lambda>_. Inr ()))))"

definition node_output :: "node_run list \<Rightarrow> node_id \<Rightarrow> state_error + json" where
  "node_output runs node =
     ok_or (Option.bind (last_completed runs node) nr_output) (Bail ''completed workflow output is missing'')"

definition output_slot :: "node_run list \<Rightarrow> node_id \<Rightarrow> string \<Rightarrow> state_error + json" where
  "output_slot runs node slot =
     ok_or (Option.bind (Option.bind (last_completed runs node) nr_output) (\<lambda>v. json_get v slot))
       (Bail ''completed workflow output slot is missing'')"

definition binding_value :: "node_run list \<Rightarrow> principal_context \<Rightarrow> node_input \<Rightarrow> state_error + json" where
  "binding_value runs pr input =
     (case ni_source input of
        AuthorizedScope \<Rightarrow>
          res_bind (auth_bail (effective_office_scope pr None)) (\<lambda>offices. Inr (JArray (map json_int offices)))
      | PriorStep node slot \<Rightarrow> output_slot runs node slot
      | AuthorizedDataProbe node slot \<Rightarrow> output_slot runs node slot
      | _ \<Rightarrow> Inr JNull)"

definition bindings_for :: "workflow_node \<Rightarrow> node_run list \<Rightarrow> principal_context \<Rightarrow> state_error + bindings" where
  "bindings_for node runs pr =
     res_bind
       (res_map (\<lambda>i. res_bind (binding_value runs pr i) (\<lambda>v. Inr (ni_parameter i, v)))
          (filter (\<lambda>i. ni_source i \<noteq> ExactSensitiveInput) (wn_inputs node)))
       (\<lambda>kvs. Inr (bt_of kvs))"

definition max_visible_sensitivity :: "principal_context \<Rightarrow> sensitivity" where
  "max_visible_sensitivity pr = (if pc_can_view_pii pr then Pii else FilterOnly)"

definition compose_sources ::
  "execution_workflow \<Rightarrow> node_run list \<Rightarrow> node_id list \<Rightarrow> state_error + compose_source list" where
  "compose_sources w runs sources =
     res_map
       (\<lambda>i. res_bind (ok_or (find_node w i) (Bail ''compose source node is missing''))
              (\<lambda>n. res_bind (node_output runs i) (\<lambda>v. Inr \<lparr>cs_output = v, cs_slots = wn_outputs n\<rparr>)))
       sources"

definition resolve_execution ::
  "env \<Rightarrow> codec \<Rightarrow> executor \<Rightarrow> uuid \<Rightarrow> execution_workflow \<Rightarrow> workflow_node \<Rightarrow> bindings \<Rightarrow> node_run list \<Rightarrow>
   principal_context \<Rightarrow> node_execution sq" where
  "resolve_execution env cd ex j w node bindings runs pr =
     (case wn_kind node of
        CardinalityBranch b \<Rightarrow>
          sq_of (res_bind (cardinality_for runs (cb_source b))
            (\<lambda>c. Inr (ExecCompleted (obj_of [(''cardinality'', JString (cardinality_str c))]) 0)))
      | Complete _ \<Rightarrow> sq_return (ExecCompleted (obj_of []) 0)
      | ComposeResult c \<Rightarrow>
          sq_bind (sq_of (res_bind (compose_sources w runs (cr_sources c))
            (\<lambda>sources. compose (cr_composition c) sources (max_visible_sensitivity pr)))) (\<lambda>outcome.
          sq_bind (record_sensitivity_drop env cd j (ew_id w) (wn_id node) (cv_dropped outcome)) (\<lambda>_.
          sq_return (ExecCompleted (cv_value outcome) 0)))
      | _ \<Rightarrow> read_only (ex node bindings))"

definition completed_run :: "node_run \<Rightarrow> int \<Rightarrow> json \<Rightarrow> int \<Rightarrow> node_run" where
  "completed_run run ms output rows =
     run\<lparr>nr_status := Completed, nr_duration := Some ms, nr_output := Some output, nr_rows := rows\<rparr>"

text \<open>The clock of the runner, read at the current tick; \<open>elapsed_ms\<close> saturates at \<open>i32::MAX\<close>.\<close>

definition clock :: "env \<Rightarrow> nat sq" where
  "clock env s = (Inr (ev_now env (st_tick s)), s)"

definition elapsed_ms :: "env \<Rightarrow> nat \<Rightarrow> int sq" where
  "elapsed_ms env started = sq_bind (clock env) (\<lambda>now. sq_return (min (int (now - started)) 2147483647))"

definition annotate_clarification ::
  "execution_workflow \<Rightarrow> workflow_node \<Rightarrow> clarification_payload \<Rightarrow> clarification_payload" where
  "annotate_clarification w node c =
     c\<lparr>cp_workflow_id := Some (ew_id w), cp_node_id := Some (wn_id node),
       cp_entity_kind :=
         (case wn_kind node of
            ClarificationInterrupt i \<Rightarrow>
              Option.bind (find_node w (ci_option_source i))
                (\<lambda>n. case wn_kind n of ResolveEntity r \<Rightarrow> Some (re_entity_kind r) | _ \<Rightarrow> None)
          | _ \<Rightarrow> None),
       cp_resume_node_id :=
         (case wn_kind node of ClarificationInterrupt i \<Rightarrow> Some (ci_resume i) | _ \<Rightarrow> None)\<rparr>"

definition branch_decision :: "workflow_node \<Rightarrow> json \<Rightarrow> string option" where
  "branch_decision node output =
     (case wn_kind node of
        CardinalityBranch _ \<Rightarrow> Option.bind (json_get output ''cardinality'') as_str
      | _ \<Rightarrow> None)"

definition finish_node ::
  "env \<Rightarrow> codec \<Rightarrow> uuid \<Rightarrow> execution_workflow \<Rightarrow> workflow_node \<Rightarrow> node_run \<Rightarrow> int \<Rightarrow> node_execution \<Rightarrow> batch_outcome sq" where
  "finish_node env cd j w node run ms execution =
     (case execution of
        ExecCompleted output rows \<Rightarrow>
          (let decision = branch_decision node output;
               persisted = persisted_output (wn_inputs node) output in
           sq_bind (complete_node env cd run persisted rows ms) (\<lambda>_.
           sq_bind (add_budget_consumed env j (uint (nb_query_cost (wn_budget node))) (max 0 rows) (max 0 ms)) (\<lambda>_.
           sq_return (BatchCompleted (completed_run run ms persisted rows) decision (wn_id node)
             (nb_query_cost (wn_budget node))))))
      | ExecWaiting c \<Rightarrow> sq_return (BatchWaiting (wn_id node) (annotate_clarification w node c))
      | ExecFailed \<Rightarrow> sq_bind (fail_node env run ms) (\<lambda>_. sq_return BatchFailed))"

definition run_node ::
  "env \<Rightarrow> codec \<Rightarrow> executor \<Rightarrow> knowledge_catalog \<Rightarrow> uuid \<Rightarrow> execution_workflow \<Rightarrow> principal_context \<Rightarrow>
   node_run list \<Rightarrow> bool \<Rightarrow> workflow_node \<Rightarrow> batch_outcome sq" where
  "run_node env cd ex cat j w pr runs cancelled node =
     sq_bind (sq_of (check_node_policy node pr cat)) (\<lambda>_.
     sq_bind (begin_node env cd j (ew_id w) (wn_id node) (next_attempt runs (wn_id node))
       (obj_of [(''node_id'', JString (wn_id node)), (''policy_checked'', JBool True)])) (\<lambda>run.
     sq_bind (clock env) (\<lambda>started.
     sq_bind (sq_of (bindings_for node runs pr)) (\<lambda>bindings.
     if cancelled then
       sq_bind (elapsed_ms env started) (\<lambda>ms. sq_bind (fail_node env run ms) (\<lambda>_. sq_return BatchCancelled))
     else
       sq_bind (resolve_execution env cd ex j w node bindings runs pr) (\<lambda>execution.
       sq_bind (elapsed_ms env started) (\<lambda>ms. finish_node env cd j w node run ms execution))))))"

section \<open>One batch\<close>

text \<open>\<open>join_all\<close>: every node of the batch runs; the first error is returned afterwards.\<close>

fun run_all ::
  "(bool \<Rightarrow> workflow_node \<Rightarrow> batch_outcome sq) \<Rightarrow> bool \<Rightarrow> workflow_node list \<Rightarrow> store \<Rightarrow>
   (state_error + batch_outcome) list \<times> store" where
  "run_all f cancelled [] s = ([], s)"
| "run_all f cancelled (n # ns) s =
     (case f cancelled n s of
        (r, s1) \<Rightarrow> (case run_all f (cancelled \<or> r = Inr BatchFailed) ns s1 of (rs, s2) \<Rightarrow> (r # rs, s2)))"

definition run_batch ::
  "(bool \<Rightarrow> workflow_node \<Rightarrow> batch_outcome sq) \<Rightarrow> workflow_node list \<Rightarrow> batch_outcome list sq" where
  "run_batch f batch s = (case run_all f False batch s of (rs, s') \<Rightarrow> (res_map (\<lambda>r. r) rs, s'))"

record progress =
  prog_runs :: "node_run list"
  prog_consumed :: budget_totals
  prog_failed :: bool
  prog_waiting :: "(node_id \<times> clarification_payload) option"

fun absorb :: "env \<Rightarrow> codec \<Rightarrow> uuid \<Rightarrow> execution_workflow \<Rightarrow> batch_outcome list \<Rightarrow> progress \<Rightarrow> progress sq" where
  "absorb env cd j w [] p = sq_return p"
| "absorb env cd j w (BatchCompleted run decision node cost # os) p =
     sq_bind (case decision of None \<Rightarrow> sq_return () | Some c \<Rightarrow> record_branch_decision env cd j (ew_id w) node c)
       (\<lambda>_. absorb env cd j w os
          (p\<lparr>prog_consumed := add_actual (prog_consumed p) cost run, prog_runs := prog_runs p @ [run]\<rparr>))"
| "absorb env cd j w (BatchWaiting node c # os) p =
     absorb env cd j w os
       (p\<lparr>prog_waiting := (case prog_waiting p of None \<Rightarrow> Some (node, c) | Some x \<Rightarrow> Some x)\<rparr>)"
| "absorb env cd j w (BatchFailed # os) p = absorb env cd j w os (p\<lparr>prog_failed := True\<rparr>)"
| "absorb env cd j w (BatchCancelled # os) p = absorb env cd j w os (p\<lparr>prog_failed := True\<rparr>)"

section \<open>The loop\<close>

definition idle_outcome :: "execution_workflow \<Rightarrow> node_run list \<Rightarrow> run_outcome" where
  "idle_outcome w runs =
     (if list_ex (\<lambda>n. is_complete n \<and> wn_id n \<in> set (completed_ids runs)) (ew_nodes w)
      then RunCompleted else RunFailed)"

fun run_loop ::
  "env \<Rightarrow> codec \<Rightarrow> executor \<Rightarrow> knowledge_catalog \<Rightarrow> uuid \<Rightarrow> uuid \<Rightarrow> execution_workflow \<Rightarrow> principal_context \<Rightarrow>
   nat \<Rightarrow> node_run list \<Rightarrow> budget_totals \<Rightarrow> run_outcome option sq" where
  "run_loop env cd ex cat j u w pr 0 runs consumed = sq_return None"
| "run_loop env cd ex cat j u w pr (Suc fuel) runs consumed =
     (let ready = runnable_nodes w runs in
      if ready = [] then sq_return (Some (idle_outcome w runs))
      else if list_ex (reached_twice runs) ready then sq_fail (Bail ''execute-once workflow node reached twice'')
      else
        (let batch = select_batch w consumed ready in
         if batch = [] then sq_return (Some RunFailed)
         else
           sq_bind (run_batch (run_node env cd ex cat j w pr runs) batch) (\<lambda>outcomes.
           sq_bind (absorb env cd j w outcomes \<lparr>prog_runs = runs, prog_consumed = consumed, prog_failed = False, prog_waiting = None\<rparr>)
             (\<lambda>p.
               if prog_failed p then sq_return (Some RunFailed)
               else
                 (case prog_waiting p of
                    Some (node, c) \<Rightarrow>
                      sq_bind (mark_workflow_paused env cd j u (ew_id w) node c)
                        (\<lambda>_. sq_return (Some (WaitingForUserInput node)))
                  | None \<Rightarrow> run_loop env cd ex cat j u w pr fuel (prog_runs p) (prog_consumed p))))))"

definition run_workflow ::
  "env \<Rightarrow> codec \<Rightarrow> executor \<Rightarrow> knowledge_catalog \<Rightarrow> uuid \<Rightarrow> uuid \<Rightarrow> principal_context \<Rightarrow> execution_workflow \<Rightarrow>
   nat \<Rightarrow> run_outcome option sq" where
  "run_workflow env cd ex cat j u pr w fuel =
     sq_bind (node_runs env j (ew_id w)) (\<lambda>runs.
       run_loop env cd ex cat j u w pr fuel runs (from_completed w runs))"

end
