(* ===== verification/RunFacts.thy ===== *)
theory RunFacts
  imports Run StateFacts VerifyFacts
begin

text \<open>
  One round of the runner and what every sequence of rounds keeps: each node completes at most
  once, only after an incoming edge allowed it, and the query costs of the completed nodes stay
  inside the shared budget.  The loop is a sequence of rounds followed by one of its exits, and
  needs no more fuel than it has nodes left.
\<close>

section \<open>Outcomes of a batch\<close>

definition outcome_of :: "workflow_node \<Rightarrow> batch_outcome \<Rightarrow> bool" where
  "outcome_of n out =
     (case out of
        BatchCompleted run _ i cost \<Rightarrow>
          nr_node_id run = wn_id n \<and> nr_status run = Completed \<and> i = wn_id n \<and> cost = nb_query_cost (wn_budget n)
      | BatchWaiting i _ \<Rightarrow> i = wn_id n
      | _ \<Rightarrow> True)"

lemma begin_node_id:
  "begin_node env cd j w node attempt v s = (Inr run, s') \<Longrightarrow> nr_node_id run = node"
  by (auto simp: begin_node_def sq_bind_Inr_iff insert_run_def stmt_Inr_iff run_of_row_def res_bind_Inr_iff
      new_run_row_def node_id_new_Inr_iff Let_def split: if_splits)

lemma finish_node_outcome:
  assumes "finish_node env cd j w n run ms execution s = (Inr out, s')" and "nr_node_id run = wn_id n"
  shows "outcome_of n out"
  using assms
  by (cases execution) (auto simp: finish_node_def sq_bind_Inr_iff Let_def outcome_of_def completed_run_def)

lemma run_node_outcome:
  assumes "run_node env cd ex cat j w pr runs cancelled n s = (Inr out, s')"
  shows "outcome_of n out"
proof (cases cancelled)
  case True
  then show ?thesis using assms by (auto simp: run_node_def sq_bind_Inr_iff outcome_of_def)
next
  case False
  then show ?thesis
    using assms begin_node_id finish_node_outcome by (fastforce simp: run_node_def sq_bind_Inr_iff)
qed

lemma run_all_outcomes:
  assumes "\<And>c n s out s'. f c n s = (Inr out, s') \<Longrightarrow> P n out"
  shows "run_all f cancelled batch s = (rs, s') \<Longrightarrow> res_map (\<lambda>r. r) rs = Inr outs \<Longrightarrow> list_all2 P batch outs"
proof (induction batch arbitrary: cancelled s rs s' outs)
  case (Cons n ns)
  obtain r s1 where r: "f cancelled n s = (r, s1)" by (cases "f cancelled n s")
  obtain rs' s2 where rs': "run_all f (cancelled \<or> r = Inr BatchFailed) ns s1 = (rs', s2)"
    by (cases "run_all f (cancelled \<or> r = Inr BatchFailed) ns s1")
  have rs: "rs = r # rs'" using Cons.prems(1) r rs' by simp
  then obtain out outs' where o: "r = Inr out" "res_map (\<lambda>r. r) rs' = Inr outs'" "outs = out # outs'"
    using Cons.prems(2) by (auto simp: res_bind_Inr_iff)
  have "P n out" by (rule assms [of cancelled n s out s1]) (simp add: r o(1))
  then show ?case using Cons.IH [OF _ o(2)] Cons.prems(1) r rs' o(3) by simp
qed simp

lemma run_batch_outcomes:
  assumes "run_batch (run_node env cd ex cat j w pr runs) batch s = (Inr outs, s')"
  shows "list_all2 outcome_of batch outs"
  using assms run_all_outcomes [of "run_node env cd ex cat j w pr runs" outcome_of]
  by (auto simp: run_batch_def run_node_outcome split: prod.splits)

section \<open>Absorbing a batch\<close>

fun charge :: "batch_outcome list \<Rightarrow> budget_totals \<Rightarrow> budget_totals" where
  "charge [] t = t"
| "charge (BatchCompleted run _ _ cost # os) t = charge os (add_actual t cost run)"
| "charge (_ # os) t = charge os t"

definition completed_of :: "batch_outcome list \<Rightarrow> node_run list" where
  "completed_of os = List.map_filter (\<lambda>out. case out of BatchCompleted run _ _ _ \<Rightarrow> Some run | _ \<Rightarrow> None) os"

lemma completed_of_simps [simp]:
  "completed_of [] = []"
  "completed_of (BatchCompleted run d i c # os) = run # completed_of os"
  "completed_of (BatchWaiting i p # os) = completed_of os"
  "completed_of (BatchFailed # os) = completed_of os"
  "completed_of (BatchCancelled # os) = completed_of os"
  by (simp_all add: completed_of_def List.map_filter_def)

lemma absorb_Inr:
  "absorb env cd j w os p s = (Inr p', s') \<Longrightarrow>
     prog_runs p' = prog_runs p @ completed_of os \<and>
     prog_consumed p' = charge os (prog_consumed p) \<and>
     (\<not> prog_failed p' \<longrightarrow> \<not> prog_failed p \<and> BatchFailed \<notin> set os \<and> BatchCancelled \<notin> set os) \<and>
     (prog_waiting p' = None \<longrightarrow> prog_waiting p = None \<and> (\<forall>i c. BatchWaiting i c \<notin> set os))"
proof (induction env cd j w os p arbitrary: s rule: absorb.induct)
  case 1
  then show ?case by simp
next
  case (2 env cd j w run decision node cost os p)
  then show ?case by (fastforce simp: sq_bind_Inr_iff)
next
  case (3 env cd j w node c os p)
  then show ?case by (force split: option.splits)
next
  case (4 env cd j w os p)
  then show ?case by fastforce
next
  case (5 env cd j w os p)
  then show ?case by fastforce
qed

lemma all_completed:
  assumes "list_all2 outcome_of batch os" and "BatchFailed \<notin> set os" and "BatchCancelled \<notin> set os"
    and "\<forall>i c. BatchWaiting i c \<notin> set os"
  shows "list_all2 (\<lambda>n r. nr_node_id r = wn_id n \<and> nr_status r = Completed) batch (completed_of os) \<and>
    unat (bt_queries (charge os t)) = (unat (bt_queries t) + sum_list (map (\<lambda>n. unat (nb_query_cost (wn_budget n))) batch)) mod 2 ^ 64"
  using assms
proof (induction batch os arbitrary: t rule: list_all2_induct)
  case Nil
  then show ?case using unsigned_less [of "bt_queries t", where 'a = nat] by simp
next
  case (Cons n ns out os)
  then obtain run d i c where out: "out = BatchCompleted run d i c" by (cases out) auto
  have c: "c = nb_query_cost (wn_budget n)" and r: "nr_node_id run = wn_id n" "nr_status run = Completed"
    using Cons.hyps(1) out by (auto simp: outcome_of_def)
  have ih: "list_all2 (\<lambda>n r. nr_node_id r = wn_id n \<and> nr_status r = Completed) ns (completed_of os) \<and>
    unat (bt_queries (charge os (add_actual t c run))) =
      (unat (bt_queries (add_actual t c run)) + sum_list (map (\<lambda>n. unat (nb_query_cost (wn_budget n))) ns)) mod 2 ^ 64"
    using Cons.IH [of "add_actual t c run"] Cons.prems by auto
  have "unat (bt_queries (add_actual t c run)) = (unat (bt_queries t) + unat c) mod 2 ^ 64"
    by (simp add: add_actual_def unat_word_ariths unat_ucast_widen)
  then show ?case using ih out c r by (simp add: mod_simps add.assoc)
qed

section \<open>One round\<close>

type_synonym round_state = "node_run list \<times> budget_totals \<times> store"

inductive run_round ::
  "env \<Rightarrow> codec \<Rightarrow> executor \<Rightarrow> knowledge_catalog \<Rightarrow> uuid \<Rightarrow> execution_workflow \<Rightarrow> principal_context \<Rightarrow>
   round_state \<Rightarrow> round_state \<Rightarrow> bool"
  for env cd ex cat j w pr where
  Round: "\<not> list_ex (reached_twice runs) (runnable_nodes w runs) \<Longrightarrow>
    batch = select_batch w consumed (runnable_nodes w runs) \<Longrightarrow> batch \<noteq> [] \<Longrightarrow>
    run_batch (run_node env cd ex cat j w pr runs) batch s = (Inr os, s1) \<Longrightarrow>
    absorb env cd j w os \<lparr>prog_runs = runs, prog_consumed = consumed, prog_failed = False, prog_waiting = None\<rparr> s1 = (Inr p, s2) \<Longrightarrow>
    \<not> prog_failed p \<Longrightarrow> prog_waiting p = None \<Longrightarrow>
    run_round env cd ex cat j w pr (runs, consumed, s) (prog_runs p, prog_consumed p, s2)"

inductive_cases run_roundE: "run_round env cd ex cat j w pr (runs, consumed, s) (runs', consumed', s')"

text \<open>The same round as a function.\<close>

definition take_round ::
  "env \<Rightarrow> codec \<Rightarrow> executor \<Rightarrow> knowledge_catalog \<Rightarrow> uuid \<Rightarrow> execution_workflow \<Rightarrow> principal_context \<Rightarrow>
   round_state \<Rightarrow> round_state option" where
  "take_round env cd ex cat j w pr = (\<lambda>(runs, consumed, s).
     let ready = runnable_nodes w runs; batch = select_batch w consumed ready in
     if list_ex (reached_twice runs) ready \<or> batch = [] then None
     else
       (case run_batch (run_node env cd ex cat j w pr runs) batch s of
          (Inl e, s1) \<Rightarrow> None
        | (Inr os, s1) \<Rightarrow>
            (case absorb env cd j w os \<lparr>prog_runs = runs, prog_consumed = consumed, prog_failed = False, prog_waiting = None\<rparr> s1 of
               (Inl e, s2) \<Rightarrow> None
             | (Inr p, s2) \<Rightarrow>
                 if prog_failed p then None
                 else (case prog_waiting p of None \<Rightarrow> Some (prog_runs p, prog_consumed p, s2) | Some _ \<Rightarrow> None))))"

lemma take_round_Some: "take_round env cd ex cat j w pr st = Some st' \<Longrightarrow> run_round env cd ex cat j w pr st st'"
  by (cases st) (auto simp: take_round_def Let_def intro!: run_round.Round [OF _ refl] split: if_splits prod.splits sum.splits option.splits)

definition completes :: "workflow_node \<Rightarrow> node_run \<Rightarrow> bool" where
  "completes n r \<longleftrightarrow> nr_node_id r = wn_id n \<and> nr_status r = Completed"

definition batch_cost :: "workflow_node list \<Rightarrow> nat" where
  "batch_cost ns = sum_list (map (\<lambda>n. unat (nb_query_cost (wn_budget n))) ns)"

text \<open>A round appends one completed run for each node of the batch and charges their query costs.\<close>

lemma round_batch:
  assumes "run_round env cd ex cat j w pr (runs, consumed, s) (runs', consumed', s')"
  shows "\<exists>new. let batch = select_batch w consumed (runnable_nodes w runs) in
    batch \<noteq> [] \<and> runs' = runs @ new \<and> list_all2 completes batch new \<and>
    unat (bt_queries consumed') = (unat (bt_queries consumed) + batch_cost batch) mod 2 ^ 64"
  using assms
proof (rule run_roundE)
  fix os s1 p
  let ?b = "select_batch w consumed (runnable_nodes w runs)"
  assume ne: "?b \<noteq> []"
    and run: "run_batch (run_node env cd ex cat j w pr runs) ?b s = (Inr os, s1)"
    and abs: "absorb env cd j w os \<lparr>prog_runs = runs, prog_consumed = consumed, prog_failed = False, prog_waiting = None\<rparr> s1 = (Inr p, s')"
    and ok: "\<not> prog_failed p" "prog_waiting p = None" "runs' = prog_runs p" "consumed' = prog_consumed p"
  note a = absorb_Inr [OF abs]
  have "list_all2 (\<lambda>n r. nr_node_id r = wn_id n \<and> nr_status r = Completed) ?b (completed_of os) \<and>
    unat (bt_queries (charge os consumed)) =
      (unat (bt_queries consumed) + sum_list (map (\<lambda>n. unat (nb_query_cost (wn_budget n))) ?b)) mod 2 ^ 64"
    by (rule all_completed [OF run_batch_outcomes [OF run]]) (use a ok in auto)
  then show ?thesis
    using a ne ok unfolding completes_def batch_cost_def Let_def by (intro exI [of _ "completed_of os"]) simp
qed

section \<open>Scheduling\<close>

lemma admit_prefix: "\<exists>rest. ns = admit b t ns @ rest"
  by (induction b t ns rule: admit.induct) auto

lemma set_admit: "set (admit b t ns) \<subseteq> set ns"
  using admit_prefix [of ns b t] by (metis Un_upper1 set_append)

lemma select_batch_prefix: "\<exists>rest. ns = select_batch w t ns @ rest"
proof -
  let ?k = "max 1 (unat (max_parallel_queries (ew_budgets w)))"
  obtain rest where "take ?k ns = select_batch w t ns @ rest"
    using admit_prefix [of "take ?k ns"] unfolding select_batch_def by blast
  then have "ns = select_batch w t ns @ rest @ drop ?k ns"
    using append_take_drop_id [of ?k ns] by simp
  then show ?thesis by blast
qed

lemma set_select_batch: "n \<in> set (select_batch w t ns) \<Longrightarrow> n \<in> set ns"
  using select_batch_prefix [of ns w t] by (metis Un_iff set_append)

lemma distinct_select_batch: "distinct (map f ns) \<Longrightarrow> distinct (map f (select_batch w t ns))"
  using select_batch_prefix [of ns w t] by (metis distinct_append map_append)

lemma length_admit: "length (admit b t ns) \<le> length ns"
  by (induction b t ns rule: admit.induct) auto

lemma length_select_batch:
  "length (select_batch w t ns) \<le> max 1 (unat (max_parallel_queries (ew_budgets w)))"
  unfolding select_batch_def using length_admit [of "ew_budgets w" t] by (metis le_trans length_take min.cobounded2)

lemma byte_bound: "unat (x :: 8 word) \<le> 255"
  using unsigned_less [of x, where 'a = nat] by simp

lemma add_declared_queries:
  assumes "unat (bt_queries t) \<le> 255" and "\<not> would_exceed t b nb"
  shows "unat (bt_queries (add_declared t nb)) = unat (bt_queries t) + unat (nb_query_cost nb)"
    and "unat (bt_queries (add_declared t nb)) \<le> unat (max_query_count b)"
proof -
  show e: "unat (bt_queries (add_declared t nb)) = unat (bt_queries t) + unat (nb_query_cost nb)"
    using assms(1) byte_bound [of "nb_query_cost nb"]
    by (simp add: add_declared_def unat_word_ariths unat_ucast_widen)
  have "bt_queries t + ucast (nb_query_cost nb) \<le> (ucast (max_query_count b) :: 64 word)"
    using assms(2) by (simp add: would_exceed_def not_less)
  then show "unat (bt_queries (add_declared t nb)) \<le> unat (max_query_count b)"
    by (simp add: add_declared_def word_le_nat_alt unat_ucast_widen)
qed

lemma admit_queries:
  "unat (bt_queries t) \<le> unat (max_query_count b) \<Longrightarrow>
     unat (bt_queries t) + batch_cost (admit b t ns) \<le> unat (max_query_count b)"
proof (induction b t ns rule: admit.induct)
  case (2 b t n ns)
  show ?case
  proof (cases "would_exceed t b (wn_budget n)")
    case True
    then show ?thesis using "2.prems" by (simp add: batch_cost_def)
  next
    case False
    have "unat (bt_queries t) \<le> 255" using "2.prems" byte_bound [of "max_query_count b"] by simp
    note d = add_declared_queries [OF this False]
    show ?thesis using "2.IH" [OF False d(2)] d(1) False by (simp add: batch_cost_def)
  qed
qed (simp add: batch_cost_def)

lemma select_batch_queries:
  "unat (bt_queries t) \<le> unat (max_query_count (ew_budgets w)) \<Longrightarrow>
     unat (bt_queries t) + batch_cost (select_batch w t ns) \<le> unat (max_query_count (ew_budgets w))"
  unfolding select_batch_def by (rule admit_queries)

lemma runnable_nodes_iff:
  "n \<in> set (runnable_nodes w runs) \<longleftrightarrow> n \<in> set (ew_nodes w) \<and> runnable n w runs (completed_ids runs)"
  by (simp add: runnable_nodes_def)

lemma runnableD:
  "runnable n w runs (completed_ids runs) \<Longrightarrow>
     wn_id n \<notin> set (completed_ids runs) \<and> dependencies_satisfied n w runs"
  by (simp add: runnable_def dependencies_satisfied_def split: if_splits)

section \<open>Completed nodes\<close>

lemma completed_ids_append: "completed_ids (runs @ new) = completed_ids runs @ completed_ids new"
  by (simp add: completed_ids_def)

lemma completes_ids: "list_all2 completes batch new \<Longrightarrow> completed_ids new = map wn_id batch"
  by (induction rule: list_all2_induct) (simp_all add: completed_ids_def completes_def)

lemma completed_ids_in: "i \<in> set (completed_ids runs) \<longleftrightarrow> (\<exists>r \<in> set runs. nr_node_id r = i \<and> nr_status r = Completed)"
  by (auto simp: completed_ids_def)

lemma find_append: "find P (xs @ ys) = (case find P xs of None \<Rightarrow> find P ys | Some x \<Rightarrow> Some x)"
  by (induction xs) auto

lemma last_completed_append:
  assumes "i \<notin> set (completed_ids new)"
  shows "last_completed (runs @ new) i = last_completed runs i"
proof -
  have "find (\<lambda>r. nr_node_id r = i \<and> nr_status r = Completed) (rev new) = None"
    using assms by (auto simp: find_None_iff_all completed_ids_in)
  then show ?thesis by (simp add: last_completed_def find_append)
qed

lemma edge_condition_append:
  "i \<notin> set (completed_ids new) \<Longrightarrow> edge_condition_matches c i (runs @ new) = edge_condition_matches c i runs"
  by (cases c) (simp_all add: edge_condition_matches_def cardinality_for_def last_completed_append)

lemma dependencies_append:
  assumes "dependencies_satisfied n w runs" and "distinct (completed_ids (runs @ new))"
  shows "dependencies_satisfied n w (runs @ new)"
proof (cases "filter (\<lambda>e. we_to e = wn_id n) (ew_edges w) = []")
  case True
  then show ?thesis by (simp add: dependencies_satisfied_def dependencies_met_def)
next
  case False
  then obtain e where e: "e \<in> set (ew_edges w)" "we_to e = wn_id n" "we_from e \<in> set (completed_ids runs)"
      "edge_condition_matches (we_condition e) (we_from e) runs"
    using assms(1) by (auto simp: dependencies_satisfied_def dependencies_met_def Let_def list_ex_iff)
  then have "we_from e \<notin> set (completed_ids new)" using assms(2) by (auto simp: completed_ids_append)
  then have "edge_condition_matches (we_condition e) (we_from e) (runs @ new)"
    using e(4) by (simp add: edge_condition_append)
  then show ?thesis
    using e by (auto simp: dependencies_satisfied_def dependencies_met_def Let_def list_ex_iff completed_ids_append)
qed

section \<open>The invariant of the rounds\<close>

definition ids_cost :: "execution_workflow \<Rightarrow> node_id list \<Rightarrow> nat" where
  "ids_cost w ids = sum_list (map (\<lambda>i. case node_map w i of None \<Rightarrow> 0 | Some n \<Rightarrow> unat (nb_query_cost (wn_budget n))) ids)"

definition consistent_history :: "execution_workflow \<Rightarrow> node_run list \<Rightarrow> bool" where
  "consistent_history w runs \<longleftrightarrow>
     distinct (completed_ids runs) \<and>
     ids_cost w (completed_ids runs) \<le> unat (max_query_count (ew_budgets w)) \<and>
     list_all (\<lambda>n. wn_id n \<in> set (completed_ids runs) \<longrightarrow> dependencies_satisfied n w runs) (ew_nodes w)"

lemma consistent_history_empty [simp]: "consistent_history w []"
  by (simp add: consistent_history_def completed_ids_def ids_cost_def list_all_iff)

lemma batch_ids_cost:
  assumes "distinct (map wn_id (ew_nodes w))" and "set batch \<subseteq> set (ew_nodes w)"
  shows "ids_cost w (map wn_id batch) = batch_cost batch"
proof -
  have "(case node_map w (wn_id n) of None \<Rightarrow> 0 | Some n \<Rightarrow> unat (nb_query_cost (wn_budget n))) = unat (nb_query_cost (wn_budget n))"
    if "n \<in> set batch" for n
  proof -
    have "node_map w (wn_id n) = Some n"
      unfolding node_map_def using assms that by (intro collect_map_distinct) (auto simp: comp_def)
    then show ?thesis by simp
  qed
  then show ?thesis unfolding ids_cost_def batch_cost_def map_map comp_def by (metis (no_types, lifting) map_cong)
qed

lemma from_completed_fold:
  "unat (bt_queries (fold (\<lambda>run t.
          \<lparr>bt_queries = (case node_map w (nr_node_id run) of
                           None \<Rightarrow> bt_queries t
                         | Some n \<Rightarrow> bt_queries t + ucast (nb_query_cost (wn_budget n))),
           bt_rows = bt_rows t + non_negative (nr_rows run),
           bt_ms = bt_ms t + non_negative (run_ms run)\<rparr>) rs t)) =
     (unat (bt_queries t) + ids_cost w (map nr_node_id rs)) mod 2 ^ 64"
proof (induction rs arbitrary: t)
  case Nil
  then show ?case using unsigned_less [of "bt_queries t", where 'a = nat] by (simp add: ids_cost_def)
next
  case (Cons r rs)
  show ?case
    unfolding fold_Cons comp_apply Cons.IH
    by (cases "node_map w (nr_node_id r)")
      (simp_all add: ids_cost_def unat_word_ariths unat_ucast_widen mod_simps add.assoc)
qed

lemma from_completed_queries:
  assumes "ids_cost w (completed_ids runs) \<le> unat (max_query_count (ew_budgets w))"
  shows "unat (bt_queries (from_completed w runs)) = ids_cost w (completed_ids runs)"
proof -
  have "unat (bt_queries (from_completed w runs)) = ids_cost w (completed_ids runs) mod 2 ^ 64"
    using from_completed_fold [of w "filter (\<lambda>r. nr_status r = Completed) runs" zero_totals]
    by (simp add: from_completed_def Let_def node_map_def completed_ids_def zero_totals_def)
  then show ?thesis using assms byte_bound [of "max_query_count (ew_budgets w)"] by simp
qed

abbreviation rounds where
  "rounds env cd ex cat j w pr \<equiv> (run_round env cd ex cat j w pr)\<^sup>*\<^sup>*"

lemma round_inv:
  assumes d: "distinct (map wn_id (ew_nodes w))"
    and r: "run_round env cd ex cat j w pr (runs, consumed, s) (runs', consumed', s')"
    and h: "consistent_history w runs" and q: "unat (bt_queries consumed) = ids_cost w (completed_ids runs)"
  shows "consistent_history w runs' \<and> unat (bt_queries consumed') = ids_cost w (completed_ids runs')"
proof -
  let ?b = "select_batch w consumed (runnable_nodes w runs)"
  let ?m = "unat (max_query_count (ew_budgets w))"
  obtain new where new: "runs' = runs @ new" "list_all2 completes ?b new"
    and cost: "unat (bt_queries consumed') = (unat (bt_queries consumed) + batch_cost ?b) mod 2 ^ 64"
    using round_batch [OF r] by (auto simp: Let_def)
  have sub: "n \<in> set (ew_nodes w) \<and> wn_id n \<notin> set (completed_ids runs) \<and> dependencies_satisfied n w runs" if "n \<in> set ?b" for n
    using set_select_batch [OF that] runnableD by (auto simp: runnable_nodes_iff)
  have "distinct (map wn_id (runnable_nodes w runs))"
    using d by (simp add: runnable_nodes_def distinct_map_filter)
  then have db: "distinct (map wn_id ?b)" by (rule distinct_select_batch)
  have ids: "completed_ids runs' = completed_ids runs @ map wn_id ?b"
    using new completes_ids by (simp add: completed_ids_append)
  have c: "ids_cost w (map wn_id ?b) = batch_cost ?b" using d sub by (intro batch_ids_cost) auto
  have le: "unat (bt_queries consumed) + batch_cost ?b \<le> ?m"
    using h q by (intro select_batch_queries) (simp add: consistent_history_def)
  have cost': "unat (bt_queries consumed') = ids_cost w (completed_ids runs')"
    using cost le q c byte_bound [of "max_query_count (ew_budgets w)"] by (simp add: ids ids_cost_def)
  have dist: "distinct (completed_ids runs')"
    using h db sub by (auto simp: ids consistent_history_def)
  have deps: "dependencies_satisfied n w runs'" if n: "n \<in> set (ew_nodes w)" "wn_id n \<in> set (completed_ids runs')" for n
  proof -
    have "dependencies_satisfied n w runs"
    proof (cases "wn_id n \<in> set (completed_ids runs)")
      case True
      then show ?thesis using h n by (auto simp: consistent_history_def list_all_iff)
    next
      case False
      then obtain m where m: "m \<in> set ?b" "wn_id m = wn_id n" using n(2) by (auto simp: ids)
      then have "m = n" using d sub [OF m(1)] n(1) by (metis distinct_map inj_onD)
      then show ?thesis using sub [OF m(1)] by simp
    qed
    then show ?thesis using dependencies_append dist unfolding new(1) by blast
  qed
  show ?thesis
    using dist deps cost' le q c unfolding consistent_history_def list_all_iff by (simp add: ids ids_cost_def)
qed

lemma rounds_inv:
  assumes "rounds env cd ex cat j w pr st st'" and "distinct (map wn_id (ew_nodes w))"
    and "consistent_history w (fst st)" and "unat (bt_queries (fst (snd st))) = ids_cost w (completed_ids (fst st))"
  shows "consistent_history w (fst st') \<and> unat (bt_queries (fst (snd st'))) = ids_cost w (completed_ids (fst st'))"
  using assms
proof (induction rule: rtranclp_induct)
  case (step y z)
  then show ?case using round_inv [of w env cd ex cat j pr "fst y" "fst (snd y)" "snd (snd y)" "fst z" "fst (snd z)" "snd (snd z)"]
    by simp
qed simp

section \<open>The loop as rounds and an exit\<close>

inductive run_exit ::
  "env \<Rightarrow> codec \<Rightarrow> executor \<Rightarrow> knowledge_catalog \<Rightarrow> uuid \<Rightarrow> uuid \<Rightarrow> execution_workflow \<Rightarrow> principal_context \<Rightarrow>
   round_state \<Rightarrow> run_outcome \<Rightarrow> store \<Rightarrow> bool"
  for env cd ex cat j u w pr where
  Idle: "runnable_nodes w runs = [] \<Longrightarrow>
    run_exit env cd ex cat j u w pr (runs, consumed, s) (idle_outcome w runs) s"
| Starved: "runnable_nodes w runs \<noteq> [] \<Longrightarrow> select_batch w consumed (runnable_nodes w runs) = [] \<Longrightarrow>
    run_exit env cd ex cat j u w pr (runs, consumed, s) RunFailed s"
| NodeFailed: "run_batch (run_node env cd ex cat j w pr runs) (select_batch w consumed (runnable_nodes w runs)) s = (Inr os, s1) \<Longrightarrow>
    run_exit env cd ex cat j u w pr (runs, consumed, s) RunFailed s2"
| Paused: "run_batch (run_node env cd ex cat j w pr runs) (select_batch w consumed (runnable_nodes w runs)) s = (Inr os, s1) \<Longrightarrow>
    BatchFailed \<notin> set os \<and> BatchCancelled \<notin> set os \<Longrightarrow>
    mark_workflow_paused env cd j u (ew_id w) node c s2 = (Inr (), s3) \<Longrightarrow>
    run_exit env cd ex cat j u w pr (runs, consumed, s) (WaitingForUserInput node) s3"

inductive_cases run_exit_completedE: "run_exit env cd ex cat j u w pr st RunCompleted s'"
inductive_cases run_exit_waitingE: "run_exit env cd ex cat j u w pr st (WaitingForUserInput node) s'"

lemma run_loop_Suc:
  "(\<exists>out s'. run_loop env cd ex cat j u w pr (Suc fuel) runs consumed s = (Inr (Some out), s') \<and>
      run_exit env cd ex cat j u w pr (runs, consumed, s) out s') \<or>
   (\<exists>e s'. run_loop env cd ex cat j u w pr (Suc fuel) runs consumed s = (Inl e, s')) \<or>
   (\<exists>runs' consumed' s'. run_round env cd ex cat j w pr (runs, consumed, s) (runs', consumed', s') \<and>
      run_loop env cd ex cat j u w pr (Suc fuel) runs consumed s = run_loop env cd ex cat j u w pr fuel runs' consumed' s')"
  (is "?exit \<or> ?err \<or> ?round")
proof -
  let ?ready = "runnable_nodes w runs"
  let ?b = "select_batch w consumed ?ready"
  let ?p = "\<lparr>prog_runs = runs, prog_consumed = consumed, prog_failed = False, prog_waiting = None\<rparr>"
  consider "?ready = []" | "?ready \<noteq> []" "list_ex (reached_twice runs) ?ready"
    | "?ready \<noteq> []" "\<not> list_ex (reached_twice runs) ?ready" "?b = []"
    | "?ready \<noteq> []" "\<not> list_ex (reached_twice runs) ?ready" "?b \<noteq> []"
    by blast
  then show ?thesis
  proof cases
    case 1
    then show ?thesis using run_exit.Idle by simp
  next
    case 2
    then show ?thesis by simp
  next
    case 3
    then show ?thesis using run_exit.Starved by simp
  next
    case 4
    obtain r s1 where run: "run_batch (run_node env cd ex cat j w pr runs) ?b s = (r, s1)"
      by (cases "run_batch (run_node env cd ex cat j w pr runs) ?b s")
    show ?thesis
    proof (cases r)
      case (Inl e)
      then show ?thesis using 4 run by (simp add: sq_bind_def)
    next
      case (Inr os)
      obtain r2 s2 where abs: "absorb env cd j w os ?p s1 = (r2, s2)" by (cases "absorb env cd j w os ?p s1")
      show ?thesis
      proof (cases r2)
        case Inl2: (Inl e)
        then show ?thesis using 4 run Inr abs by (simp add: sq_bind_def)
      next
        case Inr2: (Inr p)
        note a = absorb_Inr [OF abs [unfolded Inr2]]
        consider "prog_failed p" | node c where "\<not> prog_failed p" "prog_waiting p = Some (node, c)"
          | "\<not> prog_failed p" "prog_waiting p = None"
          by (cases "prog_waiting p") auto
        then show ?thesis
        proof cases
          case 1
          then show ?thesis using 4 run Inr abs Inr2 run_exit.NodeFailed [OF run [unfolded Inr]]
            by (simp add: sq_bind_def)
        next
          case (2 node c)
          obtain r3 s3 where pause: "mark_workflow_paused env cd j u (ew_id w) node c s2 = (r3, s3)"
            by (cases "mark_workflow_paused env cd j u (ew_id w) node c s2")
          have os: "BatchFailed \<notin> set os \<and> BatchCancelled \<notin> set os" using a 2 by simp
          show ?thesis
          proof (cases r3)
            case (Inl e)
            then show ?thesis using 4 run Inr abs Inr2 2 pause by (simp add: sq_bind_def)
          next
            case Inr3: (Inr z)
            have "run_exit env cd ex cat j u w pr (runs, consumed, s) (WaitingForUserInput node) s3"
              using run Inr os pause Inr3 by (intro run_exit.Paused) auto
            then show ?thesis using 4 run Inr abs Inr2 2 pause Inr3 by (simp add: sq_bind_def)
          qed
        next
          case 3
          have "run_round env cd ex cat j w pr (runs, consumed, s) (prog_runs p, prog_consumed p, s2)"
            using 4 run Inr abs Inr2 3 by (intro run_round.Round) auto
          moreover have "run_loop env cd ex cat j u w pr (Suc fuel) runs consumed s =
              run_loop env cd ex cat j u w pr fuel (prog_runs p) (prog_consumed p) s2"
            using 4 run Inr abs Inr2 3 by (simp add: sq_bind_def)
          ultimately show ?thesis by blast
        qed
      qed
    qed
  qed
qed

lemma run_loop_outcome:
  "run_loop env cd ex cat j u w pr fuel runs consumed s = (Inr (Some out), s') \<Longrightarrow>
     \<exists>st. rounds env cd ex cat j w pr (runs, consumed, s) st \<and> run_exit env cd ex cat j u w pr st out s'"
proof (induction fuel arbitrary: runs consumed s)
  case (Suc fuel)
  consider "run_exit env cd ex cat j u w pr (runs, consumed, s) out s'"
    | runs1 consumed1 s1 where "run_round env cd ex cat j w pr (runs, consumed, s) (runs1, consumed1, s1)"
        "run_loop env cd ex cat j u w pr fuel runs1 consumed1 s1 = (Inr (Some out), s')"
    using run_loop_Suc [of env cd ex cat j u w pr fuel runs consumed s] Suc.prems by fastforce
  then show ?case
  proof cases
    case 1
    then show ?thesis by blast
  next
    case (2 runs1 consumed1 s1)
    then show ?thesis using Suc.IH [OF 2(2)] converse_rtranclp_into_rtranclp by metis
  qed
qed simp

section \<open>Enough fuel\<close>

definition remaining :: "execution_workflow \<Rightarrow> node_run list \<Rightarrow> nat" where
  "remaining w runs = length (filter (\<lambda>n. wn_id n \<notin> set (completed_ids runs)) (ew_nodes w))"

lemma filter_length_strict:
  assumes "\<And>x. P x \<Longrightarrow> Q x" and "x \<in> set xs" and "Q x" and "\<not> P x"
  shows "length (filter P xs) < length (filter Q xs)"
proof -
  have "filter P xs = filter P (filter Q xs)" using assms(1) by (auto intro: filter_cong)
  then show ?thesis using filter_length_less [of x "filter Q xs" P] assms by simp
qed

lemma round_remaining:
  assumes "run_round env cd ex cat j w pr (runs, consumed, s) (runs', consumed', s')"
  shows "remaining w runs' < remaining w runs"
proof -
  let ?b = "select_batch w consumed (runnable_nodes w runs)"
  obtain new where new: "runs' = runs @ new" "list_all2 completes ?b new" "?b \<noteq> []"
    using round_batch [OF assms] by (auto simp: Let_def)
  obtain n where n: "n \<in> set ?b" using new(3) by (meson list.set_sel(1))
  have in_w: "n \<in> set (ew_nodes w)" "wn_id n \<notin> set (completed_ids runs)"
    using set_select_batch [OF n] runnableD by (auto simp: runnable_nodes_iff)
  have "wn_id n \<in> set (completed_ids runs')"
    using n completes_ids [OF new(2)] by (simp add: new(1) completed_ids_append)
  moreover have "set (completed_ids runs) \<subseteq> set (completed_ids runs')"
    by (simp add: new(1) completed_ids_append)
  ultimately show ?thesis
    unfolding remaining_def using in_w
    by (intro filter_length_strict [where x = n and P = "\<lambda>n. wn_id n \<notin> set (completed_ids runs')"]) auto
qed

lemma run_loop_returns:
  "remaining w runs < fuel \<Longrightarrow> fst (run_loop env cd ex cat j u w pr fuel runs consumed s) \<noteq> Inr None"
proof (induction fuel arbitrary: runs consumed s)
  case (Suc fuel)
  consider r s' where "run_loop env cd ex cat j u w pr (Suc fuel) runs consumed s = (r, s')" "r \<noteq> Inr None"
    | runs1 consumed1 s1 where "run_round env cd ex cat j w pr (runs, consumed, s) (runs1, consumed1, s1)"
        "run_loop env cd ex cat j u w pr (Suc fuel) runs consumed s = run_loop env cd ex cat j u w pr fuel runs1 consumed1 s1"
    using run_loop_Suc [of env cd ex cat j u w pr fuel runs consumed s] by fastforce
  then show ?case
  proof cases
    case 1
    then show ?thesis by simp
  next
    case (2 runs1 consumed1 s1)
    then show ?thesis using Suc.IH [of runs1] Suc.prems round_remaining [OF 2(1)] by simp
  qed
qed simp

section \<open>What a whole run keeps of the database\<close>

context db_relation begin

lemma keeps_clock: "keeps (clock env)"
  by (simp add: keeps_def clock_def rel_refl)

lemma keeps_elapsed: "keeps (elapsed_ms env t)"
  unfolding elapsed_ms_def by (intro keeps_bind keeps_clock keeps_return)

lemma keeps_read: "keeps (\<lambda>s. (f s, s))"
  by (simp add: keeps_def rel_refl)

lemma keeps_read_only: "keeps (read_only m)"
  by (simp add: keeps_def read_only_def rel_refl split: prod.split)

lemma keeps_Pair: "keeps (Pair r)"
  by (simp add: keeps_def rel_refl)

lemma keeps_resolve: "keeps (resolve_execution env cd ex j w node bindings runs pr)"
  unfolding resolve_execution_def
  by (cases "wn_kind node") (auto intro!: keeps_intros keeps_drop keeps_read keeps_read_only)

lemma keeps_finish: "keeps (finish_node env cd j w node run ms execution)"
  unfolding finish_node_def Let_def
  by (cases execution) (auto intro!: keeps_bind keeps_return keeps_complete keeps_add_budget keeps_fail_node)

lemma keeps_run_node: "keeps (run_node env cd ex cat j w pr runs cancelled node)"
  unfolding run_node_def
  by (auto intro!: keeps_bind keeps_return keeps_of keeps_begin keeps_clock keeps_elapsed keeps_fail_node keeps_resolve keeps_finish)

lemma keeps_run_all:
  assumes "\<And>c n. keeps (f c n)"
  shows "rel (st_db s) (st_db (snd (run_all f c batch s)))"
proof (induction batch arbitrary: c s)
  case (Cons n ns)
  obtain r s1 where r: "f c n s = (r, s1)" by (cases "f c n s")
  then have "rel (st_db s) (st_db s1)" using assms [of c n] by (metis keeps_def snd_conv)
  then show ?case using r Cons.IH [of s1 "c \<or> r = Inr BatchFailed"] by (auto intro: rel_trans split: prod.splits)
qed (simp add: rel_refl)

lemma keeps_run_batch: "(\<And>c n. keeps (f c n)) \<Longrightarrow> keeps (run_batch f batch)"
  using keeps_run_all [of f _ False batch] by (simp add: keeps_def run_batch_def split: prod.splits) (metis snd_conv)

lemma keeps_absorb: "keeps (absorb env cd j w os p)"
  by (induction env cd j w os p rule: absorb.induct)
    (auto intro!: keeps_bind keeps_return keeps_Pair keeps_branch split: option.splits)

lemma keeps_loop: "keeps (run_loop env cd ex cat j u w pr fuel runs consumed)"
proof (induction fuel arbitrary: runs consumed)
  case 0
  then show ?case by (simp add: keeps_Pair)
next
  case (Suc fuel)
  then show ?case
    by (auto simp: Let_def intro!: keeps_return keeps_fail keeps_bind keeps_run_batch keeps_run_node keeps_absorb keeps_pause
        split: option.splits)
qed

lemma keeps_workflow: "keeps (run_workflow env cd ex cat j u pr w fuel)"
  unfolding run_workflow_def by (intro keeps_bind keeps_node_runs keeps_loop)

lemma workflow_rel: "run_workflow env cd ex cat j u pr w fuel s = (r, s') \<Longrightarrow> rel (st_db s) (st_db s')"
  using keeps_workflow by (metis keeps_def snd_conv)

end

end
