(* ===== verification/RunProps.thy ===== *)
theory RunProps
  imports RunFacts StateProps
begin

text \<open>The properties of the runner, with the small runs they are applied to.\<close>

section \<open>Sample runs\<close>

definition sample_executor :: executor where
  "sample_executor node b =
     sq_return (case wn_kind node of
                  ClarificationInterrupt _ \<Rightarrow> ExecWaiting sample_payload
                | _ \<Rightarrow> ExecCompleted (obj_of [(''client_id'', json_int 4), (''rows'', JArray [])]) 1)"

definition fresh_store :: store where
  "fresh_store =
     \<lparr>st_db = sample_db [sample_job] [], st_tick = 0\<rparr>"

definition sample_run :: "execution_workflow \<Rightarrow> run_outcome option sq" where
  "sample_run w = run_workflow sample_env sample_codec sample_executor sample_catalog 5 11 sample_principal w 6"

definition sample_first :: store where
  "sample_first = snd (sample_run sample_workflow fresh_store)"

definition sample_second :: store where
  "sample_second = snd (resume sample_env sample_codec sample_answer sample_first)"

definition sample_last :: store where
  "sample_last = snd (sample_run sample_workflow sample_second)"

lemma sample_first_run: "sample_run sample_workflow fresh_store = (Inr (Some (WaitingForUserInput ''ask'')), sample_first)"
proof -
  have "fst (sample_run sample_workflow fresh_store) = Inr (Some (WaitingForUserInput ''ask''))" by code_simp
  then show ?thesis by (simp add: sample_first_def prod_eq_iff)
qed

lemma sample_second_run: "sample_run sample_workflow sample_second = (Inr (Some RunCompleted), sample_last)"
proof -
  have "fst (sample_run sample_workflow sample_second) = Inr (Some RunCompleted)" by code_simp
  then show ?thesis by (simp add: sample_last_def prod_eq_iff)
qed

text \<open>Two rounds of the report after its answer: the first query, then the one that reads it.\<close>

definition answered_run :: node_run where
  "answered_run =
     \<lparr>nr_id = 1, nr_job_id = 5, nr_workflow_id = 7, nr_node_id = ''ask'', nr_attempt = 0, nr_status = Completed,
      nr_output = None, nr_provenance = JNull, nr_rows = 0, nr_duration = None, nr_started = None, nr_finished = None\<rparr>"

fun sample_rounds :: "execution_workflow \<Rightarrow> nat \<Rightarrow> round_state \<Rightarrow> round_state option" where
  "sample_rounds w 0 st = Some st"
| "sample_rounds w (Suc k) st =
     Option.bind (take_round sample_env sample_codec sample_executor sample_catalog 5 w sample_principal st) (sample_rounds w k)"

abbreviation sample_reaches where
  "sample_reaches w \<equiv> rounds sample_env sample_codec sample_executor sample_catalog 5 w sample_principal"

lemma sample_rounds_Some: "sample_rounds w k st = Some st' \<Longrightarrow> sample_reaches w st st'"
proof (induction k arbitrary: st)
  case (Suc k)
  then obtain st1 where "take_round sample_env sample_codec sample_executor sample_catalog 5 w sample_principal st = Some st1"
      "sample_rounds w k st1 = Some st'"
    by (auto simp: bind_eq_Some_conv)
  then show ?case using Suc.IH take_round_Some by (meson converse_rtranclp_into_rtranclp)
qed simp

definition round_end :: round_state where
  "round_end = the (sample_rounds sample_workflow 2 ([answered_run], from_completed sample_workflow [answered_run], fresh_store))"

lemma round_end_reached:
  "sample_reaches sample_workflow ([answered_run], from_completed sample_workflow [answered_run], fresh_store)
     (fst round_end, fst (snd round_end), snd (snd round_end))"
proof -
  have "sample_rounds sample_workflow 2 ([answered_run], from_completed sample_workflow [answered_run], fresh_store) \<noteq> None"
    by code_simp
  then show ?thesis by (intro sample_rounds_Some [of _ 2]) (auto simp: round_end_def)
qed

lemma round_end_ids: "completed_ids (fst round_end) = [''ask'', ''total'', ''detail'']"
  by code_simp

section \<open>Termination\<close>

text \<open>
  C11: A run always returns.  One unit of fuel more than the workflow has nodes is enough for every
  database, executor, clock and pattern of failures, so the loop makes at most one round per node.
\<close>

theorem run_workflow_returns:
  assumes "length (ew_nodes w) < fuel"
  shows "fst (run_workflow env cd ex cat j u pr w fuel s) \<noteq> Inr None"
proof (cases "node_runs env j (ew_id w) s")
  case (Pair r s1)
  show ?thesis
  proof (cases r)
    case (Inl e)
    then show ?thesis using Pair by (simp add: run_workflow_def sq_bind_def)
  next
    case (Inr runs)
    have "remaining w runs < fuel" using assms by (simp add: remaining_def order_le_less_trans [OF length_filter_le])
    then show ?thesis using Pair Inr run_loop_returns by (simp add: run_workflow_def sq_bind_def)
  qed
qed

theorem run_workflow_returns_witness:
  "fst (run_workflow sample_env sample_codec sample_executor sample_catalog 5 11 sample_principal sample_workflow 6 fresh_store) \<noteq> Inr None"
  by (rule run_workflow_returns) (simp add: sample_workflow_def)

section \<open>Budget and order\<close>





text \<open>
  At most one arm of a branch runs.  When two nodes are entered only by edges from the same
  branch, each conditioned on a cardinality and with different ones, no state the rounds reach has
  both completed.
\<close>

theorem branch_arms_exclusive:
  assumes "distinct (map wn_id (ew_nodes w))" and "consistent_history w runs"
    and "rounds env cd ex cat j w pr (runs, from_completed w runs, s) (runs', consumed', s')"
    and "n1 \<in> set (ew_nodes w)" and "n2 \<in> set (ew_nodes w)" and "c1 \<noteq> c2"
    and "filter (\<lambda>e. we_to e = wn_id n1) (ew_edges w) = [\<lparr>we_from = b, we_to = wn_id n1, we_condition = CardinalityIs c1\<rparr>]"
    and "filter (\<lambda>e. we_to e = wn_id n2) (ew_edges w) = [\<lparr>we_from = b, we_to = wn_id n2, we_condition = CardinalityIs c2\<rparr>]"
  shows "\<not> (wn_id n1 \<in> set (completed_ids runs') \<and> wn_id n2 \<in> set (completed_ids runs'))"
proof
  assume both: "wn_id n1 \<in> set (completed_ids runs') \<and> wn_id n2 \<in> set (completed_ids runs')"
  have q: "unat (bt_queries (from_completed w runs)) = ids_cost w (completed_ids runs)"
    using assms(2) by (intro from_completed_queries) (simp add: consistent_history_def)
  have deps: "dependencies_satisfied n w runs'" if "n \<in> set (ew_nodes w)" "wn_id n \<in> set (completed_ids runs')" for n
    using rounds_inv [OF assms(3,1)] assms(2) q that by (simp add: consistent_history_def list_all_iff)
  have "cardinality_for runs' b = Inr c1" and "cardinality_for runs' b = Inr c2"
    using deps [OF assms(4)] deps [OF assms(5)] both assms(7,8)
    by (simp_all add: dependencies_satisfied_def dependencies_met_def edge_condition_matches_def)
  then show False using assms(6) by simp
qed

definition sample_arms :: execution_workflow where
  "sample_arms = sample_workflow\<lparr>ew_nodes := [sample_total,
       sample_node ''branch'' (CardinalityBranch
         \<lparr>cb_source = ''total'', cb_zero = ''none'', cb_one = ''some'', cb_many = ''rest''\<rparr>) [] [] 0,
       sample_node ''none'' (Complete TermSuccess) [] [] 0, sample_node ''some'' (Complete TermSuccess) [] [] 0,
       sample_node ''rest'' (Complete TermSuccess) [] [] 0],
     ew_edges := [sample_edge ''total'' ''branch'' Always, sample_edge ''branch'' ''none'' (CardinalityIs Zero),
       sample_edge ''branch'' ''some'' (CardinalityIs One), sample_edge ''branch'' ''rest'' (CardinalityIs Many)]\<rparr>"

definition arms_end :: round_state where
  "arms_end = the (sample_rounds sample_arms 3 ([], from_completed sample_arms [], fresh_store))"

lemma arms_end_reached:
  "sample_reaches sample_arms ([], from_completed sample_arms [], fresh_store)
     (fst arms_end, fst (snd arms_end), snd (snd arms_end))"
proof -
  have "sample_rounds sample_arms 3 ([], from_completed sample_arms [], fresh_store) \<noteq> None"
    by code_simp
  then show ?thesis by (intro sample_rounds_Some [of _ 3]) (auto simp: arms_end_def)
qed

theorem branch_arms_exclusive_witness:
  "''some'' \<in> set (completed_ids (fst arms_end)) \<and> ''none'' \<notin> set (completed_ids (fst arms_end))"
proof -
  let ?n1 = "sample_node ''some'' (Complete TermSuccess) [] [] 0"
  let ?n2 = "sample_node ''none'' (Complete TermSuccess) [] [] 0"
  have ran: "''some'' \<in> set (completed_ids (fst arms_end))" by code_simp
  have "\<not> (wn_id ?n1 \<in> set (completed_ids (fst arms_end)) \<and> wn_id ?n2 \<in> set (completed_ids (fst arms_end)))"
  proof (rule branch_arms_exclusive [OF _ _ arms_end_reached, of ?n1 ?n2 One Zero "''branch''"])
    show "distinct (map wn_id (ew_nodes sample_arms))" by code_simp
  qed (simp_all add: sample_arms_def sample_node_def sample_edge_def sample_total_def)
  then show ?thesis using ran by (simp add: sample_node_def)
qed

section \<open>Outcomes\<close>

lemma run_workflow_outcome:
  assumes "run_workflow env cd ex cat j u pr w fuel s = (Inr (Some out), s')"
  shows "\<exists>runs s0 st. node_runs env j (ew_id w) s = (Inr runs, s0) \<and>
    rounds env cd ex cat j w pr (runs, from_completed w runs, s0) st \<and> run_exit env cd ex cat j u w pr st out s'"
  using assms run_loop_outcome by (fastforce simp: run_workflow_def sq_bind_Inr_iff)

text \<open>
  A run reports completion only at its end.  The database is then the one after the last round,
  a \<open>Complete\<close> node has completed in it and no node is left to run.
\<close>

theorem run_completed_only_at_end:
  assumes "run_workflow env cd ex cat j u pr w fuel s = (Inr (Some RunCompleted), s')"
  shows "\<exists>runs0 s0 runs consumed. node_runs env j (ew_id w) s = (Inr runs0, s0) \<and>
    rounds env cd ex cat j w pr (runs0, from_completed w runs0, s0) (runs, consumed, s') \<and>
    runnable_nodes w runs = [] \<and> (\<exists>n \<in> set (ew_nodes w). is_complete n \<and> wn_id n \<in> set (completed_ids runs))"
proof -
  obtain runs0 s0 st where r: "node_runs env j (ew_id w) s = (Inr runs0, s0)"
      "rounds env cd ex cat j w pr (runs0, from_completed w runs0, s0) st"
    and e: "run_exit env cd ex cat j u w pr st RunCompleted s'"
    using run_workflow_outcome [OF assms] by blast
  show ?thesis
  proof (rule run_exit_completedE [OF e])
    fix runs consumed
    assume "st = (runs, consumed, s')" "RunCompleted = idle_outcome w runs" "runnable_nodes w runs = []"
    then show ?thesis using r by (auto simp: idle_outcome_def list_ex_iff split: if_splits)
  qed
qed

theorem run_completed_only_at_end_witness:
  "\<exists>n \<in> set (ew_nodes sample_workflow). is_complete n"
  using run_completed_only_at_end [OF sample_second_run [unfolded sample_run_def]] by blast

text \<open>
  C14: A run that reports that it waits has paused durably: the job of the user waits at the reported
  node of this workflow, and a run of that node is waiting.
\<close>

theorem run_waits_durably:
  assumes "run_workflow env cd ex cat j u pr w fuel s = (Inr (Some (WaitingForUserInput node)), s')"
  shows "(\<exists>job \<in> set (db_jobs (st_db s')). job_id job = j \<and> job_user_id job = Some u \<and> job_workflow_id job = Some (ew_id w) \<and>
      job_status job = ''waiting_for_user_input'' \<and> job_current_node job = Some node) \<and>
    (\<exists>r \<in> set (db_runs (st_db s')). row_job_id r = j \<and> row_workflow_id r = ew_id w \<and> row_node_id r = node \<and>
      row_status r = ''waiting'')"
proof -
  obtain st where e: "run_exit env cd ex cat j u w pr st (WaitingForUserInput node) s'"
    using run_workflow_outcome [OF assms] by blast
  show ?thesis
  proof (rule run_exit_waitingE [OF e])
    fix runs assume "WaitingForUserInput node = idle_outcome w runs"
    then show ?thesis by (simp add: idle_outcome_def split: if_splits)
  next
    fix c s2
    assume "mark_workflow_paused env cd j u (ew_id w) node c s2 = (Inr (), s')"
    note p = pause_Inr [OF this]
    have "filter (pause_row j (ew_id w) node) (db_runs (st_db s2)) \<noteq> []" using p(1) by auto
    then obtain r where r: "r \<in> set (db_runs (st_db s2))" "pause_row j (ew_id w) node r" by (auto simp: filter_empty_conv)
    have "filter (\<lambda>r. job_id r = j \<and> job_user_id r = Some u \<and> job_workflow_id r = Some (ew_id w)) (db_jobs (st_db s2)) \<noteq> []"
      using p(3) by auto
    then obtain job where job: "job \<in> set (db_jobs (st_db s2))" "job_id job = j" "job_user_id job = Some u"
        "job_workflow_id job = Some (ew_id w)"
      by (auto simp: filter_empty_conv)
    have "\<exists>job \<in> set (db_jobs (st_db s')). job_id job = j \<and> job_user_id job = Some u \<and> job_workflow_id job = Some (ew_id w) \<and>
        job_status job = ''waiting_for_user_input'' \<and> job_current_node job = Some node"
      using job unfolding p(4) set_map bex_simps by (intro bexI [of _ job]) (simp_all add: pause_job_def)
    moreover have "\<exists>r \<in> set (db_runs (st_db s')). row_job_id r = j \<and> row_workflow_id r = ew_id w \<and> row_node_id r = node \<and>
        row_status r = ''waiting''"
      using r unfolding p(2) set_map bex_simps by (intro bexI [of _ r]) (simp_all add: pause_row_def)
    ultimately show ?thesis by simp
  qed
qed

theorem run_waits_durably_witness:
  "\<exists>job \<in> set (db_jobs (st_db sample_first)). job_status job = ''waiting_for_user_input'' \<and> job_current_node job = Some ''ask''"
  using run_waits_durably [OF sample_first_run [unfolded sample_run_def]] by blast

text \<open>
  A run never rewrites history.  Whatever the executor answers and whichever statements fail,
  node runs that had completed, failed or been skipped before the run are still there unchanged
  after it, and the keys of the node runs stay unique.
\<close>

theorem run_keeps_history:
  assumes "run_workflow env cd ex cat j u pr w fuel s = (r, s')"
  shows "(\<forall>row \<in> set (db_runs (st_db s)). final_row row \<longrightarrow> row \<in> set (db_runs (st_db s'))) \<and>
    (unique_runs (st_db s) \<longrightarrow> unique_runs (st_db s'))"
  using final.workflow_rel [OF assms] uniq.workflow_rel [OF assms] by (simp add: final_kept_def unique_kept_def)

theorem run_keeps_history_witness: "unique_runs (st_db sample_first)"
proof -
  have "unique_runs (st_db fresh_store)" by (simp add: unique_runs_def fresh_store_def sample_db_def)
  then show ?thesis using run_keeps_history [OF sample_first_run [unfolded sample_run_def]] by blast
qed

section \<open>Two defects of the schedule\<close>

definition ask_after_total :: "node_id \<Rightarrow> workflow_node" where
  "ask_after_total i =
     sample_node i (ClarificationInterrupt
       \<lparr>ci_clarification_kind = ''dataset_filter_value'', ci_option_source = ''total'', ci_resume = ''detail''\<rparr>) [] [] 0"

definition two_questions :: execution_workflow where
  "two_questions =
     sample_workflow\<lparr>
       ew_nodes := [sample_total, ask_after_total ''ask'', ask_after_total ''ask2'', sample_detail, sample_compose, sample_done],
       ew_edges := [sample_edge ''total'' ''ask'' Always, sample_edge ''total'' ''ask2'' Always,
         sample_edge ''ask'' ''detail'' ClarificationAnswered, sample_edge ''ask2'' ''detail'' ClarificationAnswered,
         sample_edge ''detail'' ''compose'' Always, sample_edge ''compose'' ''done'' Always]\<rparr>"

text \<open>
  A second question of the same round is never asked.  In this verified workflow two
  clarifications become ready together; the run waits for the first only, the row of the second
  stays running, and after the answer to the first the run completes with the second still running.
\<close>

theorem second_question_lost:
  "verify ref_petgraph two_questions sample_principal sample_catalog = Inr (VerifiedWorkflow two_questions) \<and>
   (let (r1, s1) = sample_run two_questions fresh_store;
        (r2, s2) = resume sample_env sample_codec sample_answer s1;
        (r3, s3) = sample_run two_questions s2 in
    r1 = Inr (Some (WaitingForUserInput ''ask'')) \<and> r2 = Inr Resumed \<and> r3 = Inr (Some RunCompleted) \<and>
    list_ex (\<lambda>r. row_node_id r = ''ask2'' \<and> row_status r = ''running'') (db_runs (st_db s3)))"
  by code_simp

definition early_join :: execution_workflow where
  "early_join =
     sample_workflow\<lparr>
       ew_nodes := [sample_total, sample_detail,
         sample_node ''compose'' (ComposeResult \<lparr>cr_sources = [''total'', ''detail''], cr_composition = CompGrouped\<rparr>) [] [] 0,
         sample_done],
       ew_edges := [sample_edge ''total'' ''detail'' Always, sample_edge ''total'' ''compose'' Always,
         sample_edge ''detail'' ''compose'' Always, sample_edge ''compose'' ''done'' Always]\<rparr>"

text \<open>
  A join starts before all its sources are there.  One completed source makes a composition
  ready, so in this verified workflow the composition runs beside the second query it needs, the run
  ends in an error, and the row of the composition stays running.
\<close>

theorem join_starts_early:
  "verify ref_petgraph early_join sample_principal sample_catalog = Inr (VerifiedWorkflow early_join) \<and>
   (let (r, s) = sample_run early_join fresh_store in
    r = Inl (Bail ''completed workflow output is missing'') \<and>
    list_ex (\<lambda>r. row_node_id r = ''compose'' \<and> row_status r = ''running'') (db_runs (st_db s)))"
  by code_simp

end
