(* ===== verification/Grammar.thy ===== *)
theory Grammar
  imports Prelude
begin

text \<open>
  \<open>knowledge/dataset/grammar.rs\<close>: the grammar of the SQL expressions a dataset declares.  The
  expressions are concatenated into executable SQL, so acceptance must imply that the text
  cannot extend the statement.
\<close>

datatype grammar_error =
    ExprEmpty
  | ForbiddenToken string
  | EmptyTerm
  | UnexpectedTokens string
  | TooManyQualifiers string
  | InvalidIdentifier string

text \<open>\<open>str::split_whitespace\<close>: maximal runs without white space, none of them empty.\<close>

function words_from :: "string \<Rightarrow> string \<Rightarrow> string list" where
  "words_from acc s =
     (case find (\<lambda>w. starts_with w s) white_space of
        Some w \<Rightarrow> (if acc = [] then [] else [rev acc]) @ words_from [] (drop (length w) s)
      | None \<Rightarrow>
          (case s of
             [] \<Rightarrow> if acc = [] then [] else [rev acc]
           | c # cs \<Rightarrow> words_from (c # acc) cs))"
  by pat_completeness auto
termination
proof (relation "measure (\<lambda>(acc, s). length s)", simp)
  fix acc s w
  assume "find (\<lambda>w. starts_with w s) white_space = Some w"
  then have "w \<in> set white_space" and "starts_with w s" by (auto dest: find_SomeD)
  then have "w \<noteq> []" and "length w \<le> length s"
    using white_space_nonempty by (auto simp: starts_with_iff)
  then show "(([], drop (length w) s), acc, s) \<in> measure (\<lambda>(acc, s). length s)"
    by (cases w) auto
qed simp

declare words_from.simps [simp del]

definition split_whitespace :: "string \<Rightarrow> string list" where
  "split_whitespace s = words_from [] s"

definition valid_part :: "string \<Rightarrow> bool" where
  "valid_part part =
     (case part of
        [] \<Rightarrow> False
      | c # cs \<Rightarrow>
          (is_ascii_alphabetic c \<or> c = CHR ''_'') \<and>
          list_all (\<lambda>d. is_ascii_alphanumeric d \<or> d = CHR ''_'') cs)"

definition validate_identifier :: "string \<Rightarrow> grammar_error + unit" where
  "validate_identifier identifier =
     (let parts = split_on (CHR ''.'') identifier in
      if length parts > 2 then Inl (TooManyQualifiers identifier)
      else res_iter (\<lambda>part. if valid_part part then Inr () else Inl (InvalidIdentifier identifier)) parts)"

definition upper :: "string \<Rightarrow> string" where
  "upper s = map to_ascii_uppercase s"

definition drop_direction :: "string list \<Rightarrow> string list" where
  "drop_direction rest =
     (case rest of
        [] \<Rightarrow> []
      | w # ws \<Rightarrow> if upper w = ''ASC'' \<or> upper w = ''DESC'' then ws else rest)"

definition validate_term :: "string \<Rightarrow> grammar_error + unit" where
  "validate_term t =
     (case split_whitespace t of
        [] \<Rightarrow> Inl EmptyTerm
      | identifier # words \<Rightarrow>
          res_bind (validate_identifier identifier) (\<lambda>_.
            (case drop_direction words of
               [] \<Rightarrow> Inr ()
             | [n, p] \<Rightarrow>
                 if upper n = ''NULLS'' \<and> (upper p = ''FIRST'' \<or> upper p = ''LAST'')
                 then Inr () else Inl (UnexpectedTokens (trim t))
             | _ \<Rightarrow> Inl (UnexpectedTokens (trim t)))))"

definition forbidden_tokens :: "string list" where
  "forbidden_tokens = ['';'', ''--'', ''/*'', ''*/'', [char_of (39 :: nat)], [char_of (34 :: nat)], ''('', '')'']"

definition validate_sql_expr :: "string \<Rightarrow> grammar_error + unit" where
  "validate_sql_expr expr =
     (if trim expr = [] then Inl ExprEmpty
      else
        res_bind
          (res_iter (\<lambda>f. if str_contains f expr then Inl (ForbiddenToken f) else Inr ()) forbidden_tokens)
          (\<lambda>_. res_iter validate_term (split_on (CHR '','') expr)))"

section \<open>What an accepted expression can contain\<close>

definition white_byte :: "char \<Rightarrow> bool" where
  "white_byte c \<longleftrightarrow> (\<exists>w \<in> set white_space. c \<in> set w)"

definition ident_char :: "char \<Rightarrow> bool" where
  "ident_char c \<longleftrightarrow> is_ascii_alphanumeric c \<or> c = CHR ''_'' \<or> c = CHR ''.''"

lemma words_from_chars:
  "c \<in> set s \<or> c \<in> set acc \<Longrightarrow> white_byte c \<or> (\<exists>w \<in> set (words_from acc s). c \<in> set w)"
proof (induction acc s rule: words_from.induct)
  case (1 acc s)
  show ?case
  proof (cases "find (\<lambda>w. starts_with w s) white_space")
    case None
    show ?thesis
    proof (cases s)
      case Nil
      with None 1 show ?thesis by (auto simp: words_from.simps [of acc "[]"])
    next
      case (Cons d ds)
      then have "c \<in> set ds \<or> c \<in> set (d # acc)" using "1.prems" by auto
      then have "white_byte c \<or> (\<exists>w \<in> set (words_from (d # acc) ds). c \<in> set w)"
        by (rule "1.IH"(1) [OF None Cons])
      with None Cons show ?thesis by (simp add: words_from.simps [of acc "d # ds"])
    qed
  next
    case (Some w)
    then have w: "w \<in> set white_space" "starts_with w s" by (auto dest: find_SomeD)
    then obtain t where s: "s = w @ t" by (auto simp: starts_with_iff)
    consider "c \<in> set w" | "c \<in> set t" | "c \<in> set acc" using "1.prems" s by auto
    then show ?thesis
    proof cases
      case 1
      then show ?thesis using w by (auto simp: white_byte_def)
    next
      case 2
      then have "c \<in> set (drop (length w) s) \<or> c \<in> set []" using s by simp
      then have "white_byte c \<or> (\<exists>x \<in> set (words_from [] (drop (length w) s)). c \<in> set x)"
        by (rule "1.IH"(2) [OF Some])
      then show ?thesis using Some by (auto simp: words_from.simps [of acc s])
    next
      case 3
      then show ?thesis using Some by (auto simp: words_from.simps [of acc s])
    qed
  qed
qed

lemma valid_part_chars: "valid_part p \<Longrightarrow> c \<in> set p \<Longrightarrow> ident_char c"
  by (auto simp: valid_part_def ident_char_def is_ascii_alphanumeric_def list_all_iff split: list.splits)

lemma validate_identifier_chars:
  "validate_identifier i = Inr () \<Longrightarrow> c \<in> set i \<Longrightarrow> ident_char c"
  using split_on_chars [of c i "CHR ''.''"] valid_part_chars
  by (auto simp: validate_identifier_def Let_def res_iter_Inr_iff ident_char_def split: if_splits)

text \<open>Folding the case of a keyword's letters only reaches letters.\<close>

lemma upper_alpha:
  assumes "upper w = k" and "list_all is_ascii_uppercase k" and "c \<in> set w"
  shows "is_ascii_alphabetic c"
proof -
  from assms have "to_ascii_uppercase c \<in> set k" by (auto simp: upper_def)
  with assms(2) have "is_ascii_uppercase (to_ascii_uppercase c)" by (simp add: list_all_iff)
  then show ?thesis by (auto simp: to_ascii_uppercase_def is_ascii_alphabetic_def split: if_splits)
qed

lemma keyword_upper:
  "k \<in> {''ASC'', ''DESC'', ''NULLS'', ''FIRST'', ''LAST''} \<Longrightarrow> list_all is_ascii_uppercase k"
  by (auto simp: is_ascii_uppercase_def byte_def)

definition keyword :: "string \<Rightarrow> bool" where
  "keyword w \<longleftrightarrow> upper w \<in> {''ASC'', ''DESC'', ''NULLS'', ''FIRST'', ''LAST''}"

lemma keyword_chars: "keyword w \<Longrightarrow> c \<in> set w \<Longrightarrow> ident_char c"
  using upper_alpha [OF refl keyword_upper]
  by (auto simp: keyword_def ident_char_def is_ascii_alphanumeric_def)

text \<open>An accepted term is an identifier followed by keywords only.\<close>

lemma drop_direction_cases:
  "drop_direction ws = vs \<Longrightarrow> ws = vs \<or> (\<exists>w. keyword w \<and> ws = w # vs)"
  by (auto simp: drop_direction_def keyword_def split: list.splits if_splits)

lemma validate_term_shape:
  assumes "validate_term t = Inr ()"
  shows "\<exists>i ws. split_whitespace t = i # ws \<and> validate_identifier i = Inr () \<and>
    (\<forall>w \<in> set ws. keyword w) \<and> length ws \<le> 3"
proof -
  from assms obtain i ws where t: "split_whitespace t = i # ws" and i: "validate_identifier i = Inr ()"
    by (auto simp: validate_term_def res_bind_Inr_iff split: list.splits)
  define vs where "vs = drop_direction ws"
  have "vs = [] \<or> (\<exists>n p. vs = [n, p] \<and> keyword n \<and> keyword p)"
    using assms t i
    by (auto simp: validate_term_def vs_def keyword_def res_bind_Inr_iff split: list.splits if_splits)
  moreover have "ws = vs \<or> (\<exists>w. keyword w \<and> ws = w # vs)"
    using drop_direction_cases vs_def by blast
  ultimately show ?thesis using t i by auto
qed

lemma validate_term_chars:
  assumes "validate_term t = Inr ()" and "c \<in> set t"
  shows "white_byte c \<or> ident_char c"
proof -
  obtain i ws where sw: "split_whitespace t = i # ws" and i: "validate_identifier i = Inr ()"
    and ws: "\<forall>w \<in> set ws. keyword w"
    using validate_term_shape [OF assms(1)] by blast
  have "white_byte c \<or> (\<exists>w \<in> set (words_from [] t). c \<in> set w)"
    using assms(2) by (intro words_from_chars) auto
  with sw show ?thesis
    using validate_identifier_chars [OF i] ws keyword_chars by (auto simp: split_whitespace_def)
qed

lemma validate_sql_expr_chars:
  assumes "validate_sql_expr e = Inr ()" and "c \<in> set e"
  shows "ident_char c \<or> white_byte c \<or> c = CHR '',''"
  using split_on_chars [OF assms(2), of "CHR '',''"] assms(1) validate_term_chars
  by (auto simp: validate_sql_expr_def res_bind_Inr_iff res_iter_Inr_iff split: if_splits)

end
