(* ===== verification/Dataset.thy ===== *)
theory Dataset
  imports Knowledge Grammar
begin

text \<open>
  The authored datasets of \<open>knowledge/dataset\<close>: the rules a dataset must meet when the catalog is
  loaded (\<open>validate.rs\<close>), the statements it can produce (\<open>plan.rs\<close>), the composition of one
  statement from authored SQL and declared expressions (\<open>compose.rs\<close>), and the resolution of a
  capability's recipe against the parameters of a request (\<open>resolve.rs\<close>).  A decimal is decided by
  the \<open>rust_decimal\<close> crate and is a parameter of the resolver.  Placeholder counters are \<open>usize\<close>
  values below the number of operators of a dataset and are natural numbers here.
\<close>

section \<open>Static rules\<close>

datatype dataset_error =
    InFilterWithoutRowCap string
  | DuplicateFilter string string
  | FilterTypeUnsupported string string string
  | FilterWithoutOperators string string
  | ExactIdentifierNotString string string
  | ExactIdentifierNotEq string string
  | ExactIdentifierCaseInsensitive string string
  | FilterExprRejected string string grammar_error
  | DuplicateOrderBy string string
  | OrderByExprRejected string string grammar_error
  | NoShapes string
  | DuplicateShape string string
  | UndeclaredOrderBy string string string
  | FragmentMissing string string
  | NoOutputFields string string
  | EmptyOutputFieldName string string
  | DuplicateOutputField string string string
  | OutputTypeUnsupported string string string string
  | SensitivityNotProjectable string string sensitivity string
  | ExactIdentifierUnmasked string string
  | NoCoreField string string
  | NarrowableWithoutFilter string string string
  | DuplicateParameter string string string
  | ExactIdentifierUnscoped string string
  | EntityIdNotOutput string string
  | EntityIdMistyped string string
  | EntityLabelNotOutput string string
  | ResolverProducesNothing string string
  | StaleExemption string string

definition filter_types :: "string list" where
  "filter_types = [''date'', ''integer'', ''boolean'', ''string'', ''decimal'']"

definition output_types :: "string list" where
  "output_types = [''bigint'', ''integer'', ''string'', ''date'', ''decimal'', ''boolean'']"

text \<open>A loop that inserts a key into a fresh \<open>HashSet\<close> and checks the element.\<close>

fun check_unique :: "('a \<Rightarrow> string) \<Rightarrow> ('a \<Rightarrow> 'e) \<Rightarrow> ('a \<Rightarrow> 'e + unit) \<Rightarrow> string list \<Rightarrow> 'a list \<Rightarrow> 'e + unit" where
  "check_unique key dup check seen [] = Inr ()"
| "check_unique key dup check seen (x # xs) =
     (if key x \<in> set seen then Inl (dup x)
      else res_bind (check x) (\<lambda>_. check_unique key dup check (key x # seen) xs))"

definition check_in_caps :: "dataset_knowledge \<Rightarrow> dataset_error + unit" where
  "check_in_caps d =
     guard_err
       (list_ex (\<lambda>f. FIn \<in> set (fs_operators f)) (ds_filters d) \<and>
        list_ex (\<lambda>s. case sh_row_cap s of None \<Rightarrow> True | Some cap \<Rightarrow> cap = 0) (ds_shapes d))
       (InFilterWithoutRowCap (ds_id d))"

definition check_exact_identifier :: "string \<Rightarrow> filter_slot \<Rightarrow> dataset_error + unit" where
  "check_exact_identifier i f =
     (if fs_input_policy f = ExactIdentifier then
        res_bind (guard_err (fs_kind f \<noteq> ''string'') (ExactIdentifierNotString i (fs_id f))) (\<lambda>_.
        res_bind (guard_err (fs_operators f \<noteq> [FEq]) (ExactIdentifierNotEq i (fs_id f))) (\<lambda>_.
        guard_err (fs_case_insensitive f) (ExactIdentifierCaseInsensitive i (fs_id f))))
      else Inr ())"

definition check_filter :: "string \<Rightarrow> filter_slot \<Rightarrow> dataset_error + unit" where
  "check_filter i f =
     res_bind (guard_err (fs_kind f \<notin> set filter_types) (FilterTypeUnsupported i (fs_id f) (fs_kind f))) (\<lambda>_.
     res_bind (guard_err (fs_operators f = []) (FilterWithoutOperators i (fs_id f))) (\<lambda>_.
     res_bind (check_exact_identifier i f) (\<lambda>_.
     map_err (FilterExprRejected i (fs_id f)) (validate_sql_expr (fs_expr f)))))"

definition check_order_by :: "string \<Rightarrow> order_by_option \<Rightarrow> dataset_error + unit" where
  "check_order_by i o' = map_err (OrderByExprRejected i (ob_id o')) (validate_sql_expr (ob_expr o'))"

definition check_output_field :: "string \<Rightarrow> string \<Rightarrow> dataset_output_field \<Rightarrow> dataset_error + unit" where
  "check_output_field i s f =
     res_bind (guard_err (dof_kind f \<notin> set output_types) (OutputTypeUnsupported i s (dof_name f) (dof_kind f))) (\<lambda>_.
     guard_err (dof_sensitivity f \<in> {FilterOnly, NeverUse}) (SensitivityNotProjectable i s (dof_sensitivity f) (dof_name f)))"

text \<open>The name of a field is checked for emptiness before it is looked up among the earlier names.\<close>

fun check_output_fields :: "string \<Rightarrow> string \<Rightarrow> string list \<Rightarrow> dataset_output_field list \<Rightarrow> dataset_error + unit" where
  "check_output_fields i s seen [] = Inr ()"
| "check_output_fields i s seen (f # fs) =
     (if trim (dof_name f) = [] then Inl (EmptyOutputFieldName i s)
      else if dof_name f \<in> set seen then Inl (DuplicateOutputField i s (dof_name f))
      else res_bind (check_output_field i s f) (\<lambda>_. check_output_fields i s (dof_name f # seen) fs))"

definition has_exact_identifier :: "dataset_knowledge \<Rightarrow> bool" where
  "has_exact_identifier d \<longleftrightarrow> list_ex (\<lambda>f. fs_input_policy f = ExactIdentifier) (ds_filters d)"

definition narrowed :: "dataset_knowledge \<Rightarrow> dataset_output_field \<Rightarrow> bool" where
  "narrowed d f \<longleftrightarrow>
     list_ex (\<lambda>slot. fs_id slot = dof_name f \<or> fs_expr slot = dof_name f) (ds_filters d) \<or>
     dof_name f \<in> set (ds_filters_exempt d)"

definition ends_with :: "string \<Rightarrow> string \<Rightarrow> bool" where
  "ends_with s suffix \<longleftrightarrow> starts_with (rev suffix) (rev s)"

definition narrowable_text :: "dataset_output_field \<Rightarrow> bool" where
  "narrowable_text f \<longleftrightarrow> dof_kind f = ''string'' \<and> dof_sensitivity f \<notin> {Pii, MaskedOutput}"

definition narrowable_id :: "dataset_knowledge \<Rightarrow> dataset_output_field \<Rightarrow> bool" where
  "narrowable_id d f \<longleftrightarrow>
     dof_kind f = ''bigint'' \<and>
     (ends_with (dof_name f) ''_id'' \<or>
      (case ds_entity d of None \<Rightarrow> False | Some e \<Rightarrow> em_id_field e = dof_name f))"

definition check_narrowable ::
  "dataset_knowledge \<Rightarrow> string \<Rightarrow> (dataset_output_field \<Rightarrow> bool) \<Rightarrow> dataset_output_field list \<Rightarrow> dataset_error + unit" where
  "check_narrowable d s p fs =
     res_iter (\<lambda>f. guard_err (\<not> narrowed d f) (NarrowableWithoutFilter (ds_id d) s (dof_name f))) (filter p fs)"

definition office_scope_parameter :: "query_parameter \<Rightarrow> bool" where
  "office_scope_parameter p \<longleftrightarrow>
     qp_name p = ''office_ids'' \<and> qp_kind p = ''array_bigint'' \<and> qp_required p \<and> qp_source p = Some ''authorized_scope''"

definition check_shape :: "dataset_knowledge \<Rightarrow> shape_option \<Rightarrow> dataset_error + unit" where
  "check_shape d s =
     (let i = ds_id d; fs = shape_output_fields s d; ps = shape_parameters s d in
      res_bind (res_iter (\<lambda>r. guard_err (r \<notin> set (map ob_id (ds_order_by d))) (UndeclaredOrderBy i (sh_id s) r)) (sh_order_by s)) (\<lambda>_.
      res_bind (guard_err (sh_fragment s = None \<and> ds_filters d \<noteq> []) (FragmentMissing i (sh_id s))) (\<lambda>_.
      res_bind (guard_err (fs = []) (NoOutputFields i (sh_id s))) (\<lambda>_.
      res_bind (check_output_fields i (sh_id s) [] fs) (\<lambda>_.
      res_bind (guard_err (has_exact_identifier d \<and> \<not> list_ex (\<lambda>f. dof_sensitivity f = MaskedOutput) fs)
                 (ExactIdentifierUnmasked i (sh_id s))) (\<lambda>_.
      res_bind (guard_err (\<not> list_ex dof_core fs) (NoCoreField i (sh_id s))) (\<lambda>_.
      res_bind (check_narrowable d (sh_id s) narrowable_text fs) (\<lambda>_.
      res_bind (check_narrowable d (sh_id s) (narrowable_id d) fs) (\<lambda>_.
      res_bind (check_unique qp_name (\<lambda>p. DuplicateParameter i (sh_id s) (qp_name p)) (\<lambda>_. Inr ()) [] ps) (\<lambda>_.
      guard_err (has_exact_identifier d \<and> \<not> list_ex office_scope_parameter ps) (ExactIdentifierUnscoped i (sh_id s))))))))))))"

definition all_output_fields :: "dataset_knowledge \<Rightarrow> dataset_output_field list" where
  "all_output_fields d = concat (map (\<lambda>s. shape_output_fields s d) (ds_shapes d))"

definition check_entity :: "dataset_knowledge \<Rightarrow> dataset_error + unit" where
  "check_entity d =
     (case ds_entity d of
        None \<Rightarrow> Inr ()
      | Some e \<Rightarrow>
          (case find (\<lambda>f. dof_name f = em_id_field e) (all_output_fields d) of
             None \<Rightarrow> Inl (EntityIdNotOutput (ds_id d) (em_id_field e))
           | Some f \<Rightarrow>
               res_bind (guard_err (dof_kind f \<noteq> ''bigint'' \<or> dof_sensitivity f \<noteq> PublicBusiness)
                          (EntityIdMistyped (ds_id d) (em_id_field e))) (\<lambda>_.
               res_iter (\<lambda>l. guard_err (\<not> list_ex (\<lambda>f. dof_name f = l) (all_output_fields d)) (EntityLabelNotOutput (ds_id d) l))
                 (em_label_fields e))))"

definition validate_dataset :: "dataset_knowledge \<Rightarrow> dataset_error + unit" where
  "validate_dataset d =
     (let i = ds_id d in
      res_bind (check_in_caps d) (\<lambda>_.
      res_bind (check_unique fs_id (\<lambda>f. DuplicateFilter i (fs_id f)) (check_filter i) [] (ds_filters d)) (\<lambda>_.
      res_bind (check_unique ob_id (\<lambda>o'. DuplicateOrderBy i (ob_id o')) (check_order_by i) [] (ds_order_by d)) (\<lambda>_.
      res_bind (guard_err (ds_shapes d = []) (NoShapes i)) (\<lambda>_.
      res_bind (check_unique sh_id (\<lambda>s. DuplicateShape i (sh_id s)) (check_shape d) [] (ds_shapes d)) (\<lambda>_.
      res_bind (check_entity d) (\<lambda>_.
      res_bind (res_iter (\<lambda>s. guard_err (sh_role s = RoleResolver \<and> sh_produces s = []) (ResolverProducesNothing i (sh_id s)))
                 (ds_shapes d)) (\<lambda>_.
      res_iter (\<lambda>n. guard_err (\<not> list_ex (\<lambda>f. dof_name f = n) (all_output_fields d)) (StaleExemption i n))
        (ds_filters_exempt d)))))))))"

section \<open>Statements of a dataset\<close>

definition executable_combinations :: "dataset_knowledge \<Rightarrow> (string \<times> string option) list" where
  "executable_combinations d =
     concat (map (\<lambda>s. if sh_order_by s = [] then [(sh_id s, None)]
                      else map (\<lambda>o'. (sh_id s, Some o')) (sh_order_by s)) (ds_shapes d))"

section \<open>Composition\<close>

record filter_bind =
  fb_filter_id :: string
  fb_operator :: filter_operator
  fb_placeholder :: nat
  fb_max_array_len :: "32 word option"

record composed_sql =
  co_sql :: string
  co_filter_binds :: "filter_bind list"

datatype compose_error =
    UnknownShape string string
  | FragmentRequired string string
  | ComposeFilterExpr string string grammar_error
  | UnknownOrderBy string string
  | ComposeOrderByExpr string string grammar_error
  | UnsupportedFilterType string
  | CaseInsensitiveNotTextEq

definition filter_cast :: "string \<Rightarrow> string option" where
  "filter_cast kind =
     (if kind = ''date'' then Some ''::date''
      else if kind = ''integer'' then Some ''::bigint''
      else if kind = ''boolean'' then Some ''::bool''
      else if kind = ''string'' then Some ''::text''
      else if kind = ''decimal'' then Some ''::numeric''
      else None)"

definition nl :: string where
  "nl = [CHR 0x0A]"

definition dollar :: "nat \<Rightarrow> string" where
  "dollar n = ''$'' @ show_nat n"

definition predicate :: "string \<Rightarrow> filter_operator \<Rightarrow> string \<Rightarrow> bool \<Rightarrow> nat \<Rightarrow> compose_error + string" where
  "predicate expr op kind case_insensitive n =
     (case filter_cast kind of
        None \<Rightarrow> Inl (UnsupportedFilterType kind)
      | Some cast \<Rightarrow>
          if case_insensitive then
            (if kind \<noteq> ''string'' \<or> op \<noteq> FEq then Inl CaseInsensitiveNotTextEq
             else Inr (nl @ ''    AND ('' @ dollar n @ cast @ '' IS NULL OR lower('' @ expr @ '') = lower('' @ dollar n @ cast @ ''))''))
          else
            Inr
              (case op of
                 FIn \<Rightarrow>
                   nl @ ''  AND ('' @ dollar n @ cast @ ''[] IS NULL OR '' @ expr @ '' = ANY('' @ dollar n @ cast @ ''[]))''
               | FBetween \<Rightarrow>
                   nl @ ''  AND ('' @ dollar n @ cast @ '' IS NULL OR '' @ dollar (n + 1) @ cast @ '' IS NULL OR '' @ expr @
                   '' BETWEEN '' @ dollar n @ '' AND '' @ dollar (n + 1) @ '')''
               | _ \<Rightarrow>
                   nl @ ''  AND ('' @ dollar n @ cast @ '' IS NULL OR '' @ expr @ '' '' @ filter_operator_as_sql op @ '' '' @
                   dollar n @ '')''))"

text \<open>The running placeholder, the predicate text and the binds of the two nested loops.\<close>

record filter_state =
  ft_placeholder :: nat
  ft_predicates :: string
  ft_binds :: "filter_bind list"

definition operator_step :: "shape_option \<Rightarrow> filter_slot \<Rightarrow> filter_operator \<Rightarrow> filter_state \<Rightarrow> compose_error + filter_state" where
  "operator_step shape f op st =
     (let n = ft_placeholder st + 1 in
      res_bind (predicate (fs_expr f) op (fs_kind f) (fs_case_insensitive f) n) (\<lambda>text. Inr
        \<lparr>ft_placeholder = (if op = FBetween then n + 1 else n),
         ft_predicates = ft_predicates st @ text,
         ft_binds = ft_binds st @
           [\<lparr>fb_filter_id = fs_id f, fb_operator = op, fb_placeholder = n,
             fb_max_array_len = (if op = FIn then sh_row_cap shape else None)\<rparr>]\<rparr>))"

fun operator_loop :: "shape_option \<Rightarrow> filter_slot \<Rightarrow> filter_operator list \<Rightarrow> filter_state \<Rightarrow> compose_error + filter_state" where
  "operator_loop shape f [] st = Inr st"
| "operator_loop shape f (op # ops) st = res_bind (operator_step shape f op st) (operator_loop shape f ops)"

fun filter_loop :: "string \<Rightarrow> shape_option \<Rightarrow> filter_slot list \<Rightarrow> filter_state \<Rightarrow> compose_error + filter_state" where
  "filter_loop i shape [] st = Inr st"
| "filter_loop i shape (f # fs) st =
     res_bind (map_err (ComposeFilterExpr i (fs_id f)) (validate_sql_expr (fs_expr f))) (\<lambda>_.
     res_bind (operator_loop shape f (fs_operators f) st) (filter_loop i shape fs))"

definition order_by_clause :: "dataset_knowledge \<Rightarrow> string option \<Rightarrow> compose_error + string" where
  "order_by_clause d order_by_id =
     (case order_by_id of
        None \<Rightarrow> Inr []
      | Some i \<Rightarrow>
          (case order_by_expr d i of
             None \<Rightarrow> Inl (UnknownOrderBy (ds_id d) i)
           | Some expr \<Rightarrow>
               res_bind (map_err (ComposeOrderByExpr (ds_id d) i) (validate_sql_expr expr))
                 (\<lambda>_. Inr (nl @ ''ORDER BY '' @ expr))))"

definition wrap_statement :: "string \<Rightarrow> string \<Rightarrow> string \<Rightarrow> string \<Rightarrow> string" where
  "wrap_statement source predicates fragment order_by =
     ''WITH source AS ('' @ nl @ source @ nl @ ''),'' @ nl @ ''base AS ('' @ nl @ ''  SELECT *'' @ nl @ ''  FROM source'' @ nl @
     ''  WHERE TRUE'' @ predicates @ nl @ '')'' @ nl @ fragment @ order_by"

definition compose_sql ::
  "dataset_knowledge \<Rightarrow> string \<Rightarrow> string option \<Rightarrow> string \<Rightarrow> string option \<Rightarrow> compose_error + composed_sql" where
  "compose_sql d shape_id order_by_id source_sql fragment_sql =
     (case dataset_shape d shape_id of
        None \<Rightarrow> Inl (UnknownShape (ds_id d) shape_id)
      | Some shape \<Rightarrow>
          if sh_fragment shape = None \<and> ds_filters d = [] \<and> order_by_id = None
          then Inr \<lparr>co_sql = source_sql, co_filter_binds = []\<rparr>
          else
            (case fragment_sql of
               None \<Rightarrow> Inl (FragmentRequired shape_id (ds_id d))
             | Some fragment \<Rightarrow>
                 res_bind (filter_loop (ds_id d) shape (ds_filters d)
                     \<lparr>ft_placeholder = length (shape_parameters shape d), ft_predicates = [], ft_binds = []\<rparr>) (\<lambda>st.
                 res_bind (order_by_clause d order_by_id) (\<lambda>clause.
                 Inr \<lparr>co_sql = wrap_statement source_sql (ft_predicates st) fragment clause,
                      co_filter_binds = ft_binds st\<rparr>))))"

section \<open>Recipes\<close>

record filter_selection =
  fsel_filter_id :: string
  fsel_operator :: filter_operator
  fsel_value :: json

record dataset_selection =
  dsel_dataset_id :: string
  dsel_shape_id :: string
  dsel_order_by_id :: "string option"
  dsel_filters :: "filter_selection list"
  dsel_projection :: "string list"

datatype resolve_error =
    RecipeDataset string
  | RecipeShape string string
  | RecipeOrderBy string string string
  | RecipeParamsNotObject
  | RecipeFilter string string
  | RecipeOperator string string
  | RecipeValueSource string
  | RecipeSensitiveLiteral string
  | RecipeMissingParameter string
  | RecipeInvalidValue string
  | RecipeOutputField string string

definition is_string :: "json \<Rightarrow> bool" where
  "is_string v = (case v of JString _ \<Rightarrow> True | _ \<Rightarrow> False)"

definition is_boolean :: "json \<Rightarrow> bool" where
  "is_boolean v = (case v of JBool _ \<Rightarrow> True | _ \<Rightarrow> False)"

definition valid_scalar :: "(string \<Rightarrow> bool) \<Rightarrow> string \<Rightarrow> json \<Rightarrow> bool" where
  "valid_scalar is_decimal kind v =
     (if kind = ''date'' \<or> kind = ''string'' then is_string v
      else if kind = ''integer'' then as_i64 v \<noteq> None
      else if kind = ''boolean'' then is_boolean v
      else if kind = ''decimal'' then (case as_str v of None \<Rightarrow> False | Some s \<Rightarrow> is_decimal s)
      else False)"

definition valid_filter_value :: "(string \<Rightarrow> bool) \<Rightarrow> string \<Rightarrow> filter_operator \<Rightarrow> json \<Rightarrow> 32 word option \<Rightarrow> bool" where
  "valid_filter_value is_decimal kind op v row_cap =
     (case op of
        FBetween \<Rightarrow>
          (case as_array v of None \<Rightarrow> False | Some vs \<Rightarrow> length vs = 2 \<and> list_all (valid_scalar is_decimal kind) vs)
      | FIn \<Rightarrow>
          (case row_cap of
             None \<Rightarrow> False
           | Some cap \<Rightarrow>
               (case as_array v of
                  None \<Rightarrow> False
                | Some vs \<Rightarrow> vs \<noteq> [] \<and> length vs \<le> unat cap \<and> list_all (valid_scalar is_decimal kind) vs))
      | _ \<Rightarrow> valid_scalar is_decimal kind v)"

definition recipe_value :: "dataset_recipe_filter \<Rightarrow> object \<Rightarrow> resolve_error + json" where
  "recipe_value m params =
     (case rf_parameter m of
        Some p \<Rightarrow> ok_or (map_of params p) (RecipeMissingParameter p)
      | None \<Rightarrow> (case rf_value m of Some v \<Rightarrow> Inr v | None \<Rightarrow> Inr JNull))"

text \<open>One mapping of the recipe: \<open>None\<close> for an exact identifier, which contributes no value.\<close>

definition resolve_filter ::
  "(string \<Rightarrow> bool) \<Rightarrow> dataset_knowledge \<Rightarrow> shape_option \<Rightarrow> object \<Rightarrow> dataset_recipe_filter \<Rightarrow>
   resolve_error + filter_selection option" where
  "resolve_filter is_decimal d shape params m =
     res_bind (ok_or (find (\<lambda>slot. fs_id slot = rf_filter_id m) (ds_filters d)) (RecipeFilter (ds_id d) (rf_filter_id m))) (\<lambda>slot.
     res_bind (guard_err (rf_operator m \<notin> set (fs_operators slot)) (RecipeOperator (ds_id d) (fs_id slot))) (\<lambda>_.
     res_bind (guard_err ((rf_parameter m \<noteq> None) = (rf_value m \<noteq> None)) (RecipeValueSource (fs_id slot))) (\<lambda>_.
     if fs_input_policy slot = ExactIdentifier then
       res_bind (guard_err (rf_parameter m = None \<or> rf_value m \<noteq> None) (RecipeSensitiveLiteral (fs_id slot))) (\<lambda>_. Inr None)
     else
       res_bind (recipe_value m params) (\<lambda>v.
       res_bind (guard_err (\<not> valid_filter_value is_decimal (fs_kind slot) (rf_operator m) v (sh_row_cap shape))
                  (RecipeInvalidValue (fs_id slot))) (\<lambda>_.
       Inr (Some \<lparr>fsel_filter_id = fs_id slot, fsel_operator = rf_operator m, fsel_value = v\<rparr>))))))"

definition resolve_recipe ::
  "(string \<Rightarrow> bool) \<Rightarrow> dataset_knowledge \<Rightarrow> dataset_recipe \<Rightarrow> json \<Rightarrow> resolve_error + dataset_selection" where
  "resolve_recipe is_decimal d r params =
     res_bind (guard_err (ds_id d \<noteq> dr_dataset_id r) (RecipeDataset (dr_dataset_id r))) (\<lambda>_.
     res_bind (ok_or (dataset_shape d (dr_shape_id r)) (RecipeShape (ds_id d) (dr_shape_id r))) (\<lambda>shape.
     res_bind
       (case dr_order_by_id r of
          None \<Rightarrow> Inr ()
        | Some o' \<Rightarrow> guard_err (o' \<notin> set (sh_order_by shape)) (RecipeOrderBy (ds_id d) (sh_id shape) o')) (\<lambda>_.
     res_bind (case params of JObject obj \<Rightarrow> Inr obj | _ \<Rightarrow> Inl RecipeParamsNotObject) (\<lambda>obj.
     res_bind (res_map (resolve_filter is_decimal d shape obj) (dr_filters r)) (\<lambda>sels.
     res_bind (res_iter (\<lambda>field. guard_err (\<not> list_ex (\<lambda>f. dof_name f = field) (shape_output_fields shape d))
                 (RecipeOutputField (ds_id d) field)) (dr_projection r)) (\<lambda>_.
     Inr \<lparr>dsel_dataset_id = ds_id d, dsel_shape_id = sh_id shape, dsel_order_by_id = dr_order_by_id r,
          dsel_filters = List.map_filter (\<lambda>x. x) sels, dsel_projection = dr_projection r\<rparr>))))))"

end
