(* ===== verification/Execution.thy ===== *)
theory Execution
  imports Dataset Authorization
begin

text \<open>
  The execution of an approved plan: \<open>assistant/execution/plan/mod.rs\<close> (the plan and the policy
  decision on it) and \<open>execution/repository.rs\<close> (the statement, its arguments, the row ceiling and
  the result).  Reading a SQL file, parsing a date or a decimal and fetching the rows are the work
  of the file system, of \<open>chrono\<close> and \<open>rust_decimal\<close> and of the database: the record \<open>externals\<close> holds
  them.  A fetched row answers a request for a column of a declared type.
\<close>

section \<open>Plans and policy decisions\<close>

record retrieval_plan =
  rp_vector_query :: string
  rp_keyword_query :: string
  rp_graph_query :: string
  rp_metadata_filter :: "(string \<times> string) list"

record evidence_evaluation =
  ee_enough :: bool
  ee_source_count :: nat
  ee_source_types :: "string list"
  ee_reason :: "string option"

record execution_plan =
  ep_domain :: string
  ep_capability :: string
  ep_query_id :: string
  ep_dataset_selection :: "dataset_selection option"
  ep_output_mode :: string
  ep_params :: json
  ep_retrieval_plan :: retrieval_plan
  ep_evidence_evaluation :: evidence_evaluation
  ep_requires_policy_check :: bool

datatype policy_decision_status = PolicyAllowed | PolicyBlocked | PolicyNotApplicable

record policy_decision =
  pd_status :: policy_decision_status
  pd_reason :: "authorization_error option"
  pd_office_ids :: "int list"
  pd_can_view_pii :: bool

definition blocked :: "authorization_error \<Rightarrow> policy_decision" where
  "blocked reason = \<lparr>pd_status = PolicyBlocked, pd_reason = Some reason, pd_office_ids = [], pd_can_view_pii = False\<rparr>"

definition evaluate_policy :: "principal_context \<Rightarrow> execution_plan option \<Rightarrow> policy_decision" where
  "evaluate_policy client plan =
     (case plan of
        None \<Rightarrow> \<lparr>pd_status = PolicyNotApplicable, pd_reason = None, pd_office_ids = [], pd_can_view_pii = False\<rparr>
      | Some p \<Rightarrow>
          (case ensure_capability_allowed client (ep_capability p) of
             Inl e \<Rightarrow> blocked e
           | Inr _ \<Rightarrow>
               (case effective_office_scope client None of
                  Inl e \<Rightarrow> blocked e
                | Inr offices \<Rightarrow>
                    \<lparr>pd_status = PolicyAllowed, pd_reason = None, pd_office_ids = offices,
                     pd_can_view_pii = pc_can_view_pii client\<rparr>)))"

section \<open>Errors, arguments and the outside\<close>

datatype exec_error =
    PolicyBlockedExecution
  | QueryNotFound string
  | SelectionDatasetNotFound
  | SelectionShapeNotFound
  | InvalidSqlPath
  | SqlFileUnreadable
  | ComposeFailed compose_error
  | UnsupportedParameter string
  | MissingParameter string
  | ParameterNotArray string
  | ParameterNotIntegers string
  | MalformedDate
  | MalformedDecimal
  | MissingSensitiveIdentifier
  | UnsupportedInBind string
  | UnsupportedFilterBind string
  | UnsupportedOutputField string
  | ExecutionTimedOut
  | DatabaseFailed
  | ColumnUnreadable

datatype sql_arg =
    ArgDate "naive_date option"
  | ArgInt "int option"
  | ArgBool "bool option"
  | ArgText "string option"
  | ArgDecimal "string option"
  | ArgIntArray "int list option"
  | ArgTextArray "string list option"

record execution_limits =
  el_default_timeout_ms :: "64 word"
  el_global_max_rows :: int

type_synonym fetched_row = "string \<Rightarrow> string \<Rightarrow> exec_error + json"

record externals =
  ex_read :: "string \<Rightarrow> string option"
  ex_parse_date :: "string \<Rightarrow> naive_date option"
  ex_parse_decimal :: "string \<Rightarrow> string option"
  ex_fetch :: "string \<Rightarrow> sql_arg list \<Rightarrow> 64 word \<Rightarrow> exec_error + fetched_row list"

section \<open>The approved statement\<close>

definition join_path :: "string \<Rightarrow> string \<Rightarrow> string" where
  "join_path root p = (if root = [] \<or> last root = CHR ''/'' then root @ p else root @ ''/'' @ p)"

text \<open>
  Every component of the relative path is \<open>Normal\<close>: no root, no parent, and no leading current
  directory (the iterator drops the inner ones and repeated separators).
\<close>

definition normal_components :: "string \<Rightarrow> bool" where
  "normal_components p \<longleftrightarrow>
     \<not> starts_with ''/'' p \<and> ''..'' \<notin> set (split_on (CHR ''/'') p) \<and> hd (split_on (CHR ''/'') p) \<noteq> ''.''"

definition resolve_sql_path :: "string \<Rightarrow> string \<Rightarrow> exec_error + string" where
  "resolve_sql_path root sql_file =
     (let relative = (case strip_prefix ''queries/'' sql_file of Some r \<Rightarrow> r | None \<Rightarrow> sql_file) in
      if \<not> normal_components relative then Inl InvalidSqlPath else Inr (join_path root relative))"

definition read_approved_sql :: "externals \<Rightarrow> knowledge_catalog \<Rightarrow> string \<Rightarrow> exec_error + string" where
  "read_approved_sql x cat sql_file =
     res_bind (resolve_sql_path (kc_query_path cat) sql_file) (\<lambda>path. ok_or (ex_read x path) SqlFileUnreadable)"

record statement =
  sm_sql :: string
  sm_parameters :: "query_parameter list"
  sm_output_fields :: "query_output_field list"
  sm_timeout_ms :: "64 word"
  sm_applied_filters :: "string list"

definition timeout_or :: "64 word \<Rightarrow> 64 word option \<Rightarrow> 64 word" where
  "timeout_or d x = (case x of None \<Rightarrow> d | Some v \<Rightarrow> v)"

definition resolve_statement ::
  "externals \<Rightarrow> knowledge_catalog \<Rightarrow> execution_plan \<Rightarrow> query_knowledge \<Rightarrow> 64 word \<Rightarrow> exec_error + statement" where
  "resolve_statement x cat plan query default_timeout_ms =
     (case ep_dataset_selection plan of
        None \<Rightarrow>
          res_bind (read_approved_sql x cat (q_sql_file query)) (\<lambda>sql. Inr
            \<lparr>sm_sql = sql, sm_parameters = q_parameters query, sm_output_fields = q_output_fields query,
             sm_timeout_ms = timeout_or default_timeout_ms (q_timeout_ms query), sm_applied_filters = []\<rparr>)
      | Some sel \<Rightarrow>
          res_bind (ok_or (find_dataset cat (dsel_dataset_id sel)) SelectionDatasetNotFound) (\<lambda>d.
          res_bind (ok_or (dataset_shape d (dsel_shape_id sel)) SelectionShapeNotFound) (\<lambda>shape.
          res_bind (read_approved_sql x cat (ds_source_sql d)) (\<lambda>source.
          res_bind (case sh_fragment shape of
                      None \<Rightarrow> Inr None
                    | Some path \<Rightarrow> res_bind (read_approved_sql x cat path) (\<lambda>f. Inr (Some f))) (\<lambda>fragment.
          res_bind (map_err ComposeFailed (compose_sql d (dsel_shape_id sel) (dsel_order_by_id sel) source fragment)) (\<lambda>composed.
          Inr \<lparr>sm_sql = co_sql composed, sm_parameters = shape_parameters shape d,
               sm_output_fields = map (\<lambda>f. \<lparr>qof_name = dof_name f, qof_kind = dof_kind f, qof_sensitivity = dof_sensitivity f\<rparr>)
                 (shape_output_fields shape d),
               sm_timeout_ms = timeout_or default_timeout_ms (ds_timeout_ms d),
               sm_applied_filters = map fsel_filter_id (dsel_filters sel)\<rparr>))))))"

section \<open>Arguments of the declared parameters\<close>

definition required_or_null :: "query_parameter \<Rightarrow> exec_error + 'a option" where
  "required_or_null p = (if qp_required p then Inl (MissingParameter (qp_name p)) else Inr None)"

definition date_param :: "externals \<Rightarrow> json \<Rightarrow> query_parameter \<Rightarrow> exec_error + naive_date option" where
  "date_param x params p =
     (case Option.bind (json_get params (qp_name p)) as_str of
        None \<Rightarrow> required_or_null p
      | Some s \<Rightarrow> res_bind (ok_or (ex_parse_date x s) MalformedDate) (\<lambda>d. Inr (Some d)))"

definition integer_param :: "json \<Rightarrow> query_parameter \<Rightarrow> exec_error + int option" where
  "integer_param params p =
     (case Option.bind (json_get params (qp_name p)) as_i64 of
        None \<Rightarrow> required_or_null p
      | Some i \<Rightarrow> Inr (Some i))"

definition decimal_param :: "externals \<Rightarrow> json \<Rightarrow> query_parameter \<Rightarrow> exec_error + string option" where
  "decimal_param x params p =
     (case Option.bind (json_get params (qp_name p)) as_str of
        None \<Rightarrow> required_or_null p
      | Some s \<Rightarrow> res_bind (ok_or (ex_parse_decimal x s) MalformedDecimal) (\<lambda>d. Inr (Some d)))"

definition string_param :: "json \<Rightarrow> query_parameter \<Rightarrow> exec_error + string option" where
  "string_param params p =
     (case Option.bind (json_get params (qp_name p)) as_str of
        None \<Rightarrow> required_or_null p
      | Some s \<Rightarrow> Inr (Some s))"

definition array_bigint_param :: "json \<Rightarrow> policy_decision \<Rightarrow> query_parameter \<Rightarrow> exec_error + int list option" where
  "array_bigint_param params policy p =
     (if qp_source p = Some ''authorized_scope'' then Inr (Some (pd_office_ids policy))
      else
        (case json_get params (qp_name p) of
           None \<Rightarrow> required_or_null p
         | Some v \<Rightarrow>
             res_bind (ok_or (as_array v) (ParameterNotArray (qp_name p))) (\<lambda>items.
             res_bind (res_map (\<lambda>i. ok_or (as_i64 i) (ParameterNotIntegers (qp_name p))) items) (\<lambda>is.
             Inr (Some is)))))"

definition i64_max :: int where
  "i64_max = 9223372036854775807"

definition saturating_add :: "int \<Rightarrow> int \<Rightarrow> int" where
  "saturating_add a b = max (- i64_max - 1) (min i64_max (a + b))"

definition is_limit_name :: "string \<Rightarrow> bool" where
  "is_limit_name n \<longleftrightarrow> n = ''limit'' \<or> n = ''top_n''"

text \<open>The integer argument: the ceiling plus one replaces the limit when the ceiling decides.\<close>

definition limited_integer :: "json \<Rightarrow> string option \<Rightarrow> int option \<Rightarrow> query_parameter \<Rightarrow> exec_error + int option" where
  "limited_integer params limit_param fetch_limit p =
     (if limit_param = Some (qp_name p) then
        (case fetch_limit of
           Some l \<Rightarrow> Inr (Some (saturating_add l 1))
         | None \<Rightarrow> integer_param params p)
      else integer_param params p)"

definition param_arg ::
  "externals \<Rightarrow> json \<Rightarrow> policy_decision \<Rightarrow> string option \<Rightarrow> int option \<Rightarrow> query_parameter \<Rightarrow> exec_error + sql_arg" where
  "param_arg x params policy limit_param fetch_limit p =
     (if qp_kind p = ''date'' then res_bind (date_param x params p) (\<lambda>v. Inr (ArgDate v))
      else if qp_kind p = ''integer'' then res_bind (limited_integer params limit_param fetch_limit p) (\<lambda>v. Inr (ArgInt v))
      else if qp_kind p = ''string'' then res_bind (string_param params p) (\<lambda>v. Inr (ArgText v))
      else if qp_kind p = ''decimal'' then res_bind (decimal_param x params p) (\<lambda>v. Inr (ArgDecimal v))
      else if qp_kind p = ''array_bigint'' then res_bind (array_bigint_param params policy p) (\<lambda>v. Inr (ArgIntArray v))
      else Inl (UnsupportedParameter (qp_kind p)))"

definition transient :: "query_parameter \<Rightarrow> bool" where
  "transient p \<longleftrightarrow> qp_source p = Some ''transient_sensitive_input''"

section \<open>Arguments of the filters\<close>

record dataset_bind_value =
  bv_kind :: string
  bv_operator :: filter_operator
  bv_value :: "json option"

definition selected_filter :: "dataset_selection \<Rightarrow> filter_slot \<Rightarrow> filter_operator \<Rightarrow> filter_selection option" where
  "selected_filter sel slot op = find (\<lambda>f. fsel_filter_id f = fs_id slot \<and> fsel_operator f = op) (dsel_filters sel)"

definition array_item :: "filter_selection option \<Rightarrow> nat \<Rightarrow> json option" where
  "array_item selected k =
     Option.bind (Option.bind selected (\<lambda>f. as_array (fsel_value f))) (\<lambda>vs. if k < length vs then Some (vs ! k) else None)"

definition operator_binds ::
  "dataset_selection \<Rightarrow> string option \<Rightarrow> filter_slot \<Rightarrow> filter_operator \<Rightarrow> exec_error + dataset_bind_value list" where
  "operator_binds sel sensitive slot op =
     (let selected = selected_filter sel slot op;
          sensitive_value = (if fs_input_policy slot = ExactIdentifier then map_option JString sensitive else None);
          bind = (\<lambda>v. \<lparr>bv_kind = fs_kind slot, bv_operator = op, bv_value = v\<rparr>) in
      if fs_input_policy slot = ExactIdentifier \<and> sensitive_value = None then Inl MissingSensitiveIdentifier
      else if op = FBetween then Inr (map (\<lambda>k. bind (array_item selected k)) [0, 1])
      else
        Inr [bind (case sensitive_value of
                     Some v \<Rightarrow> Some v
                   | None \<Rightarrow> map_option fsel_value selected)])"

definition compose_dataset_binds ::
  "dataset_knowledge \<Rightarrow> dataset_selection \<Rightarrow> string option \<Rightarrow> exec_error + dataset_bind_value list" where
  "compose_dataset_binds d sel sensitive =
     res_bind
       (res_map (\<lambda>slot. res_bind (res_map (operator_binds sel sensitive slot) (fs_operators slot)) (\<lambda>bs. Inr (concat bs)))
          (ds_filters d))
       (\<lambda>bs. Inr (concat bs))"

definition parsed :: "('a \<Rightarrow> 'b option) \<Rightarrow> exec_error \<Rightarrow> 'a option \<Rightarrow> exec_error + 'b option" where
  "parsed f e x = (case x of None \<Rightarrow> Inr None | Some s \<Rightarrow> res_bind (ok_or (f s) e) (\<lambda>v. Inr (Some v)))"

definition bind_dataset_value :: "externals \<Rightarrow> dataset_bind_value \<Rightarrow> exec_error + sql_arg" where
  "bind_dataset_value x b =
     (if bv_operator b = FIn then
        (if bv_kind b = ''integer'' then
           Inr (ArgIntArray (map_option (List.map_filter as_i64) (Option.bind (bv_value b) as_array)))
         else if bv_kind b = ''string'' then
           Inr (ArgTextArray (map_option (List.map_filter as_str) (Option.bind (bv_value b) as_array)))
         else Inl (UnsupportedInBind (bv_kind b)))
      else if bv_kind b = ''date'' then
        res_bind (parsed (ex_parse_date x) MalformedDate (Option.bind (bv_value b) as_str)) (\<lambda>v. Inr (ArgDate v))
      else if bv_kind b = ''integer'' then Inr (ArgInt (Option.bind (bv_value b) as_i64))
      else if bv_kind b = ''boolean'' then
        Inr (ArgBool (Option.bind (bv_value b) (\<lambda>v. case v of JBool t \<Rightarrow> Some t | _ \<Rightarrow> None)))
      else if bv_kind b = ''string'' then Inr (ArgText (Option.bind (bv_value b) as_str))
      else if bv_kind b = ''decimal'' then
        res_bind (parsed (ex_parse_decimal x) MalformedDecimal (Option.bind (bv_value b) as_str)) (\<lambda>v. Inr (ArgDecimal v))
      else Inl (UnsupportedFilterBind (bv_kind b)))"

section \<open>The row ceiling\<close>

definition effective_row_cap :: "int option \<Rightarrow> int \<Rightarrow> int" where
  "effective_row_cap declared_hard_cap global_max_rows =
     (case declared_hard_cap of None \<Rightarrow> global_max_rows | Some c \<Rightarrow> c)"

definition truncation_limit :: "int option \<Rightarrow> int \<Rightarrow> int option" where
  "truncation_limit requested row_cap =
     (case requested of
        None \<Rightarrow> Some row_cap
      | Some r \<Rightarrow> if r \<le> row_cap then None else Some row_cap)"

definition declared_hard_cap :: "knowledge_catalog \<Rightarrow> execution_plan \<Rightarrow> int option" where
  "declared_hard_cap cat plan =
     Option.bind (find (\<lambda>c. cap_id c = ep_capability plan) (kc_capabilities cat)) (\<lambda>c.
     Option.bind (find (\<lambda>p. is_limit_name (pp_name p)) (cap_parameter_policies c)) pp_hard_cap)"

definition limit_parameter :: "query_parameter list \<Rightarrow> string option" where
  "limit_parameter ps = map_option qp_name (find (\<lambda>p. is_limit_name (qp_name p)) ps)"

definition fetch_limit_for :: "json \<Rightarrow> string option \<Rightarrow> int \<Rightarrow> int option" where
  "fetch_limit_for params limit_param row_cap =
     (case limit_param of
        None \<Rightarrow> None
      | Some name \<Rightarrow> truncation_limit (Option.bind (json_get params name) as_i64) row_cap)"

text \<open>\<open>Vec::truncate\<close> after the cast \<open>as usize\<close>, which wraps a negative number.\<close>

definition truncate_rows :: "int option \<Rightarrow> 'a list \<Rightarrow> bool \<times> int \<times> 'a list" where
  "truncate_rows fetch_limit rows =
     (case fetch_limit of
        Some l \<Rightarrow>
          if int (length rows) > l then (True, l, take (nat (l mod 2 ^ 64)) rows)
          else (False, int (length rows), rows)
      | None \<Rightarrow> (False, int (length rows), rows))"

section \<open>The result\<close>

definition is_supported_output_field_type :: "string \<Rightarrow> bool" where
  "is_supported_output_field_type kind \<longleftrightarrow>
     kind \<in> {''date'', ''decimal'', ''integer'', ''bigint'', ''string'', ''boolean''}"

definition row_json :: "query_output_field list \<Rightarrow> fetched_row \<Rightarrow> exec_error + json" where
  "row_json fs row =
     res_bind
       (res_map (\<lambda>f. if \<not> is_supported_output_field_type (qof_kind f) then Inl (UnsupportedOutputField (qof_kind f))
                     else res_bind (row (qof_name f) (qof_kind f)) (\<lambda>v. Inr (qof_name f, v))) fs)
       (\<lambda>kvs. Inr (obj_of kvs))"

definition statement_args ::
  "externals \<Rightarrow> knowledge_catalog \<Rightarrow> execution_plan \<Rightarrow> policy_decision \<Rightarrow> string option \<Rightarrow> statement \<Rightarrow> int option \<Rightarrow>
   exec_error + sql_arg list" where
  "statement_args x cat plan policy sensitive sm fetch_limit =
     res_bind (res_map (param_arg x (ep_params plan) policy (limit_parameter (sm_parameters sm)) fetch_limit)
                 (filter (\<lambda>p. \<not> transient p) (sm_parameters sm))) (\<lambda>args.
       (case ep_dataset_selection plan of
          None \<Rightarrow> Inr args
        | Some sel \<Rightarrow>
            res_bind (ok_or (find_dataset cat (dsel_dataset_id sel)) SelectionDatasetNotFound) (\<lambda>d.
            res_bind (compose_dataset_binds d sel sensitive) (\<lambda>binds.
            res_bind (res_map (bind_dataset_value x) binds) (\<lambda>more.
            Inr (args @ more))))))"

definition execute_plan_with_sensitive ::
  "externals \<Rightarrow> knowledge_catalog \<Rightarrow> execution_plan \<Rightarrow> policy_decision \<Rightarrow> execution_limits \<Rightarrow> string option \<Rightarrow>
   exec_error + json" where
  "execute_plan_with_sensitive x cat plan policy limits sensitive =
     res_bind (guard_err (pd_status policy \<noteq> PolicyAllowed) PolicyBlockedExecution) (\<lambda>_.
     res_bind (ok_or (find_query cat (ep_query_id plan)) (QueryNotFound (ep_query_id plan))) (\<lambda>query.
     res_bind (resolve_statement x cat plan query (el_default_timeout_ms limits)) (\<lambda>sm.
     let row_cap = effective_row_cap (declared_hard_cap cat plan) (el_global_max_rows limits);
         fetch_limit = fetch_limit_for (ep_params plan) (limit_parameter (sm_parameters sm)) row_cap in
     res_bind (statement_args x cat plan policy sensitive sm fetch_limit) (\<lambda>args.
     res_bind (ex_fetch x (sm_sql sm) args (sm_timeout_ms sm)) (\<lambda>rows.
     let (truncated, shown, kept) = truncate_rows fetch_limit rows in
     res_bind (res_map (row_json (sm_output_fields sm)) kept) (\<lambda>result_rows.
     Inr (obj_of
       [(''query_id'', JString (q_id query)), (''row_count'', json_int (int (length result_rows))),
        (''rows'', JArray result_rows), (''truncated'', JBool truncated), (''shown'', json_int shown),
        (''applied_filters'', JArray (map JString (sm_applied_filters sm)))])))))))"

definition execute_plan ::
  "externals \<Rightarrow> knowledge_catalog \<Rightarrow> execution_plan \<Rightarrow> policy_decision \<Rightarrow> execution_limits \<Rightarrow> exec_error + json" where
  "execute_plan x cat plan policy limits = execute_plan_with_sensitive x cat plan policy limits None"

end
