(* ===== verification/NodeExecutor.thy ===== *)
theory NodeExecutor
  imports Run Execution
begin

text \<open>
  The executor of the nodes that ask for data or for the user: \<open>workflow/node_executor.rs\<close>, the guard
  in front of the data, \<open>llm/tool/data.rs\<close>, and the plan it executes, \<open>llm/tool/data_executor.rs\<close>.
  The guard takes the executor behind it as a parameter, as the code does.  The business database
  may answer differently at every tick, so the outside of the execution is a function of the tick.
\<close>

section \<open>Requests and rejections\<close>

record data_tool_request =
  tr_node_id :: node_id
  tr_capability_id :: string
  tr_parameters :: bindings
  tr_timeout_ms :: "64 word"
  tr_row_cap :: "32 word"

datatype data_tool_rejection =
    RejectMembership
  | RejectCapability
  | RejectProvenance
  | RejectPolicy
  | RejectPii
  | RejectOfficeScope
  | RejectTimeout
  | RejectRowCap
  | RejectQueryBudget

definition rejection_message :: "data_tool_rejection \<Rightarrow> string" where
  "rejection_message r = ''The requested workflow step is not available.''"

section \<open>The guard\<close>

definition runnable_member :: "execution_workflow \<Rightarrow> node_run list \<Rightarrow> node_id \<Rightarrow> workflow_node option" where
  "runnable_member w runs i =
     (if list_ex (\<lambda>r. nr_node_id r = i \<and> nr_status r = Completed) runs then None
      else
        (case find_node w i of
           None \<Rightarrow> None
         | Some node \<Rightarrow> if dependencies_satisfied node w runs then Some node else None))"

definition parameters_have_declared_provenance :: "workflow_node \<Rightarrow> bindings \<Rightarrow> bool" where
  "parameters_have_declared_provenance node ps =
     list_all (\<lambda>p. list_ex (\<lambda>i. ni_parameter i = p \<and> ni_source i \<noteq> ExactSensitiveInput) (wn_inputs node)) (map fst ps)"

definition entry_allowed :: "node_kind \<Rightarrow> bool \<Rightarrow> bool" where
  "entry_allowed k probe =
     (case k of ResolveEntity _ \<Rightarrow> probe | ExecuteQuery _ \<Rightarrow> \<not> probe | _ \<Rightarrow> False)"

definition declared_capability :: "workflow_node \<Rightarrow> string option" where
  "declared_capability node =
     (case wn_kind node of ExecuteQuery q \<Rightarrow> eq_capability_id q | _ \<Rightarrow> np_required_capability (wn_policy node))"

text \<open>The guard counts completed nodes, as \<open>u16\<close>, and adds the cost of the node.\<close>

definition used_queries :: "node_run list \<Rightarrow> 16 word" where
  "used_queries runs = of_nat (length (filter (\<lambda>r. nr_status r = Completed) runs))"

definition guard_checks ::
  "execution_workflow \<Rightarrow> node_run list \<Rightarrow> principal_context \<Rightarrow> knowledge_catalog \<Rightarrow> data_tool_request \<Rightarrow> bool \<Rightarrow>
   data_tool_rejection + workflow_node" where
  "guard_checks w runs pr cat rq probe =
     res_bind (ok_or (runnable_member w runs (tr_node_id rq)) RejectMembership) (\<lambda>node.
     res_bind (guard_err (\<not> entry_allowed (wn_kind node) probe) RejectMembership) (\<lambda>_.
     res_bind (guard_err (declared_capability node \<noteq> Some (tr_capability_id rq) \<or> \<not> approved_id cat (tr_capability_id rq))
                RejectCapability) (\<lambda>_.
     res_bind (guard_err (\<not> parameters_have_declared_provenance node (tr_parameters rq)) RejectProvenance) (\<lambda>_.
     res_bind (map_err (\<lambda>_. RejectPolicy) (ensure_capability_allowed pr (tr_capability_id rq))) (\<lambda>_.
     res_bind (map_err (\<lambda>_. RejectPii) (ensure_pii_allowed pr (np_pii_required (wn_policy node)))) (\<lambda>_.
     res_bind (map_err (\<lambda>_. RejectOfficeScope) (effective_office_scope pr None)) (\<lambda>_.
     res_bind (guard_err (tr_timeout_ms rq = 0 \<or> tr_timeout_ms rq > nb_timeout_ms (wn_budget node)) RejectTimeout) (\<lambda>_.
     res_bind (guard_err (tr_row_cap rq = 0 \<or> tr_row_cap rq > nb_row_cap (wn_budget node)) RejectRowCap) (\<lambda>_.
     res_bind (guard_err (used_queries runs + ucast (nb_query_cost (wn_budget node)) > ucast (max_query_count (ew_budgets w)))
                RejectQueryBudget) (\<lambda>_.
     Inr node))))))))))"

definition guarded_execute ::
  "(data_tool_request \<Rightarrow> 'e + json) \<Rightarrow> execution_workflow \<Rightarrow> node_run list \<Rightarrow> principal_context \<Rightarrow> knowledge_catalog \<Rightarrow>
   data_tool_request \<Rightarrow> bool \<Rightarrow> data_tool_rejection + json" where
  "guarded_execute execute_approved w runs pr cat rq probe =
     res_bind (guard_checks w runs pr cat rq probe) (\<lambda>_.
     res_bind (map_err (\<lambda>_. RejectQueryBudget) (execute_approved rq)) (\<lambda>output.
     Inr (obj_of [(''untrusted_tool_output'', output)])))"

definition execute_approved_probe ::
  "(data_tool_request \<Rightarrow> 'e + json) \<Rightarrow> execution_workflow \<Rightarrow> node_run list \<Rightarrow> principal_context \<Rightarrow> knowledge_catalog \<Rightarrow>
   data_tool_request \<Rightarrow> data_tool_rejection + json" where
  "execute_approved_probe x w runs pr cat rq = guarded_execute x w runs pr cat rq True"

definition execute_approved_capability ::
  "(data_tool_request \<Rightarrow> 'e + json) \<Rightarrow> execution_workflow \<Rightarrow> node_run list \<Rightarrow> principal_context \<Rightarrow> knowledge_catalog \<Rightarrow>
   data_tool_request \<Rightarrow> data_tool_rejection + json" where
  "execute_approved_capability x w runs pr cat rq = guarded_execute x w runs pr cat rq False"

section \<open>The plan of a request\<close>

datatype request_error =
    CapabilityNotFound string
  | RecipeDatasetNotFound string string
  | RecipeFailed resolve_error
  | ExecutionFailed exec_error

text \<open>Null bindings are filled from the resolved parameters; others stay, and no name is added.\<close>

definition fill_parameters :: "bindings \<Rightarrow> (string \<Rightarrow> json option) \<Rightarrow> bindings" where
  "fill_parameters ps resolved =
     map (\<lambda>(n, v). (n, if v = JNull then (case resolved n of None \<Rightarrow> v | Some r \<Rightarrow> r) else v)) ps"

definition default_retrieval_plan :: retrieval_plan where
  "default_retrieval_plan =
     \<lparr>rp_vector_query = [], rp_keyword_query = [], rp_graph_query = [], rp_metadata_filter = []\<rparr>"

definition default_evidence :: evidence_evaluation where
  "default_evidence = \<lparr>ee_enough = False, ee_source_count = 0, ee_source_types = [], ee_reason = None\<rparr>"

definition request_selection ::
  "(string \<Rightarrow> bool) \<Rightarrow> knowledge_catalog \<Rightarrow> capability_knowledge \<Rightarrow> json \<Rightarrow> request_error + dataset_selection option" where
  "request_selection is_decimal cat c params =
     (case cap_dataset_recipe c of
        None \<Rightarrow> Inr None
      | Some r \<Rightarrow>
          res_bind (ok_or (find_dataset cat (dr_dataset_id r)) (RecipeDatasetNotFound (dr_dataset_id r) (cap_id c))) (\<lambda>d.
          res_bind (map_err RecipeFailed (resolve_recipe is_decimal d r params)) (\<lambda>sel. Inr (Some sel))))"

definition build_query_request ::
  "(string \<Rightarrow> bool) \<Rightarrow> data_tool_request \<Rightarrow> knowledge_catalog \<Rightarrow> (string \<Rightarrow> json option) \<Rightarrow> request_error + execution_plan" where
  "build_query_request is_decimal rq cat resolved =
     res_bind (ok_or (find (\<lambda>c. cap_id c = tr_capability_id rq) (kc_capabilities cat)) (CapabilityNotFound (tr_capability_id rq))) (\<lambda>c.
     let params = obj_of (fill_parameters (tr_parameters rq) resolved) in
     res_bind (request_selection is_decimal cat c params) (\<lambda>sel.
     Inr \<lparr>ep_domain = cap_domain c, ep_capability = tr_capability_id rq, ep_query_id = cap_query_id c,
          ep_dataset_selection = sel, ep_output_mode = cap_output_mode c, ep_params = params,
          ep_retrieval_plan = default_retrieval_plan, ep_evidence_evaluation = default_evidence,
          ep_requires_policy_check = True\<rparr>))"

record data_executor =
  fx_catalog :: knowledge_catalog
  fx_policy :: policy_decision
  fx_limits :: execution_limits
  fx_sensitive :: "string option"
  fx_resolved :: "string \<Rightarrow> json option"

definition is_decimal_of :: "externals \<Rightarrow> string \<Rightarrow> bool" where
  "is_decimal_of x s \<longleftrightarrow> ex_parse_decimal x s \<noteq> None"

definition fineract_execute :: "externals \<Rightarrow> data_executor \<Rightarrow> data_tool_request \<Rightarrow> request_error + json" where
  "fineract_execute x fx rq =
     res_bind (build_query_request (is_decimal_of x) rq (fx_catalog fx) (fx_resolved fx)) (\<lambda>plan.
     map_err ExecutionFailed
       (execute_plan_with_sensitive x (fx_catalog fx) plan (fx_policy fx) (fx_limits fx) (fx_sensitive fx)))"

section \<open>Outputs and options\<close>

definition output_rows :: "json \<Rightarrow> json list option" where
  "output_rows output =
     Option.bind (Option.bind (json_get output ''untrusted_tool_output'') (\<lambda>v. json_get v ''rows'')) as_array"

definition wrap_i32 :: "int \<Rightarrow> int" where
  "wrap_i32 i = (i + 2147483648) mod 4294967296 - 2147483648"

definition rows_returned :: "json \<Rightarrow> int" where
  "rows_returned output = (case output_rows output of None \<Rightarrow> 0 | Some rows \<Rightarrow> wrap_i32 (int (length rows)))"

fun insert_slots :: "json \<Rightarrow> node_output_slot list \<Rightarrow> object \<Rightarrow> object" where
  "insert_slots row [] obj = obj"
| "insert_slots row (slot # slots) obj =
     insert_slots row slots
       (case json_get row (no_name slot) of None \<Rightarrow> obj | Some v \<Rightarrow> obj_insert (no_name slot) v obj)"

definition project_resolved_slots :: "workflow_node \<Rightarrow> json \<Rightarrow> json" where
  "project_resolved_slots node output =
     (case output_rows output of
        Some (row # _) \<Rightarrow>
          (case output of JObject obj \<Rightarrow> JObject (insert_slots row (wn_outputs node) obj) | v \<Rightarrow> v)
      | _ \<Rightarrow> output)"

definition row_client_id :: "json \<Rightarrow> int option" where
  "row_client_id row = Option.bind (json_get row ''client_id'') as_i64"

definition neutral_label :: "int \<Rightarrow> string" where
  "neutral_label i = ''Client '' @ show_int i"

definition entity_option :: "bool \<Rightarrow> json \<Rightarrow> int \<Rightarrow> clarification_option" where
  "entity_option can_view_pii row i =
     \<lparr>co_id = ''client:'' @ show_int i,
      co_label =
        (if can_view_pii then
           (case Option.bind (json_get row ''client_display_name'') as_str of Some n \<Rightarrow> n | None \<Rightarrow> neutral_label i)
         else neutral_label i),
      co_description = Option.bind (json_get row ''office_name'') as_str,
      co_fields = []\<rparr>"

text \<open>Rows without an integer \<open>client_id\<close> and repeated clients are left out.\<close>

fun entity_options :: "bool \<Rightarrow> int list \<Rightarrow> json list \<Rightarrow> clarification_option list" where
  "entity_options can_view_pii seen [] = []"
| "entity_options can_view_pii seen (row # rows) =
     (case row_client_id row of
        None \<Rightarrow> entity_options can_view_pii seen rows
      | Some i \<Rightarrow>
          if i \<in> set seen then entity_options can_view_pii seen rows
          else entity_option can_view_pii row i # entity_options can_view_pii (i # seen) rows)"

definition resolver_entity_options :: "node_run list \<Rightarrow> node_id \<Rightarrow> bool \<Rightarrow> clarification_option list" where
  "resolver_entity_options runs source can_view_pii =
     (case Option.bind (Option.bind (last_completed runs source) nr_output) output_rows of
        None \<Rightarrow> []
      | Some rows \<Rightarrow> entity_options can_view_pii [] rows)"

section \<open>The executor\<close>

record capability_executor =
  ce_executor :: data_executor
  ce_principal :: principal_context
  ce_catalog :: knowledge_catalog
  ce_job :: uuid
  ce_workflow :: execution_workflow

definition interrupt_kind :: "string \<Rightarrow> clarification_kind" where
  "interrupt_kind k =
     (if k = ''select_option'' then SelectOption
      else if k = ''select_entity'' then SelectEntity
      else if k = ''free_text'' then FreeText
      else CollectFields)"

definition ask_payload :: "uuid \<Rightarrow> clarification_kind \<Rightarrow> clarification_option list \<Rightarrow> clarification_payload" where
  "ask_payload i kind options =
     \<lparr>cp_version = 1, cp_id = i, cp_revision = 0, cp_kind = kind,
      cp_question = (if options = [] then ''Additional information is needed to continue.'' else ''Which one did you mean?''),
      cp_options = options, cp_fields = [], cp_attempt = 0, cp_source_intent = None, cp_allow_free_text = False,
      cp_is_missing_execution_parameters = True, cp_workflow_id = None, cp_node_id = None, cp_resume_node_id = None,
      cp_entity_kind = None\<rparr>"

definition ask_user :: "env \<Rightarrow> capability_executor \<Rightarrow> clarification_interrupt_node \<Rightarrow> node_execution sq" where
  "ask_user env ce i =
     (let kind = interrupt_kind (ci_clarification_kind i) in
      sq_bind
        (if kind = SelectEntity then
           sq_bind (node_runs env (ce_job ce) (ew_id (ce_workflow ce)))
             (\<lambda>runs. sq_return (resolver_entity_options runs (ci_option_source i) (pc_can_view_pii (ce_principal ce))))
         else sq_return []) (\<lambda>options.
      sq_bind (fresh_uuid env) (\<lambda>u. sq_return (ExecWaiting (ask_payload u kind options)))))"

definition is_resolver :: "workflow_node \<Rightarrow> bool" where
  "is_resolver node = (case wn_kind node of ResolveEntity _ \<Rightarrow> True | _ \<Rightarrow> False)"

definition node_request :: "workflow_node \<Rightarrow> string \<Rightarrow> bindings \<Rightarrow> data_tool_request" where
  "node_request node c bindings =
     \<lparr>tr_node_id = wn_id node, tr_capability_id = c, tr_parameters = bindings,
      tr_timeout_ms = nb_timeout_ms (wn_budget node), tr_row_cap = nb_row_cap (wn_budget node)\<rparr>"

definition node_result :: "workflow_node \<Rightarrow> data_tool_rejection + json \<Rightarrow> node_execution" where
  "node_result node guarded =
     (case guarded of
        Inl _ \<Rightarrow> ExecFailed
      | Inr output \<Rightarrow>
          ExecCompleted
            (if is_resolver node \<and> rows_returned output = 1 then project_resolved_slots node output else output)
            (rows_returned output))"

definition query_data ::
  "env \<Rightarrow> (nat \<Rightarrow> externals) \<Rightarrow> capability_executor \<Rightarrow> workflow_node \<Rightarrow> bindings \<Rightarrow> node_execution sq" where
  "query_data env outside ce node bindings =
     sq_bind (sq_of (ok_or (declared_capability node) (Bail ''workflow node has no declared capability id''))) (\<lambda>c.
     sq_bind (node_runs env (ce_job ce) (ew_id (ce_workflow ce))) (\<lambda>runs s.
       (Inr (node_result node
          ((if is_resolver node then execute_approved_probe else execute_approved_capability)
             (fineract_execute (outside (st_tick s)) (ce_executor ce)) (ce_workflow ce) runs (ce_principal ce) (ce_catalog ce)
             (node_request node c bindings))), s)))"

text \<open>
  The runner handles the other kinds itself and never asks the executor for them (\<open>unreachable!\<close>).
\<close>

definition capability_execute :: "env \<Rightarrow> (nat \<Rightarrow> externals) \<Rightarrow> capability_executor \<Rightarrow> executor" where
  "capability_execute env outside ce node bindings =
     (case wn_kind node of
        ClarificationInterrupt i \<Rightarrow> ask_user env ce i
      | ExecuteQuery _ \<Rightarrow> query_data env outside ce node bindings
      | ResolveEntity _ \<Rightarrow> query_data env outside ce node bindings
      | _ \<Rightarrow> sq_fail (Bail ''unreachable''))"

end
