(* ===== verification/NodeProps.thy ===== *)
theory NodeProps
  imports RunFacts StateProps
begin

text \<open>
  The properties of one node of a run: what it must be allowed to do before anything happens, what
  values it is given, what a composition shows, and how many nodes a batch holds.
\<close>

section \<open>Scheduling a batch\<close>

text \<open>
  A batch respects the limits of the workflow.  It is a prefix of the ready nodes, no longer
  than the declared parallelism (at least one), the query costs it declares fit in what is left of
  the budget, and it is empty only when nothing is ready or the first ready node alone would pass
  a limit.
\<close>

theorem batch_within_limits:
  assumes "unat (bt_queries t) \<le> unat (max_query_count (ew_budgets w))"
  shows "(\<exists>rest. ready = select_batch w t ready @ rest) \<and>
    length (select_batch w t ready) \<le> max 1 (unat (max_parallel_queries (ew_budgets w))) \<and>
    unat (bt_queries t) + batch_cost (select_batch w t ready) \<le> unat (max_query_count (ew_budgets w)) \<and>
    (select_batch w t ready = [] \<longleftrightarrow> ready = [] \<or> would_exceed t (ew_budgets w) (wn_budget (hd ready)))"
proof -
  have "select_batch w t ready = [] \<longleftrightarrow> ready = [] \<or> would_exceed t (ew_budgets w) (wn_budget (hd ready))"
    by (cases ready; cases "max 1 (unat (max_parallel_queries (ew_budgets w)))") (auto simp: select_batch_def)
  then show ?thesis using select_batch_prefix length_select_batch select_batch_queries [OF assms] by blast
qed

theorem batch_within_limits_witness:
  "length (select_batch sample_workflow zero_totals (ew_nodes sample_workflow)) \<le> 2"
proof -
  have "unat (bt_queries zero_totals) \<le> unat (max_query_count (ew_budgets sample_workflow))" by (simp add: zero_totals_def)
  then show ?thesis
    using batch_within_limits [of zero_totals sample_workflow "ew_nodes sample_workflow"] by (simp add: sample_workflow_def)
qed

section \<open>Policy\<close>

lemma check_capability_Inr_iff:
  "check_capability cat pr c = Inr u \<longleftrightarrow> (\<forall>i. c = Some i \<longrightarrow> approved_id cat i \<and> i \<in> set (pc_capability_ids pr))"
  by (cases c) (auto simp: check_capability_def auth_bail_def res_bind_Inr_iff)

lemma check_node_policy_Inr_iff:
  "check_node_policy n pr cat = Inr u \<longleftrightarrow>
     (\<forall>i. np_required_capability (wn_policy n) = Some i \<longrightarrow> approved_id cat i \<and> i \<in> set (pc_capability_ids pr)) \<and>
     (\<forall>q i. wn_kind n = ExecuteQuery q \<longrightarrow> eq_capability_id q = Some i \<longrightarrow> approved_id cat i \<and> i \<in> set (pc_capability_ids pr)) \<and>
     (np_pii_required (wn_policy n) \<longrightarrow> pc_can_view_pii pr) \<and> pc_office_ids pr \<noteq> []"
  by (cases "wn_kind n")
    (auto simp: check_node_policy_def res_bind_Inr_iff check_capability_Inr_iff auth_bail_def effective_office_scope_None_iff)

text \<open>
  C15: Nothing happens without permission.  Running a node either fails before any statement is
  issued, leaving the store as it was, or the principal holds every approved capability the node
  names, may see personal data if the node needs it, and has an office scope.
\<close>

theorem no_effect_without_permission:
  assumes "run_node env cd ex cat j w pr runs cancelled n s = (r, s')"
  shows "((\<exists>e. r = Inl e) \<and> s' = s) \<or>
    ((\<forall>i. np_required_capability (wn_policy n) = Some i \<longrightarrow> approved_id cat i \<and> i \<in> set (pc_capability_ids pr)) \<and>
     (\<forall>q i. wn_kind n = ExecuteQuery q \<longrightarrow> eq_capability_id q = Some i \<longrightarrow> approved_id cat i \<and> i \<in> set (pc_capability_ids pr)) \<and>
     (np_pii_required (wn_policy n) \<longrightarrow> pc_can_view_pii pr) \<and> pc_office_ids pr \<noteq> [])"
proof (cases "check_node_policy n pr cat")
  case (Inl e)
  then show ?thesis using assms by (auto simp: run_node_def sq_bind_def)
next
  case (Inr u)
  then show ?thesis unfolding check_node_policy_Inr_iff by blast
qed

theorem no_effect_without_permission_witness:
  "snd (run_node sample_env sample_codec (\<lambda>n b. sq_return ExecFailed) sample_catalog 5 sample_workflow
     (sample_principal\<lparr>pc_capability_ids := []\<rparr>) [] False sample_total sample_store) = sample_store"
proof -
  let ?pr = "sample_principal\<lparr>pc_capability_ids := []\<rparr>"
  obtain r s' where r: "run_node sample_env sample_codec (\<lambda>n b. sq_return ExecFailed) sample_catalog 5 sample_workflow
      ?pr [] False sample_total sample_store = (r, s')"
    by fastforce
  have "wn_kind sample_total = ExecuteQuery sample_query" and "eq_capability_id sample_query = Some ''loan_count''"
    by (simp_all add: sample_total_def sample_node_def sample_query_def)
  then show ?thesis using no_effect_without_permission [OF r] r by auto
qed

section \<open>Bindings\<close>

text \<open>
  A node is given only what its inputs declare.  Every binding belongs to a declared input that
  is not an exact sensitive value; the office parameter is the principal's own scope, a prior value
  is the slot of the latest completed run of the node it names, and everything else is null.
\<close>

theorem bindings_declared:
  assumes "bindings_for n runs pr = Inr bs" and "map_of bs k = Some v"
  shows "\<exists>i \<in> set (wn_inputs n). ni_parameter i = k \<and> ni_source i \<noteq> ExactSensitiveInput \<and>
    (ni_source i = AuthorizedScope \<longrightarrow> v = JArray (map json_int (pc_office_ids pr))) \<and>
    (\<forall>m slot. ni_source i = PriorStep m slot \<or> ni_source i = AuthorizedDataProbe m slot \<longrightarrow>
       (\<exists>r out. last_completed runs m = Some r \<and> nr_output r = Some out \<and> json_get out slot = Some v)) \<and>
    (ni_source i \<noteq> AuthorizedScope \<and> (\<forall>m slot. ni_source i \<noteq> PriorStep m slot \<and> ni_source i \<noteq> AuthorizedDataProbe m slot)
       \<longrightarrow> v = JNull)"
proof -
  obtain kvs where kvs: "res_map (\<lambda>i. res_bind (binding_value runs pr i) (\<lambda>v. Inr (ni_parameter i, v)))
      (filter (\<lambda>i. ni_source i \<noteq> ExactSensitiveInput) (wn_inputs n)) = Inr kvs" and bs: "bs = bt_of kvs"
    using assms(1) by (auto simp: bindings_for_def res_bind_Inr_iff)
  have "(k, v) \<in> set kvs"
    using assms(2) map_of_SomeD [of "rev kvs" k v] by (simp add: bs map_of_bt_of)
  then obtain x where x: "x < length kvs" "kvs ! x = (k, v)" by (auto simp: in_set_conv_nth)
  let ?is = "filter (\<lambda>i. ni_source i \<noteq> ExactSensitiveInput) (wn_inputs n)"
  have "x < length ?is \<and> res_bind (binding_value runs pr (?is ! x)) (\<lambda>v. Inr (ni_parameter (?is ! x), v)) = Inr (k, v)"
    using kvs x by (simp add: res_map_Inr_iff list_all2_conv_all_nth)
  then obtain i where i: "i \<in> set ?is" "binding_value runs pr i = Inr v" "ni_parameter i = k"
    using nth_mem [of x ?is] by (auto simp: res_bind_Inr_iff simp del: nth_mem set_filter)
  have "ni_source i = AuthorizedScope \<longrightarrow> v = JArray (map json_int (pc_office_ids pr))"
    using i(2) by (auto simp: binding_value_def auth_bail_def res_bind_Inr_iff effective_office_scope_None_iff)
  moreover have "\<exists>r out. last_completed runs m = Some r \<and> nr_output r = Some out \<and> json_get out slot = Some v"
    if "ni_source i = PriorStep m slot \<or> ni_source i = AuthorizedDataProbe m slot" for m slot
    using i(2) that by (auto simp: binding_value_def output_slot_def ok_or_Inr_iff bind_eq_Some_conv)
  moreover have "v = JNull"
    if "ni_source i \<noteq> AuthorizedScope" "\<forall>m slot. ni_source i \<noteq> PriorStep m slot \<and> ni_source i \<noteq> AuthorizedDataProbe m slot"
    using i(2) that by (cases "ni_source i") (auto simp: binding_value_def)
  ultimately show ?thesis using i(1,3) by (intro bexI [of _ i]) auto
qed

definition detail_history :: "node_run list" where
  "detail_history =
     [\<lparr>nr_id = 1, nr_job_id = 5, nr_workflow_id = 7, nr_node_id = ''total'', nr_attempt = 0, nr_status = Completed,
       nr_output = Some (obj_of [(''client_id'', json_int 4)]), nr_provenance = JNull, nr_rows = 1,
       nr_duration = None, nr_started = None, nr_finished = None\<rparr>]"

theorem bindings_declared_witness:
  "\<exists>i \<in> set (wn_inputs sample_detail). ni_parameter i = ''client_id'' \<and> ni_source i \<noteq> ExactSensitiveInput"
proof -
  have b: "bindings_for sample_detail detail_history sample_principal =
      Inr [(''client_id'', json_int 4), (''office_ids'', JArray [json_int 1, json_int 2])]"
    by code_simp
  show ?thesis using bindings_declared [OF b, of "''client_id''"] by auto
qed

section \<open>Composition\<close>

definition hidden :: "sensitivity \<Rightarrow> node_output_slot list \<Rightarrow> string \<Rightarrow> bool" where
  "hidden visible slots k \<longleftrightarrow> list_ex (\<lambda>s. no_name s = k \<and> sensitivity_rank (no_sensitivity s) > sensitivity_rank visible) slots"

lemma filter_slots_map_of:
  "filter_slots visible slots obj dropped = (obj', dropped') \<Longrightarrow>
     map_of obj' k = (if hidden visible slots k then None else map_of obj k)"
  by (induction visible slots obj dropped rule: filter_slots.induct)
    (auto simp: hidden_def map_of_obj_remove split: if_splits)

definition shown_as :: "sensitivity \<Rightarrow> compose_source \<Rightarrow> json \<Rightarrow> bool" where
  "shown_as visible src v \<longleftrightarrow>
     (case cs_output src of
        JObject obj \<Rightarrow> \<exists>obj'. v = JObject obj' \<and> map_of obj' = (\<lambda>k. if hidden visible (cs_slots src) k then None else map_of obj k)
      | out \<Rightarrow> v = out)"

lemma filter_sources_shown:
  "filter_sources srcs visible dropped = (vs, dropped') \<Longrightarrow> list_all2 (shown_as visible) srcs vs"
proof (induction srcs visible dropped arbitrary: vs dropped' rule: filter_sources.induct)
  case (2 src srcs visible dropped)
  obtain v d where v: "filter_sensitivity src visible dropped = (v, d)" by fastforce
  obtain vs1 d1 where vs1: "filter_sources srcs visible d = (vs1, d1)" by fastforce
  have "shown_as visible src v"
    using v by (auto simp: filter_sensitivity_def shown_as_def fun_eq_iff filter_slots_map_of split: json.splits prod.splits)
  then show ?case using "2.IH" [OF v [symmetric] refl vs1] "2.prems" v vs1 by auto
qed simp

text \<open>
  C16: A composition shows no field above the visible sensitivity.  The composed value is the source
  output of a single composition, or the list of all source outputs; in each of them exactly the
  keys of slots above the visible level are gone and every other key keeps its value.
\<close>

theorem compose_hides_sensitive:
  assumes "compose mode srcs visible = Inr out"
  shows "\<exists>vs. (if mode = CompSingle then vs = [cv_value out] else cv_value out = obj_of [(''sources'', JArray vs)]) \<and>
    length vs = length srcs \<and>
    list_all2 (\<lambda>src v. \<forall>obj. cs_output src = JObject obj \<longrightarrow>
      (\<forall>k. json_get v k =
         (if list_ex (\<lambda>s. no_name s = k \<and> sensitivity_rank (no_sensitivity s) > sensitivity_rank visible) (cs_slots src)
          then None else map_of obj k))) srcs vs"
proof -
  obtain vs d where vs: "filter_sources srcs visible [] = (vs, d)" by fastforce
  note f = filter_sources_shown [OF vs]
  have "list_all2 (\<lambda>src v. \<forall>obj. cs_output src = JObject obj \<longrightarrow>
      (\<forall>k. json_get v k =
         (if list_ex (\<lambda>s. no_name s = k \<and> sensitivity_rank (no_sensitivity s) > sensitivity_rank visible) (cs_slots src)
          then None else map_of obj k))) srcs vs"
    by (rule list_all2_mono [OF f]) (auto simp: shown_as_def hidden_def json_get_def)
  moreover have "if mode = CompSingle then vs = [cv_value out] else cv_value out = obj_of [(''sources'', JArray vs)]"
    using assms vs by (cases vs) (auto simp: compose_def split: if_splits)
  ultimately show ?thesis using list_all2_lengthD [OF f] by (intro exI [of _ vs]) simp
qed

definition pii_source :: compose_source where
  "pii_source = \<lparr>cs_output = obj_of [(''name'', JString ''Ana''), (''total'', json_int 3)],
     cs_slots = [sample_slot\<lparr>no_name := ''name'', no_sensitivity := Pii\<rparr>, sample_slot\<lparr>no_name := ''total''\<rparr>]\<rparr>"

theorem compose_hides_sensitive_witness:
  "\<exists>out. compose CompSingle [pii_source] FilterOnly = Inr out \<and> json_get (cv_value out) ''name'' = None"
proof -
  have c: "compose CompSingle [pii_source] FilterOnly =
      Inr \<lparr>cv_value = obj_of [(''total'', json_int 3)], cv_dropped = [''name'']\<rparr>"
    by code_simp
  have "json_get (obj_of [(''total'', json_int 3)]) ''name'' = None"
    using compose_hides_sensitive [OF c] by (simp add: pii_source_def sample_slot_def obj_of_def sensitivity_rank_def)
  then show ?thesis using c by simp
qed

end
