(* ===== verification/Validator.thy ===== *)
theory Validator
  imports Execution
begin

text \<open>
  The checks a knowledge catalog passes before the assistant starts: \<open>catalog/validator.rs\<close> and
  \<open>catalog/prose_claims.rs\<close>.  The file system and the Unicode tables of \<open>str::to_lowercase\<close> are the
  fields of the record \<open>catalog_files\<close>; the preparation of the statements by the database
  (\<open>validate_runtime\<close>) takes the column names the database answers as a function.  An error carries
  what its message names.
\<close>

section \<open>Errors and the outside\<close>

record catalog_files =
  cf_exists :: "string \<Rightarrow> bool"
  cf_read :: "string \<Rightarrow> string option"
  cf_lowercase :: "string \<Rightarrow> string"

datatype parameter_error =
    BindingMissing string string
  | BindingUnknownParameter string
  | CoveredTwice string
  | InputCoversNothing string
  | InputUnknownParameter string string
  | InputCoversScope string string
  | InputTypeMapping string
  | AcquisitionNoInput string
  | AcquisitionOfficeIds
  | ProbeMissing string
  | ProbeUnknownDataset string
  | ProbeUnknownShape string string
  | ProbeNotResolver string
  | ProbeUnknownSlot string
  | ProbeTypeMismatch string string
  | NoAcquisition string

datatype recipe_error =
    ResolverWithoutRecipe string
  | ResolverUnknownDataset string
  | ResolverUnknownShape string
  | ResolverNotResolverShape string
  | CompositeTooSmall string
  | CompositeMember string string
  | RecipeUnknownDataset string string
  | RecipeUnknownShape string string
  | RecipeOrderByRefused string string string
  | RecipeUnknownFilter string string
  | RecipeUnsupportedOperator string string
  | RecipeOneValueSource string string
  | RecipeExactLiteral string string
  | RecipeExactNotTransient string string
  | RecipeUnknownParameter string string string
  | RecipeUnknownOutput string string
  | RecipeForbiddenOutput string sensitivity string

datatype capability_error =
    ParametersUndeclared string
  | MetricsUndeclared string
  | RequestShapeIncomplete string
  | CapabilityUnknownDomain string string
  | CapabilityUnknownQuery string string
  | CapabilityUnknownMetric string string
  | ExpectQueryPanic
  | DateWithoutDefault string string
  | UncoveredRequired string
  | RequiredNotCoveredOnce string string
  | MaxLimitNotPositive string
  | MaxRangeZero string
  | DefaultLimitNotPositive string
  | DefaultLimitNotAccepted string
  | DefaultLimitWithoutParameter string
  | DefaultLimitExceedsMax string

datatype statement_error =
    QueryWithoutParameters string
  | EmptyParameterName string
  | QueryWithoutOutput string
  | QueryEmptyOutputName string
  | SqlFileMissing string string
  | SqlUnreadable
  | SqlNotSelect string
  | SqlSeveralStatements string
  | SqlUnsafeCommand string string
  | SqlMissingPlaceholder string nat
  | SqlExtraPlaceholder string
  | SqlPlaceholderCast string string nat
  | SqlCurrencyFanout string
  | SqlOfficeUnconstrained string nat
  | SqlDateUnconstrained string nat nat
  | SqlLimitUnconstrained string
  | ProseRecency string string string
  | ProseRanking string string string
  | ProseSampling string string string

datatype runtime_error =
    RuntimeUnreadable
  | PrepareFailed string
  | ColumnsMismatch string
  | InvalidDatasetPath
  | CombinationRejected compose_error
  | CombinationFailed string string
  | CombinationColumns string string
  | ExpectShapePanic

datatype catalog_error =
    ClassificationGap
  | ClassificationFloor
  | ClassificationOthersKey
  | ClassificationOthersLabel
  | ClassificationCollision string
  | EmptyId string
  | DuplicateId string string
  | InvalidStatus string string string
  | UnknownRef string string string string
  | BlockedDataArea string string string
  | ChecksMissing string string
  | UnknownDomain string string string
  | ParameterFault parameter_error
  | RecipeFault recipe_error
  | CapabilityFault capability_error
  | StatementFault statement_error
  | DatasetDeclaredTwice string
  | DatasetFault dataset_error
  | DatasetLoanTables string
  | UnconsumedShape string string

text \<open>A sequence of checks, each returning early with its error.\<close>

definition all_checks :: "('e + unit) list \<Rightarrow> 'e + unit" where
  "all_checks cs = res_iter (\<lambda>c. c) cs"

lemma all_checks_Inr_iff [res_simps]: "all_checks cs = Inr u \<longleftrightarrow> (\<forall>c \<in> set cs. c = Inr ())"
  by (simp add: all_checks_def res_iter_Inr_iff)

section \<open>Identifiers, statuses, references\<close>

definition data_area_statuses :: "string list" where
  "data_area_statuses =
     [''included_mvp_foundation'', ''included_mvp_domain'', ''conditional'', ''secondary'', ''deferred'',
      ''deferred_group'', ''rejected'', ''rejected_group'', ''out_of_scope'']"

definition domain_statuses :: "string list" where
  "domain_statuses = [''approved_mvp'', ''candidate'', ''deferred'', ''rejected'']"

definition capability_statuses :: "string list" where
  "capability_statuses = [''approved_mvp'', ''candidate'', ''deferred'', ''rejected'']"

definition output_modes :: "string list" where
  "output_modes = [''total'', ''top_n'', ''monthly_breakdown'', ''monthly_top_n'', ''list'', ''summary'']"

definition query_databases :: "string list" where
  "query_databases = [''fineract'', ''app'']"

definition parameter_types :: "string list" where
  "parameter_types = [''date'', ''integer'', ''string'', ''decimal'', ''array_bigint'']"

definition unsafe_sql_commands :: "string list" where
  "unsafe_sql_commands =
     [''INSERT'', ''UPDATE'', ''DELETE'', ''TRUNCATE'', ''DROP'', ''ALTER'', ''CREATE'', ''GRANT'', ''REVOKE'', ''COPY'',
      ''VACUUM'', ''ANALYZE'']"

text \<open>The emptiness of an identifier is checked before it is looked up among the earlier ones.\<close>

fun validate_unique_ids :: "string \<Rightarrow> string list \<Rightarrow> string list \<Rightarrow> catalog_error + unit" where
  "validate_unique_ids label seen [] = Inr ()"
| "validate_unique_ids label seen (i # is) =
     (if trim i = [] then Inl (EmptyId label)
      else if i \<in> set seen then Inl (DuplicateId label i)
      else validate_unique_ids label (i # seen) is)"

definition validate_status :: "string \<Rightarrow> string \<Rightarrow> string \<Rightarrow> string list \<Rightarrow> catalog_error + unit" where
  "validate_status label i status allowed = (if status \<in> set allowed then Inr () else Inl (InvalidStatus label i status))"

definition validate_refs :: "string \<Rightarrow> string \<Rightarrow> string \<Rightarrow> string list \<Rightarrow> string list \<Rightarrow> catalog_error + unit" where
  "validate_refs owner_label owner_id target_label refs valid_ids =
     res_iter (\<lambda>r. guard_err (r \<notin> set valid_ids) (UnknownRef owner_label owner_id target_label r)) refs"

definition validate_no_deferred_or_rejected_data_areas ::
  "string \<Rightarrow> string \<Rightarrow> string list \<Rightarrow> string list \<Rightarrow> catalog_error + unit" where
  "validate_no_deferred_or_rejected_data_areas owner_label owner_id data_areas blocked_ids =
     res_iter (\<lambda>a. guard_err (a \<in> set blocked_ids) (BlockedDataArea owner_label owner_id a)) data_areas"

definition is_deferred_or_rejected_status :: "string \<Rightarrow> bool" where
  "is_deferred_or_rejected_status status \<longleftrightarrow>
     status \<in> {''deferred'', ''deferred_group'', ''rejected'', ''rejected_group'', ''out_of_scope''}"

section \<open>Classification, generic layers, bindings\<close>

definition validate_classification_policy :: "classification_policy \<Rightarrow> catalog_error + unit" where
  "validate_classification_policy p = all_checks
     [guard_err (\<not> (f32_positive (cls_min_gap p) \<and> f32_below_one (cls_min_gap p))) ClassificationGap,
      guard_err (\<not> (f32_positive (cls_min_floor p) \<and> f32_below_one (cls_min_floor p))) ClassificationFloor,
      guard_err (trim (cls_others_key p) = []) ClassificationOthersKey,
      guard_err (trim (cls_others_label p) = []) ClassificationOthersLabel]"

definition validate_classification_policy_against_catalog ::
  "classification_policy \<Rightarrow> string list \<Rightarrow> catalog_error + unit" where
  "validate_classification_policy_against_catalog p capability_ids = all_checks
     [validate_classification_policy p,
      guard_err (cls_others_key p \<in> set capability_ids) (ClassificationCollision (cls_others_key p))]"

definition validate_generic_item ::
  "string \<Rightarrow> string list \<Rightarrow> string list \<Rightarrow> generic_knowledge \<Rightarrow> catalog_error + unit" where
  "validate_generic_item label data_area_ids domain_ids item = all_checks
     [guard_err (gk_checks item = []) (ChecksMissing label (gk_id item)),
      validate_refs label (gk_id item) ''data area'' (gk_data_areas item) data_area_ids,
      (case gk_domain item of
         None \<Rightarrow> Inr ()
       | Some d \<Rightarrow> guard_err (d \<notin> set domain_ids) (UnknownDomain label (gk_id item) d))]"

definition validate_generic_layer ::
  "string \<Rightarrow> generic_knowledge list \<Rightarrow> string list \<Rightarrow> string list \<Rightarrow> catalog_error + unit" where
  "validate_generic_layer label items data_area_ids domain_ids =
     res_iter (validate_generic_item label data_area_ids domain_ids) items"

definition bound_elsewhere :: "query_parameter \<Rightarrow> bool" where
  "bound_elsewhere p \<longleftrightarrow> qp_source p = Some ''authorized_scope'' \<or> qp_source p = Some ''transient_sensitive_input''"

definition validate_parameter_bindings :: "knowledge_catalog \<Rightarrow> parameter_error + unit" where
  "validate_parameter_bindings cat = all_checks
     [res_iter (\<lambda>q. res_iter (\<lambda>p.
          if bound_elsewhere p then Inr ()
          else guard_err (map_of (kc_parameter_bindings cat) (qp_name p) = None) (BindingMissing (q_id q) (qp_name p)))
        (q_parameters q)) (kc_queries cat),
      res_iter (\<lambda>n. guard_err (\<not> list_ex (\<lambda>q. list_ex (\<lambda>p. qp_name p = n) (q_parameters q)) (kc_queries cat))
          (BindingUnknownParameter n)) (map fst (kc_parameter_bindings cat))]"

section \<open>Parameter inputs\<close>

fun covered_once :: "string list \<Rightarrow> string list \<Rightarrow> parameter_error + unit" where
  "covered_once covered [] = Inr ()"
| "covered_once covered (p # ps) = (if p \<in> set covered then Inl (CoveredTwice p) else covered_once (p # covered) ps)"

definition expected_kind :: "clarification_field_type \<Rightarrow> string" where
  "expected_kind t = (case t of CftDateRange \<Rightarrow> ''date'' | CftInteger \<Rightarrow> ''integer'' | CftText \<Rightarrow> ''string'')"

definition validate_input_parameter ::
  "query_knowledge list \<Rightarrow> parameter_input_knowledge \<Rightarrow> string \<Rightarrow> parameter_error + unit" where
  "validate_input_parameter queries input n =
     (let matches = filter (\<lambda>c. qp_name c = n) (concat (map q_parameters queries)) in all_checks
       [guard_err (matches = []) (InputUnknownParameter (pi_id input) n),
        guard_err (list_ex (\<lambda>c. qp_source c = Some ''authorized_scope'') matches) (InputCoversScope (pi_id input) n),
        guard_err (list_ex (\<lambda>c. qp_kind c \<noteq> expected_kind (pi_field_type input)) matches) (InputTypeMapping (pi_id input))])"

definition valid_mapping :: "parameter_input_knowledge \<Rightarrow> bool" where
  "valid_mapping input =
     (case pi_field_type input of
        CftDateRange \<Rightarrow> length (remdups (pi_parameters input)) = 2 \<and> set (pi_parameters input) = {''from_date'', ''to_date''}
      | _ \<Rightarrow> length (pi_parameters input) = 1)"

definition validate_parameter_input ::
  "query_knowledge list \<Rightarrow> parameter_input_knowledge \<Rightarrow> parameter_error + unit" where
  "validate_parameter_input queries input = all_checks
     [guard_err (pi_parameters input = []) (InputCoversNothing (pi_id input)),
      res_iter (validate_input_parameter queries input) (pi_parameters input),
      guard_err (\<not> valid_mapping input) (InputTypeMapping (pi_id input))]"

definition validate_parameter_input_registry ::
  "parameter_input_knowledge list \<Rightarrow> query_knowledge list \<Rightarrow> parameter_error + unit" where
  "validate_parameter_input_registry inputs queries = all_checks
     [covered_once [] (concat (map pi_parameters inputs)),
      res_iter (validate_parameter_input queries) inputs]"

section \<open>Acquisition and kinds of capabilities\<close>

definition parameter_type_name :: "parameter_type \<Rightarrow> string" where
  "parameter_type_name k =
     (case k of
        TDate \<Rightarrow> ''date''
      | TInteger \<Rightarrow> ''integer''
      | TIntegerArray \<Rightarrow> ''integer_array''
      | TString \<Rightarrow> ''string''
      | TCurrency \<Rightarrow> ''currency'')"

definition validate_probe :: "parameter_policy \<Rightarrow> dataset_knowledge list \<Rightarrow> parameter_error + unit" where
  "validate_probe p datasets =
     res_bind (ok_or (pp_probe p) (ProbeMissing (pp_name p))) (\<lambda>probe.
     res_bind (ok_or (find (\<lambda>d. ds_id d = probe_dataset_id probe) datasets) (ProbeUnknownDataset (probe_dataset_id probe))) (\<lambda>d.
     res_bind (ok_or (dataset_shape d (probe_shape_id probe))
                (ProbeUnknownShape (probe_shape_id probe) (probe_dataset_id probe))) (\<lambda>s.
     res_bind (guard_err (sh_role s \<noteq> RoleResolver) (ProbeNotResolver (pp_name p))) (\<lambda>_.
     res_bind (ok_or (find (\<lambda>slot. ps_slot slot = probe_output_slot probe) (sh_produces s))
                (ProbeUnknownSlot (probe_output_slot probe))) (\<lambda>out.
     guard_err (ps_kind out \<noteq> parameter_type_name (pp_kind p)) (ProbeTypeMismatch (probe_output_slot probe) (pp_name p)))))))"

definition validate_parameter_acquisition ::
  "parameter_policy \<Rightarrow> parameter_input_knowledge list \<Rightarrow> dataset_knowledge list \<Rightarrow> parameter_error + unit" where
  "validate_parameter_acquisition p inputs datasets = all_checks
     [guard_err (pp_user_required p \<and> \<not> list_ex (\<lambda>i. pp_name p \<in> set (pi_parameters i)) inputs) (AcquisitionNoInput (pp_name p)),
      guard_err (pp_name p = ''office_ids'' \<and> list_ex (\<lambda>s. s = ResVerifiedUserText \<or> s = ResClarify) (pp_resolution p))
        AcquisitionOfficeIds,
      (if ResAuthorizedDataProbe \<in> set (pp_resolution p) then validate_probe p datasets else Inr ()),
      guard_err (pp_resolution p = [] \<and> pp_default p = None \<and> \<not> pp_user_required p) (NoAcquisition (pp_name p))]"

definition validate_resolver :: "capability_knowledge \<Rightarrow> dataset_knowledge list \<Rightarrow> recipe_error + unit" where
  "validate_resolver c datasets =
     res_bind (ok_or (cap_dataset_recipe c) (ResolverWithoutRecipe (cap_id c))) (\<lambda>r.
     res_bind (ok_or (find (\<lambda>d. ds_id d = dr_dataset_id r) datasets) (ResolverUnknownDataset (cap_id c))) (\<lambda>d.
     res_bind (ok_or (dataset_shape d (dr_shape_id r)) (ResolverUnknownShape (cap_id c))) (\<lambda>s.
     guard_err (sh_role s \<noteq> RoleResolver) (ResolverNotResolverShape (cap_id c)))))"

definition validate_composite :: "capability_knowledge \<Rightarrow> capability_knowledge list \<Rightarrow> recipe_error + unit" where
  "validate_composite c capabilities = all_checks
     [guard_err (length (cap_member_capability_ids c) < 2) (CompositeTooSmall (cap_id c)),
      res_iter (\<lambda>m. guard_err (\<not> list_ex (\<lambda>k. cap_id k = m \<and> cap_status k = ''approved_mvp'') capabilities)
          (CompositeMember (cap_id c) m)) (cap_member_capability_ids c)]"

definition validate_capability_kind ::
  "capability_knowledge \<Rightarrow> dataset_knowledge list \<Rightarrow> capability_knowledge list \<Rightarrow> recipe_error + unit" where
  "validate_capability_kind c datasets capabilities =
     (case cap_kind c of
        CapTerminal \<Rightarrow> Inr ()
      | CapProbe \<Rightarrow> Inr ()
      | CapResolver \<Rightarrow> validate_resolver c datasets
      | CapComposite \<Rightarrow> validate_composite c capabilities)"

section \<open>Recipes of capabilities\<close>

definition validate_exact_mapping ::
  "string \<Rightarrow> query_knowledge \<Rightarrow> filter_slot \<Rightarrow> dataset_recipe_filter \<Rightarrow> recipe_error + unit" where
  "validate_exact_mapping c q slot m =
     (if fs_input_policy slot = ExactIdentifier then
        (case rf_parameter m of
           None \<Rightarrow> Inl (RecipeExactLiteral c (fs_id slot))
         | Some n \<Rightarrow>
             guard_err (\<not> list_ex (\<lambda>p. qp_name p = n \<and> qp_source p = Some ''transient_sensitive_input'') (q_parameters q))
               (RecipeExactNotTransient c (fs_id slot)))
      else Inr ())"

definition validate_recipe_filter ::
  "string \<Rightarrow> query_knowledge \<Rightarrow> dataset_knowledge \<Rightarrow> dataset_recipe_filter \<Rightarrow> recipe_error + unit" where
  "validate_recipe_filter c q d m =
     res_bind (ok_or (find (\<lambda>slot. fs_id slot = rf_filter_id m) (ds_filters d)) (RecipeUnknownFilter c (rf_filter_id m))) (\<lambda>slot.
     res_bind (guard_err (rf_operator m \<notin> set (fs_operators slot)) (RecipeUnsupportedOperator c (fs_id slot))) (\<lambda>_.
     res_bind (guard_err ((rf_parameter m \<noteq> None) = (rf_value m \<noteq> None)) (RecipeOneValueSource c (fs_id slot))) (\<lambda>_.
     res_bind (validate_exact_mapping c q slot m) (\<lambda>_.
     case rf_parameter m of
       None \<Rightarrow> Inr ()
     | Some n \<Rightarrow>
         guard_err (\<not> list_ex (\<lambda>p. qp_name p = n) (q_parameters q)) (RecipeUnknownParameter c (fs_id slot) n)))))"

definition validate_recipe_projection ::
  "string \<Rightarrow> dataset_knowledge \<Rightarrow> shape_option \<Rightarrow> string \<Rightarrow> recipe_error + unit" where
  "validate_recipe_projection c d s field =
     res_bind (ok_or (find (\<lambda>f. dof_name f = field) (shape_output_fields s d)) (RecipeUnknownOutput c field)) (\<lambda>out.
     guard_err (dof_sensitivity out \<in> {FilterOnly, NeverUse}) (RecipeForbiddenOutput c (dof_sensitivity out) field))"

definition validate_dataset_recipe ::
  "knowledge_catalog \<Rightarrow> capability_knowledge \<Rightarrow> query_knowledge \<Rightarrow> recipe_error + unit" where
  "validate_dataset_recipe cat c q =
     (case cap_dataset_recipe c of
        None \<Rightarrow> Inr ()
      | Some r \<Rightarrow>
          res_bind (ok_or (find_dataset cat (dr_dataset_id r)) (RecipeUnknownDataset (cap_id c) (dr_dataset_id r))) (\<lambda>d.
          res_bind (ok_or (dataset_shape d (dr_shape_id r)) (RecipeUnknownShape (cap_id c) (dr_shape_id r))) (\<lambda>s.
          res_bind (case dr_order_by_id r of
                      None \<Rightarrow> Inr ()
                    | Some o' \<Rightarrow> guard_err (o' \<notin> set (sh_order_by s)) (RecipeOrderByRefused (cap_id c) (sh_id s) o')) (\<lambda>_.
          res_bind (res_iter (validate_recipe_filter (cap_id c) q d) (dr_filters r)) (\<lambda>_.
          res_iter (validate_recipe_projection (cap_id c) d s) (dr_projection r))))))"

section \<open>Parameters of capabilities\<close>

definition validate_clarification_contract :: "capability_knowledge \<Rightarrow> query_knowledge \<Rightarrow> capability_error + unit" where
  "validate_clarification_contract c q =
     res_iter (\<lambda>p. guard_err
         (\<not> list_ex (\<lambda>policy. pp_name policy = qp_name p \<and> \<not> pp_required policy \<and> pp_default policy \<noteq> None)
              (cap_parameter_policies c))
         (DateWithoutDefault (cap_id c) (qp_name p)))
       (filter (\<lambda>p. qp_required p \<and> qp_source p \<noteq> Some ''authorized_scope'' \<and>
                    (qp_name p = ''from_date'' \<or> qp_name p = ''to_date'')) (q_parameters q))"

definition required_user_parameters :: "query_knowledge \<Rightarrow> string list" where
  "required_user_parameters q =
     map qp_name (filter (\<lambda>p. qp_required p \<and> qp_source p \<noteq> Some ''authorized_scope'') (q_parameters q))"

definition declared_required_parameters :: "capability_knowledge \<Rightarrow> string list" where
  "declared_required_parameters c =
     (if cap_parameter_policies c = [] then cap_required_parameters c
      else map pp_name (filter (\<lambda>p. pp_required p \<or> pp_default p \<noteq> None) (cap_parameter_policies c)))"

definition validate_default_limit ::
  "capability_knowledge \<Rightarrow> query_knowledge \<Rightarrow> int \<Rightarrow> capability_error + unit" where
  "validate_default_limit c q default_limit = all_checks
     [guard_err (default_limit \<le> 0) (DefaultLimitNotPositive (cap_id c)),
      guard_err (\<not> list_ex (\<lambda>p. pp_name p = ''limit'') (cap_parameter_policies c) \<and>
                 ''limit'' \<notin> set (cap_required_parameters c) \<and> ''limit'' \<notin> set (cap_optional_parameters c))
        (DefaultLimitNotAccepted (cap_id c)),
      guard_err (\<not> list_ex (\<lambda>p. qp_name p = ''limit'') (q_parameters q)) (DefaultLimitWithoutParameter (cap_id c)),
      (case cg_max_limit (cap_guards c) of
         None \<Rightarrow> Inr ()
       | Some m \<Rightarrow> guard_err (m < default_limit) (DefaultLimitExceedsMax (cap_id c)))]"

text \<open>
  The code visits the set of required parameters in the order of its hash table; here the order is
  the query's, which only decides the parameter an error names.
\<close>

definition validate_capability_parameter_contract ::
  "capability_knowledge \<Rightarrow> query_knowledge \<Rightarrow> parameter_input_knowledge list \<Rightarrow> capability_error + unit" where
  "validate_capability_parameter_contract c q inputs = all_checks
     [guard_err (\<not> set (required_user_parameters q) \<subseteq> set (declared_required_parameters c)) (UncoveredRequired (cap_id c)),
      res_iter (\<lambda>n. guard_err (length (filter (\<lambda>i. n \<in> set (pi_parameters i)) inputs) \<noteq> 1) (RequiredNotCoveredOnce (cap_id c) n))
        (remdups (required_user_parameters q)),
      (case cg_max_limit (cap_guards c) of None \<Rightarrow> Inr () | Some m \<Rightarrow> guard_err (m \<le> 0) (MaxLimitNotPositive (cap_id c))),
      (case cg_max_date_range_days (cap_guards c) of None \<Rightarrow> Inr () | Some m \<Rightarrow> guard_err (m = 0) (MaxRangeZero (cap_id c))),
      (case cd_default_limit (cap_defaults c) of None \<Rightarrow> Inr () | Some l \<Rightarrow> validate_default_limit c q l)]"

section \<open>Capabilities\<close>

definition shape_unknown :: "request_shape \<Rightarrow> bool" where
  "shape_unknown s \<longleftrightarrow>
     rs_operation s = OpUnknown \<or> rs_subject s = SubjUnknown \<or> rs_grouping s = GroupUnknown \<or>
     rs_output s = OutUnknown \<or> rs_pii s = PiiUnknown"

definition approved :: "capability_knowledge \<Rightarrow> bool" where
  "approved c \<longleftrightarrow> cap_status c = ''approved_mvp''"

definition validate_approved_capability :: "knowledge_catalog \<Rightarrow> capability_knowledge \<Rightarrow> catalog_error + unit" where
  "validate_approved_capability cat c =
     (if approved c then
        (case find_query cat (cap_query_id c) of
           None \<Rightarrow> Inl (CapabilityFault ExpectQueryPanic)
         | Some q \<Rightarrow> all_checks
             [map_err CapabilityFault (validate_capability_parameter_contract c q (kc_parameter_inputs cat)),
              map_err CapabilityFault (validate_clarification_contract c q),
              map_err RecipeFault (validate_dataset_recipe cat c q)])
      else Inr ())"

definition acquisition_declared :: "parameter_policy \<Rightarrow> bool" where
  "acquisition_declared p \<longleftrightarrow> pp_user_required p \<or> pp_resolution p \<noteq> [] \<or> pp_probe p \<noteq> None"

definition blocked_data_areas :: "knowledge_catalog \<Rightarrow> string list" where
  "blocked_data_areas cat = map da_id (filter (\<lambda>a. is_deferred_or_rejected_status (da_status a)) (kc_data_areas cat))"

definition validate_capability :: "knowledge_catalog \<Rightarrow> capability_knowledge \<Rightarrow> catalog_error + unit" where
  "validate_capability cat c = all_checks
     [guard_err (approved c \<and> cap_output_mode c \<noteq> ''summary'' \<and> cap_required_parameters c = [] \<and> cap_parameter_policies c = [])
        (CapabilityFault (ParametersUndeclared (cap_id c))),
      guard_err (approved c \<and> cap_metrics c = []) (CapabilityFault (MetricsUndeclared (cap_id c))),
      guard_err (approved c \<and> shape_unknown (cap_request_shape c)) (CapabilityFault (RequestShapeIncomplete (cap_id c))),
      validate_status ''capability output mode'' (cap_id c) (cap_output_mode c) output_modes,
      guard_err (cap_domain c \<notin> set (map dk_id (kc_domains cat)))
        (CapabilityFault (CapabilityUnknownDomain (cap_id c) (cap_domain c))),
      guard_err (cap_query_id c \<notin> set (map q_id (kc_queries cat)))
        (CapabilityFault (CapabilityUnknownQuery (cap_id c) (cap_query_id c))),
      res_iter (\<lambda>m. guard_err (resolve_metric_id cat m = None) (CapabilityFault (CapabilityUnknownMetric (cap_id c) m)))
        (cap_metrics c),
      validate_approved_capability cat c,
      map_err RecipeFault (validate_capability_kind c (kc_datasets cat) (kc_capabilities cat)),
      res_iter (\<lambda>p. if acquisition_declared p
                    then map_err ParameterFault (validate_parameter_acquisition p (kc_parameter_inputs cat) (kc_datasets cat))
                    else Inr ()) (cap_parameter_policies c),
      validate_refs ''capability'' (cap_id c) ''data area'' (cap_data_areas c) (map da_id (kc_data_areas cat)),
      validate_no_deferred_or_rejected_data_areas ''capability'' (cap_id c) (cap_data_areas c) (blocked_data_areas cat)]"

section \<open>Text of statements\<close>

text \<open>\<open>str::find\<close> and the text behind the match.\<close>

fun text_after :: "string \<Rightarrow> string \<Rightarrow> string option" where
  "text_after marker [] = (if marker = [] then Some [] else None)"
| "text_after marker (c # cs) =
     (if starts_with marker (c # cs) then Some (drop (length marker) (c # cs)) else text_after marker cs)"

definition digit_value :: "char \<Rightarrow> int" where
  "digit_value c = (case map_of (zip ''0123456789'' [0, 1, 2, 3, 4, 5, 6, 7, 8, 9]) c of None \<Rightarrow> 0 | Some v \<Rightarrow> v)"

definition decimal_value :: "string \<Rightarrow> int" where
  "decimal_value ds = foldl (\<lambda>v c. 10 * v + digit_value c) 0 ds"

text \<open>A number that does not fit \<open>usize\<close> fails to parse and is skipped.\<close>

definition parse_usize_digits :: "string \<Rightarrow> nat list" where
  "parse_usize_digits ds =
     (if ds \<noteq> [] \<and> decimal_value ds < 18446744073709551616 then [nat (decimal_value ds)] else [])"

function placeholder_numbers :: "string \<Rightarrow> nat list" where
  "placeholder_numbers [] = []"
| "placeholder_numbers (c # cs) =
     (if c = CHR ''$''
      then parse_usize_digits (takeWhile is_ascii_digit cs) @ placeholder_numbers (dropWhile is_ascii_digit cs)
      else placeholder_numbers cs)"
  by pat_completeness auto
termination
  by (relation "measure length") (auto simp: le_imp_less_Suc length_dropWhile_le)

definition cast_char :: "char \<Rightarrow> bool" where
  "cast_char c \<longleftrightarrow> is_ascii_alphanumeric c \<or> c = CHR ''_'' \<or> c = CHR ''['' \<or> c = CHR '']''"

definition placeholder_cast :: "string \<Rightarrow> nat \<Rightarrow> string option" where
  "placeholder_cast sql n = map_option (\<lambda>r. ascii_lower (takeWhile cast_char r)) (text_after (dollar n @ ''::'') sql)"

definition token_char :: "char \<Rightarrow> bool" where
  "token_char c \<longleftrightarrow> is_ascii_alphanumeric c \<or> c = CHR ''_''"

text \<open>\<open>split\<close> on every character outside tokens, and \<open>filter\<close> of the empty pieces.\<close>

function sql_tokens :: "string \<Rightarrow> string list" where
  "sql_tokens [] = []"
| "sql_tokens (c # cs) =
     (if token_char c then (c # takeWhile token_char cs) # sql_tokens (dropWhile token_char cs) else sql_tokens cs)"
  by pat_completeness auto
termination
  by (relation "measure length") (auto simp: le_imp_less_Suc length_dropWhile_le)

section \<open>Statements of queries\<close>

definition has_parameter :: "query_knowledge \<Rightarrow> string \<Rightarrow> bool" where
  "has_parameter q n \<longleftrightarrow> list_ex (\<lambda>p. qp_name p = n) (q_parameters q)"

fun position_from :: "nat \<Rightarrow> ('a \<Rightarrow> bool) \<Rightarrow> 'a list \<Rightarrow> nat option" where
  "position_from i P [] = None"
| "position_from i P (x # xs) = (if P x then Some i else position_from (i + 1) P xs)"

definition parameter_position :: "query_knowledge \<Rightarrow> string \<Rightarrow> nat" where
  "parameter_position q n = (case position_from 0 (\<lambda>p. qp_name p = n) (q_parameters q) of None \<Rightarrow> 0 | Some i \<Rightarrow> i + 1)"

definition validate_placeholder_cast :: "string \<Rightarrow> string \<Rightarrow> nat \<Rightarrow> query_parameter \<Rightarrow> statement_error + unit" where
  "validate_placeholder_cast q sql n p =
     (let cast = placeholder_cast sql n; bad = SqlPlaceholderCast q (qp_name p) n in
      if qp_kind p = ''date'' then guard_err (cast \<noteq> Some ''date'') bad
      else if qp_kind p = ''string'' then guard_err (cast \<noteq> Some ''text'') bad
      else if qp_kind p = ''decimal'' then guard_err (cast \<noteq> Some ''numeric'') bad
      else if qp_kind p = ''array_bigint'' then guard_err (cast \<noteq> Some ''bigint[]'') bad
      else if qp_kind p = ''integer'' then
        (if cast = None \<and> str_contains (''LIMIT '' @ dollar n) (ascii_upper sql) then Inr ()
         else guard_err (cast \<notin> {Some ''integer'', Some ''int4'', Some ''bigint''}) bad)
      else Inr ())"

definition validate_placeholders :: "query_knowledge \<Rightarrow> string \<Rightarrow> statement_error + unit" where
  "validate_placeholders q sql =
     (let placeholders = placeholder_numbers sql; expected = length (q_parameters q) in all_checks
       [res_iter (\<lambda>i. guard_err (i \<notin> set placeholders) (SqlMissingPlaceholder (q_id q) i)) [1..<Suc expected],
        guard_err (list_ex (\<lambda>n. expected < n) placeholders) (SqlExtraPlaceholder (q_id q)),
        res_iter (\<lambda>(n, p). validate_placeholder_cast (q_id q) sql n p) (enumerate 1 (q_parameters q))])"

definition currency_join_is_fanout_safe :: "string \<Rightarrow> bool" where
  "currency_join_is_fanout_safe sql_upper \<longleftrightarrow>
     \<not> str_contains ''M_ORGANISATION_CURRENCY'' sql_upper \<or>
     str_contains ''LEFT JOIN LATERAL'' sql_upper \<and> str_contains ''LIMIT 1'' sql_upper"

definition strip_semicolon :: "string \<Rightarrow> string" where
  "strip_semicolon s = (if s \<noteq> [] \<and> last s = CHR '';'' then butlast s else s)"

definition office_constraint :: "nat \<Rightarrow> string" where
  "office_constraint n = ''ANY('' @ dollar n @ ''::BIGINT[])''"

definition date_constraint :: "nat \<Rightarrow> nat \<Rightarrow> string" where
  "date_constraint a b = ''BETWEEN '' @ dollar a @ ''::DATE AND '' @ dollar b @ ''::DATE''"

definition validate_sql_text :: "query_knowledge \<Rightarrow> string \<Rightarrow> statement_error + unit" where
  "validate_sql_text q sql =
     (let trimmed = trim sql; sql_upper = ascii_upper trimmed; i = q_id q in all_checks
       [guard_err (\<not> (starts_with ''SELECT'' sql_upper \<or> starts_with ''WITH'' sql_upper)) (SqlNotSelect i),
        guard_err (CHR '';'' \<in> set (strip_semicolon trimmed)) (SqlSeveralStatements i),
        res_iter (\<lambda>c. guard_err (c \<in> set (sql_tokens sql_upper)) (SqlUnsafeCommand i c)) unsafe_sql_commands,
        validate_placeholders q trimmed,
        guard_err (\<not> currency_join_is_fanout_safe sql_upper) (SqlCurrencyFanout i),
        (let a = parameter_position q ''office_ids'' in
         guard_err (has_parameter q ''office_ids'' \<and> \<not> str_contains (office_constraint a) sql_upper) (SqlOfficeUnconstrained i a)),
        (let a = parameter_position q ''from_date''; b = parameter_position q ''to_date'' in
         guard_err (has_parameter q ''from_date'' \<and> has_parameter q ''to_date'' \<and> \<not> str_contains (date_constraint a b) sql_upper)
           (SqlDateUnconstrained i a b)),
        guard_err (has_parameter q ''limit'' \<and>
            \<not> (str_contains ''LIMIT'' sql_upper \<or> str_contains ''ROW_NUMBER('' sql_upper \<or> str_contains ''RANK('' sql_upper))
          (SqlLimitUnconstrained i)])"

definition validate_sql_safety :: "catalog_files \<Rightarrow> query_knowledge \<Rightarrow> string \<Rightarrow> statement_error + unit" where
  "validate_sql_safety w q path = res_bind (ok_or (cf_read w path) SqlUnreadable) (validate_sql_text q)"

section \<open>Paths\<close>

text \<open>
  \<open>Path::join\<close>, which an absolute path replaces, and \<open>Path::parent\<close> of a configured path: trailing
  separators do not count, and the last component is dropped with the separators before it.
\<close>

definition path_join :: "string \<Rightarrow> string \<Rightarrow> string" where
  "path_join root p =
     (if starts_with ''/'' p then p else join_path root p)"

definition drop_separators :: "string \<Rightarrow> string" where
  "drop_separators p = rev (dropWhile (\<lambda>c. c = CHR ''/'') (rev p))"

definition path_parent :: "string \<Rightarrow> string option" where
  "path_parent p =
     (let q = drop_separators p; dir = rev (dropWhile (\<lambda>c. c \<noteq> CHR ''/'') (rev q)) in
      if q = [] then None
      else if dir \<noteq> [] \<and> drop_separators dir = [] then Some ''/''
      else Some (drop_separators dir))"

definition query_sql_path :: "knowledge_catalog \<Rightarrow> query_knowledge \<Rightarrow> string" where
  "query_sql_path cat q =
     (if starts_with ''queries/'' (q_sql_file q)
      then path_join (case path_parent (kc_query_path cat) of None \<Rightarrow> kc_query_path cat | Some d \<Rightarrow> d) (q_sql_file q)
      else path_join (kc_query_path cat) (q_sql_file q))"

section \<open>Queries\<close>

definition validate_query_parameter :: "query_knowledge \<Rightarrow> query_parameter \<Rightarrow> catalog_error + unit" where
  "validate_query_parameter q p = all_checks
     [guard_err (trim (qp_name p) = []) (StatementFault (EmptyParameterName (q_id q))),
      validate_status ''query parameter type'' (q_id q @ ''.'' @ qp_name p) (qp_kind p) parameter_types]"

definition validate_query :: "catalog_files \<Rightarrow> knowledge_catalog \<Rightarrow> query_knowledge \<Rightarrow> catalog_error + unit" where
  "validate_query w cat q =
     (let path = query_sql_path cat q in all_checks
       [guard_err (q_parameters q = []) (StatementFault (QueryWithoutParameters (q_id q))),
        res_iter (validate_query_parameter q) (q_parameters q),
        validate_refs ''query'' (q_id q) ''data area'' (q_data_areas q) (map da_id (kc_data_areas cat)),
        validate_no_deferred_or_rejected_data_areas ''query'' (q_id q) (q_data_areas q) (blocked_data_areas cat),
        guard_err (q_output_fields q = []) (StatementFault (QueryWithoutOutput (q_id q))),
        res_iter (\<lambda>f. guard_err (trim (qof_name f) = []) (StatementFault (QueryEmptyOutputName (q_id q)))) (q_output_fields q),
        guard_err (\<not> cf_exists w path) (StatementFault (SqlFileMissing (q_id q) path)),
        map_err StatementFault (validate_sql_safety w q path)])"

section \<open>Prose\<close>

definition recency_words :: "string list" where
  "recency_words = [''recent'', ''recently'', ''latest'', ''newest'', ''terbaru'', ''paling baru'']"

definition ranking_words :: "string list" where
  "ranking_words = [''top '', ''highest'', ''largest'', ''biggest'', ''terbesar'', ''tertinggi'']"

definition sampling_words :: "string list" where
  "sampling_words = [''random'', ''sample'', ''acak'']"

definition ordering_qualifiers :: "string list" where
  "ordering_qualifiers = [''order'', ''ordered'', ''sort'', ''sorted'', ''first'', ''urut'', ''diurutkan'']"

definition contains_any :: "string \<Rightarrow> string list \<Rightarrow> bool" where
  "contains_any s needles \<longleftrightarrow> list_ex (\<lambda>n. str_contains n s) needles"

text \<open>\<open>str::replace\<close> of a pattern that is not empty by one blank.\<close>

function blank_out :: "string \<Rightarrow> string \<Rightarrow> string" where
  "blank_out p [] = []"
| "blank_out p (c # cs) =
     (if p \<noteq> [] \<and> starts_with p (c # cs) then '' '' @ blank_out p (drop (length p) (c # cs)) else c # blank_out p cs)"
  by pat_completeness auto
termination
proof (relation "measure (\<lambda>(p, s). length s)", simp, goal_cases)
  case (1 p c cs)
  then show ?case by (cases p) auto
next
  case (2 p c cs)
  then show ?case by simp
qed

definition humanize_name :: "string \<Rightarrow> string" where
  "humanize_name n = map (\<lambda>c. if c = CHR ''_'' then CHR '' '' else c) n"

definition without_field_names :: "string \<Rightarrow> query_knowledge option \<Rightarrow> string" where
  "without_field_names s query =
     (case query of
        None \<Rightarrow> s
      | Some q \<Rightarrow>
          fold (\<lambda>n stripped. if trim (humanize_name n) = [] then stripped
                             else blank_out n (blank_out (humanize_name n) stripped))
            (map qp_name (q_parameters q) @ map qof_name (q_output_fields q)) s)"

definition restricts_by_date :: "query_knowledge option \<Rightarrow> bool" where
  "restricts_by_date query =
     (case query of
        None \<Rightarrow> False
      | Some q \<Rightarrow>
          list_ex (\<lambda>p. qp_source p \<noteq> Some ''authorized_scope'' \<and>
                       (str_contains ''date'' (qp_name p) \<or> ends_with (qp_name p) ''_start'')) (q_parameters q))"

definition orders_descending :: "catalog_files \<Rightarrow> string \<Rightarrow> bool" where
  "orders_descending w sql \<longleftrightarrow>
     str_contains ''order by'' (cf_lowercase w sql) \<and> str_contains ''desc'' (cf_lowercase w sql)"

definition samples_randomly :: "catalog_files \<Rightarrow> string \<Rightarrow> bool" where
  "samples_randomly w sql \<longleftrightarrow> str_contains ''random()'' (cf_lowercase w sql)"

definition validate_prose_field ::
  "catalog_files \<Rightarrow> capability_knowledge \<Rightarrow> query_knowledge option \<Rightarrow> string \<Rightarrow> string \<times> string option \<Rightarrow>
   statement_error + unit" where
  "validate_prose_field w c query sql field =
     (case snd field of
        None \<Rightarrow> Inr ()
      | Some prose \<Rightarrow>
          if trim (cf_lowercase w prose) = [] then Inr ()
          else
            let s = without_field_names (cf_lowercase w prose) query; qualified = contains_any s ordering_qualifiers in all_checks
              [guard_err (contains_any s recency_words \<and> \<not> qualified \<and> \<not> restricts_by_date query)
                 (ProseRecency (cap_id c) (fst field) (cap_query_id c)),
               guard_err (contains_any s ranking_words \<and> \<not> qualified \<and> \<not> orders_descending w sql)
                 (ProseRanking (cap_id c) (fst field) (cap_query_id c)),
               guard_err (contains_any s sampling_words \<and> \<not> samples_randomly w sql)
                 (ProseSampling (cap_id c) (fst field) (cap_query_id c))])"

definition validate_prose_claims ::
  "catalog_files \<Rightarrow> capability_knowledge \<Rightarrow> query_knowledge option \<Rightarrow> string \<Rightarrow> statement_error + unit" where
  "validate_prose_claims w c query sql =
     res_iter (validate_prose_field w c query sql)
       [(''display_name'', cap_display_name c), (''description'', cap_description c)]"

definition validate_capability_prose :: "catalog_files \<Rightarrow> knowledge_catalog \<Rightarrow> capability_knowledge \<Rightarrow> catalog_error + unit" where
  "validate_capability_prose w cat c =
     (case find_query cat (cap_query_id c) of
        None \<Rightarrow> Inr ()
      | Some q \<Rightarrow>
          map_err StatementFault
            (validate_prose_claims w c (Some q) (case cf_read w (query_sql_path cat q) of None \<Rightarrow> [] | Some sql \<Rightarrow> sql)))"

section \<open>Completeness\<close>

datatype lint_severity = LintFatal | LintWarning

record lint_finding =
  lint_id :: string
  lint_severity :: lint_severity
  lint_dataset :: string
  lint_shape :: string

definition shape_consumed :: "knowledge_catalog \<Rightarrow> dataset_knowledge \<Rightarrow> shape_option \<Rightarrow> bool" where
  "shape_consumed cat d s \<longleftrightarrow>
     list_ex (\<lambda>c. case cap_dataset_recipe c of
                    None \<Rightarrow> False
                  | Some r \<Rightarrow> dr_dataset_id r = ds_id d \<and> dr_shape_id r = sh_id s) (kc_capabilities cat)"

definition shape_wired :: "knowledge_catalog \<Rightarrow> dataset_knowledge \<Rightarrow> shape_option \<Rightarrow> bool" where
  "shape_wired cat d s \<longleftrightarrow>
     list_ex (\<lambda>c. list_ex (\<lambda>p. case pp_probe p of
                    None \<Rightarrow> False
                  | Some pr \<Rightarrow> probe_dataset_id pr = ds_id d \<and> probe_shape_id pr = sh_id s) (cap_parameter_policies c))
       (kc_capabilities cat)"

definition shape_lints :: "knowledge_catalog \<Rightarrow> dataset_knowledge \<Rightarrow> shape_option \<Rightarrow> lint_finding list" where
  "shape_lints cat d s =
     (if \<not> shape_consumed cat d s
      then [\<lparr>lint_id = ''unconsumed_shape'', lint_severity = LintFatal, lint_dataset = ds_id d, lint_shape = sh_id s\<rparr>]
      else if (sh_role s = RoleResolver \<or> sh_role s = RoleProbe) \<and> \<not> shape_wired cat d s
      then [\<lparr>lint_id = ''unwired_resolver'', lint_severity = LintWarning, lint_dataset = ds_id d, lint_shape = sh_id s\<rparr>]
      else [])"

definition find_completeness_lints :: "knowledge_catalog \<Rightarrow> lint_finding list" where
  "find_completeness_lints cat = concat (map (\<lambda>d. concat (map (shape_lints cat d) (ds_shapes d))) (kc_datasets cat))"

section \<open>The catalog\<close>

definition validate_catalog_dataset :: "dataset_knowledge \<Rightarrow> catalog_error + unit" where
  "validate_catalog_dataset d = all_checks
     [map_err DatasetFault (validate_dataset d),
      guard_err (list_ex (starts_with ''m_loan'') (ds_tables d)) (DatasetLoanTables (ds_id d))]"

definition validate_catalog_ids :: "knowledge_catalog \<Rightarrow> catalog_error + unit" where
  "validate_catalog_ids cat = all_checks
     [validate_unique_ids ''data areas'' [] (map da_id (kc_data_areas cat)),
      validate_unique_ids ''domain'' [] (map dk_id (kc_domains cat)),
      validate_unique_ids ''schema'' [] (map gk_id (kc_schemas cat)),
      validate_unique_ids ''metric'' [] (map gk_id (kc_metrics cat)),
      validate_unique_ids ''capability'' [] (map cap_id (kc_capabilities cat)),
      validate_unique_ids ''query'' [] (map q_id (kc_queries cat)),
      validate_unique_ids ''policy'' [] (map gk_id (kc_policies cat)),
      validate_unique_ids ''response'' [] (map gk_id (kc_responses cat)),
      validate_unique_ids ''parameter input'' [] (map pi_id (kc_parameter_inputs cat))]"

definition validate_catalog_statuses :: "knowledge_catalog \<Rightarrow> catalog_error + unit" where
  "validate_catalog_statuses cat = all_checks
     [res_iter (\<lambda>a. validate_status ''data area'' (da_id a) (da_status a) data_area_statuses) (kc_data_areas cat),
      res_iter (\<lambda>d. validate_status ''domain'' (dk_id d) (dk_status d) domain_statuses) (kc_domains cat),
      res_iter (\<lambda>c. validate_status ''capability'' (cap_id c) (cap_status c) capability_statuses) (kc_capabilities cat),
      res_iter (\<lambda>q. validate_status ''query database'' (q_id q) (q_database q) query_databases) (kc_queries cat)]"

definition validate_catalog_layers :: "knowledge_catalog \<Rightarrow> catalog_error + unit" where
  "validate_catalog_layers cat =
     (let areas = map da_id (kc_data_areas cat); domains = map dk_id (kc_domains cat) in all_checks
       [res_iter (\<lambda>d. validate_refs ''domain'' (dk_id d) ''data area'' (dk_data_areas d) areas) (kc_domains cat),
        validate_generic_layer ''schema'' (kc_schemas cat) areas domains,
        validate_generic_layer ''metric'' (kc_metrics cat) areas domains,
        validate_generic_layer ''policy'' (kc_policies cat) areas domains,
        validate_generic_layer ''response'' (kc_responses cat) areas domains])"

definition validate_catalog :: "catalog_files \<Rightarrow> knowledge_catalog \<Rightarrow> catalog_error + unit" where
  "validate_catalog w cat = all_checks
     [validate_classification_policy_against_catalog (kc_classification cat) (map cap_id (kc_capabilities cat)),
      validate_catalog_ids cat,
      map_err ParameterFault (validate_parameter_input_registry (kc_parameter_inputs cat) (kc_queries cat)),
      map_err ParameterFault (validate_parameter_bindings cat),
      validate_catalog_statuses cat,
      validate_catalog_layers cat,
      res_iter (validate_capability cat) (kc_capabilities cat),
      res_iter (validate_query w cat) (kc_queries cat),
      res_iter (validate_capability_prose w cat) (kc_capabilities cat),
      check_unique ds_id (\<lambda>d. DatasetDeclaredTwice (ds_id d)) validate_catalog_dataset [] (kc_datasets cat),
      res_iter (\<lambda>f. guard_err (lint_severity f = LintFatal) (UnconsumedShape (lint_dataset f) (lint_shape f)))
        (find_completeness_lints cat)]"

section \<open>Preparation by the database\<close>

text \<open>\<open>prepare\<close> answers the column names of a statement, or nothing when the database refuses it.\<close>

definition prepared_text :: "string \<Rightarrow> string" where
  "prepared_text sql = rev (dropWhile (\<lambda>c. c = CHR '';'') (rev (trim sql)))"

definition validate_query_runtime ::
  "catalog_files \<Rightarrow> (string \<Rightarrow> string list option) \<Rightarrow> knowledge_catalog \<Rightarrow> query_knowledge \<Rightarrow> runtime_error + unit" where
  "validate_query_runtime w prepare cat q =
     (if q_database q \<noteq> ''fineract'' then Inr ()
      else
        res_bind (ok_or (cf_read w (query_sql_path cat q)) RuntimeUnreadable) (\<lambda>sql.
        res_bind (ok_or (prepare (prepared_text sql)) (PrepareFailed (q_id q))) (\<lambda>actual.
        guard_err (actual \<noteq> map qof_name (q_output_fields q)) (ColumnsMismatch (q_id q)))))"

definition resolve_catalog_sql_path :: "knowledge_catalog \<Rightarrow> string \<Rightarrow> runtime_error + string" where
  "resolve_catalog_sql_path cat path =
     (let relative = (case strip_prefix ''queries/'' path of Some r \<Rightarrow> r | None \<Rightarrow> path) in
      if \<not> normal_components relative then Inl InvalidDatasetPath else Inr (path_join (kc_query_path cat) relative))"

definition read_dataset_sql :: "catalog_files \<Rightarrow> knowledge_catalog \<Rightarrow> string \<Rightarrow> runtime_error + string" where
  "read_dataset_sql w cat path =
     res_bind (resolve_catalog_sql_path cat path) (\<lambda>p. ok_or (cf_read w p) RuntimeUnreadable)"

definition validate_combination ::
  "catalog_files \<Rightarrow> (string \<Rightarrow> string list option) \<Rightarrow> knowledge_catalog \<Rightarrow> dataset_knowledge \<Rightarrow> string \<Rightarrow>
   string \<times> string option \<Rightarrow> runtime_error + unit" where
  "validate_combination w prepare cat d source combination =
     (let shape = dataset_shape d (fst combination) in
      res_bind (case Option.bind shape sh_fragment of
                  None \<Rightarrow> Inr None
                | Some path \<Rightarrow> res_bind (read_dataset_sql w cat path) (\<lambda>sql. Inr (Some sql))) (\<lambda>fragment.
      res_bind (map_err CombinationRejected (compose_sql d (fst combination) (snd combination) source fragment)) (\<lambda>co.
      res_bind (ok_or (prepare (prepared_text (co_sql co))) (CombinationFailed (ds_id d) (fst combination))) (\<lambda>actual.
      res_bind (ok_or shape ExpectShapePanic) (\<lambda>s.
      guard_err (actual \<noteq> map dof_name (shape_output_fields s d)) (CombinationColumns (ds_id d) (fst combination)))))))"

definition validate_one_dataset_runtime ::
  "catalog_files \<Rightarrow> (string \<Rightarrow> string list option) \<Rightarrow> knowledge_catalog \<Rightarrow> dataset_knowledge \<Rightarrow> runtime_error + unit" where
  "validate_one_dataset_runtime w prepare cat d =
     (if ds_database d \<noteq> ''fineract'' then Inr ()
      else
        res_bind (read_dataset_sql w cat (ds_source_sql d)) (\<lambda>source.
        res_iter (validate_combination w prepare cat d source) (executable_combinations d)))"

definition validate_dataset_runtime ::
  "catalog_files \<Rightarrow> (string \<Rightarrow> string list option) \<Rightarrow> knowledge_catalog \<Rightarrow> runtime_error + unit" where
  "validate_dataset_runtime w prepare cat = res_iter (validate_one_dataset_runtime w prepare cat) (kc_datasets cat)"

definition validate_runtime ::
  "catalog_files \<Rightarrow> (string \<Rightarrow> string list option) \<Rightarrow> knowledge_catalog \<Rightarrow> runtime_error + unit" where
  "validate_runtime w prepare cat = all_checks
     [res_iter (validate_query_runtime w prepare cat) (kc_queries cat), validate_dataset_runtime w prepare cat]"

end
