(* ===== verification/DatasetFacts.thy ===== *)
theory DatasetFacts
  imports Execution
begin

text \<open>
  What the composition numbers and what the execution binds: both walk the filters of a dataset and
  their operators in the same order, and a range takes two places in each.
\<close>

section \<open>Loops with a set of keys\<close>

lemma check_unique_Inr_iff:
  "check_unique key dup check seen xs = Inr () \<longleftrightarrow>
     distinct (map key xs) \<and> set (map key xs) \<inter> set seen = {} \<and> (\<forall>x \<in> set xs. check x = Inr ())"
  by (induction xs arbitrary: seen) (auto simp: res_bind_Inr_iff)

lemma check_output_fields_Inr_iff:
  "check_output_fields i s seen fs = Inr () \<longleftrightarrow>
     distinct (map dof_name fs) \<and> set (map dof_name fs) \<inter> set seen = {} \<and>
     (\<forall>f \<in> set fs. trim (dof_name f) \<noteq> [] \<and> check_output_field i s f = Inr ())"
  by (induction fs arbitrary: seen) (auto simp: res_bind_Inr_iff)

lemma check_narrowable_Inr_iff:
  "check_narrowable d s p fs = Inr () \<longleftrightarrow> (\<forall>f \<in> set fs. p f \<longrightarrow> narrowed d f)"
  by (auto simp: check_narrowable_def res_iter_Inr_iff)

lemma validate_dataset_filters:
  assumes "validate_dataset d = Inr ()" and "f \<in> set (ds_filters d)"
  shows "fs_kind f \<in> set filter_types \<and> fs_operators f \<noteq> [] \<and> validate_sql_expr (fs_expr f) = Inr () \<and>
    (fs_input_policy f = ExactIdentifier \<longrightarrow> fs_kind f = ''string'' \<and> fs_operators f = [FEq] \<and> \<not> fs_case_insensitive f)"
  using assms
  by (auto simp: validate_dataset_def Let_def res_bind_Inr_iff check_unique_Inr_iff check_filter_def
      check_exact_identifier_def split: if_splits)

lemma validate_dataset_order_by:
  assumes "validate_dataset d = Inr ()" and "o' \<in> set (ds_order_by d)"
  shows "validate_sql_expr (ob_expr o') = Inr ()"
  using assms by (auto simp: validate_dataset_def Let_def res_bind_Inr_iff check_unique_Inr_iff check_order_by_def)

lemma validate_dataset_shape:
  assumes "validate_dataset d = Inr ()" and "s \<in> set (ds_shapes d)"
  shows "check_shape d s = Inr ()"
  using assms by (auto simp: validate_dataset_def Let_def res_bind_Inr_iff check_unique_Inr_iff)

lemma check_shape_Inr:
  assumes "check_shape d s = Inr ()"
  shows "set (sh_order_by s) \<subseteq> set (map ob_id (ds_order_by d))"
    and "sh_fragment s = None \<Longrightarrow> ds_filters d = []"
    and "\<forall>f \<in> set (shape_output_fields s d). dof_sensitivity f \<notin> {FilterOnly, NeverUse} \<and>
           (narrowable_text f \<or> narrowable_id d f \<longrightarrow> narrowed d f)"
    and "distinct (map dof_name (shape_output_fields s d))"
    and "has_exact_identifier d \<Longrightarrow> \<exists>p \<in> set (shape_parameters s d). office_scope_parameter p"
    and "has_exact_identifier d \<Longrightarrow> \<exists>f \<in> set (shape_output_fields s d). dof_sensitivity f = MaskedOutput"
  using assms
  by (auto simp: check_shape_def Let_def res_bind_Inr_iff res_iter_Inr_iff check_output_fields_Inr_iff
      check_narrowable_Inr_iff check_output_field_def list_ex_iff)

section \<open>Placeholders\<close>

definition slot_ops :: "filter_slot list \<Rightarrow> (filter_slot \<times> filter_operator) list" where
  "slot_ops fs = concat (map (\<lambda>f. map (Pair f) (fs_operators f)) fs)"

definition width :: "filter_operator \<Rightarrow> nat" where
  "width op = (if op = FBetween then 2 else 1)"

definition bind_at :: "shape_option \<Rightarrow> nat \<Rightarrow> filter_slot \<times> filter_operator \<Rightarrow> filter_bind" where
  "bind_at shape n fo =
     \<lparr>fb_filter_id = fs_id (fst fo), fb_operator = snd fo, fb_placeholder = n + 1,
      fb_max_array_len = (if snd fo = FIn then sh_row_cap shape else None)\<rparr>"

fun number_from :: "shape_option \<Rightarrow> nat \<Rightarrow> (filter_slot \<times> filter_operator) list \<Rightarrow> filter_bind list" where
  "number_from shape n [] = []"
| "number_from shape n (fo # fos) = bind_at shape n fo # number_from shape (n + width (snd fo)) fos"

lemma number_from_append:
  "number_from shape n (xs @ ys) = number_from shape n xs @ number_from shape (n + sum_list (map (width \<circ> snd) xs)) ys"
  by (induction xs arbitrary: n) (simp_all add: add.assoc)

lemma operator_loop_binds:
  "operator_loop shape f ops st = Inr st' \<Longrightarrow>
     ft_binds st' = ft_binds st @ number_from shape (ft_placeholder st) (map (Pair f) ops) \<and>
     ft_placeholder st' = ft_placeholder st + sum_list (map width ops)"
  by (induction ops arbitrary: st)
    (fastforce simp: operator_step_def Let_def res_bind_Inr_iff bind_at_def width_def)+

lemma filter_loop_binds:
  "filter_loop i shape fs st = Inr st' \<Longrightarrow>
     ft_binds st' = ft_binds st @ number_from shape (ft_placeholder st) (slot_ops fs) \<and>
     ft_placeholder st' = ft_placeholder st + sum_list (map (width \<circ> snd) (slot_ops fs))"
proof (induction fs arbitrary: st)
  case (Cons f fs)
  then obtain st1 where st1: "operator_loop shape f (fs_operators f) st = Inr st1" "filter_loop i shape fs st1 = Inr st'"
    by (auto simp: res_bind_Inr_iff)
  show ?case
    using operator_loop_binds [OF st1(1)] Cons.IH [OF st1(2)]
    by (simp add: slot_ops_def number_from_append comp_def)
qed (simp add: slot_ops_def)

lemma compose_sql_binds:
  assumes "compose_sql d sid ob src frag = Inr co" and "dataset_shape d sid = Some shape" and "ds_filters d \<noteq> []"
  shows "co_filter_binds co = number_from shape (length (shape_parameters shape d)) (slot_ops (ds_filters d))"
  using assms filter_loop_binds by (fastforce simp: compose_sql_def res_bind_Inr_iff split: option.splits if_splits)

section \<open>Bound values\<close>

lemma operator_binds_length: "operator_binds sel sens f op = Inr vs \<Longrightarrow> length vs = width op"
  by (auto simp: operator_binds_def Let_def width_def split: if_splits)

lemma compose_dataset_binds_Inr:
  assumes "compose_dataset_binds d sel sens = Inr bs"
  shows "\<exists>vss. bs = concat vss \<and> list_all2 (\<lambda>fo vs. operator_binds sel sens (fst fo) (snd fo) = Inr vs) (slot_ops (ds_filters d)) vss"
proof -
  have "res_map (\<lambda>slot. res_bind (res_map (operator_binds sel sens slot) (fs_operators slot)) (\<lambda>bs. Inr (concat bs))) fs = Inr bss \<Longrightarrow>
      \<exists>vss. concat bss = concat vss \<and> list_all2 (\<lambda>fo vs. operator_binds sel sens (fst fo) (snd fo) = Inr vs) (slot_ops fs) vss" for fs bss
  proof (induction fs arbitrary: bss)
    case (Cons f fs)
    then obtain vs0 bss' where a: "res_map (operator_binds sel sens f) (fs_operators f) = Inr vs0" "bss = concat vs0 # bss'"
        "res_map (\<lambda>slot. res_bind (res_map (operator_binds sel sens slot) (fs_operators slot)) (\<lambda>bs. Inr (concat bs))) fs = Inr bss'"
      by (auto simp: res_bind_Inr_iff)
    obtain vss where v: "concat bss' = concat vss"
        "list_all2 (\<lambda>fo vs. operator_binds sel sens (fst fo) (snd fo) = Inr vs) (slot_ops fs) vss"
      using Cons.IH [OF a(3)] by blast
    have "list_all2 (\<lambda>fo vs. operator_binds sel sens (fst fo) (snd fo) = Inr vs) (map (Pair f) (fs_operators f)) vs0"
      using a(1) by (simp add: res_map_Inr_iff list_all2_map1)
    then have "list_all2 (\<lambda>fo vs. operator_binds sel sens (fst fo) (snd fo) = Inr vs) (slot_ops (f # fs)) (vs0 @ vss)"
      using v(2) by (simp add: slot_ops_def list_all2_appendI)
    then show ?case using v(1) a(2) by (intro exI [of _ "vs0 @ vss"]) simp
  qed (simp add: slot_ops_def)
  then show ?thesis using assms by (fastforce simp: compose_dataset_binds_def res_bind_Inr_iff)
qed

lemma number_from_values:
  assumes "list_all2 (\<lambda>fo vs. operator_binds sel sens (fst fo) (snd fo) = Inr vs) fos vss"
    and "b \<in> set (number_from shape n fos)"
  shows "\<exists>fo \<in> set fos. \<exists>vs. b = bind_at shape (fb_placeholder b - 1) fo \<and> operator_binds sel sens (fst fo) (snd fo) = Inr vs \<and>
    n < fb_placeholder b \<and> fb_placeholder b - 1 + length vs \<le> n + length (concat vss) \<and>
    (\<forall>k < length vs. concat vss ! (fb_placeholder b - 1 - n + k) = vs ! k)"
  using assms
proof (induction fos vss arbitrary: n rule: list_all2_induct)
  case (Cons fo fos vs vss)
  have len: "length vs = width (snd fo)" using Cons.hyps(1) by (rule operator_binds_length)
  show ?case
  proof (cases "b = bind_at shape n fo")
    case True
    then show ?thesis using Cons.hyps(1) by (intro bexI [of _ fo] exI [of _ vs]) (auto simp: bind_at_def nth_append)
  next
    case False
    then have "b \<in> set (number_from shape (n + width (snd fo)) fos)" using Cons.prems by simp
    then obtain fo' vs' where x: "fo' \<in> set fos" "b = bind_at shape (fb_placeholder b - 1) fo'"
        "operator_binds sel sens (fst fo') (snd fo') = Inr vs'" "n + width (snd fo) < fb_placeholder b"
        "fb_placeholder b - 1 + length vs' \<le> n + width (snd fo) + length (concat vss)"
        "\<forall>k < length vs'. concat vss ! (fb_placeholder b - 1 - (n + width (snd fo)) + k) = vs' ! k"
      using Cons.IH by blast
    have "concat (vs # vss) ! (fb_placeholder b - 1 - n + k) = vs' ! k" if "k < length vs'" for k
    proof -
      have e: "fb_placeholder b - 1 - n + k = length vs + (fb_placeholder b - 1 - (n + width (snd fo)) + k)"
        using x(4) len by simp
      show ?thesis unfolding e concat.simps nth_append_length_plus using x(6) that by simp
    qed
    then show ?thesis using x len by (intro bexI [of _ fo'] exI [of _ vs']) auto
  qed
qed simp

end
