(* ===== verification/ValidatorFacts.thy ===== *)
theory ValidatorFacts
  imports Validator DatasetFacts
begin

text \<open>
  What a validated catalog guarantees, one fact per check, and the agreement of the paths that the
  validator and the execution read.
\<close>

section \<open>The parts of a validated catalog\<close>

lemma res_map_Inl: "res_map f xs = Inl e \<Longrightarrow> \<exists>x \<in> set xs. f x = Inl e"
  by (induction xs) (auto simp: res_bind_Inl_iff)

lemma validate_unique_ids_Inr_iff:
  "validate_unique_ids label seen is = Inr () \<longleftrightarrow>
     distinct is \<and> set is \<inter> set seen = {} \<and> (\<forall>i \<in> set is. trim i \<noteq> [])"
  by (induction "is" arbitrary: seen) auto

lemma covered_once_Inr_iff: "covered_once covered ps = Inr () \<longleftrightarrow> distinct ps \<and> set ps \<inter> set covered = {}"
  by (induction ps arbitrary: covered) auto

lemma validated_parts:
  assumes "validate_catalog w cat = Inr ()"
  shows "validate_catalog_ids cat = Inr ()"
    and "validate_parameter_input_registry (kc_parameter_inputs cat) (kc_queries cat) = Inr ()"
    and "validate_parameter_bindings cat = Inr ()"
    and "c \<in> set (kc_capabilities cat) \<Longrightarrow> validate_capability cat c = Inr ()"
    and "q \<in> set (kc_queries cat) \<Longrightarrow> validate_query w cat q = Inr ()"
    and "check_unique ds_id (\<lambda>d. DatasetDeclaredTwice (ds_id d)) validate_catalog_dataset [] (kc_datasets cat) = Inr ()"
    and "f \<in> set (find_completeness_lints cat) \<Longrightarrow> lint_severity f \<noteq> LintFatal"
  using assms by (auto simp: validate_catalog_def res_simps)

lemma validated_lookups:
  assumes "validate_catalog w cat = Inr ()"
  shows "q \<in> set (kc_queries cat) \<Longrightarrow> find_query cat (q_id q) = Some q"
    and "d \<in> set (kc_datasets cat) \<Longrightarrow> find_dataset cat (ds_id d) = Some d"
    and "distinct (map cap_id (kc_capabilities cat))"
  using validated_parts(1,6) [OF assms]
  by (auto simp: validate_catalog_ids_def res_simps validate_unique_ids_Inr_iff check_unique_Inr_iff find_query_def
      find_dataset_def intro: find_key_distinct)

lemma validated_dataset:
  "validate_catalog w cat = Inr () \<Longrightarrow> d \<in> set (kc_datasets cat) \<Longrightarrow> validate_dataset d = Inr ()"
  using validated_parts(6) by (fastforce simp: check_unique_Inr_iff validate_catalog_dataset_def res_simps)

lemma validated_capability_query:
  assumes "validate_catalog w cat = Inr ()" and "c \<in> set (kc_capabilities cat)"
  obtains q where "q \<in> set (kc_queries cat)" and "q_id q = cap_query_id c" and "find_query cat (cap_query_id c) = Some q"
proof -
  have "cap_query_id c \<in> set (map q_id (kc_queries cat))"
    using validated_parts(4) [OF assms] by (auto simp: validate_capability_def res_simps)
  then obtain q where "q \<in> set (kc_queries cat)" "q_id q = cap_query_id c" by auto
  then show ?thesis using that validated_lookups(1) [OF assms(1)] by metis
qed

lemma validated_approved_capability:
  assumes "validate_catalog w cat = Inr ()" and "c \<in> set (kc_capabilities cat)" and "approved c"
    and "find_query cat (cap_query_id c) = Some q"
  shows "validate_capability_parameter_contract c q (kc_parameter_inputs cat) = Inr ()"
    and "validate_clarification_contract c q = Inr ()"
    and "validate_dataset_recipe cat c q = Inr ()"
proof -
  have "validate_approved_capability cat c = Inr ()"
    using validated_parts(4) [OF assms(1,2)] by (auto simp: validate_capability_def res_simps)
  then show "validate_capability_parameter_contract c q (kc_parameter_inputs cat) = Inr ()"
    "validate_clarification_contract c q = Inr ()" "validate_dataset_recipe cat c q = Inr ()"
    using assms(3,4) by (auto simp: validate_approved_capability_def res_simps)
qed

section \<open>Paths\<close>

text \<open>The configured directory is named \<open>queries\<close>, without a separator at its end.\<close>

definition queries_directory :: "string \<Rightarrow> bool" where
  "queries_directory p \<longleftrightarrow> p = ''queries'' \<or> (\<exists>root. p = root @ ''/queries'' \<and> (root = [] \<or> last root \<noteq> CHR ''/''))"

lemma drop_separators_id: "p = [] \<or> last p \<noteq> CHR ''/'' \<Longrightarrow> drop_separators p = p"
  by (cases p rule: rev_cases) (auto simp: drop_separators_def)

lemma path_parent_queries:
  "path_parent ''queries'' = Some []"
  "root = [] \<or> last root \<noteq> CHR ''/'' \<Longrightarrow> path_parent (root @ ''/queries'') = Some (if root = [] then ''/'' else root)"
proof -
  show "path_parent ''queries'' = Some []" by (simp add: path_parent_def drop_separators_def)
  assume r: "root = [] \<or> last root \<noteq> CHR ''/''"
  have q: "drop_separators (root @ ''/queries'') = root @ ''/queries''" by (simp add: drop_separators_def)
  have d: "rev (dropWhile (\<lambda>c. c \<noteq> CHR ''/'') (rev (root @ ''/queries''))) = root @ ''/''" by simp
  have s: "drop_separators (root @ ''/'') = root"
    using drop_separators_id [OF r] by (simp add: drop_separators_def)
  show "path_parent (root @ ''/queries'') = Some (if root = [] then ''/'' else root)"
    unfolding path_parent_def Let_def q d s by simp
qed

lemma query_sql_path_agrees:
  assumes "queries_directory (kc_query_path cat)" and "resolve_sql_path (kc_query_path cat) (q_sql_file q) = Inr path"
  shows "query_sql_path cat q = path"
proof (cases "starts_with ''queries/'' (q_sql_file q)")
  case True
  then obtain rel where rel: "q_sql_file q = ''queries/'' @ rel" by (auto simp: starts_with_iff)
  then have p: "path = join_path (kc_query_path cat) rel"
    using assms(2) by (auto simp: resolve_sql_path_def strip_prefix_def Let_def split: if_splits)
  from assms(1) show ?thesis unfolding queries_directory_def
  proof
    assume "kc_query_path cat = ''queries''"
    then show ?thesis using path_parent_queries(1) p rel by (simp add: query_sql_path_def path_join_def join_path_def)
  next
    assume "\<exists>root. kc_query_path cat = root @ ''/queries'' \<and> (root = [] \<or> last root \<noteq> CHR ''/'')"
    then obtain root where "kc_query_path cat = root @ ''/queries''" "root = [] \<or> last root \<noteq> CHR ''/''" by blast
    then show ?thesis using path_parent_queries(2) p rel by (auto simp: query_sql_path_def path_join_def join_path_def)
  qed
next
  case False
  then have "strip_prefix ''queries/'' (q_sql_file q) = None" by (simp add: strip_prefix_def)
  then have "normal_components (q_sql_file q)" "path = join_path (kc_query_path cat) (q_sql_file q)"
    using assms(2) by (auto simp: resolve_sql_path_def Let_def split: if_splits)
  then show ?thesis using False by (auto simp: query_sql_path_def path_join_def normal_components_def)
qed

lemma read_approved_query:
  assumes "validate_catalog w cat = Inr ()" and "q \<in> set (kc_queries cat)" and "queries_directory (kc_query_path cat)"
    and "ex_read x = cf_read w" and "read_approved_sql x cat (q_sql_file q) = Inr sql"
  shows "validate_sql_text q sql = Inr ()"
proof -
  obtain path where p: "resolve_sql_path (kc_query_path cat) (q_sql_file q) = Inr path" "cf_read w path = Some sql"
    using assms(4,5) by (auto simp: read_approved_sql_def res_simps)
  have "validate_sql_safety w q path = Inr ()"
    using validated_parts(5) [OF assms(1,2)] query_sql_path_agrees [OF assms(3) p(1)]
    by (simp add: validate_query_def Let_def res_simps)
  then show ?thesis using p(2) by (simp add: validate_sql_safety_def)
qed

lemma read_approved_dataset:
  assumes "read_dataset_sql w cat path = Inr sql" and "ex_read x = cf_read w"
  shows "read_approved_sql x cat path = Inr sql"
  using assms
  by (auto simp: read_dataset_sql_def read_approved_sql_def resolve_catalog_sql_path_def resolve_sql_path_def Let_def
      res_simps path_join_def normal_components_def split: if_splits)

section \<open>Placeholders\<close>

lemma validate_placeholders_set:
  assumes "validate_placeholders q sql = Inr ()"
  shows "set (placeholder_numbers sql) - {0} = {1..length (q_parameters q)}"
proof -
  have "\<forall>i \<in> {1..<Suc (length (q_parameters q))}. i \<in> set (placeholder_numbers sql)"
    and "\<forall>n \<in> set (placeholder_numbers sql). n \<le> length (q_parameters q)"
    using assms by (auto simp: validate_placeholders_def Let_def res_simps list_ex_iff not_less)
  then show ?thesis by fastforce
qed

end
