(* ===== verification/DatasetProps.thy ===== *)
theory DatasetProps
  imports DatasetFacts
begin

text \<open>
  The properties of the datasets and of the execution of a plan, with the small dataset, recipe and
  catalog they are applied to.
\<close>

section \<open>A sample dataset\<close>

definition charges_shape :: shape_option where
  "charges_shape =
     \<lparr>sh_id = ''list'',
      sh_request_shape = \<lparr>rs_operation = OpList, rs_subject = SubjSavingsAccountCharge, rs_grouping = GroupNone,
                          rs_output = OutList, rs_pii = PiiNone\<rparr>,
      sh_role = RoleTerminal, sh_expected_cardinality = None, sh_row_cap = Some 25, sh_grouped_by = None,
      sh_produces = [], sh_fragment = Some ''queries/list.frag.sql'', sh_order_by = [''due''],
      sh_output_fields = [], sh_parameters = []\<rparr>"

definition charges_due :: filter_slot where
  "charges_due =
     \<lparr>fs_id = ''due'', fs_expr = ''sac.due'', fs_kind = ''date'', fs_case_insensitive = False,
      fs_input_policy = Ordinary, fs_operators = [FBetween, FEq]\<rparr>"

definition charges_client :: filter_slot where
  "charges_client =
     \<lparr>fs_id = ''client_id'', fs_expr = ''client_id'', fs_kind = ''integer'', fs_case_insensitive = False,
      fs_input_policy = Ordinary, fs_operators = [FIn]\<rparr>"

definition charges :: dataset_knowledge where
  "charges =
     \<lparr>ds_id = ''charges'', ds_database = ''fineract'', ds_source_sql = ''queries/charges.sql'', ds_tables = [''t''],
      ds_filters = [charges_due, charges_client], ds_entity = None, ds_filters_exempt = [], ds_shapes = [charges_shape],
      ds_order_by = [\<lparr>ob_id = ''due'', ob_expr = ''sac.due DESC''\<rparr>],
      ds_output_fields = [\<lparr>dof_name = ''client_id'', dof_kind = ''bigint'', dof_sensitivity = PublicBusiness, dof_core = True\<rparr>],
      ds_parameters = [\<lparr>qp_name = ''office_ids'', qp_kind = ''array_bigint'', qp_required = True,
                        qp_source = Some ''authorized_scope''\<rparr>],
      ds_timeout_ms = None\<rparr>"

lemma charges_valid: "validate_dataset charges = Inr ()"
  by code_simp

definition charges_recipe :: dataset_recipe where
  "charges_recipe =
     \<lparr>dr_dataset_id = ''charges'', dr_shape_id = ''list'', dr_order_by_id = Some ''due'',
      dr_filters = [\<lparr>rf_filter_id = ''client_id'', rf_operator = FIn, rf_parameter = Some ''clients'', rf_value = None\<rparr>],
      dr_projection = [''client_id'']\<rparr>"

definition charges_selection :: dataset_selection where
  "charges_selection =
     \<lparr>dsel_dataset_id = ''charges'', dsel_shape_id = ''list'', dsel_order_by_id = Some ''due'',
      dsel_filters = [\<lparr>fsel_filter_id = ''client_id'', fsel_operator = FIn,
                       fsel_value = JArray [json_int 4, json_int 9]\<rparr>],
      dsel_projection = [''client_id'']\<rparr>"

lemma charges_resolves:
  "resolve_recipe (\<lambda>_. False) charges charges_recipe (obj_of [(''clients'', JArray [json_int 4, json_int 9])]) =
     Inr charges_selection"
  by code_simp

section \<open>Composition\<close>

lemma predicate_ok_iff:
  "is_ok (predicate expr op kind ci n) \<longleftrightarrow> filter_cast kind \<noteq> None \<and> (ci \<longrightarrow> kind = ''string'' \<and> op = FEq)"
  by (auto simp: predicate_def is_ok_iff split: option.splits)

lemma operator_loop_ok_iff:
  "(\<exists>st'. operator_loop shape f ops st = Inr st') \<longleftrightarrow>
     (\<forall>op \<in> set ops. filter_cast (fs_kind f) \<noteq> None \<and> (fs_case_insensitive f \<longrightarrow> fs_kind f = ''string'' \<and> op = FEq))"
proof (induction ops arbitrary: st)
  case (Cons op ops)
  let ?P = "filter_cast (fs_kind f) \<noteq> None \<and> (fs_case_insensitive f \<longrightarrow> fs_kind f = ''string'' \<and> op = FEq)"
  have step: "(\<exists>st1. operator_step shape f op st = Inr st1) \<longleftrightarrow> ?P"
    using predicate_ok_iff [of "fs_expr f" op "fs_kind f" "fs_case_insensitive f" "ft_placeholder st + 1"]
    by (simp add: operator_step_def Let_def res_bind_Inr_iff is_ok_iff)
  have "(\<exists>st'. operator_loop shape f (op # ops) st = Inr st') \<longleftrightarrow>
      (\<exists>st1. operator_step shape f op st = Inr st1 \<and> (\<exists>st'. operator_loop shape f ops st1 = Inr st'))"
    by (auto simp: res_bind_Inr_iff)
  also have "\<dots> \<longleftrightarrow> ?P \<and> (\<forall>op \<in> set ops. filter_cast (fs_kind f) \<noteq> None \<and>
      (fs_case_insensitive f \<longrightarrow> fs_kind f = ''string'' \<and> op = FEq))"
    using Cons.IH step by blast
  finally show ?case by simp
qed simp

lemma filter_loop_ok_iff:
  "(\<exists>st'. filter_loop i shape fs st = Inr st') \<longleftrightarrow>
     (\<forall>f \<in> set fs. validate_sql_expr (fs_expr f) = Inr () \<and>
       (\<forall>op \<in> set (fs_operators f). filter_cast (fs_kind f) \<noteq> None \<and>
          (fs_case_insensitive f \<longrightarrow> fs_kind f = ''string'' \<and> op = FEq)))"
proof (induction fs arbitrary: st)
  case (Cons f fs)
  have "(\<exists>st'. filter_loop i shape (f # fs) st = Inr st') \<longleftrightarrow>
      validate_sql_expr (fs_expr f) = Inr () \<and>
      (\<exists>st1. operator_loop shape f (fs_operators f) st = Inr st1 \<and> (\<exists>st'. filter_loop i shape fs st1 = Inr st'))"
    by (auto simp: res_bind_Inr_iff)
  then show ?case using Cons.IH operator_loop_ok_iff [of shape f "fs_operators f" st] by auto
qed simp

lemma filter_cast_types: "filter_cast kind \<noteq> None \<longleftrightarrow> kind \<in> set filter_types"
  by (auto simp: filter_cast_def filter_types_def)

lemma order_by_clause_ok:
  assumes "validate_dataset d = Inr ()" and "s \<in> set (ds_shapes d)" and "o' = None \<or> (\<exists>i \<in> set (sh_order_by s). o' = Some i)"
  shows "\<exists>clause. order_by_clause d o' = Inr clause"
proof (cases o')
  case None
  then show ?thesis by (simp add: order_by_clause_def)
next
  case (Some i)
  then have "i \<in> set (map ob_id (ds_order_by d))"
    using assms check_shape_Inr(1) [OF validate_dataset_shape [OF assms(1,2)]] by auto
  then obtain opt where f: "find (\<lambda>o'. ob_id o' = i) (ds_order_by d) = Some opt"
    by (metis (mono_tags, lifting) find_None_iff_all imageE list.set_map not_None_eq)
  then have "validate_sql_expr (ob_expr opt) = Inr ()"
    using validate_dataset_order_by [OF assms(1)] by (auto dest: find_SomeD)
  then show ?thesis using Some f by (simp add: order_by_clause_def order_by_expr_def map_err_def)
qed

lemma charges_composes:
  obtains co where "compose_sql charges ''list'' (Some ''due'') ''SELECT 1'' (Some ''SELECT * FROM base'') = Inr co"
proof -
  have "is_ok (compose_sql charges ''list'' (Some ''due'') ''SELECT 1'' (Some ''SELECT * FROM base''))" by code_simp
  then show ?thesis using that by (auto simp: is_ok_iff)
qed

lemma executable_combination_order:
  "(i, o') \<in> set (executable_combinations d) \<Longrightarrow> distinct (map sh_id (ds_shapes d)) \<Longrightarrow>
     \<exists>s. dataset_shape d i = Some s \<and> s \<in> set (ds_shapes d) \<and> (o' = None \<or> (\<exists>k \<in> set (sh_order_by s). o' = Some k))"
proof -
  assume a: "(i, o') \<in> set (executable_combinations d)" and dist: "distinct (map sh_id (ds_shapes d))"
  then obtain s where s: "s \<in> set (ds_shapes d)" "sh_id s = i" "o' = None \<or> (\<exists>k \<in> set (sh_order_by s). o' = Some k)"
    by (auto simp: executable_combinations_def split: if_splits)
  moreover have "dataset_shape d i = Some s"
    unfolding dataset_shape_def using find_key_distinct [OF dist s(1)] s(2) by simp
  ultimately show ?thesis by blast
qed

text \<open>
  C17: A dataset that passes the static rules composes all its statements, with two exceptions.  For
  every executable combination of a valid dataset, given a fragment text exactly when the shape names
  one, the composition succeeds if and only if no case-insensitive filter is anything but a textual
  equality and a shape without a fragment is used without an order.  The static rules ask for neither.
\<close>

theorem validated_dataset_composes:
  assumes "validate_dataset d = Inr ()" and "(i, o') \<in> set (executable_combinations d)"
    and "dataset_shape d i = Some s" and "fragment = None \<longleftrightarrow> sh_fragment s = None"
  shows "(\<exists>co. compose_sql d i o' source fragment = Inr co) \<longleftrightarrow>
    (sh_fragment s = None \<longrightarrow> o' = None) \<and>
    (\<forall>f \<in> set (ds_filters d). fs_case_insensitive f \<longrightarrow> fs_kind f = ''string'' \<and> set (fs_operators f) = {FEq})"
proof -
  have "distinct (map sh_id (ds_shapes d))"
    using assms(1) by (simp add: validate_dataset_def Let_def res_bind_Inr_iff check_unique_Inr_iff)
  from executable_combination_order [OF assms(2) this] assms(3)
  have s: "s \<in> set (ds_shapes d)" and ord: "o' = None \<or> (\<exists>k \<in> set (sh_order_by s). o' = Some k)" by auto
  obtain clause where clause: "order_by_clause d o' = Inr clause" using order_by_clause_ok [OF assms(1) s ord] by blast
  note f = validate_dataset_filters [OF assms(1)]
  let ?st = "\<lparr>ft_placeholder = length (shape_parameters s d), ft_predicates = [], ft_binds = []\<rparr>"
  have loop: "(\<exists>st'. filter_loop (ds_id d) s (ds_filters d) ?st = Inr st') \<longleftrightarrow>
      (\<forall>f \<in> set (ds_filters d). fs_case_insensitive f \<longrightarrow> fs_kind f = ''string'' \<and> set (fs_operators f) = {FEq})"
    unfolding filter_loop_ok_iff filter_cast_types
  proof (rule ball_cong [OF refl])
    fix g assume "g \<in> set (ds_filters d)"
    then show "(validate_sql_expr (fs_expr g) = Inr () \<and> (\<forall>op \<in> set (fs_operators g). fs_kind g \<in> set filter_types \<and>
          (fs_case_insensitive g \<longrightarrow> fs_kind g = ''string'' \<and> op = FEq))) \<longleftrightarrow>
        (fs_case_insensitive g \<longrightarrow> fs_kind g = ''string'' \<and> set (fs_operators g) = {FEq})"
      using f [of g] by (cases "fs_operators g") auto
  qed
  show ?thesis
  proof (cases "sh_fragment s")
    case None
    then have "ds_filters d = []" using check_shape_Inr(2) [OF validate_dataset_shape [OF assms(1) s]] by simp
    then show ?thesis using None assms(3,4) by (cases o') (auto simp: compose_sql_def)
  next
    case (Some path)
    then obtain frag where "fragment = Some frag" using assms(4) by (cases fragment) auto
    then have "(\<exists>co. compose_sql d i o' source fragment = Inr co) \<longleftrightarrow>
        (\<exists>st'. filter_loop (ds_id d) s (ds_filters d) ?st = Inr st')"
      using Some assms(3) clause by (auto simp: compose_sql_def res_bind_Inr_iff)
    then show ?thesis using loop Some by simp
  qed
qed

theorem validated_dataset_composes_witness:
  "\<exists>co. compose_sql charges ''list'' (Some ''due'') ''SELECT 1'' (Some ''SELECT * FROM base'') = Inr co"
proof -
  have c: "(''list'', Some ''due'') \<in> set (executable_combinations charges)" by code_simp
  have s: "dataset_shape charges ''list'' = Some charges_shape" by (simp add: dataset_shape_def charges_def charges_shape_def)
  have fr: "(Some ''SELECT * FROM base'' = None) = (sh_fragment charges_shape = None)" by (simp add: charges_shape_def)
  have ok: "\<forall>f \<in> set (ds_filters charges). fs_case_insensitive f \<longrightarrow> fs_kind f = ''string'' \<and> set (fs_operators f) = {FEq}"
    by (simp add: charges_def charges_due_def charges_client_def)
  show ?thesis
    using validated_dataset_composes [OF charges_valid c s fr, of "''SELECT 1''"] ok
    by (simp add: charges_shape_def)
qed

text \<open>
  A declared expression cannot extend the statement.  When a statement is composed, it is the
  source verbatim without binds, or every filter expression of the dataset and the expression of the
  chosen order consist of identifier characters, white space and commas only, so they hold no quote,
  comment, parenthesis or semicolon.
\<close>

theorem composed_expressions_safe:
  assumes "compose_sql d i o' source fragment = Inr co"
  shows "co = \<lparr>co_sql = source, co_filter_binds = []\<rparr> \<or>
    (\<forall>c \<in> \<Union> (set ` fs_expr ` set (ds_filters d)) \<union>
        (case o' of None \<Rightarrow> {} | Some k \<Rightarrow> (case order_by_expr d k of None \<Rightarrow> {} | Some e \<Rightarrow> set e)).
       ident_char c \<or> white_byte c \<or> c = CHR '','')"
proof (cases "co = \<lparr>co_sql = source, co_filter_binds = []\<rparr>")
  case False
  obtain shape frag st clause where c: "dataset_shape d i = Some shape" "fragment = Some frag"
      "filter_loop (ds_id d) shape (ds_filters d)
         \<lparr>ft_placeholder = length (shape_parameters shape d), ft_predicates = [], ft_binds = []\<rparr> = Inr st"
      "order_by_clause d o' = Inr clause"
    using assms False by (auto simp: compose_sql_def res_bind_Inr_iff split: option.splits if_splits)
  have flt: "validate_sql_expr (fs_expr f) = Inr ()" if "f \<in> set (ds_filters d)" for f
    using c(3) filter_loop_ok_iff that by blast
  have ord: "validate_sql_expr e = Inr ()" if "o' = Some k" "order_by_expr d k = Some e" for k e
    using c(4) that by (auto simp: order_by_clause_def res_bind_Inr_iff)
  show ?thesis
  proof (rule disjI2, rule ballI)
    fix ch
    assume "ch \<in> \<Union> (set ` fs_expr ` set (ds_filters d)) \<union>
        (case o' of None \<Rightarrow> {} | Some k \<Rightarrow> (case order_by_expr d k of None \<Rightarrow> {} | Some e \<Rightarrow> set e))"
    then consider f where "f \<in> set (ds_filters d)" "ch \<in> set (fs_expr f)"
      | k e where "o' = Some k" "order_by_expr d k = Some e" "ch \<in> set e"
      by (auto split: option.splits)
    then show "ident_char ch \<or> white_byte ch \<or> ch = CHR '',''"
      by cases (use validate_sql_expr_chars flt ord in blast)+
  qed
qed simp

theorem composed_expressions_safe_witness:
  "list_all (\<lambda>c. ident_char c \<or> white_byte c \<or> c = CHR '','') ''sac.due''"
proof -
  obtain co where co: "compose_sql charges ''list'' (Some ''due'') ''SELECT 1'' (Some ''SELECT * FROM base'') = Inr co"
    by (rule charges_composes)
  have "co_filter_binds co \<noteq> []"
  proof -
    have "\<not> (case compose_sql charges ''list'' (Some ''due'') ''SELECT 1'' (Some ''SELECT * FROM base'') of
        Inl _ \<Rightarrow> True | Inr co \<Rightarrow> co_filter_binds co = [])"
      by code_simp
    then show ?thesis using co by simp
  qed
  then have "co \<noteq> \<lparr>co_sql = ''SELECT 1'', co_filter_binds = []\<rparr>" by auto
  then show ?thesis
    using composed_expressions_safe [OF co] by (simp add: charges_def charges_due_def charges_client_def)
qed

section \<open>Recipes\<close>

lemma resolve_filter_Some:
  assumes "resolve_filter is_decimal d shape params m = Inr (Some sel)"
  shows "\<exists>slot \<in> set (ds_filters d). fs_id slot = fsel_filter_id sel \<and> fs_input_policy slot = Ordinary \<and>
    fsel_operator sel \<in> set (fs_operators slot) \<and>
    valid_filter_value is_decimal (fs_kind slot) (fsel_operator sel) (fsel_value sel) (sh_row_cap shape)"
proof -
  obtain slot v where s: "find (\<lambda>slot. fs_id slot = rf_filter_id m) (ds_filters d) = Some slot"
      "rf_operator m \<in> set (fs_operators slot)" "fs_input_policy slot \<noteq> ExactIdentifier"
      "valid_filter_value is_decimal (fs_kind slot) (rf_operator m) v (sh_row_cap shape)"
      "sel = \<lparr>fsel_filter_id = fs_id slot, fsel_operator = rf_operator m, fsel_value = v\<rparr>"
    using assms by (auto simp: resolve_filter_def res_bind_Inr_iff ok_or_Inr_iff split: if_splits)
  then have "fs_input_policy slot = Ordinary" by (cases "fs_input_policy slot") auto
  then show ?thesis using s by (intro bexI [of _ slot]) (auto dest: find_SomeD)
qed

lemma resolve_recipe_Inr:
  assumes "resolve_recipe is_decimal d r params = Inr sel"
  obtains shape where "dataset_shape d (dsel_shape_id sel) = Some shape"
    and "dsel_order_by_id sel = None \<or> (\<exists>k \<in> set (sh_order_by shape). dsel_order_by_id sel = Some k)"
    and "\<And>f. f \<in> set (dsel_filters sel) \<Longrightarrow>
      \<exists>slot \<in> set (ds_filters d). fs_id slot = fsel_filter_id f \<and> fs_input_policy slot = Ordinary \<and>
        fsel_operator f \<in> set (fs_operators slot) \<and>
        valid_filter_value is_decimal (fs_kind slot) (fsel_operator f) (fsel_value f) (sh_row_cap shape)"
    and "\<And>n. n \<in> set (dsel_projection sel) \<Longrightarrow> n \<in> set (map dof_name (shape_output_fields shape d))"
    and "dsel_dataset_id sel = ds_id d"
proof -
  obtain shape obj sels where a: "dataset_shape d (dr_shape_id r) = Some shape"
      "(case dr_order_by_id r of None \<Rightarrow> Inr ()
        | Some o' \<Rightarrow> guard_err (o' \<notin> set (sh_order_by shape)) (RecipeOrderBy (ds_id d) (sh_id shape) o')) = Inr ()"
      "res_map (resolve_filter is_decimal d shape obj) (dr_filters r) = Inr sels"
      "\<forall>field \<in> set (dr_projection r). list_ex (\<lambda>f. dof_name f = field) (shape_output_fields shape d)"
      "sel = \<lparr>dsel_dataset_id = ds_id d, dsel_shape_id = sh_id shape, dsel_order_by_id = dr_order_by_id r,
          dsel_filters = List.map_filter (\<lambda>x. x) sels, dsel_projection = dr_projection r\<rparr>"
    using assms by (auto simp: resolve_recipe_def res_bind_Inr_iff ok_or_Inr_iff res_iter_Inr_iff)
  have "\<exists>m. resolve_filter is_decimal d shape obj m = Inr (Some f)" if "f \<in> set (dsel_filters sel)" for f
  proof -
    have "Some f \<in> set sels" using that a(5) by (auto simp: List.map_filter_def)
    then obtain i where "i < length sels" "sels ! i = Some f" by (auto simp: in_set_conv_nth)
    then show ?thesis using a(3) by (auto simp: res_map_Inr_iff list_all2_conv_all_nth intro!: exI [of _ "dr_filters r ! i"])
  qed
  then have "\<exists>slot \<in> set (ds_filters d). fs_id slot = fsel_filter_id f \<and> fs_input_policy slot = Ordinary \<and>
        fsel_operator f \<in> set (fs_operators slot) \<and>
        valid_filter_value is_decimal (fs_kind slot) (fsel_operator f) (fsel_value f) (sh_row_cap shape)"
    if "f \<in> set (dsel_filters sel)" for f
    using resolve_filter_Some that by blast
  moreover have "sh_id shape = dr_shape_id r" using a(1) dataset_shapeD by blast
  moreover have "dsel_order_by_id sel = None \<or> (\<exists>k \<in> set (sh_order_by shape). dsel_order_by_id sel = Some k)"
    using a(2,5) by (cases "dr_order_by_id r") auto
  moreover have "n \<in> set (map dof_name (shape_output_fields shape d))" if "n \<in> set (dsel_projection sel)" for n
    using a(4,5) that by (force simp: list_ex_iff)
  ultimately show ?thesis using that [of shape] a(1,5) by simp
qed

text \<open>
  A resolved recipe asks only for what the dataset declares.  Each of its filters is an ordinary
  filter with an operator that filter allows and a value of its type, a list value is not empty and
  no longer than the row cap, no exact identifier is among them, and every projected name is an output
  field of the shape.
\<close>

theorem resolved_selection_declared:
  assumes "resolve_recipe is_decimal d r params = Inr sel"
  shows "\<exists>shape. dataset_shape d (dsel_shape_id sel) = Some shape \<and>
    (\<forall>f \<in> set (dsel_filters sel). \<exists>slot \<in> set (ds_filters d). fs_id slot = fsel_filter_id f \<and>
        fs_input_policy slot = Ordinary \<and> fsel_operator f \<in> set (fs_operators slot) \<and>
        (fsel_operator f \<notin> {FIn, FBetween} \<longrightarrow> valid_scalar is_decimal (fs_kind slot) (fsel_value f)) \<and>
        (fsel_operator f = FIn \<longrightarrow> (\<exists>cap vs. sh_row_cap shape = Some cap \<and> fsel_value f = JArray vs \<and> vs \<noteq> [] \<and>
           length vs \<le> unat cap \<and> (\<forall>v \<in> set vs. valid_scalar is_decimal (fs_kind slot) v)))) \<and>
    set (dsel_projection sel) \<subseteq> set (map dof_name (shape_output_fields shape d))"
proof -
  have v: "(op \<notin> {FIn, FBetween} \<longrightarrow> valid_scalar is_decimal k w) \<and>
      (op = FIn \<longrightarrow> (\<exists>c vs. cap = Some c \<and> w = JArray vs \<and> vs \<noteq> [] \<and> length vs \<le> unat c \<and>
         (\<forall>x \<in> set vs. valid_scalar is_decimal k x)))" if "valid_filter_value is_decimal k op w cap" for k op w cap
    using that by (auto simp: valid_filter_value_def as_array_def list_all_iff split: filter_operator.splits option.splits json.splits)
  show ?thesis
  proof (rule resolve_recipe_Inr [OF assms])
    fix shape
    assume s: "dataset_shape d (dsel_shape_id sel) = Some shape"
      and f: "\<And>f. f \<in> set (dsel_filters sel) \<Longrightarrow> \<exists>slot \<in> set (ds_filters d). fs_id slot = fsel_filter_id f \<and>
        fs_input_policy slot = Ordinary \<and> fsel_operator f \<in> set (fs_operators slot) \<and>
        valid_filter_value is_decimal (fs_kind slot) (fsel_operator f) (fsel_value f) (sh_row_cap shape)"
      and p: "\<And>n. n \<in> set (dsel_projection sel) \<Longrightarrow> n \<in> set (map dof_name (shape_output_fields shape d))"
    show ?thesis
      using s f v p by (intro exI [of _ shape] conjI ballI subsetI) blast+
  qed
qed

theorem resolved_selection_declared_witness:
  "\<exists>shape. dataset_shape charges ''list'' = Some shape \<and> ''client_id'' \<in> set (map dof_name (shape_output_fields shape charges))"
  using resolved_selection_declared [OF charges_resolves] by (auto simp: charges_selection_def)

end
