(* ===== verification/ExecutionProps.thy ===== *)
theory ExecutionProps
  imports DatasetProps
begin

text \<open>The properties of the execution of a plan: which value meets which placeholder, and how many rows come back.\<close>

section \<open>A sample execution\<close>

definition charges_catalog :: knowledge_catalog where
  "charges_catalog =
     \<lparr>kc_root_path = [], kc_query_path = ''/q'', kc_data_areas = [], kc_domains = [], kc_schemas = [], kc_metrics = [],
      kc_capabilities = [], kc_queries = [\<lparr>q_id = ''charges'', q_database = ''fineract'', q_sql_file = ''queries/x.sql'',
        q_data_areas = [], q_tables = [], q_metrics = [], q_parameters = [], q_output_fields = [], q_timeout_ms = None\<rparr>],
      kc_policies = [], kc_responses = [], kc_parameter_inputs = [], kc_parameter_bindings = [], kc_classification = default_classification,
      kc_datasets = [charges]\<rparr>"

definition charges_plan :: execution_plan where
  "charges_plan =
     \<lparr>ep_domain = ''savings'', ep_capability = ''charges'', ep_query_id = ''charges'',
      ep_dataset_selection = Some charges_selection, ep_output_mode = ''list'', ep_params = obj_of [],
      ep_retrieval_plan = \<lparr>rp_vector_query = [], rp_keyword_query = [], rp_graph_query = [], rp_metadata_filter = []\<rparr>,
      ep_evidence_evaluation = \<lparr>ee_enough = True, ee_source_count = 0, ee_source_types = [], ee_reason = None\<rparr>,
      ep_requires_policy_check = True\<rparr>"

definition charges_client_principal :: principal_context where
  "charges_client_principal =
     \<lparr>pc_user_id = 1, pc_role = ''analyst'', pc_capability_ids = [''charges''], pc_office_ids = [3],
      pc_can_view_pii = False, pc_legacy_api_key_id = None\<rparr>"

definition sample_externals :: externals where
  "sample_externals =
     \<lparr>ex_read = (\<lambda>_. Some ''SELECT 1''), ex_parse_date = (\<lambda>_. None), ex_parse_decimal = (\<lambda>_. None),
      ex_fetch = (\<lambda>_ _ _. Inr [\<lambda>_ _. Inr (json_int 4), \<lambda>_ _. Inr (json_int 9)])\<rparr>"

definition charges_query :: query_knowledge where
  "charges_query = hd (kc_queries charges_catalog)"

definition charges_statement :: statement where
  "charges_statement = projr (resolve_statement sample_externals charges_catalog charges_plan charges_query 100)"

definition charges_args :: "sql_arg list" where
  "charges_args = [ArgIntArray (Some [3]), ArgDate None, ArgDate None, ArgDate None, ArgIntArray (Some [4, 9])]"

lemma charges_statement_ok:
  "resolve_statement sample_externals charges_catalog charges_plan charges_query 100 = Inr charges_statement"
proof -
  have "is_ok (resolve_statement sample_externals charges_catalog charges_plan charges_query 100)" by code_simp
  then show ?thesis by (auto simp: is_ok_iff charges_statement_def)
qed

lemma charges_args_ok:
  "statement_args sample_externals charges_catalog charges_plan (evaluate_policy charges_client_principal (Some charges_plan))
     None charges_statement None = Inr charges_args"
  by code_simp

section \<open>Placeholders and arguments\<close>

lemma resolve_statement_selection:
  assumes "resolve_statement x cat plan query t = Inr sm" and "ep_dataset_selection plan = Some sel"
  obtains d shape source fragment co where "find_dataset cat (dsel_dataset_id sel) = Some d"
    and "dataset_shape d (dsel_shape_id sel) = Some shape"
    and "compose_sql d (dsel_shape_id sel) (dsel_order_by_id sel) source fragment = Inr co"
    and "sm_sql sm = co_sql co" and "sm_parameters sm = shape_parameters shape d"
  using assms by (auto simp: resolve_statement_def res_bind_Inr_iff ok_or_Inr_iff)



text \<open>
  The scope of a statement is the principal's.  When the policy allows a plan and its statement has
  no transient parameter, each parameter whose source is the authorized scope is bound to exactly
  the offices of the principal.
\<close>

theorem execution_binds_scope:
  assumes "pd_status (evaluate_policy client (Some plan)) = PolicyAllowed"
    and "statement_args x cat plan (evaluate_policy client (Some plan)) sensitive sm fetch_limit = Inr args"
    and "\<forall>p \<in> set (sm_parameters sm). \<not> transient p"
    and "i < length (sm_parameters sm)" and "office_scope_parameter (sm_parameters sm ! i)"
  shows "args ! i = ArgIntArray (Some (pc_office_ids client)) \<and> pc_office_ids client \<noteq> [] \<and>
    ep_capability plan \<in> set (pc_capability_ids client)"
proof -
  let ?ps = "sm_parameters sm" and ?policy = "evaluate_policy client (Some plan)"
  have keep: "filter (\<lambda>p. \<not> transient p) ?ps = ?ps" using assms(3) by (simp add: filter_id_conv)
  obtain pargs rest where a: "res_map (param_arg x (ep_params plan) ?policy (limit_parameter ?ps) fetch_limit) ?ps = Inr pargs"
      "args = pargs @ rest"
    using assms(2) keep by (auto simp: statement_args_def res_bind_Inr_iff split: option.splits)
  have len: "length pargs = length ?ps" and arg: "param_arg x (ep_params plan) ?policy (limit_parameter ?ps) fetch_limit (?ps ! i) = Inr (pargs ! i)"
    using a(1) assms(4) by (auto simp: res_map_Inr_iff list_all2_conv_all_nth)
  have pol: "pd_office_ids ?policy = pc_office_ids client \<and> pc_office_ids client \<noteq> [] \<and> ep_capability plan \<in> set (pc_capability_ids client)"
    using assms(1) by (auto simp: evaluate_policy_def blocked_def ensure_capability_allowed_def effective_office_scope_def
        split: if_splits)
  then have "pargs ! i = ArgIntArray (Some (pc_office_ids client))"
    using arg assms(5) by (auto simp: param_arg_def array_bigint_param_def office_scope_parameter_def)
  then show ?thesis using pol a(2) len assms(4) by (simp add: nth_append)
qed

theorem execution_binds_scope_witness: "charges_args ! 0 = ArgIntArray (Some [3])"
proof -
  have s: "pd_status (evaluate_policy charges_client_principal (Some charges_plan)) = PolicyAllowed"
    and nt: "\<forall>p \<in> set (sm_parameters charges_statement). \<not> transient p"
    and len: "0 < length (sm_parameters charges_statement)"
    and o: "office_scope_parameter (sm_parameters charges_statement ! 0)"
    by code_simp+
  show ?thesis using execution_binds_scope [OF s charges_args_ok nt len o] by (simp add: charges_client_principal_def)
qed

section \<open>The row ceiling\<close>

lemma truncate_rows_facts:
  assumes "truncate_rows fl rows = (truncated, shown, kept)" and "case fl of None \<Rightarrow> True | Some l \<Rightarrow> 0 \<le> l \<and> l \<le> i64_max"
  shows "shown = int (length kept)" and "fl = Some l \<Longrightarrow> int (length kept) \<le> l"
    and "truncated \<longleftrightarrow> (\<exists>l. fl = Some l \<and> l < int (length rows))" and "\<exists>dropped. rows = kept @ dropped \<and> (\<not> truncated \<longrightarrow> dropped = [])"
proof -
  have m: "l mod 18446744073709551616 = l" if "fl = Some l" for l using assms(2) that by (simp add: i64_max_def)
  show "shown = int (length kept)" "fl = Some l \<Longrightarrow> int (length kept) \<le> l"
    "truncated \<longleftrightarrow> (\<exists>l. fl = Some l \<and> l < int (length rows))"
    using assms by (auto simp: truncate_rows_def m i64_max_def split: option.splits if_splits)
  show "\<exists>dropped. rows = kept @ dropped \<and> (\<not> truncated \<longrightarrow> dropped = [])"
    using assms(1) by (auto simp: truncate_rows_def split: option.splits if_splits) (metis append_take_drop_id)
qed

text \<open>
  A result keeps to the row ceiling.  The rows of a successful execution are the first rows the
  database answered, their number is reported as \<open>row_count\<close> and as \<open>shown\<close>, and whenever a limit parameter
  asks for nothing or for more than the ceiling, there are at most as many as the ceiling; \<open>truncated\<close>
  is true exactly when the database had more.
\<close>

theorem rows_within_ceiling:
  assumes "execute_plan_with_sensitive x cat plan policy limits sensitive = Inr out"
    and "cap = effective_row_cap (declared_hard_cap cat plan) (el_global_max_rows limits)" and "0 \<le> cap" and "cap \<le> i64_max"
  shows "\<exists>query sm args fetched rs. find_query cat (ep_query_id plan) = Some query \<and>
    resolve_statement x cat plan query (el_default_timeout_ms limits) = Inr sm \<and>
    ex_fetch x (sm_sql sm) args (sm_timeout_ms sm) = Inr fetched \<and>
    json_get out ''rows'' = Some (JArray rs) \<and> json_get out ''row_count'' = Some (json_int (int (length rs))) \<and>
    json_get out ''shown'' = Some (json_int (int (length rs))) \<and>
    (\<forall>i < length rs. row_json (sm_output_fields sm) (fetched ! i) = Inr (rs ! i)) \<and>
    (case fetch_limit_for (ep_params plan) (limit_parameter (sm_parameters sm)) cap of
       None \<Rightarrow> length rs = length fetched \<and> json_get out ''truncated'' = Some (JBool False)
     | Some l \<Rightarrow> l = cap \<and> int (length rs) = min cap (int (length fetched)) \<and>
         json_get out ''truncated'' = Some (JBool (cap < int (length fetched))))"
proof -
  obtain query sm args fetched where q: "find_query cat (ep_query_id plan) = Some query"
      "resolve_statement x cat plan query (el_default_timeout_ms limits) = Inr sm"
      "ex_fetch x (sm_sql sm) args (sm_timeout_ms sm) = Inr fetched"
    and r: "(let (truncated, shown, kept) = truncate_rows
          (fetch_limit_for (ep_params plan) (limit_parameter (sm_parameters sm)) cap) fetched in
     res_bind (res_map (row_json (sm_output_fields sm)) kept) (\<lambda>result_rows.
     Inr (obj_of
       [(''query_id'', JString (q_id query)), (''row_count'', json_int (int (length result_rows))),
        (''rows'', JArray result_rows), (''truncated'', JBool truncated), (''shown'', json_int shown),
        (''applied_filters'', JArray (map JString (sm_applied_filters sm)))]))) = Inr out"
    using assms(1,2) by (auto simp: execute_plan_with_sensitive_def Let_def res_bind_Inr_iff ok_or_Inr_iff)
  let ?fl = "fetch_limit_for (ep_params plan) (limit_parameter (sm_parameters sm)) cap"
  obtain truncated shown kept where t: "truncate_rows ?fl fetched = (truncated, shown, kept)" by (metis prod_cases3)
  obtain rs where rs: "res_map (row_json (sm_output_fields sm)) kept = Inr rs"
      "out = obj_of [(''query_id'', JString (q_id query)), (''row_count'', json_int (int (length rs))),
        (''rows'', JArray rs), (''truncated'', JBool truncated), (''shown'', json_int shown),
        (''applied_filters'', JArray (map JString (sm_applied_filters sm)))]"
    using r by (auto simp: t res_bind_Inr_iff)
  have fl: "?fl = None \<or> ?fl = Some cap"
    by (auto simp: fetch_limit_for_def truncation_limit_def split: option.splits)
  then have ok: "case ?fl of None \<Rightarrow> True | Some l \<Rightarrow> 0 \<le> l \<and> l \<le> i64_max" using assms(3,4) by auto
  note f = truncate_rows_facts [OF t ok]
  have out: "json_get out ''rows'' = Some (JArray rs)" "json_get out ''row_count'' = Some (json_int (int (length rs)))"
      "json_get out ''shown'' = Some (json_int shown)" "json_get out ''truncated'' = Some (JBool truncated)"
    by (simp_all add: rs(2) json_get_obj_of)
  have nth: "length rs = length kept" "\<forall>i < length kept. row_json (sm_output_fields sm) (kept ! i) = Inr (rs ! i)"
    using rs(1) by (auto simp: res_map_Inr_iff list_all2_conv_all_nth)
  obtain dropped where d: "fetched = kept @ dropped" "\<not> truncated \<longrightarrow> dropped = []" using f(4) by blast
  have "case ?fl of
       None \<Rightarrow> length rs = length fetched \<and> json_get out ''truncated'' = Some (JBool False)
     | Some l \<Rightarrow> l = cap \<and> int (length rs) = min cap (int (length fetched)) \<and>
         json_get out ''truncated'' = Some (JBool (cap < int (length fetched)))"
    using fl t assms(3,4) by (auto simp: out nth(1) truncate_rows_def i64_max_def split: if_splits)
  moreover have "\<forall>i < length rs. row_json (sm_output_fields sm) (fetched ! i) = Inr (rs ! i)"
    using nth d(1) by (simp add: nth_append)
  ultimately show ?thesis using q out f(1) nth(1) by auto
qed

theorem rows_within_ceiling_witness:
  "\<exists>out rs. execute_plan sample_externals charges_catalog charges_plan
       (evaluate_policy charges_client_principal (Some charges_plan)) \<lparr>el_default_timeout_ms = 3000, el_global_max_rows = 50000\<rparr> = Inr out \<and>
     json_get out ''rows'' = Some (JArray rs) \<and> json_get out ''shown'' = Some (json_int (int (length rs)))"
proof -
  let ?r = "execute_plan sample_externals charges_catalog charges_plan
       (evaluate_policy charges_client_principal (Some charges_plan)) \<lparr>el_default_timeout_ms = 3000, el_global_max_rows = 50000\<rparr>"
  have "is_ok ?r" by code_simp
  then obtain out where o: "?r = Inr out" by (auto simp: is_ok_iff)
  have "effective_row_cap (declared_hard_cap charges_catalog charges_plan) 50000 = 50000" by code_simp
  then show ?thesis
    using rows_within_ceiling [OF o [unfolded execute_plan_def] refl] o by (auto simp: i64_max_def)
qed

end
