(* ===== verification/ValidatorProps.thy ===== *)
theory ValidatorProps
  imports ValidatorFacts ExecutionProps
begin

text \<open>
  The properties of a validated catalog: the statements it can execute, the recipes it can resolve,
  and the references its capabilities make.
\<close>

section \<open>A sample catalog\<close>

definition audit_sql :: string where
  "audit_sql = ''SELECT client_id FROM c WHERE o = ANY($1::bigint[]) AND client_id = ANY($2::bigint[]) LIMIT $3;''"

definition audit_files :: catalog_files where
  "audit_files = \<lparr>cf_exists = (\<lambda>_. True), cf_read = (\<lambda>_. Some audit_sql), cf_lowercase = ascii_lower\<rparr>"

definition audit_externals :: externals where
  "audit_externals =
     \<lparr>ex_read = (\<lambda>_. Some audit_sql), ex_parse_date = (\<lambda>_. None), ex_parse_decimal = (\<lambda>_. None),
      ex_fetch = (\<lambda>_ _ _. Inr [])\<rparr>"

definition audit_query :: query_knowledge where
  "audit_query =
     \<lparr>q_id = ''charges'', q_database = ''fineract'', q_sql_file = ''queries/charges.sql'', q_data_areas = [],
      q_tables = [], q_metrics = [],
      q_parameters =
        [\<lparr>qp_name = ''office_ids'', qp_kind = ''array_bigint'', qp_required = True, qp_source = Some ''authorized_scope''\<rparr>,
         \<lparr>qp_name = ''client_ids'', qp_kind = ''array_bigint'', qp_required = False, qp_source = None\<rparr>,
         \<lparr>qp_name = ''limit'', qp_kind = ''integer'', qp_required = False, qp_source = None\<rparr>],
      q_output_fields = [\<lparr>qof_name = ''client_id'', qof_kind = ''bigint'', qof_sensitivity = PublicBusiness\<rparr>],
      q_timeout_ms = None\<rparr>"

definition audit_recipe :: dataset_recipe where
  "audit_recipe =
     \<lparr>dr_dataset_id = ''charges'', dr_shape_id = ''list'', dr_order_by_id = Some ''due'',
      dr_filters = [\<lparr>rf_filter_id = ''client_id'', rf_operator = FIn, rf_parameter = Some ''client_ids'', rf_value = None\<rparr>],
      dr_projection = [''client_id'']\<rparr>"

definition audit_capability :: capability_knowledge where
  "audit_capability =
     \<lparr>cap_id = ''charge_list'', cap_status = ''approved_mvp'', cap_domain = ''savings'', cap_query_id = ''charges'',
      cap_output_mode = ''list'',
      cap_request_shape = \<lparr>rs_operation = OpList, rs_subject = SubjSavingsAccountCharge, rs_grouping = GroupNone,
                           rs_output = OutList, rs_pii = PiiNone\<rparr>,
      cap_kind = CapTerminal, cap_member_capability_ids = [], cap_display_name = Some ''Charges, newest first'',
      cap_description = None, cap_data_areas = [], cap_metrics = [''charge.count''], cap_examples = [],
      cap_supported_intents = [], cap_unsupported_intents = [], cap_continuation = False,
      cap_required_parameters = [''limit''], cap_optional_parameters = [], cap_defaults = \<lparr>cd_default_limit = Some 5\<rparr>,
      cap_guards = \<lparr>cg_max_limit = Some 25, cg_max_date_range_days = None\<rparr>,
      cap_dataset_recipe = Some audit_recipe, cap_parameter_policies = []\<rparr>"

definition audit_catalog :: knowledge_catalog where
  "audit_catalog =
     \<lparr>kc_root_path = [], kc_query_path = ''queries'', kc_data_areas = [],
      kc_domains = [\<lparr>dk_id = ''savings'', dk_status = ''approved_mvp'', dk_display_name = None, dk_description = None,
                     dk_data_areas = [], dk_concepts = [], dk_supported_intents = [], dk_unsupported_intents = []\<rparr>],
      kc_schemas = [],
      kc_metrics = [\<lparr>gk_id = ''charge_count'', gk_status = None, gk_domain = Some ''savings'', gk_data_areas = [],
                     gk_checks = [JNull], gk_content = []\<rparr>],
      kc_capabilities = [audit_capability], kc_queries = [audit_query], kc_policies = [], kc_responses = [],
      kc_parameter_inputs = [], kc_parameter_bindings = [(''client_ids'', []), (''limit'', [CfLimitValue])],
      kc_classification = default_classification, kc_datasets = [charges]\<rparr>"

definition audit_prepare :: "string \<Rightarrow> string list option" where
  "audit_prepare sql = (if starts_with ''WITH'' sql \<or> starts_with ''SELECT'' sql then Some [''client_id''] else None)"

lemma audit_queries_directory: "queries_directory (kc_query_path audit_catalog)"
  by (simp add: queries_directory_def audit_catalog_def)

lemma audit_valid: "validate_catalog audit_files audit_catalog = Inr ()"
  by code_simp

lemma audit_prepared: "validate_runtime audit_files audit_prepare audit_catalog = Inr ()"
  by code_simp

section \<open>Executed statements\<close>

lemma validate_sql_text_Inr:
  assumes "validate_sql_text q sql = Inr ()"
  shows "starts_with ''SELECT'' (ascii_upper (trim sql)) \<or> starts_with ''WITH'' (ascii_upper (trim sql))"
    and "CHR '';'' \<notin> set (strip_semicolon (trim sql))"
    and "set unsafe_sql_commands \<inter> set (sql_tokens (ascii_upper (trim sql))) = {}"
    and "validate_placeholders q (trim sql) = Inr ()"
    and "has_parameter q ''office_ids'' \<Longrightarrow>
      str_contains (office_constraint (parameter_position q ''office_ids'')) (ascii_upper (trim sql))"
  using assms by (auto simp: validate_sql_text_def Let_def res_simps)

lemma plain_statement_args:
  assumes "statement_args x cat plan policy sensitive sm fetch_limit = Inr args"
    and "ep_dataset_selection plan = None" and "\<forall>p \<in> set (sm_parameters sm). \<not> transient p"
  shows "length args = length (sm_parameters sm)"
proof -
  have "filter (\<lambda>p. \<not> transient p) (sm_parameters sm) = sm_parameters sm" using assms(3) by (simp add: filter_id_conv)
  then show ?thesis using assms(1,2) by (auto simp: statement_args_def res_bind_Inr_iff dest: res_map_length)
qed


definition audit_plan :: execution_plan where
  "audit_plan = charges_plan\<lparr>ep_dataset_selection := None, ep_params := obj_of [(''client_ids'', JArray [json_int 7])]\<rparr>"

definition audit_statement :: statement where
  "audit_statement =
     \<lparr>sm_sql = audit_sql, sm_parameters = q_parameters audit_query, sm_output_fields = q_output_fields audit_query,
      sm_timeout_ms = 100, sm_applied_filters = []\<rparr>"

lemma audit_statement_ok: "resolve_statement audit_externals audit_catalog audit_plan audit_query 100 = Inr audit_statement"
  by code_simp

lemma audit_args_ok:
  "statement_args audit_externals audit_catalog audit_plan (evaluate_policy charges_client_principal (Some audit_plan))
     None audit_statement (Some 25) = Inr [ArgIntArray (Some [3]), ArgIntArray (Some [7]), ArgInt (Some 26)]"
  by code_simp


section \<open>Recipes\<close>

text \<open>
  A valid recipe fails only on the values of a request.  For a capability of a valid catalog that
  is approved and has a recipe, the dataset and the shape exist, and the resolution of the recipe against
  parameters can fail only because they are not an object, because a mapped parameter is absent, or because
  a value does not have the type of its filter.
\<close>

theorem validated_recipe_resolves:
  assumes "validate_catalog w cat = Inr ()" and "c \<in> set (kc_capabilities cat)" and "approved c"
    and "cap_dataset_recipe c = Some r"
  shows "\<exists>d s. find_dataset cat (dr_dataset_id r) = Some d \<and> dataset_shape d (dr_shape_id r) = Some s \<and>
    (\<forall>e params. resolve_recipe is_decimal d r params = Inl e \<longrightarrow>
       e = RecipeParamsNotObject \<or> (\<exists>i. e = RecipeInvalidValue i) \<or>
       (\<exists>m \<in> set (dr_filters r). \<exists>p. rf_parameter m = Some p \<and> e = RecipeMissingParameter p \<and> json_get params p = None))"
proof -
  obtain q where q: "find_query cat (cap_query_id c) = Some q" by (rule validated_capability_query [OF assms(1,2)])
  have "validate_dataset_recipe cat c q = Inr ()" by (rule validated_approved_capability(3) [OF assms(1-3) q])
  then obtain d s where d: "find_dataset cat (dr_dataset_id r) = Some d" and s: "dataset_shape d (dr_shape_id r) = Some s"
    and ord: "\<forall>k. dr_order_by_id r = Some k \<longrightarrow> k \<in> set (sh_order_by s)"
    and flt: "\<forall>m \<in> set (dr_filters r). validate_recipe_filter (cap_id c) q d m = Inr ()"
    and proj: "\<forall>n \<in> set (dr_projection r). validate_recipe_projection (cap_id c) d s n = Inr ()"
    using assms(4) by (auto simp: validate_dataset_recipe_def res_simps split: option.splits)
  have ids: "ds_id d = dr_dataset_id r" using find_datasetD [OF d] by simp
  have res: "(\<exists>i. e = RecipeInvalidValue i) \<or> (\<exists>p. rf_parameter m = Some p \<and> e = RecipeMissingParameter p \<and> map_of obj p = None)"
    if m: "m \<in> set (dr_filters r)" and e: "resolve_filter is_decimal d s obj m = Inl e" for m e obj
  proof -
    obtain slot where slot: "find (\<lambda>slot. fs_id slot = rf_filter_id m) (ds_filters d) = Some slot"
        "rf_operator m \<in> set (fs_operators slot)" "(rf_parameter m \<noteq> None) \<noteq> (rf_value m \<noteq> None)"
        "validate_exact_mapping (cap_id c) q slot m = Inr ()"
      using flt m by (auto simp: validate_recipe_filter_def res_simps)
    then show ?thesis
      using e by (auto simp: resolve_filter_def recipe_value_def validate_exact_mapping_def ok_or_def guard_err_def
          res_bind_Inl_iff split: option.splits if_splits)
  qed
  have pr: "list_ex (\<lambda>f. dof_name f = n) (shape_output_fields s d)" if "n \<in> set (dr_projection r)" for n
    using proj that by (fastforce simp: validate_recipe_projection_def res_simps list_ex_iff dest: find_SomeD)
  have "e = RecipeParamsNotObject \<or> (\<exists>i. e = RecipeInvalidValue i) \<or>
      (\<exists>m \<in> set (dr_filters r). \<exists>p. rf_parameter m = Some p \<and> e = RecipeMissingParameter p \<and> json_get params p = None)"
    if e: "resolve_recipe is_decimal d r params = Inl e" for e params
  proof (cases params)
    case (JObject obj)
    have it: "res_iter (\<lambda>field. guard_err (\<not> list_ex (\<lambda>f. dof_name f = field) (shape_output_fields s d))
        (RecipeOutputField (dr_dataset_id r) field)) (dr_projection r) = Inr ()"
      using pr by (simp add: res_iter_Inr_iff)
    have "res_map (resolve_filter is_decimal d s obj) (dr_filters r) = Inl e"
      using e ord by (auto simp: resolve_recipe_def ids s JObject it res_bind_Inl_iff split: option.splits)
    then obtain m where "m \<in> set (dr_filters r)" "resolve_filter is_decimal d s obj m = Inl e" using res_map_Inl by fastforce
    from res [OF this] show ?thesis using \<open>m \<in> set (dr_filters r)\<close> by (auto simp: JObject json_get_def)
  qed (use e ord in \<open>auto simp: resolve_recipe_def ids s split: option.splits\<close>)
  then show ?thesis using d s by blast
qed

theorem validated_recipe_resolves_witness:
  "\<exists>d s. find_dataset audit_catalog ''charges'' = Some d \<and> dataset_shape d ''list'' = Some s"
proof -
  have c: "audit_capability \<in> set (kc_capabilities audit_catalog)" by (simp add: audit_catalog_def)
  have a: "approved audit_capability" by (simp add: approved_def audit_capability_def)
  have r: "cap_dataset_recipe audit_capability = Some audit_recipe" by (simp add: audit_capability_def)
  show ?thesis using validated_recipe_resolves [OF audit_valid c a r, of "\<lambda>_. False"] by (auto simp: audit_recipe_def)
qed

section \<open>Statements of datasets\<close>

lemma validated_combination:
  assumes "validate_runtime w prepare cat = Inr ()" and "d \<in> set (kc_datasets cat)" and "ds_database d = ''fineract''"
    and "(i, o') \<in> set (executable_combinations d)" and "dataset_shape d i = Some s"
  obtains source fragment co where "read_dataset_sql w cat (ds_source_sql d) = Inr source"
    and "case sh_fragment s of None \<Rightarrow> fragment = None | Some p \<Rightarrow> \<exists>sql. read_dataset_sql w cat p = Inr sql \<and> fragment = Some sql"
    and "compose_sql d i o' source fragment = Inr co"
    and "prepare (prepared_text (co_sql co)) = Some (map dof_name (shape_output_fields s d))"
proof -
  have "validate_one_dataset_runtime w prepare cat d = Inr ()"
    using assms(1,2) by (auto simp: validate_runtime_def validate_dataset_runtime_def res_simps)
  then obtain source where source: "read_dataset_sql w cat (ds_source_sql d) = Inr source"
      and "validate_combination w prepare cat d source (i, o') = Inr ()"
    using assms(3,4) by (auto simp: validate_one_dataset_runtime_def res_simps)
  then obtain fragment co where
    f: "(case sh_fragment s of None \<Rightarrow> Inr None
        | Some path \<Rightarrow> res_bind (read_dataset_sql w cat path) (\<lambda>sql. Inr (Some sql))) = Inr fragment"
      "compose_sql d i o' source fragment = Inr co"
      "prepare (prepared_text (co_sql co)) = Some (map dof_name (shape_output_fields s d))"
    using assms(5) by (auto simp: validate_combination_def res_simps)
  have "case sh_fragment s of None \<Rightarrow> fragment = None | Some p \<Rightarrow> \<exists>sql. read_dataset_sql w cat p = Inr sql \<and> fragment = Some sql"
    using f(1) by (auto simp: res_simps split: option.splits)
  then show ?thesis using that source f(2,3) by blast
qed

lemma executable_combinationI:
  assumes "s \<in> set (ds_shapes d)"
    and "if sh_order_by s = [] then o' = None else (\<exists>k \<in> set (sh_order_by s). o' = Some k)"
  shows "(sh_id s, o') \<in> set (executable_combinations d)"
  using assms unfolding executable_combinations_def set_concat set_map
  by (intro UN_I [of "if sh_order_by s = [] then [(sh_id s, None)] else map (\<lambda>o'. (sh_id s, Some o')) (sh_order_by s)"])
    (auto split: if_splits)

lemma compose_without_order:
  assumes "compose_sql d i (Some k) source fragment = Inr co"
  shows "\<exists>co. compose_sql d i None source fragment = Inr co"
  using assms by (auto simp: compose_sql_def order_by_clause_def res_simps split: option.splits if_splits)

text \<open>
  No request discovers a statement the start has not tried.  In a catalog whose datasets were
  prepared against the database, every selection that a recipe resolves to on a Fineract dataset has
  a statement, with the parameters of its shape; and unless an ordered shape is used without an
  order, the database has accepted its text with exactly the declared columns.
\<close>

theorem prepared_selection_resolves:
  assumes "validate_runtime w prepare cat = Inr ()" and "ex_read x = cf_read w"
    and "find_dataset cat i = Some d" and "ds_database d = ''fineract''" and "i = ds_id d"
    and "resolve_recipe is_decimal d r params = Inr sel" and "ep_dataset_selection plan = Some sel"
  shows "\<exists>sm s. resolve_statement x cat plan q t = Inr sm \<and> dataset_shape d (dsel_shape_id sel) = Some s \<and>
    sm_parameters sm = shape_parameters s d \<and>
    (dsel_order_by_id sel \<noteq> None \<or> sh_order_by s = [] \<longrightarrow>
       prepare (prepared_text (sm_sql sm)) = Some (map qof_name (sm_output_fields sm)))"
proof (rule resolve_recipe_Inr [OF assms(6)])
  fix s
  assume s: "dataset_shape d (dsel_shape_id sel) = Some s"
    and ord: "dsel_order_by_id sel = None \<or> (\<exists>k \<in> set (sh_order_by s). dsel_order_by_id sel = Some k)"
    and id: "dsel_dataset_id sel = ds_id d"
  have d: "d \<in> set (kc_datasets cat)" "find_dataset cat (dsel_dataset_id sel) = Some d"
    using find_datasetD [OF assms(3)] assms(3,5) id by auto
  define o' where "o' = (if dsel_order_by_id sel = None then (case sh_order_by s of [] \<Rightarrow> None | k # _ \<Rightarrow> Some k) else dsel_order_by_id sel)"
  have "s \<in> set (ds_shapes d)" "sh_id s = dsel_shape_id sel" using dataset_shapeD [OF s] by auto
  moreover have "if sh_order_by s = [] then o' = None else (\<exists>k \<in> set (sh_order_by s). o' = Some k)"
    using ord by (auto simp: o'_def split: list.splits)
  ultimately have "(dsel_shape_id sel, o') \<in> set (executable_combinations d)"
    using executable_combinationI by metis
  from validated_combination [OF assms(1) d(1) assms(4) this s] obtain source fragment co where
    c: "read_dataset_sql w cat (ds_source_sql d) = Inr source"
      "case sh_fragment s of None \<Rightarrow> fragment = None | Some p \<Rightarrow> \<exists>sql. read_dataset_sql w cat p = Inr sql \<and> fragment = Some sql"
      "compose_sql d (dsel_shape_id sel) o' source fragment = Inr co"
      "prepare (prepared_text (co_sql co)) = Some (map dof_name (shape_output_fields s d))" by blast
  have "\<exists>co'. compose_sql d (dsel_shape_id sel) (dsel_order_by_id sel) source fragment = Inr co'"
    using c(3) compose_without_order by (auto simp: o'_def split: list.splits if_splits)
  then obtain co' where co': "compose_sql d (dsel_shape_id sel) (dsel_order_by_id sel) source fragment = Inr co'" by blast
  have same: "co' = co" if "dsel_order_by_id sel \<noteq> None \<or> sh_order_by s = []"
    using that co' c(3) by (auto simp: o'_def split: if_splits)
  have frag: "(case sh_fragment s of None \<Rightarrow> Inr None
      | Some path \<Rightarrow> res_bind (read_approved_sql x cat path) (\<lambda>f. Inr (Some f))) = Inr fragment"
    using c(2) read_approved_dataset [OF _ assms(2)] by (auto split: option.splits)
  have "\<exists>sm. resolve_statement x cat plan q t = Inr sm \<and> sm_parameters sm = shape_parameters s d \<and> sm_sql sm = co_sql co' \<and>
      map qof_name (sm_output_fields sm) = map dof_name (shape_output_fields s d)"
    using d(2) s read_approved_dataset [OF c(1) assms(2)] frag co'
    by (simp add: resolve_statement_def assms(7) map_err_def comp_def)
  then show ?thesis using s same c(4) by auto
qed

theorem prepared_selection_resolves_witness:
  "\<exists>sm. resolve_statement audit_externals audit_catalog charges_plan audit_query 100 = Inr sm \<and>
     audit_prepare (prepared_text (sm_sql sm)) = Some (map qof_name (sm_output_fields sm))"
proof -
  have r: "ex_read audit_externals = cf_read audit_files" by (simp add: audit_externals_def audit_files_def)
  have d: "find_dataset audit_catalog ''charges'' = Some charges" "ds_database charges = ''fineract''" "''charges'' = ds_id charges"
    by (simp_all add: find_dataset_def audit_catalog_def charges_def)
  have p: "ep_dataset_selection charges_plan = Some charges_selection" by (simp add: charges_plan_def)
  show ?thesis
    using prepared_selection_resolves [OF audit_prepared r d charges_resolves p, of audit_query 100]
    by (auto simp: charges_selection_def)
qed

section \<open>References\<close>

text \<open>
  A valid catalog has no dangling capability.  Every approved capability of it has its query, every
  parameter the user must give is declared by the capability and covered by exactly one input, every
  metric it names resolves, and its identifier finds it.
\<close>

theorem validated_capability_complete:
  assumes "validate_catalog w cat = Inr ()" and "c \<in> set (kc_capabilities cat)" and "approved c"
  shows "\<exists>q. find_query cat (cap_query_id c) = Some q \<and>
    set (required_user_parameters q) \<subseteq> set (declared_required_parameters c) \<and>
    (\<forall>n \<in> set (required_user_parameters q). \<exists>!j. j < length (kc_parameter_inputs cat) \<and> n \<in> set (pi_parameters (kc_parameter_inputs cat ! j))) \<and>
    (\<forall>m \<in> set (cap_metrics c). resolve_metric_id cat m \<noteq> None) \<and> cap_metrics c \<noteq> [] \<and>
    find (\<lambda>k. cap_id k = cap_id c) (kc_capabilities cat) = Some c"
proof -
  obtain q where q: "find_query cat (cap_query_id c) = Some q" by (rule validated_capability_query [OF assms(1,2)])
  have "validate_capability_parameter_contract c q (kc_parameter_inputs cat) = Inr ()"
    by (rule validated_approved_capability(1) [OF assms q])
  then have req: "set (required_user_parameters q) \<subseteq> set (declared_required_parameters c)"
    and one: "\<forall>n \<in> set (required_user_parameters q). length (filter (\<lambda>i. n \<in> set (pi_parameters i)) (kc_parameter_inputs cat)) = 1"
    by (auto simp: validate_capability_parameter_contract_def res_simps)
  have uniq: "\<exists>!j. j < length xs \<and> P (xs ! j)" if "length (filter P xs) = 1" for P and xs :: "parameter_input_knowledge list"
  proof -
    have "card {j. j < length xs \<and> P (xs ! j)} = 1" using that by (simp add: length_filter_conv_card)
    then obtain j where "{j. j < length xs \<and> P (xs ! j)} = {j}" by (rule card_1_singletonE)
    then have "k < length xs \<and> P (xs ! k) \<longleftrightarrow> k = j" for k by (metis mem_Collect_eq singleton_iff)
    then show ?thesis by simp
  qed
  have cover: "\<forall>n \<in> set (required_user_parameters q). \<exists>!j. j < length (kc_parameter_inputs cat) \<and>
      n \<in> set (pi_parameters (kc_parameter_inputs cat ! j))"
    using one uniq by blast
  have metrics: "\<forall>m \<in> set (cap_metrics c). resolve_metric_id cat m \<noteq> None" "cap_metrics c \<noteq> []"
    using validated_parts(4) [OF assms(1,2)] assms(3) by (auto simp: validate_capability_def res_simps)
  have "find (\<lambda>k. cap_id k = cap_id c) (kc_capabilities cat) = Some c"
    by (rule find_key_distinct [OF validated_lookups(3) [OF assms(1)] assms(2)])
  then show ?thesis by (intro exI [of _ q] conjI q req cover metrics)
qed

theorem validated_capability_complete_witness:
  "find_query audit_catalog ''charges'' = Some audit_query \<and> resolve_metric_id audit_catalog ''charge.count'' \<noteq> None"
proof -
  have c: "audit_capability \<in> set (kc_capabilities audit_catalog)" by (simp add: audit_catalog_def)
  have a: "approved audit_capability" by (simp add: approved_def audit_capability_def)
  have q: "find_query audit_catalog ''charges'' = Some audit_query" by code_simp
  show ?thesis
    using validated_capability_complete [OF audit_valid c a] q by (auto simp: audit_capability_def)
qed

end
