(* ===== verification/NodeExecutorProps.thy ===== *)
theory NodeExecutorProps
  imports NodeExecutor NodeProps ValidatorProps
begin

text \<open>
  The properties of the node executor and its guard: what a completed data node has passed, that the
  guard admits what the runner schedules, and what the options of a question show.
\<close>

section \<open>The guard\<close>

lemma runnable_member_Some_iff:
  "runnable_member w runs i = Some node \<longleftrightarrow>
     i \<notin> set (completed_ids runs) \<and> find_node w i = Some node \<and> dependencies_satisfied node w runs"
  by (auto simp: runnable_member_def completed_ids_def list_ex_iff split: option.splits)

lemma ensure_capability_allowed_Inr: "ensure_capability_allowed pr c = Inr u \<longleftrightarrow> c \<in> set (pc_capability_ids pr)"
  by (auto simp: ensure_capability_allowed_def split: if_splits)

lemma ensure_pii_allowed_Inr: "ensure_pii_allowed pr b = Inr u \<longleftrightarrow> (b \<longrightarrow> pc_can_view_pii pr)"
  by (auto simp: ensure_pii_allowed_def split: if_splits)

lemma office_scope_Inr: "effective_office_scope pr None = Inr offices \<longleftrightarrow> pc_office_ids pr \<noteq> [] \<and> offices = pc_office_ids pr"
  by (auto simp: effective_office_scope_def split: if_splits)

lemma guard_checks_Inr_iff:
  "guard_checks w runs pr cat rq probe = Inr node \<longleftrightarrow>
     runnable_member w runs (tr_node_id rq) = Some node \<and> entry_allowed (wn_kind node) probe \<and>
     declared_capability node = Some (tr_capability_id rq) \<and> approved_id cat (tr_capability_id rq) \<and>
     parameters_have_declared_provenance node (tr_parameters rq) \<and>
     tr_capability_id rq \<in> set (pc_capability_ids pr) \<and> (np_pii_required (wn_policy node) \<longrightarrow> pc_can_view_pii pr) \<and>
     pc_office_ids pr \<noteq> [] \<and>
     tr_timeout_ms rq \<noteq> 0 \<and> tr_timeout_ms rq \<le> nb_timeout_ms (wn_budget node) \<and>
     tr_row_cap rq \<noteq> 0 \<and> tr_row_cap rq \<le> nb_row_cap (wn_budget node) \<and>
     used_queries runs + ucast (nb_query_cost (wn_budget node)) \<le> ucast (max_query_count (ew_budgets w))"
  unfolding guard_checks_def
  by (auto simp: res_simps ensure_capability_allowed_Inr ensure_pii_allowed_Inr office_scope_Inr not_less)

lemma guarded_execute_Inr:
  assumes "guarded_execute f w runs pr cat rq probe = Inr out"
  obtains node result where "guard_checks w runs pr cat rq probe = Inr node" and "f rq = Inr result"
    and "out = obj_of [(''untrusted_tool_output'', result)]"
  using assms by (auto simp: guarded_execute_def res_simps)

section \<open>The executor\<close>

text \<open>The runner's restriction of its executor loses nothing: no operation of this one writes.\<close>

definition reads :: "'a sq \<Rightarrow> bool" where
  "reads m \<longleftrightarrow> (\<forall>s. st_db (snd (m s)) = st_db s)"

lemma reads_bind: "reads m \<Longrightarrow> (\<And>x. reads (f x)) \<Longrightarrow> reads (sq_bind m f)"
proof -
  assume m: "reads m" and f: "\<And>x. reads (f x)"
  have "st_db (snd (sq_bind m f s)) = st_db s" for s
  proof (cases "m s")
    case (Pair r s1)
    then have "st_db s1 = st_db s" using m by (metis reads_def snd_conv)
    then show ?thesis using f Pair by (cases r) (simp_all add: sq_bind_def reads_def)
  qed
  then show ?thesis by (simp add: reads_def)
qed

lemma reads_basic: "reads (sq_return x)" "reads (sq_of r)" "reads (sq_fail e)" "reads (fresh_uuid env)"
  by (simp_all add: reads_def sq_return_def sq_of_def sq_fail_def fresh_uuid_def)

lemma reads_node_runs: "reads (node_runs env j w)"
  unfolding node_runs_def by (intro reads_bind reads_basic) (simp add: reads_def stmt_def Let_def)

lemma capability_execute_reads: "reads (capability_execute env x ce node b)"
proof -
  have "reads (ask_user env ce i)" for i
    unfolding ask_user_def Let_def by (auto intro!: reads_bind reads_basic reads_node_runs)
  moreover have "reads (query_data env x ce node b)"
    unfolding query_data_def by (intro reads_bind reads_basic reads_node_runs) (simp add: reads_def)
  ultimately show ?thesis by (auto simp: capability_execute_def reads_basic split: node_kind.splits)
qed

lemma capability_execute_read_only: "read_only (capability_execute env x ce node b) = capability_execute env x ce node b"
proof
  fix s
  obtain r s' where e: "capability_execute env x ce node b s = (r, s')" by fastforce
  then have "st_db s' = st_db s" using capability_execute_reads [of env x ce node b] by (metis reads_def snd_conv)
  then have "s\<lparr>st_tick := st_tick s'\<rparr> = s'" by (cases s; cases s') simp
  then show "read_only (capability_execute env x ce node b) s = capability_execute env x ce node b s"
    by (simp add: read_only_def e)
qed

lemma query_data_completed:
  assumes "query_data env x ce node b s = (Inr (ExecCompleted out n), s')"
  obtains c runs s1 wrapped where "declared_capability node = Some c"
    and "node_runs env (ce_job ce) (ew_id (ce_workflow ce)) s = (Inr runs, s1)" and "s' = s1"
    and "guarded_execute (fineract_execute (x (st_tick s1)) (ce_executor ce)) (ce_workflow ce) runs (ce_principal ce)
           (ce_catalog ce) (node_request node c b) (is_resolver node) = Inr wrapped"
    and "out = (if is_resolver node \<and> rows_returned wrapped = 1 then project_resolved_slots node wrapped else wrapped)"
    and "n = rows_returned wrapped"
  using assms
  by (auto simp: query_data_def sq_bind_def sq_of_def ok_or_def node_result_def execute_approved_probe_def
      execute_approved_capability_def split: prod.splits sum.splits option.splits if_splits)

lemma ask_user_not_completed: "ask_user env ce i s \<noteq> (Inr (ExecCompleted out n), s')"
  by (auto simp: ask_user_def Let_def sq_bind_def sq_return_def split: prod.splits sum.splits)

section \<open>Data behind the guard\<close>

lemma map_of_rev_distinct: "distinct (map fst kvs) \<Longrightarrow> map_of (rev kvs) = map_of kvs"
proof (rule ext)
  fix k
  assume d: "distinct (map fst kvs)"
  show "map_of (rev kvs) k = map_of kvs k"
  proof (cases "map_of kvs k")
    case None
    then have "map_of (rev kvs) k = None" by (simp add: map_of_eq_None_iff)
    then show ?thesis using None by simp
  next
    case (Some v)
    then show ?thesis using collect_map_distinct [OF d, of k v] by (simp add: collect_map_def map_of_SomeD)
  qed
qed

lemma fill_parameters_get:
  assumes "distinct (map fst ps)"
  shows "json_get (obj_of (fill_parameters ps resolved)) n =
    (case map_of ps n of
       None \<Rightarrow> None
     | Some v \<Rightarrow> Some (if v = JNull then (case resolved n of None \<Rightarrow> v | Some r \<Rightarrow> r) else v))"
proof -
  have m: "map_of (fill_parameters ps resolved) n =
      map_option (\<lambda>v. if v = JNull then (case resolved n of None \<Rightarrow> v | Some r \<Rightarrow> r) else v) (map_of ps n)"
    by (induction ps) (simp_all add: fill_parameters_def split_beta)
  have "map fst (fill_parameters ps resolved) = map fst ps"
    by (simp add: fill_parameters_def comp_def split_beta)
  then have "map_of (rev (fill_parameters ps resolved)) = map_of (fill_parameters ps resolved)"
    using map_of_rev_distinct [of "fill_parameters ps resolved"] assms by simp
  then show ?thesis by (simp add: json_get_obj_of m split: option.split)
qed

text \<open>
  C20: A data node gets an answer only through the guard.  When the executor completes a query or a
  resolver node, the node was reachable and not completed, its approved capability belongs to the
  principal, who has an office and, where the node needs it, the permission for personal data; every
  parameter is a declared input that is not sensitive; the answer is the one of a plan for that capability,
  whose parameters are the bindings with nothing but nulls replaced.  Nothing was written.
\<close>

theorem data_only_after_guard:
  assumes "capability_execute env x ce node b s = (Inr (ExecCompleted out n), s')"
    and "find_node (ce_workflow ce) (wn_id node) = Some node" and "distinct (map fst b)"
  shows "st_db s' = st_db s \<and>
    (\<exists>c runs plan result. declared_capability node = Some c \<and> fst (node_runs env (ce_job ce) (ew_id (ce_workflow ce)) s) = Inr runs \<and>
       wn_id node \<notin> set (completed_ids runs) \<and> dependencies_satisfied node (ce_workflow ce) runs \<and>
       approved_id (ce_catalog ce) c \<and> c \<in> set (pc_capability_ids (ce_principal ce)) \<and>
       (np_pii_required (wn_policy node) \<longrightarrow> pc_can_view_pii (ce_principal ce)) \<and> pc_office_ids (ce_principal ce) \<noteq> [] \<and>
       parameters_have_declared_provenance node b \<and> ep_capability plan = c \<and>
       (\<forall>k. json_get (ep_params plan) k =
          (case map_of b k of
             None \<Rightarrow> None
           | Some v \<Rightarrow> Some (if v = JNull then (case fx_resolved (ce_executor ce) k of None \<Rightarrow> v | Some r \<Rightarrow> r) else v))) \<and>
       execute_plan_with_sensitive (x (st_tick s')) (fx_catalog (ce_executor ce)) plan (fx_policy (ce_executor ce))
         (fx_limits (ce_executor ce)) (fx_sensitive (ce_executor ce)) = Inr result \<and>
       (let wrapped = obj_of [(''untrusted_tool_output'', result)] in
        out = wrapped \<or> is_resolver node \<and> out = project_resolved_slots node wrapped))"
proof -
  have "query_data env x ce node b s = (Inr (ExecCompleted out n), s')"
    using assms(1) ask_user_not_completed by (auto simp: capability_execute_def sq_fail_def split: node_kind.splits)
  then obtain c runs s1 wrapped where q: "declared_capability node = Some c"
      "node_runs env (ce_job ce) (ew_id (ce_workflow ce)) s = (Inr runs, s1)" "s' = s1"
      "guarded_execute (fineract_execute (x (st_tick s1)) (ce_executor ce)) (ce_workflow ce) runs (ce_principal ce)
         (ce_catalog ce) (node_request node c b) (is_resolver node) = Inr wrapped"
      "out = (if is_resolver node \<and> rows_returned wrapped = 1 then project_resolved_slots node wrapped else wrapped)"
    by (rule query_data_completed)
  from q(4) obtain node' result where g: "guard_checks (ce_workflow ce) runs (ce_principal ce) (ce_catalog ce)
        (node_request node c b) (is_resolver node) = Inr node'"
      "fineract_execute (x (st_tick s1)) (ce_executor ce) (node_request node c b) = Inr result"
      "wrapped = obj_of [(''untrusted_tool_output'', result)]"
    by (rule guarded_execute_Inr)
  have same: "node' = node"
    using g(1) assms(2) by (simp add: guard_checks_Inr_iff runnable_member_Some_iff node_request_def)
  from g(2) obtain plan where p: "build_query_request (is_decimal_of (x (st_tick s1))) (node_request node c b)
        (fx_catalog (ce_executor ce)) (fx_resolved (ce_executor ce)) = Inr plan"
      "execute_plan_with_sensitive (x (st_tick s1)) (fx_catalog (ce_executor ce)) plan (fx_policy (ce_executor ce))
         (fx_limits (ce_executor ce)) (fx_sensitive (ce_executor ce)) = Inr result"
    by (auto simp: fineract_execute_def res_simps)
  then have plan: "ep_capability plan = c" "ep_params plan = obj_of (fill_parameters b (fx_resolved (ce_executor ce)))"
    by (auto simp: build_query_request_def node_request_def Let_def res_simps)
  have "st_db s' = st_db s" using capability_execute_reads [of env x ce node b] assms(1) by (metis reads_def snd_conv)
  then show ?thesis
    using g(1,3) q p(2) plan fill_parameters_get [OF assms(3)] unfolding same
    by (simp add: guard_checks_Inr_iff runnable_member_Some_iff node_request_def)
      (intro exI [of _ plan] conjI; auto simp: Let_def)
qed

definition audit_principal :: principal_context where
  "audit_principal = charges_client_principal\<lparr>pc_capability_ids := [''charge_list'']\<rparr>"

definition audit_node :: workflow_node where
  "audit_node =
     sample_node ''list''
       (ExecuteQuery \<lparr>eq_capability_id = Some ''charge_list'', eq_dataset_id = None, eq_shape_id = None,
                      eq_query_id = Some ''charges'', eq_iterate_over = None\<rparr>)
       [sample_office_input,
        \<lparr>ni_parameter = ''client_ids'', ni_kind = TIntegerArray, ni_source = DeterministicExtraction CfClientId\<rparr>] [] 1"

definition audit_executor :: capability_executor where
  "audit_executor =
     \<lparr>ce_executor =
        \<lparr>fx_catalog = audit_catalog,
         fx_policy = \<lparr>pd_status = PolicyAllowed, pd_reason = None, pd_office_ids = [3], pd_can_view_pii = False\<rparr>,
         fx_limits = \<lparr>el_default_timeout_ms = 3000, el_global_max_rows = 50000\<rparr>, fx_sensitive = None,
         fx_resolved = (\<lambda>n. if n = ''client_ids'' then Some (JArray [json_int 7]) else None)\<rparr>,
      ce_principal = audit_principal, ce_catalog = audit_catalog, ce_job = 5,
      ce_workflow = sample_workflow\<lparr>ew_nodes := [audit_node, sample_done], ew_edges := [sample_edge ''list'' ''done'' Always]\<rparr>\<rparr>"

definition audit_bindings :: bindings where
  "audit_bindings = [(''client_ids'', JNull), (''office_ids'', JArray [json_int 3])]"

definition audit_outside :: externals where
  "audit_outside = audit_externals\<lparr>ex_fetch := (\<lambda>_ _ _. Inr [\<lambda>_ _. Inr (json_int 7)])\<rparr>"

definition audit_store :: store where
  "audit_store =
     \<lparr>st_db = sample_db [] [], st_tick = 0\<rparr>"

definition completed_with :: "(state_error + node_execution) \<times> store \<Rightarrow> (json \<times> int) option" where
  "completed_with r = (case fst r of Inr (ExecCompleted out n) \<Rightarrow> Some (out, n) | _ \<Rightarrow> None)"

lemma audit_completes:
  obtains out n s' where "capability_execute sample_env (\<lambda>_. audit_outside) audit_executor audit_node audit_bindings audit_store =
     (Inr (ExecCompleted out n), s')"
proof -
  let ?r = "capability_execute sample_env (\<lambda>_. audit_outside) audit_executor audit_node audit_bindings audit_store"
  have "completed_with ?r \<noteq> None" by code_simp
  then show ?thesis
    using that by (cases ?r) (auto simp: completed_with_def split: sum.splits node_execution.splits)
qed

theorem data_only_after_guard_witness:
  "\<exists>out n s'. capability_execute sample_env (\<lambda>_. audit_outside) audit_executor audit_node audit_bindings audit_store =
       (Inr (ExecCompleted out n), s') \<and> st_db s' = st_db audit_store \<and> approved_id audit_catalog ''charge_list''"
proof -
  obtain out n s' where r: "capability_execute sample_env (\<lambda>_. audit_outside) audit_executor audit_node audit_bindings audit_store =
      (Inr (ExecCompleted out n), s')"
    by (rule audit_completes)
  have f: "find_node (ce_workflow audit_executor) (wn_id audit_node) = Some audit_node"
    by (simp add: find_node_def audit_executor_def)
  have d: "distinct (map fst audit_bindings)" by (simp add: audit_bindings_def)
  have c: "declared_capability audit_node = Some ''charge_list'' \<and> ce_catalog audit_executor = audit_catalog"
    by (simp add: declared_capability_def audit_node_def sample_node_def audit_executor_def)
  show ?thesis using data_only_after_guard [OF r f d] r c by auto
qed

section \<open>Scheduler and guard\<close>

text \<open>
  The guard admits what the runner schedules.  A query or resolver node of a batch whose policy check
  passed and whose bindings were computed passes all checks of the guard, when its caps are not zero and
  the number of completed nodes and its own cost stay under the query budget.
\<close>

theorem guard_admits_scheduled:
  assumes "node \<in> set (select_batch w consumed (runnable_nodes w runs))" and "distinct (map wn_id (ew_nodes w))"
    and "check_node_policy node pr cat = Inr ()" and "bindings_for node runs pr = Inr b"
    and "entry_allowed (wn_kind node) probe" and "declared_capability node = Some c"
    and "nb_timeout_ms (wn_budget node) \<noteq> 0" and "nb_row_cap (wn_budget node) \<noteq> 0"
    and "length (completed_ids runs) + unat (nb_query_cost (wn_budget node)) \<le> unat (max_query_count (ew_budgets w))"
  shows "guard_checks w runs pr cat (node_request node c b) probe = Inr node"
proof -
  have "node \<in> set (runnable_nodes w runs)"
    using assms(1) by (rule set_select_batch)
  then have n: "node \<in> set (ew_nodes w)" and r: "runnable node w runs (completed_ids runs)"
    by (auto simp: runnable_nodes_def)
  have f: "find_node w (wn_id node) = Some node"
    unfolding find_node_def by (rule find_key_distinct [OF assms(2) n])
  have pol: "approved_id cat c \<and> c \<in> set (pc_capability_ids pr) \<and> (np_pii_required (wn_policy node) \<longrightarrow> pc_can_view_pii pr) \<and>
      pc_office_ids pr \<noteq> []"
    using assms(3,5,6)
    by (cases "wn_kind node")
      (auto simp: check_node_policy_def check_capability_def auth_bail_def declared_capability_def entry_allowed_def
        ensure_capability_allowed_Inr ensure_pii_allowed_Inr office_scope_Inr res_simps split: option.splits)
  have prov: "parameters_have_declared_provenance node b"
    unfolding parameters_have_declared_provenance_def list_all_iff
  proof
    fix p
    assume "p \<in> set (map fst b)"
    then have "map_of b p \<noteq> None" by (auto simp: map_of_eq_None_iff)
    moreover obtain kvs where kvs: "res_map (\<lambda>i. res_bind (binding_value runs pr i) (\<lambda>v. Inr (ni_parameter i, v)))
        (filter (\<lambda>i. ni_source i \<noteq> ExactSensitiveInput) (wn_inputs node)) = Inr kvs" "b = bt_of kvs"
      using assms(4) by (auto simp: bindings_for_def res_simps)
    ultimately have "p \<in> fst ` set kvs" by (auto simp: map_of_bt_of map_of_eq_None_iff)
    then obtain k where k: "k < length kvs" "p = fst (kvs ! k)" by (auto simp: in_set_conv_nth)
    let ?inputs = "filter (\<lambda>i. ni_source i \<noteq> ExactSensitiveInput) (wn_inputs node)"
    have "k < length ?inputs" "p = ni_parameter (?inputs ! k)"
      using kvs(1) k
      by (auto simp: res_map_Inr_iff list_all2_conv_all_nth res_simps dest!: spec [of _ k] dest: arg_cong [of _ "kvs ! k" fst])
    then show "list_ex (\<lambda>i. ni_parameter i = p \<and> ni_source i \<noteq> ExactSensitiveInput) (wn_inputs node)"
      using nth_mem [of k ?inputs] by (auto simp: list_ex_iff)
  qed
  have "length (completed_ids runs) < 65536"
  proof -
    have "unat (max_query_count (ew_budgets w)) < 2 ^ LENGTH(8)" by (rule unsigned_less)
    then show ?thesis using assms(9) by simp
  qed
  moreover have "used_queries runs = of_nat (length (completed_ids runs))" by (simp add: used_queries_def completed_ids_def)
  ultimately have "used_queries runs + ucast (nb_query_cost (wn_budget node)) \<le> ucast (max_query_count (ew_budgets w))"
    using assms(9) by (simp add: word_le_nat_alt unat_word_ariths unat_of_nat unat_ucast_widen)
  then show ?thesis
    using assms(5-8) f r pol prov
    by (simp add: guard_checks_Inr_iff runnable_member_Some_iff node_request_def runnable_def dependencies_satisfied_def split: if_splits)
qed

theorem guard_admits_scheduled_witness:
  "guard_checks sample_workflow detail_history sample_principal sample_catalog
     (node_request sample_detail ''loan_count'' [(''client_id'', json_int 4), (''office_ids'', JArray [json_int 1, json_int 2])]) False =
     Inr sample_detail"
proof -
  have b: "bindings_for sample_detail detail_history sample_principal =
      Inr [(''client_id'', json_int 4), (''office_ids'', JArray [json_int 1, json_int 2])]"
    by code_simp
  have n: "sample_detail \<in> set (select_batch sample_workflow zero_totals (runnable_nodes sample_workflow detail_history))"
    by code_simp
  have d: "distinct (map wn_id (ew_nodes sample_workflow))" by code_simp
  have p: "check_node_policy sample_detail sample_principal sample_catalog = Inr ()" by code_simp
  have e: "entry_allowed (wn_kind sample_detail) False" "declared_capability sample_detail = Some ''loan_count''"
    "nb_timeout_ms (wn_budget sample_detail) \<noteq> 0" "nb_row_cap (wn_budget sample_detail) \<noteq> 0"
    by (simp_all add: sample_detail_def sample_node_def entry_allowed_def declared_capability_def sample_query_def sample_budget_def)
  have q: "length (completed_ids detail_history) + unat (nb_query_cost (wn_budget sample_detail))
      \<le> unat (max_query_count (ew_budgets sample_workflow))"
    by (simp add: completed_ids_def detail_history_def sample_detail_def sample_node_def sample_budget_def sample_workflow_def)
  show ?thesis by (rule guard_admits_scheduled [OF n d p b e q])
qed

text \<open>
  The guard counts completed nodes, the runner the cost of their queries: behind free nodes the runner
  schedules, within its budget, a query the guard refuses.
\<close>

lemma guard_counts_free_nodes:
  fixes w :: execution_workflow and free :: node_run
  defines "w \<equiv> sample_workflow\<lparr>ew_budgets := (ew_budgets sample_workflow)\<lparr>max_query_count := 1\<rparr>\<rparr>"
    and "free \<equiv> (hd detail_history)\<lparr>nr_node_id := ''ask''\<rparr>"
  shows "sample_total \<in> set (select_batch w (from_completed w [free]) (runnable_nodes w [free]))"
    and "guard_checks w [free] sample_principal sample_catalog (node_request sample_total ''loan_count'' []) False =
           Inl RejectQueryBudget"
  unfolding w_def free_def by code_simp+

section \<open>Questions\<close>

lemma entity_options_hidden:
  "list_all2 (\<lambda>r r'. json_get r ''client_id'' = json_get r' ''client_id'' \<and> json_get r ''office_name'' = json_get r' ''office_name'') rows rows' \<Longrightarrow>
     entity_options False seen rows = entity_options False seen rows'"
proof (induction rows rows' arbitrary: seen rule: list_all2_induct)
  case (Cons r rs r' rs')
  then have "row_client_id r = row_client_id r'" "entity_option False r i = entity_option False r' i" for i
    by (simp_all add: row_client_id_def entity_option_def)
  then show ?case using Cons by (simp split: option.split)
qed simp

text \<open>
  A question shows no name without permission.  For a principal who may not view personal data, the
  options made from the rows of a resolver depend only on the client identifiers and the office names of
  the rows: two histories whose latest outputs agree on them give the same options, whatever else the
  rows hold.
\<close>

theorem options_hide_names:
  assumes "last_completed runs source = Some run" and "nr_output run = Some out" and "output_rows out = Some rows"
    and "last_completed runs' source = Some run'" and "nr_output run' = Some out'" and "output_rows out' = Some rows'"
    and "list_all2 (\<lambda>r r'. json_get r ''client_id'' = json_get r' ''client_id'' \<and>
           json_get r ''office_name'' = json_get r' ''office_name'') rows rows'"
  shows "resolver_entity_options runs source False = resolver_entity_options runs' source False"
  using assms entity_options_hidden by (simp add: resolver_entity_options_def)

definition named_history :: "string \<Rightarrow> node_run list" where
  "named_history n =
     map (\<lambda>r. r\<lparr>nr_output := Some (obj_of [(''untrusted_tool_output'', obj_of [(''rows'', JArray
       [obj_of [(''client_id'', json_int 4), (''client_display_name'', JString n)]])])])\<rparr>) detail_history"

theorem options_hide_names_witness:
  "resolver_entity_options (named_history ''Ada'') ''total'' False = resolver_entity_options (named_history ''Ben'') ''total'' False"
proof -
  have l: "last_completed (named_history n) ''total'' = Some (hd (named_history n))" for n
    by (simp add: last_completed_def named_history_def detail_history_def)
  have o: "nr_output (hd (named_history n)) = Some (obj_of [(''untrusted_tool_output'', obj_of [(''rows'', JArray
       [obj_of [(''client_id'', json_int 4), (''client_display_name'', JString n)]])])])" for n
    by (simp add: named_history_def detail_history_def)
  have r: "output_rows (obj_of [(''untrusted_tool_output'', obj_of [(''rows'', JArray
       [obj_of [(''client_id'', json_int 4), (''client_display_name'', JString n)]])])]) =
       Some [obj_of [(''client_id'', json_int 4), (''client_display_name'', JString n)]]" for n
    by (simp add: output_rows_def json_get_obj_of as_array_def)
  show ?thesis
    by (rule options_hide_names [OF l o r l o r]) (simp add: json_get_obj_of)
qed

end
