(* ===== verification/Facts.thy ===== *)
theory Facts
  imports Json Knowledge
begin

text \<open>
  The canonical facts of a request, \<open>assistant/context/canonical_state\<close>: the typed values a field may
  take (\<open>contracts.rs\<close>), the observations made from a request, an extraction or an answer (\<open>facts.rs\<close>),
  and their merge into the effective constraints (\<open>merge.rs\<close>).  Name-based identifiers
  (\<open>Uuid::new_v3\<close>), the decimal parser and the decoding of a domain are parameters.
\<close>

section \<open>Fields as keys\<close>

text \<open>The derived order of \<open>ConstraintField\<close> is that of its declaration.\<close>

fun field_index :: "constraint_field \<Rightarrow> nat" where
  "field_index CfLimitMode = 0"
| "field_index CfLimitValue = 1"
| "field_index CfFromDate = 2"
| "field_index CfToDate = 3"
| "field_index CfCurrencyCode = 4"
| "field_index CfMetric = 5"
| "field_index CfTransactionAmount = 6"
| "field_index CfDomain = 7"
| "field_index CfPersonName = 8"
| "field_index CfClientId = 9"
| "field_index CfOffice = 10"
| "field_index CfProduct = 11"
| "field_index CfProductIds = 12"
| "field_index CfOfficeIds = 13"
| "field_index CfChargeType = 14"
| "field_index CfAccountNumber = 15"

lemma field_index_inj: "field_index f = field_index g \<longleftrightarrow> f = g"
  by (cases f; cases g; simp)

instantiation constraint_field :: linorder
begin

definition less_eq_constraint_field :: "constraint_field \<Rightarrow> constraint_field \<Rightarrow> bool" where
  "less_eq_constraint_field f g \<longleftrightarrow> field_index f \<le> field_index g"

definition less_constraint_field :: "constraint_field \<Rightarrow> constraint_field \<Rightarrow> bool" where
  "less_constraint_field f g \<longleftrightarrow> field_index f < field_index g"

instance
  by standard (auto simp: less_eq_constraint_field_def less_constraint_field_def field_index_inj [symmetric])

end

section \<open>Values\<close>

datatype limit_mode = LimitAll | LimitDefault | LimitExactly | LimitTopN

datatype list_patch = ReplaceIds "int list" | AddIds "int list" | RemoveIds "int list"

datatype assistant_domain =
    DomSavings | DomClient | DomOrganization | DomGroupCenter | DomLoan | DomAccounting | DomTax | DomAudit | DomUnknown

datatype typed_fact_value =
    TvClear
  | TvLimitMode limit_mode
  | TvInteger int
  | TvDate string
  | TvCurrencyCode string
  | TvMetric string
  | TvDecimal string
  | TvDomain assistant_domain
  | TvPersonName string
  | TvClientId int
  | TvOffice string
  | TvProduct string
  | TvChargeType string
  | TvAccountNumber string
  | TvIdList list_patch

datatype fact_source_kind = FromOriginalRequest | FromClarification | FromDeterministicResolver | FromApprovedDefault | FromLlmAdvisory

record fact_observation =
  fo_id :: uuid
  fo_job_id :: uuid
  fo_sequence :: int
  fo_source_kind :: fact_source_kind
  fo_source_id :: string
  fo_field :: constraint_field
  fo_value :: typed_fact_value
  fo_confidence :: "f32 option"
  fo_extractor_version :: string
  fo_observed_at :: nat

type_synonym constraint_patch = "(constraint_field \<times> typed_fact_value) list"

record effective_constraints =
  ec_id :: uuid
  ec_job_id :: uuid
  ec_revision :: int
  ec_schema_version :: int
  ec_values :: constraint_patch
  ec_winners :: "(constraint_field \<times> uuid) list"
  ec_created_at :: nat

record constraint_contract =
  cc_clearable :: bool
  cc_list :: bool

type_synonym constraint_contracts = "(constraint_field \<times> constraint_contract) list"

datatype merge_error =
    JobMismatch
  | InvalidConfidence
  | MissingContract constraint_field
  | InvalidValue constraint_field
  | ClearRejected constraint_field
  | ConflictingReplay constraint_field

definition executable_constraint_contracts :: constraint_contracts where
  "executable_constraint_contracts =
     bt_of (map (\<lambda>(f, c, l). (f, \<lparr>cc_clearable = c, cc_list = l\<rparr>))
       [(CfLimitMode, False, False), (CfLimitValue, True, False), (CfFromDate, True, False), (CfToDate, True, False),
        (CfCurrencyCode, True, False), (CfMetric, True, False), (CfTransactionAmount, True, False), (CfDomain, False, False),
        (CfPersonName, True, False), (CfOffice, True, False), (CfProduct, True, False), (CfChargeType, True, False),
        (CfAccountNumber, True, False), (CfProductIds, True, True), (CfOfficeIds, True, True)])"

section \<open>Merging\<close>

definition source_rank :: "fact_source_kind \<Rightarrow> nat" where
  "source_rank k =
     (case k of
        FromLlmAdvisory \<Rightarrow> 0
      | FromApprovedDefault \<Rightarrow> 1
      | FromDeterministicResolver \<Rightarrow> 2
      | FromOriginalRequest \<Rightarrow> 3
      | FromClarification \<Rightarrow> 4)"

definition is_id_list :: "typed_fact_value \<Rightarrow> bool" where
  "is_id_list v = (case v of TvIdList _ \<Rightarrow> True | _ \<Rightarrow> False)"

definition value_fits :: "constraint_field \<Rightarrow> typed_fact_value \<Rightarrow> bool" where
  "value_fits f v =
     (case v of
        TvLimitMode _ \<Rightarrow> f = CfLimitMode
      | TvInteger _ \<Rightarrow> f = CfLimitValue
      | TvDate _ \<Rightarrow> f = CfFromDate \<or> f = CfToDate
      | TvCurrencyCode _ \<Rightarrow> f = CfCurrencyCode
      | TvMetric _ \<Rightarrow> f = CfMetric
      | TvDecimal _ \<Rightarrow> f = CfTransactionAmount
      | TvDomain _ \<Rightarrow> f = CfDomain
      | TvPersonName _ \<Rightarrow> f = CfPersonName
      | TvOffice _ \<Rightarrow> f = CfOffice
      | TvProduct _ \<Rightarrow> f = CfProduct
      | TvIdList _ \<Rightarrow> f = CfProductIds \<or> f = CfOfficeIds
      | _ \<Rightarrow> False)"

definition validate_fact :: "constraint_field \<Rightarrow> typed_fact_value \<Rightarrow> constraint_contract \<Rightarrow> merge_error + unit" where
  "validate_fact f v c =
     (if v = TvClear then guard_err (\<not> cc_clearable c) (ClearRejected f)
      else guard_err (\<not> (value_fits f v \<and> cc_list c = is_id_list v)) (InvalidValue f))"

definition bt_remove :: "'k \<Rightarrow> ('k \<times> 'v) list \<Rightarrow> ('k \<times> 'v) list" where
  "bt_remove k m = filter (\<lambda>(k', _). k' \<noteq> k) m"

lemma map_of_bt_remove: "map_of (bt_remove k m) = (map_of m)(k := None)"
  by (induction m) (auto simp: bt_remove_def fun_eq_iff)

fun add_ids :: "int list \<Rightarrow> int list \<Rightarrow> int list" where
  "add_ids ids [] = ids"
| "add_ids ids (i # rest) = add_ids (if i \<in> set ids then ids else ids @ [i]) rest"

definition patched_ids :: "list_patch \<Rightarrow> int list \<Rightarrow> int list" where
  "patched_ids p ids =
     (case p of
        ReplaceIds new \<Rightarrow> new
      | AddIds new \<Rightarrow> add_ids ids new
      | RemoveIds old \<Rightarrow> filter (\<lambda>i. i \<notin> set old) ids)"

definition apply_fact :: "constraint_field \<Rightarrow> typed_fact_value \<Rightarrow> constraint_patch \<Rightarrow> constraint_patch" where
  "apply_fact f v values =
     (case v of
        TvClear \<Rightarrow> bt_remove f values
      | TvIdList p \<Rightarrow>
          (let ids = (case map_of values f of Some (TvIdList (ReplaceIds ids)) \<Rightarrow> ids | _ \<Rightarrow> [])
           in bt_insert f (TvIdList (ReplaceIds (patched_ids p ids))) values)
      | _ \<Rightarrow> bt_insert f v values)"

definition f32_in_unit :: "f32 \<Rightarrow> bool" where
  "f32_in_unit x =
     (case x of
        F32 m e \<Rightarrow> m \<ge> 0 \<and> (if e \<ge> 0 then m * 2 ^ nat e \<le> 1 else m \<le> 2 ^ nat (- e))
      | _ \<Rightarrow> False)"

type_synonym fact_key = "fact_source_kind \<times> string \<times> constraint_field"

definition fact_key_of :: "fact_observation \<Rightarrow> fact_key" where
  "fact_key_of o' = (fo_source_kind o', fo_source_id o', fo_field o')"

record merge_state =
  ms_seen :: "fact_key \<Rightarrow> typed_fact_value option"
  ms_values :: constraint_patch
  ms_winners :: "(constraint_field \<times> uuid) list"
  ms_created :: nat

definition merge_start :: merge_state where
  "merge_start = \<lparr>ms_seen = (\<lambda>_. None), ms_values = [], ms_winners = [], ms_created = 0\<rparr>"

definition check_fact :: "uuid \<Rightarrow> constraint_contracts \<Rightarrow> fact_observation \<Rightarrow> merge_error + unit" where
  "check_fact job contracts o' =
     res_bind (guard_err (fo_job_id o' \<noteq> job) JobMismatch) (\<lambda>_.
     res_bind (guard_err (case fo_confidence o' of None \<Rightarrow> False | Some c \<Rightarrow> \<not> f32_in_unit c) InvalidConfidence) (\<lambda>_.
     res_bind (ok_or (map_of contracts (fo_field o')) (MissingContract (fo_field o'))) (\<lambda>c.
     validate_fact (fo_field o') (fo_value o') c)))"

definition take_fact :: "fact_observation \<Rightarrow> merge_state \<Rightarrow> merge_state" where
  "take_fact o' st =
     (let st' = st\<lparr>ms_seen := (ms_seen st)(fact_key_of o' \<mapsto> fo_value o')\<rparr> in
      if fo_source_kind o' = FromLlmAdvisory then st'
      else st'\<lparr>ms_values := apply_fact (fo_field o') (fo_value o') (ms_values st),
               ms_winners := bt_insert (fo_field o') (fo_id o') (ms_winners st),
               ms_created := max (ms_created st) (fo_observed_at o')\<rparr>)"

fun merge_loop :: "uuid \<Rightarrow> constraint_contracts \<Rightarrow> fact_observation list \<Rightarrow> merge_state \<Rightarrow> merge_error + merge_state" where
  "merge_loop job contracts [] st = Inr st"
| "merge_loop job contracts (o' # rest) st =
     res_bind (check_fact job contracts o') (\<lambda>_.
       case ms_seen st (fact_key_of o') of
         Some old \<Rightarrow>
           res_bind (guard_err (old \<noteq> fo_value o') (ConflictingReplay (fo_field o'))) (\<lambda>_. merge_loop job contracts rest st)
       | None \<Rightarrow> merge_loop job contracts rest (take_fact o' st))"

definition merge_order :: "fact_observation list \<Rightarrow> fact_observation list" where
  "merge_order os = sort_key (\<lambda>o'. source_rank (fo_source_kind o')) (sort_key fo_sequence (sort_key fo_id os))"

definition merge_observations ::
  "uuid \<Rightarrow> int \<Rightarrow> fact_observation list \<Rightarrow> constraint_contracts \<Rightarrow> merge_error + effective_constraints" where
  "merge_observations job revision os contracts =
     res_bind (merge_loop job contracts (merge_order os) merge_start) (\<lambda>st.
     Inr \<lparr>ec_id = 0, ec_job_id = job, ec_revision = revision, ec_schema_version = 1, ec_values = ms_values st,
          ec_winners = ms_winners st, ec_created_at = ms_created st\<rparr>)"

section \<open>Observations of an answer\<close>

definition patch_extractor :: "fact_source_kind \<Rightarrow> string" where
  "patch_extractor k =
     (case k of
        FromClarification \<Rightarrow> ''clarification_patch_v1''
      | FromApprovedDefault \<Rightarrow> ''approved_default_v1''
      | _ \<Rightarrow> ''constraint_patch_v1'')"

text \<open>The identifier of an observation is made of the job and the text of its source and field.\<close>

fun patch_observations ::
  "(uuid \<Rightarrow> string \<Rightarrow> constraint_field \<Rightarrow> uuid) \<Rightarrow> uuid \<Rightarrow> string \<Rightarrow> int \<Rightarrow> fact_source_kind \<Rightarrow> constraint_patch \<Rightarrow> nat \<Rightarrow>
   constraint_contracts \<Rightarrow> merge_error + fact_observation list" where
  "patch_observations new_v3 job source n kind [] at contracts = Inr []"
| "patch_observations new_v3 job source n kind ((f, v) # rest) at contracts =
     res_bind (ok_or (map_of contracts f) (MissingContract f)) (\<lambda>c.
     res_bind (validate_fact f v c) (\<lambda>_.
     res_bind (patch_observations new_v3 job source (n + 1) kind rest at contracts) (\<lambda>os.
     Inr (\<lparr>fo_id = new_v3 job source f, fo_job_id = job, fo_sequence = n, fo_source_kind = kind, fo_source_id = source,
           fo_field = f, fo_value = v, fo_confidence = None, fo_extractor_version = patch_extractor kind,
           fo_observed_at = at\<rparr> # os))))"

definition observations_from_patch where
  "observations_from_patch new_v3 job source n patch at contracts =
     patch_observations new_v3 job source n FromClarification patch at contracts"

definition approved_default_observations where
  "approved_default_observations new_v3 job source n patch at contracts =
     patch_observations new_v3 job source n FromApprovedDefault patch at contracts"

section \<open>Observations of a request\<close>

datatype assistant_entity_type =
    EntPersonName | EntClientId | EntOffice | EntDatePeriod | EntCurrency | EntProduct | EntMetric
  | EntCapabilityHint | EntAccountNumber | EntChargeType | EntUnknown

record assistant_entity =
  ent_type :: assistant_entity_type
  ent_value :: string
  ent_canonical :: "string option"
  ent_confidence :: "f32 option"

datatype quantity = QuantityAll | QuantityDefault | QuantityLimit int | QuantityTopN int

record assistant_constraints =
  ac_from_date :: "string option"
  ac_to_date :: "string option"
  ac_quantity :: "quantity option"
  ac_currency_code :: "string option"
  ac_product_ids :: "int list option"
  ac_office_ids :: "int list option"
  ac_metric :: "string option"
  ac_transaction_amount :: "string option"

datatype payload_field = PfLimit | PfFromDate | PfToDate | PfCurrencyCode | PfMetric | PfDomain | PfPersonName

text \<open>What the facts read of an intent and of an extraction.\<close>

record request_facts =
  rf_constraints :: assistant_constraints
  rf_domain :: assistant_domain
  rf_entities :: "assistant_entity list"

record extraction_facts =
  xf_candidates :: "(payload_field \<times> json) list"
  xf_entities :: "assistant_entity list"

definition quantity_facts :: "quantity \<Rightarrow> constraint_patch" where
  "quantity_facts q =
     (case q of
        QuantityAll \<Rightarrow> [(CfLimitMode, TvLimitMode LimitAll)]
      | QuantityDefault \<Rightarrow> [(CfLimitMode, TvLimitMode LimitDefault)]
      | QuantityLimit n \<Rightarrow> [(CfLimitMode, TvLimitMode LimitExactly), (CfLimitValue, TvInteger n)]
      | QuantityTopN n \<Rightarrow> [(CfLimitMode, TvLimitMode LimitTopN), (CfLimitValue, TvInteger n)])"

definition candidate_fact ::
  "(json \<Rightarrow> assistant_domain option) \<Rightarrow> payload_field \<Rightarrow> json \<Rightarrow> (constraint_field \<times> typed_fact_value) option" where
  "candidate_fact domain_of f v =
     (case f of
        PfLimit \<Rightarrow> map_option (\<lambda>i. (CfLimitValue, TvInteger i)) (as_i64 v)
      | PfFromDate \<Rightarrow> map_option (\<lambda>s. (CfFromDate, TvDate s)) (as_str v)
      | PfToDate \<Rightarrow> map_option (\<lambda>s. (CfToDate, TvDate s)) (as_str v)
      | PfCurrencyCode \<Rightarrow> map_option (\<lambda>s. (CfCurrencyCode, TvCurrencyCode s)) (as_str v)
      | PfMetric \<Rightarrow> map_option (\<lambda>s. (CfMetric, TvMetric s)) (as_str v)
      | PfDomain \<Rightarrow> map_option (\<lambda>d. (CfDomain, TvDomain d)) (domain_of v)
      | PfPersonName \<Rightarrow> map_option (\<lambda>s. (CfPersonName, TvPersonName s)) (as_str v))"

definition entity_fact :: "assistant_entity \<Rightarrow> (constraint_field \<times> typed_fact_value) option" where
  "entity_fact e =
     (let s = trim (ent_value e) in
      if s = [] then None
      else (case ent_type e of
              EntPersonName \<Rightarrow> Some (CfPersonName, TvPersonName s)
            | EntOffice \<Rightarrow> Some (CfOffice, TvOffice s)
            | EntProduct \<Rightarrow> Some (CfProduct, TvProduct s)
            | EntChargeType \<Rightarrow> Some (CfChargeType, TvChargeType s)
            | EntAccountNumber \<Rightarrow> Some (CfAccountNumber, TvAccountNumber s)
            | EntClientId \<Rightarrow> map_option (\<lambda>i. (CfClientId, TvClientId i)) (parse_i64 s)
            | EntMetric \<Rightarrow> Some (CfMetric, TvMetric s)
            | EntCurrency \<Rightarrow> Some (CfCurrencyCode, TvCurrencyCode s)
            | _ \<Rightarrow> None))"

definition opt_fact :: "constraint_field \<Rightarrow> ('a \<Rightarrow> typed_fact_value) \<Rightarrow> 'a option \<Rightarrow> constraint_patch" where
  "opt_fact f g x = (case x of None \<Rightarrow> [] | Some v \<Rightarrow> [(f, g v)])"

definition stated_facts :: "(string \<Rightarrow> bool) \<Rightarrow> request_facts \<Rightarrow> constraint_patch" where
  "stated_facts is_decimal r =
     (let c = rf_constraints r in
      (case ac_quantity c of None \<Rightarrow> [] | Some q \<Rightarrow> quantity_facts q) @
      opt_fact CfFromDate TvDate (ac_from_date c) @
      opt_fact CfToDate TvDate (ac_to_date c) @
      opt_fact CfCurrencyCode TvCurrencyCode (ac_currency_code c) @
      opt_fact CfMetric TvMetric (ac_metric c) @
      (case ac_transaction_amount c of
         None \<Rightarrow> []
       | Some a \<Rightarrow> if is_decimal a then [(CfTransactionAmount, TvDecimal a)] else []) @
      (if rf_domain r \<noteq> DomUnknown then [(CfDomain, TvDomain (rf_domain r))] else []) @
      List.map_filter entity_fact (rf_entities r))"

definition stable_uuid :: "uuid \<Rightarrow> int \<Rightarrow> uuid" where
  "stable_uuid job discriminator = unat (xor (of_nat job :: 128 word) (word_rotl 61 (of_int discriminator)))"

fun number_facts ::
  "(nat \<Rightarrow> constraint_field \<times> typed_fact_value \<Rightarrow> fact_observation) \<Rightarrow> nat \<Rightarrow> constraint_patch \<Rightarrow> fact_observation list" where
  "number_facts mk n [] = []"
| "number_facts mk n (fv # rest) = mk n fv # number_facts mk (Suc n) rest"

definition original_request_observations ::
  "(string \<Rightarrow> bool) \<Rightarrow> (json \<Rightarrow> assistant_domain option) \<Rightarrow> uuid \<Rightarrow> string \<Rightarrow> request_facts \<Rightarrow> extraction_facts \<Rightarrow> nat \<Rightarrow>
   fact_observation list" where
  "original_request_observations is_decimal domain_of job source intent extraction at =
     (let original = stated_facts is_decimal intent;
          facts = original @
            List.map_filter (\<lambda>(f, v). candidate_fact domain_of f v) (xf_candidates extraction) @
            List.map_filter entity_fact (xf_entities extraction) in
      number_facts
        (\<lambda>i (f, v). \<lparr>fo_id = stable_uuid job (int i + 10), fo_job_id = job, fo_sequence = int i + 1,
           fo_source_kind = (if i < length original then FromOriginalRequest else FromDeterministicResolver),
           fo_source_id = source, fo_field = f, fo_value = v, fo_confidence = None,
           fo_extractor_version = (if i < length original then ''initial_request_v1'' else ''deterministic_extraction_v1''),
           fo_observed_at = at\<rparr>) 0 facts)"

definition deterministic_observations ::
  "(json \<Rightarrow> assistant_domain option) \<Rightarrow> uuid \<Rightarrow> string \<Rightarrow> int \<Rightarrow> fact_source_kind \<Rightarrow> extraction_facts \<Rightarrow> nat \<Rightarrow> fact_observation list" where
  "deterministic_observations domain_of job source first kind extraction at =
     number_facts
       (\<lambda>i (f, v). \<lparr>fo_id = stable_uuid job (first + int i + 1000), fo_job_id = job, fo_sequence = first + int i,
          fo_source_kind = kind, fo_source_id = source, fo_field = f, fo_value = v, fo_confidence = None,
          fo_extractor_version = (if kind = FromClarification then ''clarification_patch_v1'' else ''deterministic_extraction_v1''),
          fo_observed_at = at\<rparr>) 0
       (List.map_filter (\<lambda>(f, v). candidate_fact domain_of f v) (xf_candidates extraction))"

definition deterministic_observations_excluding_fields ::
  "(json \<Rightarrow> assistant_domain option) \<Rightarrow> uuid \<Rightarrow> string \<Rightarrow> int \<Rightarrow> fact_source_kind \<Rightarrow> extraction_facts \<Rightarrow> constraint_field list \<Rightarrow> nat \<Rightarrow>
   fact_observation list" where
  "deterministic_observations_excluding_fields domain_of job source first kind extraction excluded at =
     deterministic_observations domain_of job source first kind
       (extraction\<lparr>xf_candidates :=
          filter (\<lambda>(f, v). case candidate_fact domain_of f v of None \<Rightarrow> True | Some (g, _) \<Rightarrow> g \<notin> set excluded)
            (xf_candidates extraction)\<rparr>) at"

end
