(* ===== verification/FactsProps.thy ===== *)
theory FactsProps
  imports Facts "HOL-Library.Multiset"
begin

text \<open>The properties of the merge of observations.\<close>

section \<open>Order\<close>

lemma sort_key_unique:
  assumes "mset xs = mset ys" and "distinct (map f xs)"
  shows "sort_key f xs = sort_key f ys"
proof (rule properties_for_sort_key)
  have d: "distinct (map f ys)" using assms by (metis mset_eq_imp_distinct_iff mset_map)
  have one: "filter (\<lambda>x. f k = f x) zs = [k]" if "distinct (map f zs)" "k \<in> set zs" for k zs
    using that by (induction zs) (auto simp: filter_empty_conv, metis imageI)
  show "mset (sort_key f ys) = mset xs" using assms(1) by simp
  show "filter (\<lambda>x. f k = f x) (sort_key f ys) = filter (\<lambda>x. f k = f x) xs" if "k \<in> set (sort_key f ys)" for k
  proof -
    have "set xs = set ys" using assms(1) by (rule mset_eq_setD)
    then have "k \<in> set ys" "k \<in> set xs" using that by simp_all
    moreover have "distinct (map f (sort_key f ys))"
      using d by (metis mset_eq_imp_distinct_iff mset_map mset_sort)
    ultimately show ?thesis using one assms(2) by (metis set_sort)
  qed
  show "sorted (map f (sort_key f ys))" by simp
qed

lemma merge_order_set [simp]: "set (merge_order os) = set os"
  by (simp add: merge_order_def)

lemma merge_order_sorted: "sorted (map (\<lambda>o'. source_rank (fo_source_kind o')) (merge_order os))"
  by (simp add: merge_order_def)

section \<open>The loop\<close>

definition settles :: "fact_observation \<Rightarrow> merge_state \<Rightarrow> bool" where
  "settles w st \<longleftrightarrow>
     map_of (ms_winners st) (fo_field w) = Some (fo_id w) \<and>
     (fo_value w = TvClear \<longrightarrow> map_of (ms_values st) (fo_field w) = None) \<and>
     (fo_value w \<noteq> TvClear \<and> \<not> is_id_list (fo_value w) \<longrightarrow> map_of (ms_values st) (fo_field w) = Some (fo_value w))"

definition speaks :: "constraint_field \<Rightarrow> fact_observation \<Rightarrow> bool" where
  "speaks f p \<longleftrightarrow> fo_field p = f \<and> fo_source_kind p \<noteq> FromLlmAdvisory"

definition rank_of :: "fact_observation \<Rightarrow> nat" where
  "rank_of p = source_rank (fo_source_kind p)"

definition field_merged :: "fact_observation list \<Rightarrow> merge_state \<Rightarrow> constraint_field \<Rightarrow> bool" where
  "field_merged ps st f \<longleftrightarrow>
     (if \<exists>p \<in> set ps. speaks f p
      then \<exists>w \<in> set ps. speaks f w \<and> settles w st \<and> (\<forall>p \<in> set ps. speaks f p \<longrightarrow> rank_of p \<le> rank_of w)
      else map_of (ms_values st) f = None \<and> map_of (ms_winners st) f = None)"

lemma field_mergedI:
  "w \<in> set ps \<Longrightarrow> speaks f w \<Longrightarrow> settles w st \<Longrightarrow> \<forall>p \<in> set ps. speaks f p \<longrightarrow> rank_of p \<le> rank_of w \<Longrightarrow>
     field_merged ps st f"
  unfolding field_merged_def by auto

lemma field_mergedE:
  assumes "field_merged ps st f" and "p \<in> set ps" and "speaks f p"
  obtains w where "w \<in> set ps" "speaks f w" "settles w st" "\<forall>p \<in> set ps. speaks f p \<longrightarrow> rank_of p \<le> rank_of w"
proof -
  have "\<exists>x \<in> set ps. speaks f x" using assms(2,3) by blast
  with assms(1) have "\<exists>w \<in> set ps. speaks f w \<and> settles w st \<and> (\<forall>p \<in> set ps. speaks f p \<longrightarrow> rank_of p \<le> rank_of w)"
    unfolding field_merged_def by argo
  then show ?thesis using that by blast
qed

definition merged :: "fact_observation list \<Rightarrow> merge_state \<Rightarrow> bool" where
  "merged ps st \<longleftrightarrow>
     ms_seen st = (\<lambda>k. map_option fo_value (find (\<lambda>p. fact_key_of p = k) ps)) \<and> (\<forall>f. field_merged ps st f)"

lemma map_of_apply_fact:
  "map_of (apply_fact f v values) g =
     (if g \<noteq> f then map_of values g
      else case v of
             TvClear \<Rightarrow> None
           | TvIdList p \<Rightarrow> Some (TvIdList (ReplaceIds (patched_ids p (case map_of values f of Some (TvIdList (ReplaceIds ids)) \<Rightarrow> ids | _ \<Rightarrow> []))))
           | _ \<Rightarrow> Some v)"
  by (cases v) (auto simp: apply_fact_def map_of_bt_remove map_of_bt_insert Let_def)

lemma take_fact_settles:
  assumes "fo_source_kind o' \<noteq> FromLlmAdvisory"
  shows "settles o' (take_fact o' st)"
    and "fo_field w \<noteq> fo_field o' \<Longrightarrow> settles w (take_fact o' st) \<longleftrightarrow> settles w st"
  using assms
  by (auto simp: settles_def take_fact_def Let_def map_of_apply_fact map_of_bt_insert is_id_list_def split: typed_fact_value.splits)

lemma take_fact_advisory:
  "fo_source_kind o' = FromLlmAdvisory \<Longrightarrow> settles w (take_fact o' st) \<longleftrightarrow> settles w st"
  by (simp add: settles_def take_fact_def)

lemma take_fact_other:
  "fo_source_kind o' = FromLlmAdvisory \<or> f \<noteq> fo_field o' \<Longrightarrow>
     map_of (ms_values (take_fact o' st)) f = map_of (ms_values st) f \<and>
     map_of (ms_winners (take_fact o' st)) f = map_of (ms_winners st) f"
  by (auto simp: take_fact_def Let_def map_of_apply_fact map_of_bt_insert)

lemma find_snoc: "find P (xs @ [x]) = (case find P xs of Some y \<Rightarrow> Some y | None \<Rightarrow> if P x then Some x else None)"
  by (induction xs) auto

lemma merged_start: "merged [] merge_start"
  by (simp add: merged_def field_merged_def merge_start_def)

text \<open>A repeated observation is skipped: an earlier one of the same source speaks for it.\<close>

lemma merged_replay:
  assumes m: "merged ps st" and seen: "ms_seen st (fact_key_of o') = Some v"
  shows "merged (ps @ [o']) st"
proof -
  obtain p where p: "find (\<lambda>p. fact_key_of p = fact_key_of o') ps = Some p"
    using m seen by (auto simp: merged_def)
  then have "p \<in> set ps" "fact_key_of p = fact_key_of o'" by (auto dest: find_SomeD)
  then have same: "p \<in> set ps" "rank_of p = rank_of o'" "\<And>f. speaks f p = speaks f o'"
    by (auto simp: fact_key_of_def rank_of_def speaks_def)
  have "field_merged (ps @ [o']) st f" if f: "field_merged ps st f" for f
  proof (cases "\<exists>q \<in> set ps. speaks f q")
    case True
    then obtain w where w: "w \<in> set ps" "speaks f w" "settles w st" "\<forall>p \<in> set ps. speaks f p \<longrightarrow> rank_of p \<le> rank_of w"
      using f by (meson field_mergedE)
    show ?thesis by (rule field_mergedI [of w]) (use w same in auto)
  next
    case False
    then show ?thesis using f same unfolding field_merged_def by auto
  qed
  moreover have "find (\<lambda>p. fact_key_of p = k) (ps @ [o']) = find (\<lambda>p. fact_key_of p = k) ps" for k
    using p by (auto simp: find_snoc split: option.split)
  ultimately show ?thesis using m by (simp add: merged_def)
qed

lemma merged_take:
  assumes m: "merged ps st" and new: "ms_seen st (fact_key_of o') = None"
    and top: "\<forall>p \<in> set ps. rank_of p \<le> rank_of o'"
  shows "merged (ps @ [o']) (take_fact o' st)"
proof -
  have none: "find (\<lambda>p. fact_key_of p = fact_key_of o') ps = None" using m new by (simp add: merged_def)
  have "ms_seen (take_fact o' st) = (ms_seen st)(fact_key_of o' \<mapsto> fo_value o')"
    by (simp add: take_fact_def Let_def)
  also have "\<dots> = (\<lambda>k. map_option fo_value (find (\<lambda>p. fact_key_of p = k) (ps @ [o'])))"
    using m none by (auto simp: merged_def find_snoc fun_eq_iff split: option.split)
  finally have seen: "ms_seen (take_fact o' st) = (\<lambda>k. map_option fo_value (find (\<lambda>p. fact_key_of p = k) (ps @ [o'])))" .
  have "field_merged (ps @ [o']) (take_fact o' st) f" for f
  proof (cases "speaks f o'")
    case True
    then show ?thesis using take_fact_settles(1) [of o' st] top by (auto simp: field_merged_def speaks_def)
  next
    case False
    then have keep: "settles w (take_fact o' st) \<longleftrightarrow> settles w st" if "speaks f w" for w
      using that False take_fact_settles(2) [of o' w st] take_fact_advisory [of o' w st] unfolding speaks_def by metis
    have f: "field_merged ps st f" using m by (simp add: merged_def)
    show ?thesis
    proof (cases "\<exists>p \<in> set ps. speaks f p")
      case some: True
      with f obtain w where "w \<in> set ps" "speaks f w" "settles w st" "\<forall>p \<in> set ps. speaks f p \<longrightarrow> rank_of p \<le> rank_of w"
        by (auto simp: field_merged_def)
      then show ?thesis using keep False by (intro field_mergedI [of w]) auto
    next
      case none: False
      then show ?thesis using f take_fact_other [of o' f st] False by (auto simp: field_merged_def speaks_def)
    qed
  qed
  then show ?thesis by (simp add: merged_def seen)
qed

text \<open>The loop succeeds exactly when every observation passes its check and repeated ones agree.\<close>

definition agreeing :: "fact_observation list \<Rightarrow> bool" where
  "agreeing os \<longleftrightarrow> (\<forall>p \<in> set os. \<forall>q \<in> set os. fact_key_of p = fact_key_of q \<longrightarrow> fo_value p = fo_value q)"

lemma agreeingD: "agreeing os \<Longrightarrow> p \<in> set os \<Longrightarrow> q \<in> set os \<Longrightarrow> fact_key_of p = fact_key_of q \<Longrightarrow> fo_value p = fo_value q"
  unfolding agreeing_def by blast

lemma agreeingI:
  "(\<And>p q. p \<in> set os \<Longrightarrow> q \<in> set os \<Longrightarrow> fact_key_of p = fact_key_of q \<Longrightarrow> fo_value p = fo_value q) \<Longrightarrow> agreeing os"
  unfolding agreeing_def by blast

lemma agreeing_snoc:
  assumes "agreeing ps" and "\<And>q. q \<in> set ps \<Longrightarrow> fact_key_of q = fact_key_of o' \<Longrightarrow> fo_value q = fo_value o'"
  shows "agreeing (ps @ [o'])"
proof (rule agreeingI)
  fix p q
  assume pq: "p \<in> set (ps @ [o'])" "q \<in> set (ps @ [o'])" "fact_key_of p = fact_key_of q"
  then consider "p \<in> set ps" "q \<in> set ps" | "p \<in> set ps" "q = o'" | "p = o'" "q \<in> set ps" | "p = o'" "q = o'" by auto
  then show "fo_value p = fo_value q"
  proof cases
    case 1
    then show ?thesis using agreeingD [OF assms(1)] pq(3) by blast
  next
    case 2
    then show ?thesis using assms(2) [of p] pq(3) by simp
  next
    case 3
    then show ?thesis using assms(2) [of q] pq(3) by simp
  qed simp
qed

lemma merge_loop_merged:
  assumes "merged ps st" and "sorted (map rank_of (ps @ os))" and "merge_loop job contracts os st = Inr st'"
  shows "merged (ps @ os) st'"
  using assms
proof (induction os arbitrary: ps st)
  case (Cons o' os)
  have top: "\<forall>p \<in> set ps. rank_of p \<le> rank_of o'" using Cons.prems(2) by (simp add: sorted_append)
  show ?case
  proof (cases "ms_seen st (fact_key_of o')")
    case None
    then have "merge_loop job contracts os (take_fact o' st) = Inr st'" using Cons.prems(3) by (auto simp: res_simps)
    then show ?thesis using Cons.IH [of "ps @ [o']"] merged_take [OF Cons.prems(1) None top] Cons.prems(2) by simp
  next
    case (Some v)
    then have "merge_loop job contracts os st = Inr st'" using Cons.prems(3) by (auto simp: res_simps)
    then show ?thesis using Cons.IH [of "ps @ [o']"] merged_replay [OF Cons.prems(1) Some] Cons.prems(2) by simp
  qed
qed simp

lemma merge_loop_accepts:
  assumes "merged ps st" and "sorted (map rank_of (ps @ os))" and "agreeing ps"
  shows "(\<exists>st'. merge_loop job contracts os st = Inr st') \<longleftrightarrow>
      (\<forall>o' \<in> set os. check_fact job contracts o' = Inr ()) \<and> agreeing (ps @ os)"
  using assms
proof (induction os arbitrary: ps st)
  case (Cons o' os)
  have top: "\<forall>p \<in> set ps. rank_of p \<le> rank_of o'" using Cons.prems(2) by (simp add: sorted_append)
  show ?case
  proof (cases "ms_seen st (fact_key_of o')")
    case None
    then have "agreeing (ps @ [o'])"
      using Cons.prems(1,3) by (intro agreeing_snoc) (simp_all add: merged_def find_None_iff_all)
    then have "(\<exists>st'. merge_loop job contracts os (take_fact o' st) = Inr st') \<longleftrightarrow>
        (\<forall>o' \<in> set os. check_fact job contracts o' = Inr ()) \<and> agreeing ((ps @ [o']) @ os)"
      using Cons.prems(2) by (intro Cons.IH merged_take [OF Cons.prems(1) None top]) simp_all
    then show ?thesis using None by (simp add: res_simps)
  next
    case (Some v)
    obtain p where p: "p \<in> set ps" "fact_key_of p = fact_key_of o'" "fo_value p = v"
      using Cons.prems(1) Some by (auto simp: merged_def dest!: find_SomeD)
    have step: "(\<exists>st'. merge_loop job contracts os st = Inr st') \<longleftrightarrow>
        (\<forall>o' \<in> set os. check_fact job contracts o' = Inr ()) \<and> agreeing ((ps @ [o']) @ os)" if "v = fo_value o'"
    proof (rule Cons.IH)
      show "merged (ps @ [o']) st" by (rule merged_replay [OF Cons.prems(1) Some])
      show "sorted (map rank_of ((ps @ [o']) @ os))" using Cons.prems(2) by simp
      have "fo_value q = fo_value o'" if "q \<in> set ps" "fact_key_of q = fact_key_of o'" for q
        using agreeingD [OF Cons.prems(3) that(1) p(1)] that(2) p(2,3) \<open>v = fo_value o'\<close> by simp
      then show "agreeing (ps @ [o'])" using Cons.prems(3) by (rule agreeing_snoc [rotated])
    qed
    have "v = fo_value o'" if "agreeing (ps @ o' # os)"
      using agreeingD [OF that, of p o'] p by simp
    then show ?thesis using Some step by (auto simp: res_simps)
  qed
qed simp

lemma merge_order_ranks: "sorted (map rank_of (merge_order os))"
proof -
  have "rank_of = (\<lambda>o'. source_rank (fo_source_kind o'))" by (simp add: fun_eq_iff rank_of_def)
  then show ?thesis using merge_order_sorted by simp
qed

lemma agreeing_merge_order: "agreeing (merge_order os) \<longleftrightarrow> agreeing os"
  by (simp add: agreeing_def)

section \<open>The properties\<close>

lemma merge_loop_values_typed:
  assumes "merge_loop job contracts os st = Inr st'"
    and "\<forall>f v. map_of (ms_values st) f = Some v \<longrightarrow> value_fits f v \<and> (\<forall>p. v = TvIdList p \<longrightarrow> (\<exists>ids. p = ReplaceIds ids))"
  shows "\<forall>f v. map_of (ms_values st') f = Some v \<longrightarrow> value_fits f v \<and> (\<forall>p. v = TvIdList p \<longrightarrow> (\<exists>ids. p = ReplaceIds ids))"
  using assms
proof (induction os arbitrary: st)
  case (Cons o' os)
  show ?case
  proof (cases "ms_seen st (fact_key_of o')")
    case None
    then have checked: "check_fact job contracts o' = Inr ()"
      and rest: "merge_loop job contracts os (take_fact o' st) = Inr st'" using Cons.prems(1) by (auto simp: res_simps)
    have "\<forall>f v. map_of (ms_values (take_fact o' st)) f = Some v \<longrightarrow>
        value_fits f v \<and> (\<forall>p. v = TvIdList p \<longrightarrow> (\<exists>ids. p = ReplaceIds ids))"
    proof (intro allI impI)
      fix f v
      assume v: "map_of (ms_values (take_fact o' st)) f = Some v"
      show "value_fits f v \<and> (\<forall>p. v = TvIdList p \<longrightarrow> (\<exists>ids. p = ReplaceIds ids))"
      proof (cases "fo_source_kind o' = FromLlmAdvisory \<or> f \<noteq> fo_field o'")
        case True
        then show ?thesis using v Cons.prems(2) take_fact_other [of o' f st] by auto
      next
        case False
        then have "fo_value o' \<noteq> TvClear \<Longrightarrow> value_fits f (fo_value o')"
          using checked by (auto simp: check_fact_def validate_fact_def res_simps)
        then show ?thesis using v False
          by (auto simp: take_fact_def Let_def map_of_apply_fact value_fits_def split: typed_fact_value.splits)
      qed
    qed
    then show ?thesis by (rule Cons.IH [OF rest])
  next
    case (Some v)
    then have "merge_loop job contracts os st = Inr st'" using Cons.prems(1) by (auto simp: res_simps)
    then show ?thesis by (rule Cons.IH) (rule Cons.prems(2))
  qed
qed simp

lemma merge_observations_Inr:
  assumes "merge_observations job revision os contracts = Inr ec"
  obtains st where "merge_loop job contracts (merge_order os) merge_start = Inr st"
    and "merged (merge_order os) st" and "ec_values ec = ms_values st" and "ec_winners ec = ms_winners st"
proof -
  obtain st where st: "merge_loop job contracts (merge_order os) merge_start = Inr st"
      "ec_values ec = ms_values st" "ec_winners ec = ms_winners st"
    using assms by (auto simp: merge_observations_def res_simps)
  moreover have "merged ([] @ merge_order os) st"
    by (rule merge_loop_merged [OF merged_start _ st(1)]) (simp add: merge_order_ranks)
  ultimately show ?thesis using that by simp
qed

text \<open>Two facts about one field, of a request and of an answer to a question.\<close>

definition stated :: "nat \<Rightarrow> int \<Rightarrow> fact_source_kind \<Rightarrow> constraint_field \<Rightarrow> typed_fact_value \<Rightarrow> fact_observation" where
  "stated i n k f v =
     \<lparr>fo_id = i, fo_job_id = 7, fo_sequence = n, fo_source_kind = k, fo_source_id = ''m1'', fo_field = f, fo_value = v,
      fo_confidence = None, fo_extractor_version = ''initial_request_v1'', fo_observed_at = 1\<rparr>"

text \<open>
  The merge of the facts of a request does not depend on the order in which the observations were
  collected: two orders of the same observations, with distinct identifiers, give the same effective
  constraints or the same error.
\<close>
theorem merge_order_free:
  assumes "mset xs = mset ys" and "distinct (map fo_id xs)"
  shows "merge_observations job revision xs contracts = merge_observations job revision ys contracts"
proof -
  have "sort_key fo_id xs = sort_key fo_id ys" using assms by (rule sort_key_unique)
  then show ?thesis by (simp add: merge_observations_def merge_order_def)
qed

lemma merge_order_free_witness:
  "merge_observations 7 1 [stated 1 1 FromOriginalRequest CfOffice (TvOffice ''a''), stated 2 2 FromClarification CfOffice (TvOffice ''b'')] executable_constraint_contracts =
   merge_observations 7 1 [stated 2 2 FromClarification CfOffice (TvOffice ''b''), stated 1 1 FromOriginalRequest CfOffice (TvOffice ''a'')] executable_constraint_contracts"
  by (rule merge_order_free) (simp_all add: stated_def)

text \<open>
  C21: The merge accepts exactly the sets of observations in which each one belongs to the job, has a confidence
  between zero and one, and a value its field's contract allows, and in which observations of the same source,
  message and field carry the same value.
\<close>
theorem merge_accepts_iff:
  "(\<exists>ec. merge_observations job revision os contracts = Inr ec) =
     (\<forall>p \<in> set os. check_fact job contracts p = Inr () \<and>
        (\<forall>q \<in> set os. fact_key_of p = fact_key_of q \<longrightarrow> fo_value p = fo_value q))"
proof -
  have "(\<exists>st'. merge_loop job contracts (merge_order os) merge_start = Inr st') \<longleftrightarrow>
      (\<forall>o' \<in> set (merge_order os). check_fact job contracts o' = Inr ()) \<and> agreeing ([] @ merge_order os)"
    by (rule merge_loop_accepts [OF merged_start]) (simp_all add: merge_order_ranks agreeing_def)
  then have "(\<exists>ec. merge_observations job revision os contracts = Inr ec) \<longleftrightarrow>
      (\<forall>p \<in> set os. check_fact job contracts p = Inr ()) \<and> agreeing os"
    by (simp add: merge_observations_def res_simps agreeing_merge_order)
  then show ?thesis unfolding agreeing_def by blast
qed

lemma merge_accepts_iff_witness:
  "\<exists>ec. merge_observations 7 1 [stated 1 1 FromOriginalRequest CfOffice (TvOffice ''a''), stated 2 2 FromClarification CfOffice (TvOffice ''b'')]
     executable_constraint_contracts = Inr ec"
  by (rule iffD2 [OF merge_accepts_iff]) code_simp

text \<open>
  C22: In the merged constraints the winner of a field is an observation of the highest rank among those that
  are not a language model's advice (an answer before the request, before a resolver, before a default), its
  value is the field's value unless it clears the field or patches a list, and a field that only advice
  mentions has no value.
\<close>
theorem merge_precedence:
  assumes "merge_observations job revision os contracts = Inr ec"
  shows "if \<exists>p \<in> set os. fo_field p = f \<and> fo_source_kind p \<noteq> FromLlmAdvisory
      then \<exists>w \<in> set os. fo_field w = f \<and> fo_source_kind w \<noteq> FromLlmAdvisory \<and> map_of (ec_winners ec) f = Some (fo_id w) \<and>
             (\<forall>p \<in> set os. fo_field p = f \<and> fo_source_kind p \<noteq> FromLlmAdvisory \<longrightarrow>
                source_rank (fo_source_kind p) \<le> source_rank (fo_source_kind w)) \<and>
             (fo_value w = TvClear \<longrightarrow> map_of (ec_values ec) f = None) \<and>
             (fo_value w \<noteq> TvClear \<and> \<not> is_id_list (fo_value w) \<longrightarrow> map_of (ec_values ec) f = Some (fo_value w))
      else map_of (ec_values ec) f = None \<and> map_of (ec_winners ec) f = None"
proof -
  obtain st where "merged (merge_order os) st" and ec: "ec_values ec = ms_values st" "ec_winners ec = ms_winners st"
    using assms by (rule merge_observations_Inr)
  then have f: "field_merged (merge_order os) st f" by (simp add: merged_def)
  show ?thesis
  proof (cases "\<exists>p \<in> set os. speaks f p")
    case True
    with f obtain w where w: "w \<in> set os" "speaks f w" "settles w st" "\<forall>p \<in> set os. speaks f p \<longrightarrow> rank_of p \<le> rank_of w"
      unfolding field_merged_def by (metis merge_order_set)
    moreover have "\<exists>p \<in> set os. fo_field p = f \<and> fo_source_kind p \<noteq> FromLlmAdvisory" using True by (simp add: speaks_def)
    ultimately show ?thesis by (auto simp: ec speaks_def settles_def rank_of_def)
  next
    case False
    then have "\<not> (\<exists>p \<in> set os. fo_field p = f \<and> fo_source_kind p \<noteq> FromLlmAdvisory)" by (simp add: speaks_def)
    then show ?thesis using f False unfolding field_merged_def by (simp add: ec)
  qed
qed

definition merged_ok :: "fact_observation list \<Rightarrow> (effective_constraints \<Rightarrow> bool) \<Rightarrow> bool" where
  "merged_ok os P =
     (case merge_observations 7 1 os executable_constraint_contracts of Inl _ \<Rightarrow> False | Inr ec \<Rightarrow> P ec)"

lemma merged_okE:
  assumes "merged_ok os P"
  obtains ec where "merge_observations 7 1 os executable_constraint_contracts = Inr ec" "P ec"
  using assms by (auto simp: merged_ok_def split: sum.splits)

lemma merge_precedence_witness:
  "\<exists>ec. merge_observations 7 1 [stated 2 2 FromClarification CfOffice (TvOffice ''b''), stated 1 1 FromOriginalRequest CfOffice (TvOffice ''a'')]
        executable_constraint_contracts = Inr ec \<and> map_of (ec_winners ec) CfOffice = Some 2"
proof -
  have "merged_ok [stated 2 2 FromClarification CfOffice (TvOffice ''b''), stated 1 1 FromOriginalRequest CfOffice (TvOffice ''a'')]
      (\<lambda>_. True)"
    by code_simp
  then obtain ec where ec: "merge_observations 7 1 [stated 2 2 FromClarification CfOffice (TvOffice ''b''),
      stated 1 1 FromOriginalRequest CfOffice (TvOffice ''a'')] executable_constraint_contracts = Inr ec"
    by (rule merged_okE)
  show ?thesis using ec merge_precedence [OF ec, of CfOffice] by (auto simp: stated_def source_rank_def)
qed

text \<open>
  C23: Every value of the merged constraints is of the kind its field's contract expects, and a list of
  identifiers is always a whole list, the additions and removals having been applied.
\<close>
theorem merge_values_typed:
  assumes "merge_observations job revision os contracts = Inr ec" and "map_of (ec_values ec) f = Some v"
  shows "value_fits f v \<and> (is_id_list v \<longrightarrow> (\<exists>ids. v = TvIdList (ReplaceIds ids)))"
proof -
  obtain st where st: "merge_loop job contracts (merge_order os) merge_start = Inr st" and ec: "ec_values ec = ms_values st"
    using assms(1) by (rule merge_observations_Inr)
  show ?thesis using merge_loop_values_typed [OF st] assms(2)
    by (cases v) (auto simp: ec merge_start_def is_id_list_def)
qed

lemma merge_values_typed_witness:
  "\<exists>ec. merge_observations 7 1 [stated 1 1 FromOriginalRequest CfOfficeIds (TvIdList (AddIds [3, 4, 3]))]
        executable_constraint_contracts = Inr ec \<and>
      map_of (ec_values ec) CfOfficeIds = Some (TvIdList (ReplaceIds [3, 4])) \<and> value_fits CfOfficeIds (TvIdList (ReplaceIds [3, 4]))"
proof -
  have "merged_ok [stated 1 1 FromOriginalRequest CfOfficeIds (TvIdList (AddIds [3, 4, 3]))]
      (\<lambda>ec. map_of (ec_values ec) CfOfficeIds = Some (TvIdList (ReplaceIds [3, 4])))"
    by code_simp
  then obtain ec where ec: "merge_observations 7 1 [stated 1 1 FromOriginalRequest CfOfficeIds (TvIdList (AddIds [3, 4, 3]))]
      executable_constraint_contracts = Inr ec" and v: "map_of (ec_values ec) CfOfficeIds = Some (TvIdList (ReplaceIds [3, 4]))"
    by (rule merged_okE)
  show ?thesis using ec v merge_values_typed [OF ec v] by auto
qed

end
