(* ===== verification/Outbox.thy ===== *)
theory Outbox
  imports Tables "HOL-Library.While_Combinator"
begin

text \<open>
  The transactional outbox of the management audit: the event types of \<open>management/model.rs\<close>, the
  insertion of \<open>management/repository.rs\<close> and the dispatcher of \<open>management/outbox.rs\<close>.  The derived
  JSON encodings of an event, its summary and its error are a parameter.  Times are milliseconds.
\<close>

section \<open>Events\<close>

type_synonym safe_identifier = string

definition identifier_byte :: "char \<Rightarrow> bool" where
  "identifier_byte c \<longleftrightarrow> is_ascii_alphanumeric c \<or> c = CHR ''_'' \<or> c = CHR ''-'' \<or> c = CHR ''.''"

definition safe_identifier_of :: "string \<Rightarrow> safe_identifier option" where
  "safe_identifier_of v = (if v = [] \<or> length v > 128 \<or> \<not> list_all identifier_byte v then None else Some v)"

datatype normalized_error_code =
    DatabaseUnavailable
  | DispatcherUnavailable
  | SerializationFailed
  | ProviderUnavailable
  | ProviderTimeout
  | ProviderMalformed
  | UnknownError

datatype policy_result = ResultAllowed | ResultDenied

datatype audit_summary =
    JobCreatedSummary
  | JobCompletedSummary
  | JobFailedSummary
  | ClarificationRequestedSummary
  | ClarificationReceivedSummary
  | PolicyEvaluatedSummary safe_identifier policy_result
  | ExecutionSummary safe_identifier "64 word option"
  | SessionArchivedSummary
  | BusinessDateFallbackSummary safe_identifier

datatype aggregate_type = ChatJobAggregate | ChatSessionAggregate | ManagementAggregate

definition aggregate_str :: "aggregate_type \<Rightarrow> string" where
  "aggregate_str a =
     (case a of
        ChatJobAggregate \<Rightarrow> ''chat_job''
      | ChatSessionAggregate \<Rightarrow> ''chat_session''
      | ManagementAggregate \<Rightarrow> ''management'')"

datatype audit_event_type =
    ChatJobCreated
  | KnowledgeRetrievalCompleted
  | ContextAssembled
  | PolicyEvaluated
  | ExecutionAuthorized
  | ExecutionBlocked
  | ExecutionCompleted
  | ChatClarificationRequested
  | ChatClarificationReceived
  | ChatJobCompleted
  | ChatJobFailed
  | ChatSessionArchived
  | ChatSessionDeleted
  | BusinessDateFallback
  | ExecutionResultTruncated
  | ExecutionTimedOut

definition event_type_str :: "audit_event_type \<Rightarrow> string" where
  "event_type_str e =
     (case e of
        ChatJobCreated \<Rightarrow> ''chat.job_created''
      | KnowledgeRetrievalCompleted \<Rightarrow> ''knowledge.retrieval_completed''
      | ContextAssembled \<Rightarrow> ''context.assembled''
      | PolicyEvaluated \<Rightarrow> ''policy.evaluated''
      | ExecutionAuthorized \<Rightarrow> ''execution.authorized''
      | ExecutionBlocked \<Rightarrow> ''execution.blocked''
      | ExecutionCompleted \<Rightarrow> ''execution.completed''
      | ChatClarificationRequested \<Rightarrow> ''chat.clarification_requested''
      | ChatClarificationReceived \<Rightarrow> ''chat.clarification_received''
      | ChatJobCompleted \<Rightarrow> ''chat.job_completed''
      | ChatJobFailed \<Rightarrow> ''chat.job_failed''
      | ChatSessionArchived \<Rightarrow> ''chat.session_archived''
      | ChatSessionDeleted \<Rightarrow> ''chat.session_deleted''
      | BusinessDateFallback \<Rightarrow> ''business_date.fallback_used''
      | ExecutionResultTruncated \<Rightarrow> ''execution.result_truncated''
      | ExecutionTimedOut \<Rightarrow> ''execution.timed_out'')"

datatype audit_outcome = OutcomeSuccess | OutcomeBlocked | OutcomeClarification | OutcomeUnsupported | OutcomeFailed

definition outcome_str :: "audit_outcome \<Rightarrow> string" where
  "outcome_str a =
     (case a of
        OutcomeSuccess \<Rightarrow> ''success''
      | OutcomeBlocked \<Rightarrow> ''blocked''
      | OutcomeClarification \<Rightarrow> ''clarification''
      | OutcomeUnsupported \<Rightarrow> ''unsupported''
      | OutcomeFailed \<Rightarrow> ''failed'')"

record management_audit_event =
  ma_aggregate_type :: aggregate_type
  ma_aggregate_id :: uuid
  ma_job_id :: "uuid option"
  ma_session_id :: "uuid option"
  ma_actor :: "uuid option"
  ma_event_type :: audit_event_type
  ma_outcome :: audit_outcome
  ma_summary :: audit_summary
  ma_error :: "normalized_error_code option"
  ma_occurred :: nat

record audit_codec =
  ac_event_to :: "management_audit_event \<Rightarrow> json"
  ac_event_from :: "json \<Rightarrow> management_audit_event option"
  ac_summary_to :: "audit_summary \<Rightarrow> json"
  ac_error_to :: "normalized_error_code \<Rightarrow> json"

section \<open>Enqueueing\<close>

definition session_exists :: "database \<Rightarrow> uuid \<Rightarrow> bool" where
  "session_exists d i \<longleftrightarrow> (\<exists>r \<in> set (db_sessions d). ses_id r = i)"

definition opt_ref :: "(uuid \<Rightarrow> bool) \<Rightarrow> uuid option \<Rightarrow> bool" where
  "opt_ref f i = (case i of None \<Rightarrow> True | Some j \<Rightarrow> f j)"

definition is_object :: "json \<Rightarrow> bool" where
  "is_object v = (case v of JObject _ \<Rightarrow> True | _ \<Rightarrow> False)"

text \<open>The primary key, the references and the check of the payload of \<open>management_audit_outbox\<close>.\<close>

definition outbox_ok :: "database \<Rightarrow> outbox_row \<Rightarrow> bool" where
  "outbox_ok d row \<longleftrightarrow>
     \<not> (\<exists>r \<in> set (db_outbox d). ob_id r = ob_id row) \<and> opt_ref (job_exists d) (ob_job_id row) \<and>
     opt_ref (session_exists d) (ob_session_id row) \<and> is_object (ob_payload row)"

definition outbox_row_of :: "audit_codec \<Rightarrow> uuid \<Rightarrow> nat \<Rightarrow> management_audit_event \<Rightarrow> outbox_row" where
  "outbox_row_of ac i now ev =
     \<lparr>ob_id = i, ob_aggregate_type = aggregate_str (ma_aggregate_type ev), ob_aggregate_id = ma_aggregate_id ev,
      ob_job_id = ma_job_id ev, ob_session_id = ma_session_id ev, ob_actor = ma_actor ev,
      ob_payload = ac_event_to ac ev, ob_occurred = ma_occurred ev, ob_published = None, ob_next_attempt = now,
      ob_attempts = 0, ob_last_error = None, ob_created = now\<rparr>"

definition insert_outbox :: "env \<Rightarrow> audit_codec \<Rightarrow> uuid \<Rightarrow> management_audit_event \<Rightarrow> unit sq" where
  "insert_outbox env ac i ev =
     stmt env (\<lambda>t d. let row = outbox_row_of ac i (ev_now env t) ev in
       if outbox_ok d row then Inr ((), d\<lparr>db_outbox := db_outbox d @ [row]\<rparr>) else Inl DbError)"

definition enqueue :: "env \<Rightarrow> audit_codec \<Rightarrow> management_audit_event \<Rightarrow> uuid sq" where
  "enqueue env ac ev =
     sq_bind (fresh_uuid env) (\<lambda>i. sq_bind (insert_outbox env ac i ev) (\<lambda>_. sq_return i))"

record outbox_health_report =
  oh_pending :: nat
  oh_oldest_pending :: "nat option"
  oh_next_retry :: "nat option"
  oh_exhausted :: nat

definition outbox_max_attempts :: int where
  "outbox_max_attempts = 10"

definition least :: "nat list \<Rightarrow> nat option" where
  "least xs = (if xs = [] then None else Some (foldl min (hd xs) (tl xs)))"

definition outbox_health :: "env \<Rightarrow> outbox_health_report sq" where
  "outbox_health env =
     stmt env (\<lambda>_ d.
       let pending = filter (\<lambda>r. ob_published r = None) (db_outbox d) in
       Inr (\<lparr>oh_pending = length pending, oh_oldest_pending = least (map ob_created pending),
             oh_next_retry = least (map ob_next_attempt (filter (\<lambda>r. ob_attempts r > 0) pending)),
             oh_exhausted = length (filter (\<lambda>r. ob_attempts r \<ge> outbox_max_attempts) pending)\<rparr>, d))"

section \<open>Publishing\<close>

text \<open>\<open>ORDER BY next_attempt_at, created_at \<dots> LIMIT 1\<close> among the rows that are due.\<close>

definition due_row :: "nat \<Rightarrow> database \<Rightarrow> outbox_row option" where
  "due_row now d =
     (case sort_key ob_next_attempt (sort_key ob_created
             (filter (\<lambda>r. ob_published r = None \<and> ob_next_attempt r \<le> now) (db_outbox d))) of
        [] \<Rightarrow> None
      | r # _ \<Rightarrow> Some r)"

definition audit_row_of :: "audit_codec \<Rightarrow> uuid \<Rightarrow> uuid \<Rightarrow> management_audit_event \<Rightarrow> audit_row" where
  "audit_row_of ac i ob ev =
     \<lparr>ar_id = i, ar_outbox_id = Some ob, ar_job_id = ma_job_id ev, ar_session_id = ma_session_id ev,
      ar_aggregate_type = aggregate_str (ma_aggregate_type ev), ar_aggregate_id = ma_aggregate_id ev,
      ar_actor = ma_actor ev, ar_event_type = event_type_str (ma_event_type ev), ar_outcome = outcome_str (ma_outcome ev),
      ar_summary = ac_summary_to ac (ma_summary ev), ar_error = map_option (ac_error_to ac) (ma_error ev),
      ar_occurred = ma_occurred ev\<rparr>"

text \<open>The keys, references and checks of \<open>management_audit_events\<close>.\<close>

definition audit_ok :: "database \<Rightarrow> audit_row \<Rightarrow> bool" where
  "audit_ok d row \<longleftrightarrow>
     \<not> (\<exists>r \<in> set (db_audit d). ar_id r = ar_id row) \<and> opt_ref (job_exists d) (ar_job_id row) \<and>
     opt_ref (session_exists d) (ar_session_id row) \<and>
     opt_ref (\<lambda>i. \<exists>r \<in> set (db_outbox d). ob_id r = i) (ar_outbox_id row) \<and> is_object (ar_summary row) \<and>
     (case ar_error row of None \<Rightarrow> True | Some e \<Rightarrow> is_object e)"

text \<open>\<open>INSERT \<dots> ON CONFLICT (outbox_id) DO NOTHING\<close>.\<close>

definition insert_audit :: "env \<Rightarrow> audit_row \<Rightarrow> unit sq" where
  "insert_audit env row =
     stmt env (\<lambda>_ d.
       if \<exists>r \<in> set (db_audit d). ar_outbox_id r = ar_outbox_id row \<and> ar_outbox_id row \<noteq> None then Inr ((), d)
       else if audit_ok d row then Inr ((), d\<lparr>db_audit := db_audit d @ [row]\<rparr>)
       else Inl DbError)"

definition update_outbox :: "env \<Rightarrow> (outbox_row \<Rightarrow> bool) \<Rightarrow> (nat \<Rightarrow> outbox_row \<Rightarrow> outbox_row) \<Rightarrow> nat sq" where
  "update_outbox env p f =
     stmt env (\<lambda>t d. let (n, rows) = update_rows p (f (ev_now env t)) (db_outbox d) in Inr (n, d\<lparr>db_outbox := rows\<rparr>))"

definition publish :: "env \<Rightarrow> audit_codec \<Rightarrow> outbox_row \<Rightarrow> unit sq" where
  "publish env ac row =
     sq_bind (sq_of (ok_or (ac_event_from ac (ob_payload row)) SerdeError)) (\<lambda>ev.
     sq_bind (fresh_uuid env) (\<lambda>i.
     sq_bind (insert_audit env (audit_row_of ac i (ob_id row) ev)) (\<lambda>_.
     sq_bind (update_outbox env (\<lambda>r. ob_id r = ob_id row) (\<lambda>now r. r\<lparr>ob_published := Some now, ob_last_error := None\<rparr>)) (\<lambda>_.
     sq_return ()))))"

section \<open>Retries\<close>

text \<open>
  \<open>conflict\<close> says whether the database reported a serialization failure, the state \<open>40001\<close>, which
  an error of the model does not carry.
\<close>

definition normalize_failure_code :: "bool \<Rightarrow> state_error \<Rightarrow> normalized_error_code" where
  "normalize_failure_code conflict e =
     (case e of
        SerdeError \<Rightarrow> SerializationFailed
      | DbError \<Rightarrow> (if conflict then SerializationFailed else DatabaseUnavailable)
      | Bail _ \<Rightarrow> DispatcherUnavailable)"

definition error_code :: "normalized_error_code \<Rightarrow> string" where
  "error_code c =
     (case c of
        DatabaseUnavailable \<Rightarrow> ''database_unavailable''
      | DispatcherUnavailable \<Rightarrow> ''dispatcher_unavailable''
      | SerializationFailed \<Rightarrow> ''serialization_failed''
      | _ \<Rightarrow> ''unknown'')"

definition retry_base_seconds :: nat where
  "retry_base_seconds = 1"

definition retry_max_seconds :: nat where
  "retry_max_seconds = 300"

definition max_backoff_exponent :: nat where
  "max_backoff_exponent =
     (case while_option (\<lambda>(seconds, _). seconds < retry_max_seconds) (\<lambda>(seconds, e). (seconds * 2, Suc e))
             (retry_base_seconds, 0) of
        Some (_, e) \<Rightarrow> e
      | None \<Rightarrow> 0)"

definition backoff_seconds :: "int \<Rightarrow> nat" where
  "backoff_seconds attempts = min (retry_base_seconds * 2 ^ min (nat attempts) max_backoff_exponent) retry_max_seconds"

definition record_failure :: "env \<Rightarrow> uuid \<Rightarrow> normalized_error_code \<Rightarrow> unit sq" where
  "record_failure env i code =
     sq_bind
       (update_outbox env (\<lambda>r. ob_id r = i \<and> ob_published r = None)
          (\<lambda>now r. r\<lparr>ob_attempts := ob_attempts r + 1, ob_last_error := Some (error_code code),
                     ob_next_attempt := now + 1000 * backoff_seconds (ob_attempts r)\<rparr>))
       (\<lambda>_. sq_return ())"

text \<open>A failed publication ends its transaction without a commit, which the rollback then confirms.\<close>

definition publish_due :: "env \<Rightarrow> audit_codec \<Rightarrow> ((outbox_row \<times> state_error option) option \<times> bool) sq" where
  "publish_due env ac =
     sq_bind (stmt env (\<lambda>t d. Inr (due_row (ev_now env t) d, d))) (\<lambda>row.
       case row of
         None \<Rightarrow> sq_return (None, True)
       | Some r \<Rightarrow>
           (\<lambda>s. case publish env ac r s of
                  (Inr _, s') \<Rightarrow> (Inr (Some (r, None), True), s')
                | (Inl e, s') \<Rightarrow> (Inr (Some (r, Some e), False), s')))"

definition dispatch_one :: "env \<Rightarrow> audit_codec \<Rightarrow> bool \<Rightarrow> bool option sq" where
  "dispatch_one env ac conflict =
     sq_bind (sq_tx env (publish_due env ac)) (\<lambda>result.
       case result of
         None \<Rightarrow> sq_return None
       | Some (r, None) \<Rightarrow> sq_return (Some True)
       | Some (r, Some e) \<Rightarrow>
           sq_bind (stmt env (\<lambda>_ d. Inr ((), d))) (\<lambda>_.
           sq_bind (record_failure env (ob_id r) (normalize_failure_code conflict e)) (\<lambda>_.
           sq_return (Some False))))"

fun dispatch_loop :: "env \<Rightarrow> audit_codec \<Rightarrow> bool \<Rightarrow> nat \<Rightarrow> nat \<Rightarrow> nat sq" where
  "dispatch_loop env ac conflict 0 published = sq_return published"
| "dispatch_loop env ac conflict (Suc n) published =
     sq_bind (dispatch_one env ac conflict) (\<lambda>result.
       case result of
         Some True \<Rightarrow> dispatch_loop env ac conflict n (Suc published)
       | Some False \<Rightarrow> dispatch_loop env ac conflict n published
       | None \<Rightarrow> sq_return published)"

definition dispatch_batch_size :: int where
  "dispatch_batch_size = 50"

definition dispatch_due :: "env \<Rightarrow> audit_codec \<Rightarrow> bool \<Rightarrow> int \<Rightarrow> nat sq" where
  "dispatch_due env ac conflict limit =
     dispatch_loop env ac conflict (nat (max 1 (min dispatch_batch_size limit))) 0"

end
