(* ===== verification/OutboxProps.thy ===== *)
theory OutboxProps
  imports Outbox StateProps
begin

text \<open>
  The properties of the outbox: under any interleaving of enqueues and dispatches, and any failures, an
  event is recorded in the audit log at most once, exactly when its outbox row is stamped as published,
  and as the event that was enqueued.
\<close>

section \<open>The invariant\<close>

definition published :: "database \<Rightarrow> uuid \<Rightarrow> bool" where
  "published d i \<longleftrightarrow> (\<exists>r \<in> set (db_outbox d). ob_id r = i \<and> ob_published r \<noteq> None)"

definition audits_of :: "database \<Rightarrow> uuid \<Rightarrow> audit_row list" where
  "audits_of d i = filter (\<lambda>a. ar_outbox_id a = Some i) (db_audit d)"

definition describes :: "audit_codec \<Rightarrow> outbox_row \<Rightarrow> audit_row \<Rightarrow> bool" where
  "describes ac r a \<longleftrightarrow> (\<exists>ev. ac_event_from ac (ob_payload r) = Some ev \<and> a = audit_row_of ac (ar_id a) (ob_id r) ev)"

definition outbox_inv :: "audit_codec \<Rightarrow> database \<Rightarrow> bool" where
  "outbox_inv ac d \<longleftrightarrow>
     distinct (map ob_id (db_outbox d)) \<and>
     (\<forall>i. length (audits_of d i) = (if published d i then 1 else 0)) \<and>
     (\<forall>r \<in> set (db_outbox d). \<forall>a \<in> set (audits_of d (ob_id r)). describes ac r a)"

lemma outbox_invD:
  assumes "outbox_inv ac d"
  shows "distinct (map ob_id (db_outbox d))"
    and "length (audits_of d i) = (if published d i then 1 else 0)"
    and "r \<in> set (db_outbox d) \<Longrightarrow> a \<in> set (audits_of d (ob_id r)) \<Longrightarrow> describes ac r a"
  using assms unfolding outbox_inv_def by blast+

lemma distinct_mapD: "distinct (map f xs) \<Longrightarrow> x \<in> set xs \<Longrightarrow> y \<in> set xs \<Longrightarrow> f x = f y \<Longrightarrow> x = y"
  by (simp add: distinct_map inj_on_def)

lemma bex_map: "(\<exists>y \<in> set (map g xs). P y) \<longleftrightarrow> (\<exists>x \<in> set xs. P (g x))"
  by simp

lemma ball_map: "(\<forall>y \<in> set (map g xs). P y) \<longleftrightarrow> (\<forall>x \<in> set xs. P (g x))"
  by simp

definition outbox_row_kept :: "outbox_row \<Rightarrow> outbox_row \<Rightarrow> bool" where
  "outbox_row_kept r r' \<longleftrightarrow>
     ob_id r' = ob_id r \<and> ob_payload r' = ob_payload r \<and> ob_aggregate_type r' = ob_aggregate_type r \<and>
     ob_aggregate_id r' = ob_aggregate_id r \<and> ob_job_id r' = ob_job_id r \<and> ob_session_id r' = ob_session_id r \<and>
     ob_actor r' = ob_actor r \<and> ob_occurred r' = ob_occurred r \<and> ob_created r' = ob_created r \<and>
     (ob_published r \<noteq> None \<longrightarrow> r' = r)"

definition outbox_kept :: "database \<Rightarrow> database \<Rightarrow> bool" where
  "outbox_kept d d' \<longleftrightarrow>
     (\<forall>r \<in> set (db_outbox d). \<exists>r' \<in> set (db_outbox d'). outbox_row_kept r r') \<and> (\<exists>xs. db_audit d' = db_audit d @ xs)"

definition outbox_rel :: "audit_codec \<Rightarrow> database \<Rightarrow> database \<Rightarrow> bool" where
  "outbox_rel ac d d' \<longleftrightarrow> (outbox_inv ac d \<longrightarrow> outbox_inv ac d' \<and> outbox_kept d d')"

lemma outbox_row_kept_refl: "outbox_row_kept r r"
  by (simp add: outbox_row_kept_def)

lemma outbox_row_kept_trans: "outbox_row_kept r r1 \<Longrightarrow> outbox_row_kept r1 r2 \<Longrightarrow> outbox_row_kept r r2"
  by (auto simp: outbox_row_kept_def)

lemma outbox_kept_refl: "outbox_kept d d"
  unfolding outbox_kept_def using outbox_row_kept_refl by auto

lemma outbox_kept_trans: "outbox_kept d d1 \<Longrightarrow> outbox_kept d1 d2 \<Longrightarrow> outbox_kept d d2"
  unfolding outbox_kept_def by (metis append.assoc outbox_row_kept_trans)

text \<open>A change that leaves the outbox and the audit log alone.\<close>

lemma outbox_rel_other:
  "db_outbox d' = db_outbox d \<Longrightarrow> db_audit d' = db_audit d \<Longrightarrow> outbox_rel ac d d'"
  by (auto simp: outbox_rel_def outbox_inv_def outbox_kept_def published_def audits_of_def intro: outbox_row_kept_refl)

text \<open>Every operation on the workflow's own tables does.\<close>

interpretation ob: db_relation "outbox_rel ac" for ac
proof unfold_locales
  show "outbox_rel ac d d" for d by (rule outbox_rel_other) simp_all
  show "outbox_rel ac d d2" if "outbox_rel ac d d1" "outbox_rel ac d1 d2" for d d1 d2
    using that unfolding outbox_rel_def by (blast intro: outbox_kept_trans)
qed (rule outbox_rel_other; simp)+

section \<open>Statements\<close>

lemma outbox_rel_insert:
  assumes "outbox_ok d row" and "ob_published row = None"
  shows "outbox_rel ac d (d\<lparr>db_outbox := db_outbox d @ [row]\<rparr>)" (is "outbox_rel ac d ?d")
  unfolding outbox_rel_def
proof
  assume inv: "outbox_inv ac d"
  have fresh: "ob_id row \<notin> ob_id ` set (db_outbox d)" using assms(1) by (auto simp: outbox_ok_def)
  have same: "audits_of ?d = audits_of d" "published ?d = published d"
    using assms(2) by (auto simp: audits_of_def published_def fun_eq_iff)
  have "\<not> published d (ob_id row)" using fresh unfolding published_def by (metis imageI)
  then have none: "audits_of d (ob_id row) = []" using outbox_invD(2) [OF inv, of "ob_id row"] by simp
  have "outbox_inv ac ?d"
    using inv fresh none unfolding outbox_inv_def same by auto
  moreover have "outbox_kept d ?d" by (auto simp: outbox_kept_def intro: outbox_row_kept_refl)
  ultimately show "outbox_inv ac ?d \<and> outbox_kept d ?d" ..
qed

lemma keeps_insert_outbox: "ob.keeps ac (insert_outbox env ac' i ev)"
  unfolding insert_outbox_def
  by (rule ob.keeps_stmt) (auto simp: Let_def outbox_row_of_def intro!: outbox_rel_insert split: if_splits)

lemma keeps_fresh: "ob.keeps ac (fresh_uuid env)"
  by (simp add: ob.keeps_def fresh_uuid_def ob.rel_refl)

lemma outbox_kept_by_enqueue: "ob.keeps ac (enqueue env ac' ev)"
  unfolding enqueue_def by (intro ob.keeps_bind keeps_fresh keeps_insert_outbox ob.keeps_return)

text \<open>Changing rows that are not published, without publishing them.\<close>

lemma outbox_rel_retry:
  assumes "\<And>r. p r \<Longrightarrow> ob_published r = None" and "\<And>r. p r \<Longrightarrow> ob_published (f r) = None"
    and "\<And>r. p r \<Longrightarrow> outbox_row_kept r (f r)"
  shows "outbox_rel ac d (d\<lparr>db_outbox := map (\<lambda>r. if p r then f r else r) (db_outbox d)\<rparr>)" (is "outbox_rel ac d ?d")
  unfolding outbox_rel_def
proof
  assume inv: "outbox_inv ac d"
  let ?g = "\<lambda>r. if p r then f r else r"
  have g: "outbox_row_kept r (?g r)" for r using assms(3) outbox_row_kept_refl by simp
  then have ids: "ob_id (?g r) = ob_id r" "ob_payload (?g r) = ob_payload r" for r
    unfolding outbox_row_kept_def by blast+
  have pub: "(ob_published (?g r) \<noteq> None) = (ob_published r \<noteq> None)" for r using assms(1,2) by auto
  have "map ob_id (map ?g (db_outbox d)) = map ob_id (db_outbox d)" using ids by (simp add: comp_def)
  moreover have "audits_of ?d = audits_of d" by (simp add: audits_of_def fun_eq_iff)
  moreover have "published ?d = published d"
  proof
    have rows: "db_outbox ?d = map ?g (db_outbox d)" by simp
    show "published ?d i = published d i" for i unfolding published_def rows bex_map using ids pub by presburger
  qed
  moreover have "describes ac (?g r) = describes ac r" for r by (simp only: describes_def ids fun_eq_iff) blast
  moreover have "\<forall>x \<in> set (map ?g (db_outbox d)). \<forall>a \<in> set (audits_of d (ob_id x)). describes ac x a"
    unfolding ball_map using outbox_invD(3) [OF inv] ids calculation(4) by simp
  moreover have "db_outbox ?d = map ?g (db_outbox d)" by simp
  ultimately have "outbox_inv ac ?d" using outbox_invD(1,2) [OF inv] unfolding outbox_inv_def by presburger
  moreover have "outbox_kept d ?d"
  proof -
    have rows: "db_outbox ?d = map ?g (db_outbox d)" by simp
    show ?thesis unfolding outbox_kept_def rows bex_map by (intro conjI ballI bexI) (rule g, assumption, simp)
  qed
  ultimately show "outbox_inv ac ?d \<and> outbox_kept d ?d" ..
qed

lemma keeps_record_failure: "ob.keeps ac (record_failure env i code)"
  unfolding record_failure_def update_outbox_def
  by (intro ob.keeps_bind ob.keeps_return ob.keeps_stmt)
    (auto simp: update_rows_def outbox_row_kept_def intro!: outbox_rel_retry)

section \<open>A publication\<close>

lemma update_outbox_Inr_iff:
  "update_outbox env p f s = (Inr n, s') \<longleftrightarrow>
     \<not> ev_fault env (st_tick s) \<and> n = length (filter p (db_outbox (st_db s))) \<and>
     s' = s\<lparr>st_tick := Suc (st_tick s), st_db := (st_db s)
       \<lparr>db_outbox := map (\<lambda>r. if p r then f (ev_now env (st_tick s)) r else r) (db_outbox (st_db s))\<rparr>\<rparr>"
  by (auto simp: update_outbox_def update_rows_def stmt_Inr_iff Let_def)

lemma fresh_uuid_Inr_iff:
  "fresh_uuid env s = (Inr i, s') \<longleftrightarrow> i = ev_uuid env (st_tick s) \<and> s' = s\<lparr>st_tick := Suc (st_tick s)\<rparr>"
  by (auto simp: fresh_uuid_def)

lemma publish_Inr:
  assumes "publish env ac r s = (Inr u, s')"
  obtains ev i now d where "ac_event_from ac (ob_payload r) = Some ev"
    and "d = st_db s \<and> audits_of d (ob_id r) \<noteq> [] \<or>
         d = (st_db s)\<lparr>db_audit := db_audit (st_db s) @ [audit_row_of ac i (ob_id r) ev]\<rparr>"
    and "st_db s' = d\<lparr>db_outbox := map (\<lambda>x. if ob_id x = ob_id r then x\<lparr>ob_published := Some now, ob_last_error := None\<rparr> else x)
                       (db_outbox d)\<rparr>"
proof -
  let ?s1 = "s\<lparr>st_tick := Suc (st_tick s)\<rparr>"
  have "\<exists>ev s2 n. ac_event_from ac (ob_payload r) = Some ev \<and>
      insert_audit env (audit_row_of ac (ev_uuid env (st_tick s)) (ob_id r) ev) ?s1 = (Inr (), s2) \<and>
      update_outbox env (\<lambda>x. ob_id x = ob_id r) (\<lambda>now x. x\<lparr>ob_published := Some now, ob_last_error := None\<rparr>) s2 = (Inr n, s')"
    using assms by (auto simp: publish_def sq_bind_Inr_iff ok_or_Inr_iff fresh_uuid_Inr_iff)
  then obtain ev s2 n where ev: "ac_event_from ac (ob_payload r) = Some ev"
    and a: "insert_audit env (audit_row_of ac (ev_uuid env (st_tick s)) (ob_id r) ev) ?s1 = (Inr (), s2)"
    and u: "update_outbox env (\<lambda>x. ob_id x = ob_id r) (\<lambda>now x. x\<lparr>ob_published := Some now, ob_last_error := None\<rparr>) s2 = (Inr n, s')"
    by blast
  have "st_db s2 = st_db s \<and> audits_of (st_db s2) (ob_id r) \<noteq> [] \<or>
         st_db s2 = (st_db s)\<lparr>db_audit := db_audit (st_db s) @ [audit_row_of ac (ev_uuid env (st_tick s)) (ob_id r) ev]\<rparr>"
    using a by (auto simp: insert_audit_def stmt_Inr_iff audit_row_of_def audits_of_def filter_empty_conv split: if_splits)
  then show ?thesis using that [OF ev, of "st_db s2" "ev_uuid env (st_tick s)"] u by (simp add: update_outbox_Inr_iff)
qed

lemma publish_rel:
  assumes pub1: "publish env ac r s = (Inr u, s')" and r: "r \<in> set (db_outbox (st_db s))" "ob_published r = None"
  shows "outbox_rel ac (st_db s) (st_db s')"
  unfolding outbox_rel_def
proof
  assume inv: "outbox_inv ac (st_db s)"
  have only: "x = r" if "x \<in> set (db_outbox (st_db s))" "ob_id x = ob_id r" for x
    using distinct_mapD [OF outbox_invD(1) [OF inv] that(1) r(1) that(2)] .
  then have "\<not> published (st_db s) (ob_id r)" using r by (auto simp: published_def)
  then have none: "audits_of (st_db s) (ob_id r) = []" using outbox_invD(2) [OF inv, of "ob_id r"] by simp
  obtain ev i now d where ev: "ac_event_from ac (ob_payload r) = Some ev"
    and d: "d = st_db s \<and> audits_of d (ob_id r) \<noteq> [] \<or>
         d = (st_db s)\<lparr>db_audit := db_audit (st_db s) @ [audit_row_of ac i (ob_id r) ev]\<rparr>"
    and s': "st_db s' = d\<lparr>db_outbox := map (\<lambda>x. if ob_id x = ob_id r then x\<lparr>ob_published := Some now, ob_last_error := None\<rparr> else x)
                       (db_outbox d)\<rparr>"
    using pub1 by (rule publish_Inr)
  let ?g = "\<lambda>x. if ob_id x = ob_id r then x\<lparr>ob_published := Some now, ob_last_error := None\<rparr> else x"
  have d: "d = (st_db s)\<lparr>db_audit := db_audit (st_db s) @ [audit_row_of ac i (ob_id r) ev]\<rparr>" using d none by blast
  have rows: "db_outbox (st_db s') = map ?g (db_outbox (st_db s))" using s' d by simp
  have audits: "audits_of (st_db s') j = audits_of (st_db s) j @ (if j = ob_id r then [audit_row_of ac i (ob_id r) ev] else [])" for j
    using s' d by (simp add: audits_of_def audit_row_of_def)
  have ids: "map ob_id (map ?g (db_outbox (st_db s))) = map ob_id (db_outbox (st_db s))" by simp
  have pub: "published (st_db s') j \<longleftrightarrow> j = ob_id r \<or> published (st_db s) j" for j
    unfolding published_def rows bex_map using r(1) by (cases "j = ob_id r") (auto cong: conj_cong)
  have desc: "describes ac (?g x) a" if "x \<in> set (db_outbox (st_db s))" "a \<in> set (audits_of (st_db s') (ob_id x))" for x a
  proof (cases "ob_id x = ob_id r")
    case True
    then have "x = r" using only that(1) by simp
    then show ?thesis using that(2) audits [of "ob_id x"] none ev by (auto simp: describes_def audit_row_of_def)
  next
    case False
    then show ?thesis using that audits [of "ob_id x"] outbox_invD(3) [OF inv that(1)] by simp
  qed
  have count: "length (audits_of (st_db s') j) = (if published (st_db s') j then 1 else 0)" for j
    using audits [of j] pub [of j] none outbox_invD(2) [OF inv, of j] by (cases "j = ob_id r") simp_all
  have "outbox_inv ac (st_db s')"
    unfolding outbox_inv_def rows
  proof (intro conjI allI ballI)
    show "distinct (map ob_id (map ?g (db_outbox (st_db s))))" using outbox_invD(1) [OF inv] ids by argo
    show "length (audits_of (st_db s') j) = (if published (st_db s') j then 1 else 0)" for j by (rule count)
    fix y a
    assume "y \<in> set (map ?g (db_outbox (st_db s)))" and a: "a \<in> set (audits_of (st_db s') (ob_id y))"
    then obtain x where x: "x \<in> set (db_outbox (st_db s))" "y = ?g x" by auto
    then have "ob_id y = ob_id x" by simp
    then show "describes ac y a" using desc [OF x(1)] a x(2) by simp
  qed
  moreover have "outbox_kept (st_db s) (st_db s')"
    unfolding outbox_kept_def
  proof
    have "outbox_row_kept x (?g x)" if "x \<in> set (db_outbox (st_db s))" for x
      using only [OF that] r(2) by (auto simp: outbox_row_kept_def)
    then show "\<forall>x \<in> set (db_outbox (st_db s)). \<exists>x' \<in> set (db_outbox (st_db s')). outbox_row_kept x x'"
      unfolding rows set_map by blast
    show "\<exists>xs. db_audit (st_db s') = db_audit (st_db s) @ xs" using s' d by simp
  qed
  ultimately show "outbox_inv ac (st_db s') \<and> outbox_kept (st_db s) (st_db s')" ..
qed

lemma due_row_Some: "due_row now d = Some r \<Longrightarrow> r \<in> set (db_outbox d) \<and> ob_published r = None \<and> ob_next_attempt r \<le> now"
  unfolding due_row_def
proof -
  let ?xs = "filter (\<lambda>r. ob_published r = None \<and> ob_next_attempt r \<le> now) (db_outbox d)"
  assume "(case sort_key ob_next_attempt (sort_key ob_created ?xs) of [] \<Rightarrow> None | r # _ \<Rightarrow> Some r) = Some r"
  then obtain xs where xs: "sort_key ob_next_attempt (sort_key ob_created ?xs) = r # xs" by (auto split: list.splits)
  have "r \<in> set (sort_key ob_next_attempt (sort_key ob_created ?xs))" unfolding xs by simp
  then show ?thesis by simp
qed

lemma publish_due_Inr:
  assumes "publish_due env ac s = (Inr (x, True), s')"
  shows "outbox_rel ac (st_db s) (st_db s')"
  using assms
  by (auto simp: publish_due_def sq_bind_Inr_iff stmt_Inr_iff ob.rel_refl split: option.splits sum.splits prod.splits
      dest!: due_row_Some publish_rel)

lemma publish_tx_rel: "ob.keeps ac (sq_tx env (publish_due env ac))"
  unfolding ob.keeps_def
proof
  fix s
  obtain x s' where m: "sq_tx env (publish_due env ac) s = (x, s')" by (cases "sq_tx env (publish_due env ac) s")
  show "outbox_rel ac (st_db s) (st_db (snd (sq_tx env (publish_due env ac) s)))"
  proof (cases x)
    case (Inl e)
    then show ?thesis using m tx_error ob.rel_refl by (metis snd_conv)
  next
    case (Inr y)
    then obtain s1 commit where "publish_due env ac (s\<lparr>st_tick := Suc (st_tick s)\<rparr>) = (Inr (y, commit), s1)"
      and "st_db s' = (if commit then st_db s1 else st_db s)"
      using m by (auto elim: tx_Inr)
    then show ?thesis using m publish_due_Inr [of env ac "s\<lparr>st_tick := Suc (st_tick s)\<rparr>" y s1]
      by (cases commit) (auto simp: ob.rel_refl)
  qed
qed

lemma keeps_dispatch_one: "ob.keeps ac (dispatch_one env ac conflict)"
  unfolding dispatch_one_def
  by (intro ob.keeps_bind publish_tx_rel)
    (auto intro!: ob.keeps_bind ob.keeps_return ob.keeps_select keeps_record_failure split: option.splits)

lemma keeps_dispatch_loop: "ob.keeps ac (dispatch_loop env ac conflict n k)"
  by (induction n arbitrary: k)
    (auto intro!: ob.keeps_bind ob.keeps_return keeps_dispatch_one split: option.splits bool.splits)

lemma keeps_dispatch: "ob.keeps ac (dispatch_due env ac conflict limit)"
  unfolding dispatch_due_def by (rule keeps_dispatch_loop)

section \<open>One dispatch\<close>

lemma backoff_bounds: "1 \<le> backoff_seconds n \<and> backoff_seconds n \<le> 300"
  by (simp add: backoff_seconds_def retry_base_seconds_def retry_max_seconds_def)

lemma publish_tx_cases:
  assumes "sq_tx env (publish_due env ac) s = (Inr x, s')"
  shows "case x of
      None \<Rightarrow> due_row (ev_now env (Suc (st_tick s))) (st_db s) = None \<and> st_db s' = st_db s
    | Some (r, None) \<Rightarrow> due_row (ev_now env (Suc (st_tick s))) (st_db s) = Some r \<and>
        (\<exists>s0 s1. st_db s0 = st_db s \<and> st_db s1 = st_db s' \<and> publish env ac r s0 = (Inr (), s1))
    | Some (r, Some e) \<Rightarrow> due_row (ev_now env (Suc (st_tick s))) (st_db s) = Some r \<and> st_db s' = st_db s"
proof -
  obtain s1 commit where run: "publish_due env ac (s\<lparr>st_tick := Suc (st_tick s)\<rparr>) = (Inr (x, commit), s1)"
    and db: "st_db s' = (if commit then st_db s1 else st_db s)"
    using assms by (rule tx_Inr)
  let ?s2 = "s\<lparr>st_tick := Suc (Suc (st_tick s))\<rparr>"
  show ?thesis
  proof (cases "due_row (ev_now env (Suc (st_tick s))) (st_db s)")
    case None
    then have "x = None" "st_db s1 = st_db s" using run by (auto simp: publish_due_def sq_bind_Inr_iff stmt_Inr_iff)
    then show ?thesis using None db by (cases commit) simp_all
  next
    case (Some r)
    then have p: "(case publish env ac r ?s2 of
          (Inr _, s') \<Rightarrow> (Inr (Some (r, None), True), s')
        | (Inl e, s') \<Rightarrow> (Inr (Some (r, Some e), False), s')) = ((Inr (x, commit), s1) :: (state_error + _) \<times> _)"
      using run by (auto simp: publish_due_def sq_bind_Inr_iff stmt_Inr_iff)
    obtain y s3 where y: "publish env ac r ?s2 = (y, s3)" by (cases "publish env ac r ?s2")
    show ?thesis
    proof (cases y)
      case (Inl e)
      then show ?thesis using p y db Some by auto
    next
      case (Inr u)
      then have x: "x = Some (r, None)" "commit" "s3 = s1" using p y by auto
      have "\<exists>s0 s1. st_db s0 = st_db s \<and> st_db s1 = st_db s' \<and> publish env ac r s0 = (Inr (), s1)"
        by (rule exI [of _ ?s2], rule exI [of _ s3]) (use y Inr db x in simp)
      then show ?thesis using x(1) Some by simp
    qed
  qed
qed

text \<open>
  One dispatch does what it reports: \<open>None\<close> when no row is due, leaving the database as it was; a
  publication when the due row is stamped; a failure when that row is still unpublished, the audit log is
  as it was, one more attempt is counted and the next is between one second and five minutes away.
\<close>
theorem dispatch_outcome:
  assumes "dispatch_one env ac conflict s = (Inr res, s')"
  shows "let due = due_row (ev_now env (Suc (st_tick s))) (st_db s) in
    case res of
      None \<Rightarrow> due = None \<and> st_db s' = st_db s
    | Some True \<Rightarrow> (\<exists>r. due = Some r \<and> (\<exists>r' \<in> set (db_outbox (st_db s')). ob_id r' = ob_id r \<and> ob_published r' \<noteq> None))
    | Some False \<Rightarrow> (\<exists>r now. due = Some r \<and> db_audit (st_db s') = db_audit (st_db s) \<and>
        (\<exists>r' \<in> set (db_outbox (st_db s')). ob_id r' = ob_id r \<and> ob_published r' = None \<and>
           ob_attempts r' = ob_attempts r + 1 \<and> now + 1000 \<le> ob_next_attempt r' \<and> ob_next_attempt r' \<le> now + 300000))"
proof -
  obtain x s1 where tx: "sq_tx env (publish_due env ac) s = (Inr x, s1)"
    using assms by (auto simp: dispatch_one_def sq_bind_Inr_iff)
  note cases = publish_tx_cases [OF tx]
  consider "x = None" | r where "x = Some (r, None)" | r e where "x = Some (r, Some e)"
    by (cases x) (auto, metis not_None_eq)
  then show ?thesis
  proof cases
    case 1
    then show ?thesis using assms tx cases by (auto simp: dispatch_one_def sq_bind_Inr_iff)
  next
    case (2 r)
    then have res: "res = Some True" "s' = s1" using assms tx by (auto simp: dispatch_one_def sq_bind_Inr_iff)
    obtain s0 s2 where due: "due_row (ev_now env (Suc (st_tick s))) (st_db s) = Some r" and db: "st_db s0 = st_db s" "st_db s2 = st_db s1"
      and p: "publish env ac r s0 = (Inr (), s2)" using cases 2 by auto
    have r: "r \<in> set (db_outbox (st_db s))" using due by (auto dest: due_row_Some)
    from p have "\<exists>r' \<in> set (db_outbox (st_db s2)). ob_id r' = ob_id r \<and> ob_published r' \<noteq> None"
    proof (rule publish_Inr)
      fix ev i now d
      assume d: "d = st_db s0 \<and> audits_of d (ob_id r) \<noteq> [] \<or>
         d = (st_db s0)\<lparr>db_audit := db_audit (st_db s0) @ [audit_row_of ac i (ob_id r) ev]\<rparr>"
        and s2: "st_db s2 = d\<lparr>db_outbox := map (\<lambda>x. if ob_id x = ob_id r then x\<lparr>ob_published := Some now, ob_last_error := None\<rparr> else x)
                       (db_outbox d)\<rparr>"
      have rows: "db_outbox (st_db s2) = map (\<lambda>x. if ob_id x = ob_id r then x\<lparr>ob_published := Some now, ob_last_error := None\<rparr> else x)
                       (db_outbox (st_db s))" using d s2 db by auto
      show ?thesis unfolding rows bex_map using r by (auto intro!: bexI [of _ r])
    qed
    then show ?thesis using res due db by simp
  next
    case (3 r e)
    have due: "due_row (ev_now env (Suc (st_tick s))) (st_db s) = Some r" and db: "st_db s1 = st_db s" using cases 3 by auto
    define now where "now = ev_now env (Suc (st_tick s1))"
    have res: "res = Some False" and audit: "db_audit (st_db s') = db_audit (st_db s)"
      and rows: "db_outbox (st_db s') =
        map (\<lambda>x. if ob_id x = ob_id r \<and> ob_published x = None
             then x\<lparr>ob_attempts := ob_attempts x + 1, ob_last_error := Some (error_code (normalize_failure_code conflict e)),
                    ob_next_attempt := now + 1000 * backoff_seconds (ob_attempts x)\<rparr> else x) (db_outbox (st_db s))"
      using assms tx 3 db
      by (auto simp: now_def dispatch_one_def record_failure_def sq_bind_Inr_iff stmt_Inr_iff update_outbox_Inr_iff)
    have r: "r \<in> set (db_outbox (st_db s))" "ob_published r = None" using due by (auto dest: due_row_Some)
    have "\<exists>r' \<in> set (db_outbox (st_db s')). ob_id r' = ob_id r \<and> ob_published r' = None \<and>
        ob_attempts r' = ob_attempts r + 1 \<and> now + 1000 \<le> ob_next_attempt r' \<and> ob_next_attempt r' \<le> now + 300000"
      unfolding rows bex_map using r backoff_bounds [of "ob_attempts r"] by (intro bexI [of _ r]) simp_all
    then show ?thesis using res due audit by auto
  qed
qed

text \<open>An event of the sample job, enqueued.\<close>

definition sample_event :: management_audit_event where
  "sample_event =
     \<lparr>ma_aggregate_type = ChatJobAggregate, ma_aggregate_id = 5, ma_job_id = Some 5, ma_session_id = None,
      ma_actor = Some 11, ma_event_type = ChatJobCreated, ma_outcome = OutcomeSuccess, ma_summary = JobCreatedSummary,
      ma_error = None, ma_occurred = 0\<rparr>"

definition sample_audit_codec :: audit_codec where
  "sample_audit_codec =
     \<lparr>ac_event_to = (\<lambda>_. JObject []), ac_event_from = (\<lambda>_. Some sample_event), ac_summary_to = (\<lambda>_. JObject []),
      ac_error_to = (\<lambda>_. JNull)\<rparr>"

definition sample_enqueued :: store where
  "sample_enqueued = snd (enqueue sample_env sample_audit_codec sample_event sample_store)"

lemma dispatch_outcome_witness:
  "\<exists>r' \<in> set (db_outbox (st_db (snd (dispatch_one sample_env sample_audit_codec False sample_enqueued)))).
     ob_id r' = 100 \<and> ob_published r' \<noteq> None"
proof -
  let ?s' = "snd (dispatch_one sample_env sample_audit_codec False sample_enqueued)"
  have "fst (dispatch_one sample_env sample_audit_codec False sample_enqueued) = Inr (Some True)" by code_simp
  then have run: "dispatch_one sample_env sample_audit_codec False sample_enqueued = (Inr (Some True), ?s')"
    by (simp add: prod_eq_iff)
  have "map_option ob_id (due_row (ev_now sample_env (Suc (st_tick sample_enqueued))) (st_db sample_enqueued)) = Some 100" by code_simp
  then show ?thesis using dispatch_outcome [OF run] by (auto simp: Let_def)
qed

end
