(* ===== verification/Conversation.thy ===== *)
theory Conversation
  imports Outbox
begin

text \<open>
  The conversations: the sessions of \<open>conversation/repository/session.rs\<close> and the messages of
  \<open>conversation/repository/message.rs\<close>.  The JSON parser is a parameter.
\<close>

section \<open>Sessions\<close>

text \<open>The owner sees a session until it is archived; an administrator also those without an owner.\<close>

definition session_visible :: "uuid \<Rightarrow> uuid \<Rightarrow> bool \<Rightarrow> session_row \<Rightarrow> bool" where
  "session_visible i user include_legacy r \<longleftrightarrow>
     ses_id r = i \<and> (ses_user_id r = Some user \<or> (include_legacy \<and> ses_user_id r = None)) \<and> ses_archived r = None"

text \<open>The keys, references and checks of \<open>chat_sessions\<close>.\<close>

definition session_ok :: "database \<Rightarrow> session_row \<Rightarrow> bool" where
  "session_ok d row \<longleftrightarrow>
     \<not> session_exists d (ses_id row) \<and> opt_ref (\<lambda>u. u \<in> set (db_users d)) (ses_user_id row) \<and>
     ses_status row \<in> set [''active'', ''archived'', ''expired''] \<and>
     (ses_user_id row \<noteq> None \<or> ses_api_key_id row \<noteq> None)"

definition session_create :: "env \<Rightarrow> uuid \<Rightarrow> string option \<Rightarrow> session_row sq" where
  "session_create env user title =
     sq_bind (fresh_uuid env) (\<lambda>i.
       stmt env (\<lambda>t d.
         let row = \<lparr>ses_id = i, ses_user_id = Some user, ses_api_key_id = None, ses_title = title, ses_status = ''active'',
                    ses_context = JObject [], ses_created = ev_now env t, ses_updated = ev_now env t, ses_expires = None,
                    ses_archived = None\<rparr> in
         if session_ok d row then Inr (row, d\<lparr>db_sessions := db_sessions d @ [row]\<rparr>) else Inl DbError))"

definition session_list_for_user :: "env \<Rightarrow> uuid \<Rightarrow> bool \<Rightarrow> session_row list sq" where
  "session_list_for_user env user include_legacy =
     stmt env (\<lambda>_ d. Inr (sort_key (\<lambda>r. - int (ses_updated r)) (sort_key (\<lambda>r. - int (ses_created r))
       (filter (\<lambda>r. session_visible (ses_id r) user include_legacy r) (db_sessions d))), d))"

definition session_get_for_user :: "env \<Rightarrow> uuid \<Rightarrow> uuid \<Rightarrow> bool \<Rightarrow> session_row option sq" where
  "session_get_for_user env i user include_legacy =
     stmt env (\<lambda>_ d. Inr (find (session_visible i user include_legacy) (db_sessions d), d))"

text \<open>\<open>UPDATE \<dots> RETURNING\<close>: the rows as they are after the update.\<close>

definition update_sessions ::
  "env \<Rightarrow> (session_row \<Rightarrow> bool) \<Rightarrow> (nat \<Rightarrow> session_row \<Rightarrow> session_row) \<Rightarrow> session_row option sq" where
  "update_sessions env p f =
     stmt env (\<lambda>t d. Inr (map_option (f (ev_now env t)) (find p (db_sessions d)),
       d\<lparr>db_sessions := snd (update_rows p (f (ev_now env t)) (db_sessions d))\<rparr>))"

definition rename_for_user :: "env \<Rightarrow> uuid \<Rightarrow> uuid \<Rightarrow> bool \<Rightarrow> string \<Rightarrow> session_row option sq" where
  "rename_for_user env i user include_legacy title =
     update_sessions env (session_visible i user include_legacy) (\<lambda>now r. r\<lparr>ses_title := Some title, ses_updated := now\<rparr>)"

definition session_event :: "uuid \<Rightarrow> uuid \<Rightarrow> nat \<Rightarrow> management_audit_event" where
  "session_event i user now =
     \<lparr>ma_aggregate_type = ChatSessionAggregate, ma_aggregate_id = i, ma_job_id = None, ma_session_id = Some i,
      ma_actor = Some user, ma_event_type = ChatSessionArchived, ma_outcome = OutcomeSuccess,
      ma_summary = SessionArchivedSummary, ma_error = None, ma_occurred = now\<rparr>"

definition archive_body :: "env \<Rightarrow> audit_codec \<Rightarrow> uuid \<Rightarrow> uuid \<Rightarrow> bool \<Rightarrow> (uuid option \<times> bool) sq" where
  "archive_body env ac i user include_legacy =
     sq_bind
       (update_sessions env (session_visible i user include_legacy)
          (\<lambda>now r. r\<lparr>ses_status := ''archived'', ses_archived := Some now, ses_updated := now\<rparr>))
       (\<lambda>archived.
         case archived of
           None \<Rightarrow> sq_return (None, True)
         | Some r \<Rightarrow>
             sq_bind (clock env) (\<lambda>now.
             sq_bind (enqueue env ac (session_event (ses_id r) user now)) (\<lambda>_. sq_return (Some (ses_id r), True))))"

definition archive_for_user :: "env \<Rightarrow> audit_codec \<Rightarrow> uuid \<Rightarrow> uuid \<Rightarrow> bool \<Rightarrow> uuid option sq" where
  "archive_for_user env ac i user include_legacy = sq_tx env (archive_body env ac i user include_legacy)"

section \<open>Messages\<close>

definition message_roles :: "string list" where
  "message_roles = [''user'', ''assistant'', ''system'', ''tool'', ''clarification'']"

text \<open>The keys, references and checks of \<open>chat_messages\<close>.\<close>

definition message_ok :: "database \<Rightarrow> message_row \<Rightarrow> bool" where
  "message_ok d row \<longleftrightarrow>
     \<not> (\<exists>r \<in> set (db_messages d). msg_id r = msg_id row) \<and> session_exists d (msg_session_id row) \<and>
     opt_ref (job_exists d) (msg_job_id row) \<and> msg_role row \<in> set message_roles"

definition insert_message :: "env \<Rightarrow> uuid \<Rightarrow> uuid \<Rightarrow> uuid \<Rightarrow> string \<Rightarrow> string \<Rightarrow> json \<Rightarrow> message_row sq" where
  "insert_message env i session job role content metadata =
     stmt env (\<lambda>t d.
       let row = \<lparr>msg_id = i, msg_session_id = session, msg_job_id = Some job, msg_role = role, msg_content = content,
                  msg_metadata = metadata, msg_created = ev_now env t\<rparr> in
       if message_ok d row then Inr (row, d\<lparr>db_messages := db_messages d @ [row]\<rparr>) else Inl DbError)"

definition message_list_for_user :: "env \<Rightarrow> uuid \<Rightarrow> uuid \<Rightarrow> bool \<Rightarrow> message_row list option sq" where
  "message_list_for_user env session user include_legacy =
     sq_bind (stmt env (\<lambda>_ d. Inr (list_ex (session_visible session user include_legacy) (db_sessions d), d))) (\<lambda>visible.
       if \<not> visible then sq_return None
       else sq_bind
         (stmt env (\<lambda>_ d. Inr (sort_key msg_created
            (filter (\<lambda>m. msg_session_id m = session \<and> list_ex (\<lambda>r. ses_id r = session \<and> ses_archived r = None) (db_sessions d))
               (db_messages d)), d)))
         (\<lambda>rows. sq_return (Some rows)))"

text \<open>A negative \<open>LIMIT\<close> is an error of the database.\<close>

definition list_recent_for_session :: "env \<Rightarrow> uuid \<Rightarrow> int \<Rightarrow> message_row list sq" where
  "list_recent_for_session env session limit =
     sq_bind
       (stmt env (\<lambda>_ d.
          if limit < 0 then Inl DbError
          else Inr (take (nat limit) (sort_key (\<lambda>m. - int (msg_created m))
                 (filter (\<lambda>m. msg_session_id m = session) (db_messages d))), d)))
       (\<lambda>rows. sq_return (rev rows))"

definition insert_assistant_message_in_transaction :: "env \<Rightarrow> uuid \<Rightarrow> uuid \<Rightarrow> string \<Rightarrow> json \<Rightarrow> message_row sq" where
  "insert_assistant_message_in_transaction env session job content metadata =
     sq_bind (fresh_uuid env) (\<lambda>i. insert_message env i session job ''assistant'' content metadata)"

definition insert_assistant_message :: "env \<Rightarrow> uuid \<Rightarrow> uuid \<Rightarrow> string \<Rightarrow> json \<Rightarrow> message_row sq" where
  "insert_assistant_message env session job content metadata =
     sq_tx env (sq_bind (insert_assistant_message_in_transaction env session job content metadata) (\<lambda>m. sq_return (m, True)))"

definition normalize_report_response :: "(string \<Rightarrow> json option) \<Rightarrow> string \<Rightarrow> string \<times> json" where
  "normalize_report_response parse content =
     (case parse content of
        None \<Rightarrow> (content, obj_of [(''type'', JString ''report_response'')])
      | Some payload \<Rightarrow>
          (case Option.bind (json_get payload ''message'') as_str of
             None \<Rightarrow> (content, obj_of [(''type'', JString ''report_response'')])
           | Some message \<Rightarrow> (message, obj_of [(''type'', JString ''report_response''), (''report_response'', payload)])))"

definition insert_assistant_response :: "env \<Rightarrow> (string \<Rightarrow> json option) \<Rightarrow> uuid \<Rightarrow> uuid \<Rightarrow> string \<Rightarrow> message_row sq" where
  "insert_assistant_response env parse session job content =
     (let (text, metadata) = normalize_report_response parse content in
      insert_assistant_message env session job text metadata)"

end
