(* ===== verification/Jobs.thy ===== *)
theory Jobs
  imports Conversation State Facts
begin

text \<open>
  The jobs: \<open>job/repository/mod.rs\<close>.  Every operation that changes the state of a job in a way a user can
  see does so in one transaction with its audit event.  The audit timeline of
  \<open>list_audit_events_for_user\<close>, a table of its own, is not modelled.
\<close>

section \<open>Data\<close>

record created_chat_job =
  cr_session_id :: uuid
  cr_job_id :: uuid
  cr_user_message_id :: uuid
  cr_status :: string
  cr_step :: string

record submission =
  sb_clarification_id :: "uuid option"
  sb_clarification_revision :: "32 word option"
  sb_selected_option_id :: "string option"
  sb_source_message :: string
  sb_display_message :: string
  sb_answers :: "(string \<times> json) list"
  sb_constraint_patch :: constraint_patch

datatype persist_outcome = Inserted message_row | PersistNotFound | PersistNotActive | PersistStale

datatype response_terminal = TerminalCompleted audit_outcome | TerminalFailed json

record execution_audit_context =
  ex_capability_id :: safe_identifier
  ex_query_id :: safe_identifier
  ex_row_count :: "64 word option"
  ex_allowed :: bool
  ex_truncated :: bool
  ex_timed_out :: bool

definition job_event ::
  "uuid \<Rightarrow> uuid \<Rightarrow> uuid \<Rightarrow> audit_event_type \<Rightarrow> audit_outcome \<Rightarrow> audit_summary \<Rightarrow> normalized_error_code option \<Rightarrow> nat \<Rightarrow>
   management_audit_event" where
  "job_event session job actor typ result summary e now =
     \<lparr>ma_aggregate_type = ChatJobAggregate, ma_aggregate_id = job, ma_job_id = Some job, ma_session_id = Some session,
      ma_actor = Some actor, ma_event_type = typ, ma_outcome = result, ma_summary = summary, ma_error = e,
      ma_occurred = now\<rparr>"

text \<open>\<open>enqueue\<close> of an event that happens now.\<close>

definition enqueue_now :: "env \<Rightarrow> audit_codec \<Rightarrow> (nat \<Rightarrow> management_audit_event) \<Rightarrow> uuid sq" where
  "enqueue_now env ac mk = sq_bind (clock env) (\<lambda>now. enqueue env ac (mk now))"

section \<open>Creating a job\<close>

text \<open>The keys, references and checks of \<open>chat_jobs\<close>.\<close>

definition job_ok :: "database \<Rightarrow> job_row \<Rightarrow> bool" where
  "job_ok d row \<longleftrightarrow>
     \<not> job_exists d (job_id row) \<and> session_exists d (job_session_id row) \<and>
     opt_ref (\<lambda>u. u \<in> set (db_users d)) (job_user_id row) \<and>
     opt_ref (\<lambda>m. \<exists>r \<in> set (db_messages d). msg_id r = m) (job_user_message_id row) \<and>
     (job_user_id row \<noteq> None \<or> job_api_key_id row \<noteq> None) \<and> job_wf row"

definition new_job_row :: "uuid \<Rightarrow> uuid \<Rightarrow> uuid \<Rightarrow> string \<Rightarrow> json \<Rightarrow> int \<Rightarrow> nat \<Rightarrow> job_row" where
  "new_job_row i session user message state expires now =
     \<lparr>job_id = i, job_session_id = session, job_user_id = Some user, job_api_key_id = None, job_user_message_id = None,
      job_status = ''queued'', job_step = ''queued'', job_resume_step = None, job_message = message, job_state = state,
      job_state_revision = 0, job_result = None, job_error = None, job_created = now, job_updated = now,
      job_expires = expires, job_completed = None, job_failed = None, job_cancelled = None, job_workflow_id = None,
      job_contract_version = None, job_revision = 0, job_current_node = None\<rparr>"

definition insert_job :: "env \<Rightarrow> uuid \<Rightarrow> uuid \<Rightarrow> uuid \<Rightarrow> string \<Rightarrow> json \<Rightarrow> int \<Rightarrow> unit sq" where
  "insert_job env i session user message state expires =
     stmt env (\<lambda>t d. let row = new_job_row i session user message state expires (ev_now env t) in
       if job_ok d row then Inr ((), d\<lparr>db_jobs := db_jobs d @ [row]\<rparr>) else Inl DbError)"

text \<open>Seven days, in milliseconds.\<close>

definition job_lifetime :: int where
  "job_lifetime = 7 * 24 * 3600 * 1000"

definition initial_state :: "json \<Rightarrow> string \<Rightarrow> json \<Rightarrow> json \<Rightarrow> json \<Rightarrow> json" where
  "initial_state client message classification plan policy =
     obj_of [(''client'', client), (''input'', obj_of [(''message'', JString message)]),
             (''classification'', classification), (''execution_plan'', plan), (''policy_decision'', policy)]"

definition create_body ::
  "env \<Rightarrow> audit_codec \<Rightarrow> uuid \<Rightarrow> uuid \<Rightarrow> uuid \<Rightarrow> uuid \<Rightarrow> string \<Rightarrow> json \<Rightarrow> int \<Rightarrow> (unit \<times> bool) sq" where
  "create_body env ac user session message_id job message state expires =
     sq_bind (insert_job env job session user message state expires) (\<lambda>_.
     sq_bind (insert_message env message_id session job ''user'' message (JObject [])) (\<lambda>_.
     sq_bind (update_jobs env (\<lambda>r. job_id r = job) (\<lambda>_ r. r\<lparr>job_user_message_id := Some message_id\<rparr>)) (\<lambda>_.
     sq_bind (enqueue_now env ac (job_event session job user ChatJobCreated OutcomeSuccess JobCreatedSummary None)) (\<lambda>_.
     sq_return ((), True)))))"

definition job_create ::
  "env \<Rightarrow> audit_codec \<Rightarrow> uuid \<Rightarrow> uuid option \<Rightarrow> string \<Rightarrow> json \<Rightarrow> json \<Rightarrow> json \<Rightarrow> json \<Rightarrow> created_chat_job option sq" where
  "job_create env ac user session message client classification plan policy =
     sq_bind
       (case session of
          Some i \<Rightarrow> sq_bind (session_get_for_user env i user False) (\<lambda>r. sq_return (map_option (\<lambda>_. i) r))
        | None \<Rightarrow> sq_bind (session_create env user None) (\<lambda>r. sq_return (Some (ses_id r))))
       (\<lambda>found.
         case found of
           None \<Rightarrow> sq_return None
         | Some session_id \<Rightarrow>
             sq_bind (fresh_uuid env) (\<lambda>message_id.
             sq_bind (fresh_uuid env) (\<lambda>job.
             sq_bind (clock env) (\<lambda>now.
             sq_bind (sq_tx env (create_body env ac user session_id message_id job message
               (initial_state client message classification plan policy) (int now + job_lifetime))) (\<lambda>_.
             sq_return (Some \<lparr>cr_session_id = session_id, cr_job_id = job, cr_user_message_id = message_id,
                              cr_status = ''queued'', cr_step = ''queued''\<rparr>))))))"

section \<open>Reading\<close>

definition open_session :: "database \<Rightarrow> uuid \<Rightarrow> bool" where
  "open_session d i \<longleftrightarrow> list_ex (\<lambda>r. ses_id r = i \<and> ses_archived r = None) (db_sessions d)"

definition job_get_for_user :: "env \<Rightarrow> uuid \<Rightarrow> uuid \<Rightarrow> bool \<Rightarrow> job_row option sq" where
  "job_get_for_user env j user include_legacy =
     stmt env (\<lambda>_ d. Inr (find (\<lambda>r. job_id r = j \<and> (job_user_id r = Some user \<or> (include_legacy \<and> job_user_id r = None)) \<and>
       open_session d (job_session_id r)) (db_jobs d), d))"

definition job_get_internal_for_user :: "env \<Rightarrow> uuid \<Rightarrow> uuid \<Rightarrow> job_row option sq" where
  "job_get_internal_for_user env j user =
     stmt env (\<lambda>_ d. Inr (find (\<lambda>r. job_id r = j \<and> job_user_id r = Some user \<and> open_session d (job_session_id r))
       (db_jobs d), d))"

definition list_events_for_replay :: "env \<Rightarrow> uuid \<Rightarrow> uuid \<Rightarrow> bool \<Rightarrow> log_row list option sq" where
  "list_events_for_replay env j user include_legacy =
     sq_bind (job_get_for_user env j user include_legacy) (\<lambda>job.
       case job of
         None \<Rightarrow> sq_return None
       | Some _ \<Rightarrow>
           sq_bind (stmt env (\<lambda>_ d. Inr (sort_key log_created (sort_key log_id
               (filter (\<lambda>l. log_job_id l = j) (db_events d))), d)))
             (\<lambda>rows. sq_return (Some rows)))"

section \<open>Changes of a running job\<close>

definition wait_body :: "env \<Rightarrow> audit_codec \<Rightarrow> uuid \<Rightarrow> uuid \<Rightarrow> uuid \<Rightarrow> (unit \<times> bool) sq" where
  "wait_body env ac session j actor =
     sq_bind (update_jobs env (\<lambda>r. job_id r = j)
       (\<lambda>now r. r\<lparr>job_status := ''waiting_for_user_input'', job_step := ''waiting_for_user_input'', job_updated := now\<rparr>)) (\<lambda>_.
     sq_bind (enqueue_now env ac
       (job_event session j actor ChatClarificationRequested OutcomeClarification ClarificationRequestedSummary None)) (\<lambda>_.
     sq_return ((), True)))"

definition wait_for_user_input_and_record_clarification_requested :: "env \<Rightarrow> audit_codec \<Rightarrow> uuid \<Rightarrow> uuid \<Rightarrow> uuid \<Rightarrow> unit sq" where
  "wait_for_user_input_and_record_clarification_requested env ac session j actor =
     sq_tx env (wait_body env ac session j actor)"

definition update_plan_state :: "env \<Rightarrow> uuid \<Rightarrow> uuid \<Rightarrow> int \<Rightarrow> json \<Rightarrow> json \<Rightarrow> json \<Rightarrow> unit sq" where
  "update_plan_state env j user expected classification plan policy =
     sq_bind
       (update_jobs env (\<lambda>r. job_id r = j \<and> job_user_id r = Some user \<and> job_state_revision r = expected)
          (\<lambda>now r. r\<lparr>job_state := jsonb_concat (job_state r)
                       (obj_of [(''classification'', classification), (''execution_plan'', plan), (''policy_decision'', policy)]),
                     job_state_revision := job_state_revision r + 1, job_updated := now\<rparr>))
       (\<lambda>n. sq_guard (n = 0) ''chat job state was updated by another request'')"

definition merge_retrieval_trace :: "env \<Rightarrow> uuid \<Rightarrow> uuid \<Rightarrow> json \<Rightarrow> unit sq" where
  "merge_retrieval_trace env j user trace =
     sq_bind
       (update_jobs env (\<lambda>r. job_id r = j \<and> job_user_id r = Some user)
          (\<lambda>now r. r\<lparr>job_state := jsonb_concat (job_state r) (obj_of [(''retrieval_trace'', trace)]), job_updated := now\<rparr>))
       (\<lambda>_. sq_return ())"

section \<open>The answer to a clarification\<close>

record response_target =
  tg_session_id :: uuid
  tg_step :: string
  tg_status :: string

definition response_target_of :: "database \<Rightarrow> uuid \<Rightarrow> uuid \<Rightarrow> response_target option" where
  "response_target_of d j user =
     map_option (\<lambda>r. \<lparr>tg_session_id = job_session_id r, tg_step = job_step r, tg_status = job_status r\<rparr>)
       (find (\<lambda>r. job_id r = j \<and> job_user_id r = Some user \<and> open_session d (job_session_id r)) (db_jobs d))"

definition pending_matches :: "codec \<Rightarrow> uuid \<Rightarrow> 32 word \<Rightarrow> json option \<Rightarrow> bool" where
  "pending_matches cd i revision pending =
     (case Option.bind pending (cd_payload_from cd) of
        None \<Rightarrow> False
      | Some p \<Rightarrow> cp_id p = i \<and> cp_revision p = revision)"

definition response_metadata :: "codec \<Rightarrow> (constraint_patch \<Rightarrow> json) \<Rightarrow> submission \<Rightarrow> json" where
  "response_metadata cd patch_to sb =
     obj_of [(''type'', JString ''clarification_response''),
             (''clarification_id'', json_opt (\<lambda>i. JString (cd_uuid cd i)) (sb_clarification_id sb)),
             (''clarification_revision'', json_opt (\<lambda>w. json_int (uint w)) (sb_clarification_revision sb)),
             (''selected_option_id'', json_opt JString (sb_selected_option_id sb)),
             (''answers'', JObject (sb_answers sb)),
             (''constraint_patch'', patch_to (sb_constraint_patch sb)),
             (''source_message'', JString (sb_source_message sb))]"

text \<open>
  An update with a value that is not a constant of the code, which the checks of \<open>chat_jobs\<close> may reject.  The
  constants of the other updates satisfy them.
\<close>

definition update_jobs_checked :: "env \<Rightarrow> (job_row \<Rightarrow> bool) \<Rightarrow> (nat \<Rightarrow> job_row \<Rightarrow> job_row) \<Rightarrow> nat sq" where
  "update_jobs_checked env p f =
     stmt env (\<lambda>t d.
       if list_ex (\<lambda>r. p r \<and> \<not> job_wf (f (ev_now env t) r)) (db_jobs d) then Inl DbError
       else (let (n, rows) = update_rows p (f (ev_now env t)) (db_jobs d) in Inr (n, d\<lparr>db_jobs := rows\<rparr>)))"

text \<open>The inserts of this repository take the identifier from the program.\<close>

definition insert_checkpoint_row :: "env \<Rightarrow> uuid \<Rightarrow> uuid \<Rightarrow> string \<Rightarrow> string \<Rightarrow> json \<Rightarrow> unit sq" where
  "insert_checkpoint_row env i j step typ state =
     stmt env (\<lambda>t d.
       if log_ok d (db_checkpoints d) checkpoint_types i j typ
       then Inr ((), d\<lparr>db_checkpoints := db_checkpoints d @
         [\<lparr>log_id = i, log_job_id = j, log_type = typ, log_step = Some step, log_payload = state, log_created = ev_now env t\<rparr>]\<rparr>)
       else Inl DbError)"

definition insert_event_row :: "env \<Rightarrow> uuid \<Rightarrow> uuid \<Rightarrow> string \<Rightarrow> string option \<Rightarrow> json \<Rightarrow> unit sq" where
  "insert_event_row env i j typ step payload =
     stmt env (\<lambda>t d.
       if log_ok d (db_events d) event_types i j typ
       then Inr ((), d\<lparr>db_events := db_events d @
         [\<lparr>log_id = i, log_job_id = j, log_type = typ, log_step = step, log_payload = payload, log_created = ev_now env t\<rparr>]\<rparr>)
       else Inl DbError)"

definition respond_writes ::
  "env \<Rightarrow> codec \<Rightarrow> audit_codec \<Rightarrow> (constraint_patch \<Rightarrow> json) \<Rightarrow> uuid \<Rightarrow> uuid \<Rightarrow> submission \<Rightarrow> response_target \<Rightarrow>
   (persist_outcome \<times> bool) sq" where
  "respond_writes env cd ac patch_to j user sb tg =
     sq_bind (fresh_uuid env) (\<lambda>message_id.
     sq_bind (fresh_uuid env) (\<lambda>checkpoint_id.
     sq_bind (fresh_uuid env) (\<lambda>event_id.
     sq_bind (insert_message env message_id (tg_session_id tg) j ''clarification'' (sb_display_message sb)
       (response_metadata cd patch_to sb)) (\<lambda>row.
     sq_bind (update_jobs_checked env (\<lambda>r. job_id r = j)
       (\<lambda>now r. r\<lparr>job_status := ''queued'', job_step := ''queued'', job_resume_step := Some (tg_step tg), job_updated := now\<rparr>)) (\<lambda>_.
     sq_bind (insert_checkpoint_row env checkpoint_id j (tg_step tg) ''user_response_received''
       (obj_of [(''message_id'', JString (cd_uuid cd message_id)), (''resume_from_step'', JString (tg_step tg)),
                (''selected_option_id'', json_opt JString (sb_selected_option_id sb))])) (\<lambda>_.
     sq_bind (insert_event_row env event_id j ''status'' (Some ''queued'')
       (obj_of [(''status'', JString ''queued''), (''current_step'', JString ''queued''),
                (''message_id'', JString (cd_uuid cd message_id)),
                (''selected_option_id'', json_opt JString (sb_selected_option_id sb))])) (\<lambda>_.
     sq_bind (enqueue_now env ac (job_event (tg_session_id tg) j user ChatClarificationReceived OutcomeClarification
       ClarificationReceivedSummary None)) (\<lambda>_.
     sq_return (Inserted row, True)))))))))"

definition respond_found ::
  "env \<Rightarrow> codec \<Rightarrow> audit_codec \<Rightarrow> (constraint_patch \<Rightarrow> json) \<Rightarrow> uuid \<Rightarrow> uuid \<Rightarrow> submission \<Rightarrow> response_target \<Rightarrow>
   (persist_outcome \<times> bool) sq" where
  "respond_found env cd ac patch_to j user sb tg =
     (if tg_status tg \<noteq> ''waiting_for_user_input'' then sq_return (PersistNotActive, False)
      else
        (case (sb_clarification_id sb, sb_clarification_revision sb) of
           (Some i, Some revision) \<Rightarrow>
             sq_bind (stmt env (\<lambda>_ d. Inr (pending_of d j, d))) (\<lambda>pending.
               if \<not> pending_matches cd i revision pending then sq_return (PersistStale, False)
               else respond_writes env cd ac patch_to j user sb tg)
         | _ \<Rightarrow> respond_writes env cd ac patch_to j user sb tg))"

definition respond_body ::
  "env \<Rightarrow> codec \<Rightarrow> audit_codec \<Rightarrow> (constraint_patch \<Rightarrow> json) \<Rightarrow> uuid \<Rightarrow> uuid \<Rightarrow> submission \<Rightarrow> (persist_outcome \<times> bool) sq" where
  "respond_body env cd ac patch_to j user sb =
     sq_bind (stmt env (\<lambda>_ d. Inr (response_target_of d j user, d))) (\<lambda>target.
       case target of
         None \<Rightarrow> sq_return (PersistNotFound, False)
       | Some tg \<Rightarrow> respond_found env cd ac patch_to j user sb tg)"

definition job_respond ::
  "env \<Rightarrow> codec \<Rightarrow> audit_codec \<Rightarrow> (constraint_patch \<Rightarrow> json) \<Rightarrow> uuid \<Rightarrow> uuid \<Rightarrow> submission \<Rightarrow> persist_outcome sq" where
  "job_respond env cd ac patch_to j user sb = sq_tx env (respond_body env cd ac patch_to j user sb)"

section \<open>Logs of a job\<close>

definition job_insert_checkpoint :: "env \<Rightarrow> uuid \<Rightarrow> string \<Rightarrow> string \<Rightarrow> json \<Rightarrow> uuid sq" where
  "job_insert_checkpoint env j step typ state =
     sq_bind (fresh_uuid env) (\<lambda>i. sq_bind (insert_checkpoint_row env i j step typ state) (\<lambda>_. sq_return i))"

definition job_insert_event :: "env \<Rightarrow> uuid \<Rightarrow> string \<Rightarrow> string option \<Rightarrow> json \<Rightarrow> uuid sq" where
  "job_insert_event env j typ step payload =
     sq_bind (fresh_uuid env) (\<lambda>i. sq_bind (insert_event_row env i j typ step payload) (\<lambda>_. sq_return i))"

section \<open>The end of a job\<close>

definition job_complete :: "env \<Rightarrow> uuid \<Rightarrow> json \<Rightarrow> unit sq" where
  "job_complete env j result =
     sq_bind (update_jobs env (\<lambda>r. job_id r = j)
       (\<lambda>now r. r\<lparr>job_status := ''completed'', job_step := ''completed'', job_result := Some result, job_error := None,
                  job_completed := Some now, job_updated := now\<rparr>))
       (\<lambda>_. sq_return ())"

definition lifecycle_event ::
  "uuid \<Rightarrow> uuid \<Rightarrow> uuid \<Rightarrow> nat \<Rightarrow> audit_event_type \<Rightarrow> audit_outcome \<Rightarrow> audit_summary \<Rightarrow> management_audit_event" where
  "lifecycle_event session j actor now typ result summary = job_event session j actor typ result summary None now"

definition execution_lifecycle_events ::
  "uuid \<Rightarrow> uuid \<Rightarrow> uuid \<Rightarrow> nat \<Rightarrow> execution_audit_context \<Rightarrow> management_audit_event list" where
  "execution_lifecycle_events session j actor now ex =
     (let base = lifecycle_event session j actor now;
          summary = ExecutionSummary (ex_query_id ex) in
      [base PolicyEvaluated (if ex_allowed ex then OutcomeSuccess else OutcomeBlocked)
         (PolicyEvaluatedSummary (ex_capability_id ex) (if ex_allowed ex then ResultAllowed else ResultDenied))] @
      (if ex_allowed ex
       then [base ExecutionAuthorized OutcomeSuccess (summary None)] @
            (if \<not> ex_timed_out ex then [base ExecutionCompleted OutcomeSuccess (summary (ex_row_count ex))] else []) @
            (if ex_truncated ex then [base ExecutionResultTruncated OutcomeSuccess (summary (ex_row_count ex))] else []) @
            (if ex_timed_out ex then [base ExecutionTimedOut OutcomeFailed (summary None)] else [])
       else [base ExecutionBlocked OutcomeBlocked (summary None)]))"

fun enqueue_all :: "env \<Rightarrow> audit_codec \<Rightarrow> management_audit_event list \<Rightarrow> unit sq" where
  "enqueue_all env ac [] = sq_return ()"
| "enqueue_all env ac (e # es) = sq_bind (enqueue env ac e) (\<lambda>_. enqueue_all env ac es)"

definition terminal_row :: "json \<Rightarrow> response_terminal \<Rightarrow> nat \<Rightarrow> job_row \<Rightarrow> job_row" where
  "terminal_row result terminal now r =
     (case terminal of
        TerminalCompleted _ \<Rightarrow>
          r\<lparr>job_status := ''completed'', job_step := ''completed'', job_result := Some result, job_error := None,
            job_completed := Some now, job_updated := now\<rparr>
      | TerminalFailed e \<Rightarrow>
          r\<lparr>job_status := ''failed'', job_step := ''failed'', job_result := Some result, job_error := Some e,
            job_failed := Some now, job_updated := now\<rparr>)"

definition terminal_event :: "uuid \<Rightarrow> uuid \<Rightarrow> uuid \<Rightarrow> response_terminal \<Rightarrow> nat \<Rightarrow> management_audit_event" where
  "terminal_event session j actor terminal =
     (case terminal of
        TerminalCompleted result \<Rightarrow> job_event session j actor ChatJobCompleted result JobCompletedSummary None
      | TerminalFailed _ \<Rightarrow> job_event session j actor ChatJobFailed OutcomeFailed JobFailedSummary (Some UnknownError))"

definition persist_body ::
  "env \<Rightarrow> audit_codec \<Rightarrow> uuid \<Rightarrow> uuid \<Rightarrow> uuid \<Rightarrow> string \<Rightarrow> json \<Rightarrow> json \<Rightarrow> response_terminal \<Rightarrow> execution_audit_context option \<Rightarrow>
   (message_row \<times> bool) sq" where
  "persist_body env ac session j actor content metadata result terminal execution =
     sq_bind (insert_assistant_message_in_transaction env session j content metadata) (\<lambda>message.
     sq_bind (update_jobs env (\<lambda>r. job_id r = j) (terminal_row result terminal)) (\<lambda>_.
     sq_bind (enqueue_now env ac (terminal_event session j actor terminal)) (\<lambda>_.
     sq_bind
       (case execution of
          None \<Rightarrow> sq_return ()
        | Some ex \<Rightarrow> sq_bind (clock env) (\<lambda>now. enqueue_all env ac (execution_lifecycle_events session j actor now ex)))
       (\<lambda>_. sq_return (message, True)))))"

definition persist_assistant_response_and_terminal_state ::
  "env \<Rightarrow> audit_codec \<Rightarrow> uuid \<Rightarrow> uuid \<Rightarrow> uuid \<Rightarrow> string \<Rightarrow> json \<Rightarrow> json \<Rightarrow> response_terminal \<Rightarrow> execution_audit_context option \<Rightarrow>
   message_row sq" where
  "persist_assistant_response_and_terminal_state env ac session j actor content metadata result terminal execution =
     sq_tx env (persist_body env ac session j actor content metadata result terminal execution)"

definition store_assistant_response_result :: "env \<Rightarrow> uuid \<Rightarrow> json \<Rightarrow> unit sq" where
  "store_assistant_response_result env j result =
     sq_bind (update_jobs env (\<lambda>r. job_id r = j) (\<lambda>now r. r\<lparr>job_result := Some result, job_updated := now\<rparr>))
       (\<lambda>_. sq_return ())"

definition job_fail :: "env \<Rightarrow> uuid \<Rightarrow> json \<Rightarrow> bool sq" where
  "job_fail env j e =
     sq_bind (update_jobs env (\<lambda>r. job_id r = j \<and> job_status r \<notin> set [''completed'', ''failed''])
       (\<lambda>now r. r\<lparr>job_status := ''failed'', job_step := ''failed'', job_error := Some e, job_failed := Some now,
                  job_updated := now\<rparr>))
       (\<lambda>n. sq_return (n > 0))"

end
