(* ===== verification/ClarificationResponse.thy ===== *)
theory ClarificationResponse
  imports Jobs Authorization ParameterPolicy
begin

text \<open>
  \<open>job/service/clarification_response.rs\<close>: the check of an answer against the clarification it answers, and the
  constraints it becomes.  The calendar of dates is a parameter.
\<close>

type_synonym validation_error = "string list"

definition answer_error :: "clarification_field \<Rightarrow> validation_error" where
  "answer_error f = [''answers.'' @ cf_key f]"

definition text_target :: "knowledge_catalog \<Rightarrow> string \<Rightarrow> constraint_field option" where
  "text_target cat input =
     Option.bind (find (\<lambda>i. pi_id i = input) (kc_parameter_inputs cat)) (\<lambda>i.
       case pi_parameters i of
         [] \<Rightarrow> None
       | p # _ \<Rightarrow> (case binding_fields cat p of [] \<Rightarrow> None | f # _ \<Rightarrow> Some f))"

definition text_fact :: "constraint_field \<Rightarrow> string \<Rightarrow> typed_fact_value" where
  "text_fact f s =
     (case f of
        CfOffice \<Rightarrow> TvOffice s
      | CfProduct \<Rightarrow> TvProduct s
      | CfChargeType \<Rightarrow> TvChargeType s
      | CfAccountNumber \<Rightarrow> TvAccountNumber s
      | CfCurrencyCode \<Rightarrow> TvCurrencyCode s
      | CfTransactionAmount \<Rightarrow> TvDecimal s
      | _ \<Rightarrow> TvPersonName s)"

text \<open>The characters of a text: the bytes that do not continue one.\<close>

definition char_count :: "string \<Rightarrow> nat" where
  "char_count s = length (filter (\<lambda>c. of_char c div 64 \<noteq> (2 :: nat)) s)"

definition over :: "('a \<Rightarrow> bool) \<Rightarrow> 'a option \<Rightarrow> bool" where
  "over p x = (case x of None \<Rightarrow> False | Some v \<Rightarrow> p v)"

definition validate_date_range ::
  "chrono \<Rightarrow> clarification_field \<Rightarrow> json \<Rightarrow> constraint_patch \<Rightarrow> validation_error + constraint_patch" where
  "validate_date_range ch f v patch =
     (let bad = Inl (answer_error f) in
      case v of
        JObject obj \<Rightarrow>
          if length obj \<noteq> 2 then bad
          else
            (case (Option.bind (map_of obj ''from'') as_str, Option.bind (map_of obj ''to'') as_str) of
               (Some s, Some t) \<Rightarrow>
                 (case (ch_parse_ymd ch s, ch_parse_ymd ch t) of
                    (Some d, Some e) \<Rightarrow>
                      if d > e \<or> over (\<lambda>m. e - d > uint m) (cv_max_range_days (cf_validation f)) then bad
                      else Inr (bt_insert CfToDate (TvDate t) (bt_insert CfFromDate (TvDate s) patch))
                  | _ \<Rightarrow> bad)
             | _ \<Rightarrow> bad)
      | _ \<Rightarrow> bad)"

definition validate_integer :: "clarification_field \<Rightarrow> json \<Rightarrow> constraint_patch \<Rightarrow> validation_error + constraint_patch" where
  "validate_integer f v patch =
     (case as_i64 v of
        None \<Rightarrow> Inl (answer_error f)
      | Some n \<Rightarrow>
          if over (\<lambda>m. n < m) (cv_min_integer (cf_validation f)) \<or> over (\<lambda>m. n > m) (cv_max_integer (cf_validation f))
          then Inl (answer_error f)
          else if cf_key f = ''limit''
          then Inr (bt_insert CfLimitValue (TvInteger n) (bt_insert CfLimitMode (TvLimitMode LimitTopN) patch))
          else Inr patch)"

definition validate_text ::
  "clarification_field \<Rightarrow> constraint_field option \<Rightarrow> json \<Rightarrow> constraint_patch \<Rightarrow> validation_error + constraint_patch" where
  "validate_text f target v patch =
     (case map_option trim (as_str v) of
        None \<Rightarrow> Inl (answer_error f)
      | Some s \<Rightarrow>
          if s = [] \<or> over (\<lambda>m. char_count s > unat m) (cv_max_length (cf_validation f)) then Inl (answer_error f)
          else (case target of None \<Rightarrow> Inr patch | Some g \<Rightarrow> Inr (bt_insert g (text_fact g s) patch)))"

definition validate_field ::
  "chrono \<Rightarrow> clarification_field \<Rightarrow> constraint_field option \<Rightarrow> json \<Rightarrow> constraint_patch \<Rightarrow> validation_error + constraint_patch" where
  "validate_field ch f target v patch =
     (case cf_field_type f of
        CftDateRange \<Rightarrow> validate_date_range ch f v patch
      | CftInteger \<Rightarrow> validate_integer f v patch
      | CftText \<Rightarrow> validate_text f target v patch)"

fun validate_fields ::
  "chrono \<Rightarrow> knowledge_catalog \<Rightarrow> (string \<times> json) list \<Rightarrow> clarification_field list \<Rightarrow> constraint_patch \<Rightarrow>
   validation_error + constraint_patch" where
  "validate_fields ch cat answers [] patch = Inr patch"
| "validate_fields ch cat answers (f # fs) patch =
     res_bind
       (case map_of answers (cf_key f) of
          Some v \<Rightarrow> validate_field ch f (text_target cat (cf_key f)) v patch
        | None \<Rightarrow> if cf_required f \<and> cf_default_value f = None then Inl (answer_error f) else Inr patch)
       (validate_fields ch cat answers fs)"

definition other_option :: string where
  "other_option = ''others''"

definition selected_option ::
  "clarification_payload \<Rightarrow> principal_context \<Rightarrow> string option \<Rightarrow> validation_error + clarification_option option" where
  "selected_option p pr option_id =
     (case cp_kind p of
        SelectOption \<Rightarrow>
          res_bind (ok_or option_id [''option_id'']) (\<lambda>i.
          res_bind (ok_or (find (\<lambda>o'. co_id o' = i) (cp_options p)) [''option_id'']) (\<lambda>o'.
          res_bind (guard_err (co_id o' \<noteq> other_option \<and> co_id o' \<notin> set (pc_capability_ids pr)) [''option_id'']) (\<lambda>_.
          Inr (Some o'))))
      | _ \<Rightarrow> res_bind (guard_err (option_id \<noteq> None) [''option_id'']) (\<lambda>_. Inr None))"

definition offered_fields :: "clarification_payload \<Rightarrow> clarification_option option \<Rightarrow> clarification_field list" where
  "offered_fields p selected = cp_fields p @ (case selected of None \<Rightarrow> [] | Some o' \<Rightarrow> co_fields o')"

definition structured_submission ::
  "chrono \<Rightarrow> knowledge_catalog \<Rightarrow> clarification_payload \<Rightarrow> principal_context \<Rightarrow> uuid \<Rightarrow> 32 word \<Rightarrow> string option \<Rightarrow> string \<Rightarrow>
   (string \<times> json) list \<Rightarrow> validation_error + submission" where
  "structured_submission ch cat p pr i revision option_id message answers =
     res_bind (selected_option p pr option_id) (\<lambda>selected.
     res_bind (guard_err (over (\<lambda>o'. co_id o' = other_option) selected \<and> message = []) [''message'']) (\<lambda>_.
     res_bind (guard_err (list_ex (\<lambda>(k, _). k \<notin> cf_key ` set (offered_fields p selected)) answers) [''answers'']) (\<lambda>_.
     res_bind (validate_fields ch cat answers (offered_fields p selected) []) (\<lambda>patch.
     Inr \<lparr>sb_clarification_id = Some i, sb_clarification_revision = Some revision, sb_selected_option_id = option_id,
          sb_source_message = message,
          sb_display_message =
            (if message \<noteq> [] then message
             else case selected of Some o' \<Rightarrow> co_label o' | None \<Rightarrow> ''Clarification response''),
          sb_answers = answers, sb_constraint_patch = patch\<rparr>))))"

definition validate_submission ::
  "chrono \<Rightarrow> knowledge_catalog \<Rightarrow> clarification_payload \<Rightarrow> principal_context \<Rightarrow> uuid option \<Rightarrow> 32 word option \<Rightarrow>
   string option \<Rightarrow> string option \<Rightarrow> (string \<times> json) list \<Rightarrow> validation_error + submission" where
  "validate_submission ch cat p pr i revision option_id message answers =
     (let source = trim (case message of None \<Rightarrow> [] | Some m \<Rightarrow> m);
          selected_id = Option.bind (map_option trim option_id) (\<lambda>s. if s = [] then None else Some s) in
      if i = None \<and> revision = None \<and> answers = [] then
        (if source = [] then Inl [''message'']
         else Inr \<lparr>sb_clarification_id = None, sb_clarification_revision = None, sb_selected_option_id = selected_id,
                   sb_source_message = source,
                   sb_display_message = (case selected_id of Some s \<Rightarrow> s | None \<Rightarrow> source),
                   sb_answers = answers, sb_constraint_patch = []\<rparr>)
      else
        (case (i, revision) of
           (None, _) \<Rightarrow> Inl [''clarification_id'']
         | (_, None) \<Rightarrow> Inl [''clarification_revision'']
         | (Some i', Some revision') \<Rightarrow> structured_submission ch cat p pr i' revision' selected_id source answers))"

end
