(* ===== verification/Intent.thy ===== *)
theory Intent
  imports Facts
begin

text \<open>The intent of a request, \<open>assistant/understanding/intent.rs\<close>, and the names its enums print.\<close>

datatype assistant_intent_kind =
    Greeting
  | Help
  | DataLookup
  | ClarificationReply
  | FollowUp
  | UnsafeRequest
  | OutOfDomainRequest
  | ReportRequest

datatype assistant_language = LangEn | LangId | LangMixed | LangUnknown

datatype context_reference = NoReference | PreviousJob | PendingClarificationRef | SessionTopic

record source_intent_snapshot =
  si_prompt :: string
  si_normalized_prompt :: "string option"
  si_intent :: assistant_intent_kind
  si_domain :: assistant_domain
  si_request_shape :: request_shape
  si_entities :: "assistant_entity list"
  si_constraints :: assistant_constraints
  si_context_reference :: context_reference
  si_confidence :: f32
  si_reason :: string

record assistant_intent =
  ai_intent :: assistant_intent_kind
  ai_domain :: assistant_domain
  ai_request_shape :: request_shape
  ai_language :: assistant_language
  ai_canonical_query_en :: string
  ai_entities :: "assistant_entity list"
  ai_constraints :: assistant_constraints
  ai_context_reference :: context_reference
  ai_source :: "source_intent_snapshot option"
  ai_confidence :: f32
  ai_reason :: string

text \<open>The debug names in lower case, \<open>format!("{:?}", x).to_lowercase()\<close>.\<close>

definition domain_debug_lower :: "assistant_domain \<Rightarrow> string" where
  "domain_debug_lower d =
     (case d of
        DomSavings \<Rightarrow> ''savings''
      | DomClient \<Rightarrow> ''client''
      | DomOrganization \<Rightarrow> ''organization''
      | DomGroupCenter \<Rightarrow> ''groupcenter''
      | DomLoan \<Rightarrow> ''loan''
      | DomAccounting \<Rightarrow> ''accounting''
      | DomTax \<Rightarrow> ''tax''
      | DomAudit \<Rightarrow> ''audit''
      | DomUnknown \<Rightarrow> ''unknown'')"

definition kind_debug_lower :: "assistant_intent_kind \<Rightarrow> string" where
  "kind_debug_lower k =
     (case k of
        Greeting \<Rightarrow> ''greeting''
      | Help \<Rightarrow> ''help''
      | DataLookup \<Rightarrow> ''datalookup''
      | ClarificationReply \<Rightarrow> ''clarificationreply''
      | FollowUp \<Rightarrow> ''followup''
      | UnsafeRequest \<Rightarrow> ''unsaferequest''
      | OutOfDomainRequest \<Rightarrow> ''outofdomain''
      | ReportRequest \<Rightarrow> ''reportrequest'')"

end
