(* ===== verification/Memory.thy ===== *)
theory Memory
  imports Intent State
begin

text \<open>
  What the assistant remembers: the memory of a job with its checkpoints
  (\<open>job/repository/assistant_memory.rs\<close>, \<open>assistant/state\<close>), and the memory of a session
  (\<open>conversation/repository/assistant_memory.rs\<close>).  The structured response is of any type; its JSON, and
  that of an intent, of entities and of summaries, are parameters, like the texts of identifiers and times.
\<close>

section \<open>Data\<close>

datatype graph_state =
    ReceiveMessage
  | BuildContextWindow
  | RouteIntent
  | ResolveClarification
  | PlanRetrieval
  | RetrieveKnowledge
  | EvaluateEvidence
  | PlanToolOrCapability
  | GuardExecution
  | ExecuteToolOrSql
  | BuildStructuredResponse
  | RenderResponse
  | CompleteOrWait

definition graph_state_str :: "graph_state \<Rightarrow> string" where
  "graph_state_str g =
     (case g of
        ReceiveMessage \<Rightarrow> ''receive_message''
      | BuildContextWindow \<Rightarrow> ''build_context_window''
      | RouteIntent \<Rightarrow> ''route_intent''
      | ResolveClarification \<Rightarrow> ''resolve_clarification''
      | PlanRetrieval \<Rightarrow> ''plan_retrieval''
      | RetrieveKnowledge \<Rightarrow> ''retrieve_knowledge''
      | EvaluateEvidence \<Rightarrow> ''evaluate_evidence''
      | PlanToolOrCapability \<Rightarrow> ''plan_tool_or_capability''
      | GuardExecution \<Rightarrow> ''guard_execution''
      | ExecuteToolOrSql \<Rightarrow> ''execute_tool_or_sql''
      | BuildStructuredResponse \<Rightarrow> ''build_structured_response''
      | RenderResponse \<Rightarrow> ''render_response''
      | CompleteOrWait \<Rightarrow> ''complete_or_wait'')"

datatype graph_terminal =
    GtCompleted
  | GtWaitingForUserInput
  | GtUnsupported
  | GtOutOfDomain
  | GtBlockedByPolicy
  | GtContextWindowExceeded
  | GtFailedOperational

definition graph_terminals :: "(graph_terminal \<times> string) list" where
  "graph_terminals =
     [(GtCompleted, ''completed''), (GtWaitingForUserInput, ''waiting_for_user_input''), (GtUnsupported, ''unsupported''),
      (GtOutOfDomain, ''out_of_domain''), (GtBlockedByPolicy, ''blocked_by_policy''),
      (GtContextWindowExceeded, ''context_window_exceeded''), (GtFailedOperational, ''failed_operational'')]"

definition terminal_str :: "graph_terminal \<Rightarrow> string" where
  "terminal_str t = the (map_of graph_terminals t)"

definition terminal_of_str :: "string \<Rightarrow> graph_terminal option" where
  "terminal_of_str s = map_option fst (find (\<lambda>(_, n). n = s) graph_terminals)"

record graph_transition =
  gt_from :: graph_state
  gt_to :: "graph_state option"
  gt_terminal :: "graph_terminal option"
  gt_reason :: string

record 'r job_memory =
  jm_job_id :: uuid
  jm_graph_state :: string
  jm_terminal :: "graph_terminal option"
  jm_metadata :: json
  jm_intent :: "assistant_intent option"
  jm_source_intent :: "json option"
  jm_retrieval_plan :: json
  jm_evidence :: json
  jm_decision :: json
  jm_capability :: "string option"
  jm_tool :: "string option"
  jm_tool_params :: json
  jm_policy :: json
  jm_execution_summary :: json
  jm_response :: "'r option"
  jm_pending :: "clarification_payload option"
  jm_snapshot :: "uuid option"
  jm_warnings :: json
  jm_revision :: int

record relevant_job_summary =
  rj_job_id :: string
  rj_session_id :: "string option"
  rj_domain :: "string option"
  rj_intent :: "string option"
  rj_created_at :: "string option"
  rj_summary :: string
  rj_retrieval_plan :: json
  rj_evidence_decision :: json
  rj_evidence_refs :: "string list"

record session_memory =
  se_session_id :: uuid
  se_summary :: "string option"
  se_active_domain :: "string option"
  se_pending :: "clarification_payload option"
  se_pending_source :: "json option"
  se_entities :: json
  se_relevant_jobs :: json
  se_warnings :: json
  se_revision :: int

record 'r memory_codec =
  mc_codec :: codec
  mc_intent_to :: "assistant_intent \<Rightarrow> json"
  mc_intent_from :: "json \<Rightarrow> assistant_intent option"
  mc_response_to :: "'r \<Rightarrow> json"
  mc_response_from :: "json \<Rightarrow> 'r option"
  mc_uuid_from :: "json \<Rightarrow> uuid option"
  mc_entities_to :: "assistant_entity list \<Rightarrow> json"
  mc_summaries_to :: "relevant_job_summary list \<Rightarrow> json"
  mc_summaries_from :: "json \<Rightarrow> relevant_job_summary list option"
  mc_time :: "nat \<Rightarrow> string"

section \<open>The memory of a job\<close>

definition memory_of_row :: "'r memory_codec \<Rightarrow> memory_row \<Rightarrow> 'r job_memory" where
  "memory_of_row mc r =
     \<lparr>jm_job_id = mem_job_id r, jm_graph_state = mem_graph_state r,
      jm_terminal = Option.bind (mem_terminal_state r) terminal_of_str, jm_metadata = mem_metadata r,
      jm_intent = Option.bind (mem_intent r) (mc_intent_from mc), jm_source_intent = mem_source_intent r,
      jm_retrieval_plan = mem_retrieval_plan r, jm_evidence = mem_evidence r, jm_decision = mem_decision r,
      jm_capability = mem_capability r, jm_tool = mem_tool r, jm_tool_params = mem_params r, jm_policy = mem_policy r,
      jm_execution_summary = mem_summary r, jm_response = Option.bind (mem_response r) (mc_response_from mc),
      jm_pending = Option.bind (mem_pending r) (cd_payload_from (mc_codec mc)),
      jm_snapshot = Option.bind (json_get (mem_metadata r) ''planner_snapshot_id'') (mc_uuid_from mc),
      jm_warnings = mem_warnings r, jm_revision = mem_revision r\<rparr>"

definition new_memory_row :: "uuid \<Rightarrow> string \<Rightarrow> memory_row" where
  "new_memory_row j state =
     \<lparr>mem_job_id = j, mem_graph_state = state, mem_terminal_state = None, mem_metadata = JObject [], mem_intent = None,
      mem_source_intent = None, mem_retrieval_plan = JObject [], mem_evidence = JObject [], mem_decision = JObject [],
      mem_capability = None, mem_tool = None, mem_params = JObject [], mem_policy = JObject [], mem_summary = JObject [],
      mem_response = None, mem_pending = None, mem_warnings = JArray [], mem_revision = 0\<rparr>"

definition user_job_exists :: "database \<Rightarrow> uuid \<Rightarrow> uuid \<Rightarrow> bool" where
  "user_job_exists d j user \<longleftrightarrow> list_ex (\<lambda>r. job_id r = j \<and> job_user_id r = Some user) (db_jobs d)"

definition memory_create :: "env \<Rightarrow> 'r memory_codec \<Rightarrow> uuid \<Rightarrow> uuid \<Rightarrow> string \<Rightarrow> 'r job_memory sq" where
  "memory_create env mc j user state =
     stmt env (\<lambda>_ d.
       if user_job_exists d j user \<and> \<not> list_ex (\<lambda>m. mem_job_id m = j) (db_memory d)
       then Inr (memory_of_row mc (new_memory_row j state), d\<lparr>db_memory := db_memory d @ [new_memory_row j state]\<rparr>)
       else Inl DbError)"

definition memory_get :: "env \<Rightarrow> 'r memory_codec \<Rightarrow> uuid \<Rightarrow> uuid \<Rightarrow> 'r job_memory option sq" where
  "memory_get env mc j user =
     stmt env (\<lambda>_ d. Inr
       (if user_job_exists d j user then map_option (memory_of_row mc) (find (\<lambda>m. mem_job_id m = j) (db_memory d)) else None, d))"

text \<open>\<open>metadata["planner_snapshot_id"] = \<dots>\<close>, which panics on what is neither an object nor null.\<close>

definition index_assign :: "json \<Rightarrow> string \<Rightarrow> json \<Rightarrow> state_error + json" where
  "index_assign v k x =
     (case v of
        JNull \<Rightarrow> Inr (JObject [(k, x)])
      | JObject obj \<Rightarrow> Inr (JObject (obj_insert k x obj))
      | _ \<Rightarrow> Inl (Bail ''cannot access key in JSON value''))"

definition saved_row :: "'r memory_codec \<Rightarrow> 'r job_memory \<Rightarrow> json \<Rightarrow> memory_row \<Rightarrow> memory_row" where
  "saved_row mc m metadata r =
     \<lparr>mem_job_id = mem_job_id r, mem_graph_state = jm_graph_state m, mem_terminal_state = map_option terminal_str (jm_terminal m),
      mem_metadata = metadata, mem_intent = map_option (mc_intent_to mc) (jm_intent m), mem_source_intent = jm_source_intent m,
      mem_retrieval_plan = jm_retrieval_plan m, mem_evidence = jm_evidence m, mem_decision = jm_decision m,
      mem_capability = jm_capability m, mem_tool = jm_tool m, mem_params = jm_tool_params m, mem_policy = jm_policy m,
      mem_summary = jm_execution_summary m, mem_response = map_option (mc_response_to mc) (jm_response m),
      mem_pending = map_option (cd_payload_to (mc_codec mc)) (jm_pending m), mem_warnings = jm_warnings m,
      mem_revision = mem_revision r + 1\<rparr>"

definition memory_save :: "env \<Rightarrow> 'r memory_codec \<Rightarrow> 'r job_memory \<Rightarrow> int \<Rightarrow> 'r job_memory sq" where
  "memory_save env mc m expected =
     sq_bind (sq_of (index_assign (jm_metadata m) ''planner_snapshot_id''
       (json_opt (\<lambda>i. JString (cd_uuid (mc_codec mc) i)) (jm_snapshot m)))) (\<lambda>metadata.
     sq_bind
       (stmt env (\<lambda>_ d.
          let p = (\<lambda>r. mem_job_id r = jm_job_id m \<and> mem_revision r = expected) in
          Inr (map_option (saved_row mc m metadata) (find p (db_memory d)),
               d\<lparr>db_memory := snd (update_rows p (saved_row mc m metadata) (db_memory d))\<rparr>)))
       (\<lambda>row.
         case row of
           None \<Rightarrow> sq_fail (Bail ''assistant job memory was updated by another request'')
         | Some r \<Rightarrow> sq_return (memory_of_row mc r)))"

section \<open>The checkpoints of a job\<close>

definition insert_graph :: "env \<Rightarrow> (nat \<Rightarrow> graph_row) \<Rightarrow> unit sq" where
  "insert_graph env mk =
     stmt env (\<lambda>t d.
       if job_exists d (gr_job_id (mk (ev_now env t))) \<and>
          \<not> list_ex (\<lambda>r. gr_id r = gr_id (mk (ev_now env t))) (db_graph d)
       then Inr ((), d\<lparr>db_graph := db_graph d @ [mk (ev_now env t)]\<rparr>)
       else Inl DbError)"

definition memory_insert_checkpoint :: "env \<Rightarrow> 'r job_memory \<Rightarrow> json \<Rightarrow> uuid sq" where
  "memory_insert_checkpoint env m state =
     sq_bind (fresh_uuid env) (\<lambda>i.
     sq_bind (insert_graph env (\<lambda>now.
       \<lparr>gr_id = i, gr_job_id = jm_job_id m, gr_previous = None, gr_current = jm_graph_state m,
        gr_terminal = map_option terminal_str (jm_terminal m), gr_reason = None, gr_revision = jm_revision m,
        gr_payload = state, gr_event = JObject [], gr_created = now\<rparr>)) (\<lambda>_.
     sq_return i))"

definition checkpoint_transition :: "env \<Rightarrow> uuid \<Rightarrow> graph_transition \<Rightarrow> int \<Rightarrow> json \<Rightarrow> uuid sq" where
  "checkpoint_transition env j tr revision state =
     sq_bind (fresh_uuid env) (\<lambda>i.
     sq_bind (insert_graph env (\<lambda>now.
       \<lparr>gr_id = i, gr_job_id = j, gr_previous = Some (graph_state_str (gt_from tr)),
        gr_current = graph_state_str (case gt_to tr of Some g \<Rightarrow> g | None \<Rightarrow> gt_from tr),
        gr_terminal = map_option terminal_str (gt_terminal tr), gr_reason = Some (gt_reason tr), gr_revision = revision,
        gr_payload = state, gr_event = state, gr_created = now\<rparr>)) (\<lambda>_.
     sq_return i))"

definition list_latest_checkpoints :: "env \<Rightarrow> uuid \<Rightarrow> int \<Rightarrow> graph_row list sq" where
  "list_latest_checkpoints env j limit =
     stmt env (\<lambda>_ d.
       if limit < 0 then Inl DbError
       else Inr (take (nat limit) (sort_key (\<lambda>r. - int (gr_created r)) (filter (\<lambda>r. gr_job_id r = j) (db_graph d))), d))"

section \<open>The memory of a session\<close>

definition session_memory_of_row :: "'r memory_codec \<Rightarrow> session_memory_row \<Rightarrow> session_memory" where
  "session_memory_of_row mc r =
     \<lparr>se_session_id = sm_session_id r, se_summary = sm_summary r, se_active_domain = sm_active_domain r,
      se_pending = Option.bind (sm_pending r) (cd_payload_from (mc_codec mc)), se_pending_source = sm_source_intent r,
      se_entities = sm_entities r, se_relevant_jobs = sm_relevant_jobs r, se_warnings = sm_warnings r,
      se_revision = sm_revision r\<rparr>"

definition new_session_memory_row :: "uuid \<Rightarrow> session_memory_row" where
  "new_session_memory_row i =
     \<lparr>sm_session_id = i, sm_summary = None, sm_active_domain = None, sm_pending = None, sm_source_intent = None,
      sm_entities = JArray [], sm_relevant_jobs = JArray [], sm_warnings = JArray [], sm_revision = 0\<rparr>"

definition session_memory_get_or_create :: "env \<Rightarrow> 'r memory_codec \<Rightarrow> uuid \<Rightarrow> uuid \<Rightarrow> session_memory sq" where
  "session_memory_get_or_create env mc i user =
     stmt env (\<lambda>_ d.
       if \<not> list_ex (\<lambda>r. ses_id r = i \<and> ses_user_id r = Some user) (db_sessions d) then Inl DbError
       else
         (case find (\<lambda>r. sm_session_id r = i) (db_session_memory d) of
            Some r \<Rightarrow> Inr (session_memory_of_row mc r, d)
          | None \<Rightarrow>
              Inr (session_memory_of_row mc (new_session_memory_row i),
                   d\<lparr>db_session_memory := db_session_memory d @ [new_session_memory_row i]\<rparr>)))"

definition update_session_memory ::
  "env \<Rightarrow> 'r memory_codec \<Rightarrow> (session_memory_row \<Rightarrow> bool) \<Rightarrow> (session_memory_row \<Rightarrow> session_memory_row) \<Rightarrow> session_memory option sq" where
  "update_session_memory env mc p f =
     stmt env (\<lambda>_ d. Inr (map_option (\<lambda>r. session_memory_of_row mc (f r)) (find p (db_session_memory d)),
       d\<lparr>db_session_memory := snd (update_rows p f (db_session_memory d))\<rparr>))"

definition session_saved_row :: "'r memory_codec \<Rightarrow> session_memory \<Rightarrow> session_memory_row \<Rightarrow> session_memory_row" where
  "session_saved_row mc m r =
     \<lparr>sm_session_id = sm_session_id r, sm_summary = se_summary m, sm_active_domain = se_active_domain m,
      sm_pending = map_option (cd_payload_to (mc_codec mc)) (se_pending m), sm_source_intent = se_pending_source m,
      sm_entities = se_entities m, sm_relevant_jobs = se_relevant_jobs m, sm_warnings = se_warnings m,
      sm_revision = sm_revision r + 1\<rparr>"

definition session_memory_save :: "env \<Rightarrow> 'r memory_codec \<Rightarrow> session_memory \<Rightarrow> int \<Rightarrow> session_memory sq" where
  "session_memory_save env mc m expected =
     sq_bind (update_session_memory env mc (\<lambda>r. sm_session_id r = se_session_id m \<and> sm_revision r = expected)
       (session_saved_row mc m)) (\<lambda>row.
       case row of
         None \<Rightarrow> sq_fail (Bail ''assistant session memory was updated by another request'')
       | Some m' \<Rightarrow> sq_return m')"

definition fetch_one :: "'a option \<Rightarrow> 'a sq" where
  "fetch_one row = sq_of (ok_or row DbError)"

definition set_pending_clarification :: "env \<Rightarrow> 'r memory_codec \<Rightarrow> uuid \<Rightarrow> clarification_payload option \<Rightarrow> session_memory sq" where
  "set_pending_clarification env mc i pending =
     sq_bind (update_session_memory env mc (\<lambda>r. sm_session_id r = i)
       (\<lambda>r. r\<lparr>sm_pending := map_option (cd_payload_to (mc_codec mc)) pending, sm_revision := sm_revision r + 1\<rparr>)) fetch_one"

definition set_pending_clarification_with_source_intent ::
  "env \<Rightarrow> 'r memory_codec \<Rightarrow> uuid \<Rightarrow> clarification_payload option \<Rightarrow> json option \<Rightarrow> session_memory sq" where
  "set_pending_clarification_with_source_intent env mc i pending source =
     sq_bind (update_session_memory env mc (\<lambda>r. sm_session_id r = i)
       (\<lambda>r. r\<lparr>sm_pending := map_option (cd_payload_to (mc_codec mc)) pending, sm_source_intent := source,
              sm_revision := sm_revision r + 1\<rparr>)) fetch_one"

section \<open>Earlier jobs of a session\<close>

definition intent_text :: "memory_row \<Rightarrow> string \<Rightarrow> string option" where
  "intent_text m k = Option.bind (Option.bind (mem_intent m) (\<lambda>v. json_get v k)) as_str"

definition completed_summary :: "'r memory_codec \<Rightarrow> memory_row \<Rightarrow> job_row \<Rightarrow> relevant_job_summary" where
  "completed_summary mc m j =
     \<lparr>rj_job_id = cd_uuid (mc_codec mc) (mem_job_id m), rj_session_id = None, rj_domain = intent_text m ''domain'',
      rj_intent = intent_text m ''intent'', rj_created_at = Some (mc_time mc (job_created j)),
      rj_summary =
        (case mem_capability m of
           Some c \<Rightarrow> c
         | None \<Rightarrow>
             (case Option.bind (json_get (mem_summary m) ''reason'') as_str of
                Some s \<Rightarrow> s
              | None \<Rightarrow> ''completed assistant job'')),
      rj_retrieval_plan = mem_retrieval_plan m, rj_evidence_decision = mem_decision m, rj_evidence_refs = []\<rparr>"

definition completed_jobs :: "database \<Rightarrow> uuid \<Rightarrow> uuid \<Rightarrow> (memory_row \<times> job_row) list" where
  "completed_jobs d session user =
     filter (\<lambda>(m, j). job_id j = mem_job_id m \<and> job_session_id j = session \<and> job_user_id j = Some user \<and>
         mem_terminal_state m = Some ''completed'')
       (List.product (db_memory d) (db_jobs d))"

definition recent_completed_job_summaries ::
  "env \<Rightarrow> 'r memory_codec \<Rightarrow> uuid \<Rightarrow> uuid \<Rightarrow> int \<Rightarrow> relevant_job_summary list sq" where
  "recent_completed_job_summaries env mc session user limit =
     stmt env (\<lambda>_ d.
       if limit < 0 then Inl DbError
       else Inr (map (\<lambda>(m, j). completed_summary mc m j)
              (take (nat limit) (sort_key (\<lambda>(m, j). - int (job_created j)) (completed_jobs d session user))), d))"

definition job_summary :: "'r memory_codec \<Rightarrow> uuid \<Rightarrow> string option \<Rightarrow> 'r job_memory \<Rightarrow> relevant_job_summary" where
  "job_summary mc session domain job =
     \<lparr>rj_job_id = cd_uuid (mc_codec mc) (jm_job_id job), rj_session_id = Some (cd_uuid (mc_codec mc) session),
      rj_domain = domain, rj_intent = map_option (\<lambda>i. kind_debug_lower (ai_intent i)) (jm_intent job),
      rj_created_at = None,
      rj_summary =
        (case jm_capability job of
           Some c \<Rightarrow> c
         | None \<Rightarrow> (case jm_intent job of Some i \<Rightarrow> ai_reason i | None \<Rightarrow> ''completed assistant job'')),
      rj_retrieval_plan = jm_retrieval_plan job, rj_evidence_decision = jm_decision job,
      rj_evidence_refs = (case jm_capability job of None \<Rightarrow> [] | Some c \<Rightarrow> [c])\<rparr>"

definition remembered_jobs :: "'r memory_codec \<Rightarrow> uuid \<Rightarrow> string option \<Rightarrow> 'r job_memory \<Rightarrow> json \<Rightarrow> json" where
  "remembered_jobs mc session domain job old =
     mc_summaries_to mc (take 10 (job_summary mc session domain job #
       (case mc_summaries_from mc old of Some js \<Rightarrow> js | None \<Rightarrow> [])))"

text \<open>The outer option of \<open>pending\<close> says whether the pending clarification changes at all.\<close>

definition remember_job ::
  "'r memory_codec \<Rightarrow> uuid \<Rightarrow> 'r job_memory \<Rightarrow> clarification_payload option option \<Rightarrow> session_memory \<Rightarrow> session_memory" where
  "remember_job mc session job pending m =
     (let domain = map_option (\<lambda>i. domain_debug_lower (ai_domain i)) (jm_intent job);
          m1 = m\<lparr>se_active_domain := domain,
                 se_entities := (case jm_intent job of Some i \<Rightarrow> mc_entities_to mc (ai_entities i) | None \<Rightarrow> se_entities m),
                 se_warnings := jm_warnings job\<rparr>;
          m2 = (if jm_terminal job = Some GtCompleted
                then m1\<lparr>se_relevant_jobs := remembered_jobs mc session domain job (se_relevant_jobs m1)\<rparr> else m1) in
      case pending of
        None \<Rightarrow> m2
      | Some p \<Rightarrow> m2\<lparr>se_pending := p, se_pending_source := Option.bind p cp_source_intent\<rparr>)"

definition update_after_job ::
  "env \<Rightarrow> 'r memory_codec \<Rightarrow> uuid \<Rightarrow> uuid \<Rightarrow> 'r job_memory \<Rightarrow> clarification_payload option option \<Rightarrow> session_memory sq" where
  "update_after_job env mc session user job pending =
     sq_bind (session_memory_get_or_create env mc session user) (\<lambda>m.
       session_memory_save env mc (remember_job mc session job pending m) (se_revision m))"

end
