(* ===== verification/ChatFacts.thy ===== *)
theory ChatFacts
  imports OutboxProps ClarificationResponse Memory
begin

text \<open>
  Sequences of operations of the whole application: workflow, jobs, conversations, memories and the
  outbox, in any order and with any failures, and the relations all of them keep.
\<close>

section \<open>The operations\<close>

inductive chat_step ::
  "env \<Rightarrow> codec \<Rightarrow> audit_codec \<Rightarrow> 'r memory_codec \<Rightarrow> (constraint_patch \<Rightarrow> json) \<Rightarrow> store \<Rightarrow> store \<Rightarrow> bool"
  for env cd ac mc patch_to where
  Workflow: "repo_step env cd s s' \<Longrightarrow> chat_step env cd ac mc patch_to s s'"
| Dispatch: "chat_step env cd ac mc patch_to s (snd (dispatch_due env ac conflict limit s))"
| CreateSession: "chat_step env cd ac mc patch_to s (snd (session_create env user title s))"
| Rename: "chat_step env cd ac mc patch_to s (snd (rename_for_user env i user include_legacy name s))"
| Archive: "chat_step env cd ac mc patch_to s (snd (archive_for_user env ac i user include_legacy s))"
| Say: "chat_step env cd ac mc patch_to s (snd (insert_assistant_message env session j content metadata s))"
| CreateJob: "chat_step env cd ac mc patch_to s (snd (job_create env ac user chat text client classification plan policy s))"
| Wait: "chat_step env cd ac mc patch_to s (snd (wait_for_user_input_and_record_clarification_requested env ac session j actor s))"
| Plan: "chat_step env cd ac mc patch_to s (snd (update_plan_state env j user expected classification plan policy s))"
| Trace: "chat_step env cd ac mc patch_to s (snd (merge_retrieval_trace env j user trace s))"
| Respond: "chat_step env cd ac mc patch_to s (snd (job_respond env cd ac patch_to j user sb s))"
| JobCheckpoint: "chat_step env cd ac mc patch_to s (snd (job_insert_checkpoint env j step typ state s))"
| JobEvent: "chat_step env cd ac mc patch_to s (snd (job_insert_event env j typ ostep payload s))"
| Complete: "chat_step env cd ac mc patch_to s (snd (job_complete env j result s))"
| Persist: "chat_step env cd ac mc patch_to s
    (snd (persist_assistant_response_and_terminal_state env ac session j actor content metadata result terminal execution s))"
| Store: "chat_step env cd ac mc patch_to s (snd (store_assistant_response_result env j result s))"
| Fail: "chat_step env cd ac mc patch_to s (snd (job_fail env j e s))"
| CreateMemory: "chat_step env cd ac mc patch_to s (snd (memory_create env mc j user graph s))"
| SaveMemory: "chat_step env cd ac mc patch_to s (snd (memory_save env mc m expected s))"
| GraphCheckpoint: "chat_step env cd ac mc patch_to s (snd (memory_insert_checkpoint env (m :: 'r job_memory) state s))"
| GraphTransition: "chat_step env cd ac mc patch_to s (snd (checkpoint_transition env j tr revision state s))"
| OpenSessionMemory: "chat_step env cd ac mc patch_to s (snd (session_memory_get_or_create env mc i user s))"
| SaveSessionMemory: "chat_step env cd ac mc patch_to s (snd (session_memory_save env mc sm expected s))"
| SetPending: "chat_step env cd ac mc patch_to s (snd (set_pending_clarification env mc i pending s))"
| SetPendingSource: "chat_step env cd ac mc patch_to s (snd (set_pending_clarification_with_source_intent env mc i pending src s))"
| Remember: "chat_step env cd ac mc patch_to s (snd (update_after_job env mc session user m change s))"

section \<open>Relations they keep\<close>

definition session_kept :: "session_row \<Rightarrow> session_row \<Rightarrow> bool" where
  "session_kept r r' \<longleftrightarrow>
     ses_id r' = ses_id r \<and> ses_user_id r' = ses_user_id r \<and> ses_created r' = ses_created r \<and>
     (ses_archived r \<noteq> None \<longrightarrow> r' = r)"

locale chat_relation = db_relation +
  fixes ac :: audit_codec
  assumes rel_new_session: "session_ok d row1 \<Longrightarrow> rel d (d\<lparr>db_sessions := db_sessions d @ [row1]\<rparr>)"
    and rel_sessions: "(\<And>r. p1 r \<Longrightarrow> session_kept r (f1 r)) \<Longrightarrow>
        rel d (d\<lparr>db_sessions := map (\<lambda>r. if p1 r then f1 r else r) (db_sessions d)\<rparr>)"
    and rel_message: "message_ok d row2 \<Longrightarrow> rel d (d\<lparr>db_messages := db_messages d @ [row2]\<rparr>)"
    and rel_new_job: "job_ok d row3 \<Longrightarrow> rel d (d\<lparr>db_jobs := db_jobs d @ [row3]\<rparr>)"
    and rel_outbox: "outbox_ok d row4 \<Longrightarrow> ob_published row4 = None \<Longrightarrow> rel d (d\<lparr>db_outbox := db_outbox d @ [row4]\<rparr>)"
    and rel_new_memory: "\<not> list_ex (\<lambda>m. mem_job_id m = mem_job_id row5) (db_memory d) \<Longrightarrow> job_exists d (mem_job_id row5) \<Longrightarrow>
        rel d (d\<lparr>db_memory := db_memory d @ [row5]\<rparr>)"
    and rel_session_memory: "rel d (d\<lparr>db_session_memory := sms\<rparr>)"
    and rel_graph: "rel d (d\<lparr>db_graph := gs\<rparr>)"
    and rel_dispatch: "rel (st_db s) (st_db (snd (dispatch_due env ac conflict limit s)))"
begin

lemma keeps_fresh_uuid: "keeps (fresh_uuid env)"
  by (simp add: keeps_def fresh_uuid_def rel_refl)

lemma keeps_clock: "keeps (clock env)"
  by (simp add: keeps_def clock_def rel_refl)

lemma keeps_enqueue: "keeps (enqueue env ac' ev)"
  unfolding enqueue_def insert_outbox_def
  by (intro keeps_bind keeps_fresh_uuid keeps_return keeps_stmt)
    (auto simp: Let_def outbox_row_of_def intro!: rel_outbox split: if_splits)

lemma keeps_enqueue_now: "keeps (enqueue_now env ac' mk)"
  unfolding enqueue_now_def by (intro keeps_bind keeps_clock keeps_enqueue)

lemma keeps_enqueue_all: "keeps (enqueue_all env ac' evs)"
proof (induction evs)
  case Nil
  show ?case unfolding enqueue_all.simps by (rule keeps_return)
next
  case (Cons e evs)
  show ?case unfolding enqueue_all.simps by (intro keeps_bind keeps_enqueue Cons.IH)
qed

lemma keeps_insert_message: "keeps (insert_message env i session j role content metadata)"
  unfolding insert_message_def by (rule keeps_stmt) (auto simp: Let_def intro!: rel_message split: if_splits)

lemma keeps_update_sessions: "(\<And>now r. p r \<Longrightarrow> session_kept r (f now r)) \<Longrightarrow> keeps (update_sessions env p f)"
  unfolding update_sessions_def by (rule keeps_stmt) (auto simp: update_rows_def intro!: rel_sessions)

lemma keeps_insert_job: "keeps (insert_job env i session user text state expires)"
  unfolding insert_job_def by (rule keeps_stmt) (auto simp: Let_def intro!: rel_new_job split: if_splits)

lemma keeps_checkpoint_row: "keeps (insert_checkpoint_row env i j step typ v)"
  unfolding insert_checkpoint_row_def by (rule keeps_stmt) (auto intro: rel_checkpoints split: if_splits)

lemma keeps_event_row: "keeps (insert_event_row env i j typ step v)"
  unfolding insert_event_row_def by (rule keeps_stmt) (auto intro: rel_events split: if_splits)

lemma keeps_insert_graph: "keeps (insert_graph env mk)"
  unfolding insert_graph_def by (rule keeps_stmt) (auto intro: rel_graph split: if_splits)

lemma keeps_update_session_memory: "keeps (update_session_memory env mc p f)"
  unfolding update_session_memory_def by (rule keeps_stmt) (auto intro: rel_session_memory)

lemma keeps_session_create: "keeps (session_create env user title)"
  unfolding session_create_def
  by (intro keeps_bind keeps_fresh_uuid keeps_stmt) (auto simp: Let_def intro!: rel_new_session split: if_splits)

lemma keeps_open_session_memory: "keeps (session_memory_get_or_create env mc i user)"
  unfolding session_memory_get_or_create_def
  by (rule keeps_stmt) (auto intro: rel_refl rel_session_memory split: if_splits option.splits)

lemma keeps_memory_create: "keeps (memory_create env mc j user graph)"
  unfolding memory_create_def
  by (rule keeps_stmt)
    (auto simp: user_job_exists_def job_exists_def list_ex_iff new_memory_row_def intro!: rel_new_memory split: if_splits)

lemma keeps_memory_save: "keeps (memory_save env mc m expected)"
  unfolding memory_save_def
  by (intro keeps_bind keeps_of keeps_stmt)
    (auto simp: Let_def update_rows_def saved_row_def intro!: rel_memory keeps_return keeps_fail split: option.splits)

lemmas chat_intros =
  keeps_fresh_uuid keeps_clock keeps_enqueue keeps_enqueue_now keeps_enqueue_all keeps_insert_message
  keeps_update_sessions keeps_insert_job keeps_checkpoint_row keeps_event_row keeps_insert_graph
  keeps_update_session_memory keeps_session_create keeps_open_session_memory keeps_memory_create keeps_memory_save

lemma keeps_rename: "keeps (rename_for_user env i user include_legacy name)"
  unfolding rename_for_user_def
  by (intro keeps_update_sessions) (simp add: session_kept_def session_visible_def)

lemma keeps_archive: "keeps (archive_for_user env ac' i user include_legacy)"
  unfolding archive_for_user_def archive_body_def
  by (intro keeps_tx keeps_bind keeps_update_sessions)
    (auto simp: session_kept_def session_visible_def intro!: keeps_bind keeps_return chat_intros split: option.splits)

lemma keeps_say: "keeps (insert_assistant_message env session j content metadata)"
  unfolding insert_assistant_message_def insert_assistant_message_in_transaction_def
  by (intro keeps_intros chat_intros)

lemma keeps_create_body: "keeps (create_body env ac' user session message_id j text state expires)"
  unfolding create_body_def by (intro keeps_intros chat_intros) (simp add: job_kept_simps)

lemma keeps_job_create: "keeps (job_create env ac' user session text client classification plan policy)"
  unfolding job_create_def session_get_for_user_def
  by (auto intro!: keeps_bind keeps_tx keeps_create_body keeps_select keeps_return chat_intros split: option.splits)

lemma keeps_wait: "keeps (wait_for_user_input_and_record_clarification_requested env ac' session j actor)"
  unfolding wait_for_user_input_and_record_clarification_requested_def wait_body_def
  by (intro keeps_intros chat_intros) (simp add: job_kept_simps)

lemma keeps_plan: "keeps (update_plan_state env j user expected classification plan policy)"
  unfolding update_plan_state_def by (intro keeps_intros) (simp add: job_kept_simps)

lemma keeps_trace: "keeps (merge_retrieval_trace env j user trace)"
  unfolding merge_retrieval_trace_def by (intro keeps_intros) (simp add: job_kept_simps)

lemma keeps_update_jobs_checked:
  assumes "\<And>now r. p r \<Longrightarrow> job_wf (f now r) \<Longrightarrow> job_kept r (f now r)"
  shows "keeps (update_jobs_checked env p f)"
  unfolding update_jobs_checked_def
proof (rule keeps_stmt)
  fix t n and d d' :: database
  assume run: "(if list_ex (\<lambda>r. p r \<and> \<not> job_wf (f (ev_now env t) r)) (db_jobs d) then Inl DbError
       else (let (n, rows) = update_rows p (f (ev_now env t)) (db_jobs d) in Inr (n, d\<lparr>db_jobs := rows\<rparr>))) =
      (Inr (n, d') :: state_error + _)"
  then have wf: "\<not> list_ex (\<lambda>r. p r \<and> \<not> job_wf (f (ev_now env t) r)) (db_jobs d)" by (auto split: if_splits)
  let ?q = "\<lambda>r. p r \<and> job_wf (f (ev_now env t) r)"
  have rows: "map (\<lambda>r. if p r then f (ev_now env t) r else r) (db_jobs d) = map (\<lambda>r. if ?q r then f (ev_now env t) r else r) (db_jobs d)"
    using wf by (auto simp: list_ex_iff)
  then have "d' = d\<lparr>db_jobs := map (\<lambda>r. if ?q r then f (ev_now env t) r else r) (db_jobs d)\<rparr>"
    using run wf by (simp add: update_rows_def rows [symmetric])
  then show "rel d d'" using rel_jobs [of ?q "f (ev_now env t)" d] assms by simp
qed

lemma keeps_respond: "keeps (job_respond env cd ac' patch_to j user sb)"
proof -
  have w: "keeps (respond_writes env cd ac' patch_to j user sb tg)" for tg
    unfolding respond_writes_def
    by (intro keeps_intros chat_intros keeps_update_jobs_checked) (simp add: job_kept_def)
  show ?thesis
    unfolding job_respond_def respond_body_def respond_found_def
    by (rule keeps_tx) (auto intro!: keeps_bind keeps_select keeps_return w split: option.splits)
qed

lemma keeps_job_checkpoint: "keeps (job_insert_checkpoint env j step typ v)"
  unfolding job_insert_checkpoint_def by (intro keeps_intros chat_intros)

lemma keeps_job_event: "keeps (job_insert_event env j typ ostep v)"
  unfolding job_insert_event_def by (intro keeps_intros chat_intros)

lemma keeps_job_complete: "keeps (job_complete env j result)"
  unfolding job_complete_def by (intro keeps_intros) (simp add: job_kept_simps)

lemma keeps_persist:
  "keeps (persist_assistant_response_and_terminal_state env ac' session j actor content metadata result terminal execution)"
  unfolding persist_assistant_response_and_terminal_state_def persist_body_def insert_assistant_message_in_transaction_def
  by (intro keeps_intros chat_intros)
    (auto intro!: keeps_return keeps_bind chat_intros simp: job_kept_simps terminal_row_def split: option.splits response_terminal.splits)

lemma keeps_store: "keeps (store_assistant_response_result env j result)"
  unfolding store_assistant_response_result_def by (intro keeps_intros) (simp add: job_kept_simps)

lemma keeps_job_fail: "keeps (job_fail env j e)"
  unfolding job_fail_def by (intro keeps_intros) (simp add: job_kept_simps)

lemma keeps_memory_checkpoint: "keeps (memory_insert_checkpoint env m v)"
  unfolding memory_insert_checkpoint_def by (intro keeps_intros chat_intros)

lemma keeps_transition: "keeps (checkpoint_transition env j tr revision v)"
  unfolding checkpoint_transition_def by (intro keeps_intros chat_intros)

lemma keeps_session_memory_save: "keeps (session_memory_save env mc sm expected)"
  unfolding session_memory_save_def by (intro keeps_bind chat_intros) (auto intro: keeps_return keeps_fail split: option.splits)

lemma keeps_set_pending:
  "keeps (set_pending_clarification env mc i pending)"
  "keeps (set_pending_clarification_with_source_intent env mc i pending src)"
  unfolding set_pending_clarification_def set_pending_clarification_with_source_intent_def fetch_one_def
  by (intro keeps_bind chat_intros keeps_of)+

lemma keeps_remember: "keeps (update_after_job env mc session user m change)"
  unfolding update_after_job_def by (intro keeps_bind chat_intros keeps_session_memory_save)

lemmas chat_keeps =
  keeps_session_create keeps_rename keeps_archive keeps_say keeps_job_create keeps_wait keeps_plan keeps_trace
  keeps_respond keeps_job_checkpoint keeps_job_event keeps_job_complete keeps_persist keeps_store keeps_job_fail
  keeps_memory_create keeps_memory_save keeps_memory_checkpoint keeps_transition keeps_open_session_memory
  keeps_session_memory_save keeps_set_pending keeps_remember

lemma chat_step_rel: "chat_step env cd ac mc patch_to s s' \<Longrightarrow> rel (st_db s) (st_db s')"
proof (induction rule: chat_step.induct)
  case (Workflow s s')
  then show ?case by (rule step_rel)
next
  case (Dispatch s conflict limit)
  show ?case by (rule rel_dispatch)
qed (rule chat_keeps [unfolded keeps_def, rule_format])+

lemma chat_steps_rel: "(chat_step env cd ac mc patch_to)\<^sup>*\<^sup>* s s' \<Longrightarrow> rel (st_db s) (st_db s')"
  by (induction rule: rtranclp_induct) (auto intro: rel_refl rel_trans chat_step_rel)

end

section \<open>The outbox\<close>

text \<open>The relation of the outbox is kept by all operations.\<close>

interpretation obx: chat_relation "outbox_rel ac" ac for ac
proof unfold_locales
  show "outbox_rel ac d (d\<lparr>db_outbox := db_outbox d @ [row4]\<rparr>)" if "outbox_ok d row4" "ob_published row4 = None" for d row4
    using that by (rule outbox_rel_insert)
  show "outbox_rel ac (st_db s) (st_db (snd (dispatch_due env ac conflict limit s)))" for s env conflict limit
    using keeps_dispatch unfolding ob.keeps_def by blast
qed (rule outbox_rel_other; simp)+

section \<open>The tables of the conversations\<close>

text \<open>A dispatch changes the outbox and the audit log only.\<close>

definition same_core :: "database \<Rightarrow> database \<Rightarrow> bool" where
  "same_core d d' \<longleftrightarrow> (\<exists>obs audits. d' = d\<lparr>db_outbox := obs, db_audit := audits\<rparr>)"

interpretation core: db_preorder same_core
proof unfold_locales
  show "same_core d d" for d by (auto simp: same_core_def intro!: exI [of _ "db_outbox d"] exI [of _ "db_audit d"])
  show "same_core d d2" if h: "same_core d d1" "same_core d1 d2" for d d1 d2
  proof -
    obtain obs audits where "d2 = d\<lparr>db_outbox := obs, db_audit := audits\<rparr>" using h by (auto simp: same_core_def)
    then show ?thesis unfolding same_core_def by blast
  qed
qed

lemma same_coreI: "same_core d (d\<lparr>db_outbox := obs\<rparr>)" "same_core d (d\<lparr>db_audit := audits\<rparr>)"
  unfolding same_core_def by (rule exI [of _ obs], rule exI [of _ "db_audit d"], simp)
    (rule exI [of _ "db_outbox d"], rule exI [of _ audits], simp)

lemma core_update_outbox: "core.keeps (update_outbox env p f)"
  unfolding update_outbox_def by (rule core.keeps_stmt) (auto simp: update_rows_def intro: same_coreI)

lemma core_fresh_uuid: "core.keeps (fresh_uuid env)"
  by (simp add: core.keeps_def fresh_uuid_def core.rel_refl)

lemma core_insert_audit: "core.keeps (insert_audit env row)"
  unfolding insert_audit_def
  by (rule core.keeps_stmt) (auto intro: same_coreI core.rel_refl split: if_splits)

lemma core_publish: "core.keeps (publish env ac row)"
  unfolding publish_def
  by (intro core.keeps_bind core.keeps_of core.keeps_return core_fresh_uuid core_insert_audit core_update_outbox)

lemma core_publish_due: "core.keeps (publish_due env ac)"
proof -
  have "core.keeps (\<lambda>s. case publish env ac r s of
           (Inl e, s') \<Rightarrow> (Inr (Some (r, Some e), False), s')
         | (Inr x, s') \<Rightarrow> (Inr (Some (r, None), True), s'))" for r
    using core_publish [of env ac r] by (auto simp: core.keeps_def split: prod.splits sum.splits) (metis snd_conv)+
  then show ?thesis
    unfolding publish_due_def
    by (intro core.keeps_bind core.keeps_select) (auto intro: core.keeps_return split: option.splits)
qed

lemma core_dispatch_one: "core.keeps (dispatch_one env ac conflict)"
  unfolding dispatch_one_def record_failure_def
  by (intro core.keeps_bind core.keeps_tx core_publish_due)
    (auto intro!: core.keeps_bind core.keeps_return core.keeps_select core_update_outbox split: option.splits)

lemma core_dispatch: "core.keeps (dispatch_due env ac conflict limit)"
proof -
  have "core.keeps (dispatch_loop env ac conflict n k)" for n k
  proof (induction n arbitrary: k)
    case 0
    show ?case unfolding dispatch_loop.simps by (rule core.keeps_return)
  next
    case (Suc n)
    show ?case
      unfolding dispatch_loop.simps
      by (rule core.keeps_bind [OF core_dispatch_one]) (auto intro: Suc.IH core.keeps_return split: option.splits bool.splits)
  qed
  then show ?thesis unfolding dispatch_due_def .
qed

text \<open>The identifiers are unique, the references resolve and the states are the declared ones.\<close>

definition chat_inv :: "database \<Rightarrow> bool" where
  "chat_inv d \<longleftrightarrow>
     distinct (map ses_id (db_sessions d)) \<and> distinct (map job_id (db_jobs d)) \<and> distinct (map msg_id (db_messages d)) \<and>
     distinct (map mem_job_id (db_memory d)) \<and>
     (\<forall>j \<in> set (db_jobs d). session_exists d (job_session_id j) \<and> job_wf j) \<and>
     (\<forall>m \<in> set (db_messages d). session_exists d (msg_session_id m) \<and> opt_ref (job_exists d) (msg_job_id m)) \<and>
     (\<forall>m \<in> set (db_memory d). job_exists d (mem_job_id m))"

definition logs_kept :: "database \<Rightarrow> database \<Rightarrow> bool" where
  "logs_kept d d' \<longleftrightarrow>
     (\<exists>xs. db_messages d' = db_messages d @ xs) \<and> (\<exists>xs. db_checkpoints d' = db_checkpoints d @ xs) \<and>
     (\<exists>xs. db_events d' = db_events d @ xs)"

definition memory_kept :: "memory_row \<Rightarrow> memory_row \<Rightarrow> bool" where
  "memory_kept r r' \<longleftrightarrow> mem_job_id r' = mem_job_id r \<and> mem_revision r \<le> mem_revision r'"

definition all_kept :: "('a \<Rightarrow> 'a \<Rightarrow> bool) \<Rightarrow> 'a list \<Rightarrow> 'a list \<Rightarrow> bool" where
  "all_kept R xs ys \<longleftrightarrow> (\<forall>r \<in> set xs. \<exists>r' \<in> set ys. R r r')"

definition rows_kept :: "database \<Rightarrow> database \<Rightarrow> bool" where
  "rows_kept d d' \<longleftrightarrow>
     all_kept session_kept (db_sessions d) (db_sessions d') \<and> all_kept job_kept (db_jobs d) (db_jobs d') \<and>
     all_kept memory_kept (db_memory d) (db_memory d')"

definition chat_rel :: "database \<Rightarrow> database \<Rightarrow> bool" where
  "chat_rel d d' \<longleftrightarrow> (chat_inv d \<longrightarrow> chat_inv d') \<and> logs_kept d d' \<and> rows_kept d d'"

lemma session_kept_refl: "session_kept r r"
  by (simp add: session_kept_def)

lemma session_kept_trans: "session_kept r r1 \<Longrightarrow> session_kept r1 r2 \<Longrightarrow> session_kept r r2"
  by (auto simp: session_kept_def)

lemma memory_kept_refl: "memory_kept r r"
  by (simp add: memory_kept_def)

lemma memory_kept_trans: "memory_kept r r1 \<Longrightarrow> memory_kept r1 r2 \<Longrightarrow> memory_kept r r2"
  by (simp add: memory_kept_def)

lemma all_kept_refl: "(\<And>r. R r r) \<Longrightarrow> set xs \<subseteq> set ys \<Longrightarrow> all_kept R xs ys"
  unfolding all_kept_def by blast

lemma all_kept_trans:
  "(\<And>a b c. R a b \<Longrightarrow> R b c \<Longrightarrow> R a c) \<Longrightarrow> all_kept R xs ys \<Longrightarrow> all_kept R ys zs \<Longrightarrow> all_kept R xs zs"
  unfolding all_kept_def by meson

lemma all_kept_map: "(\<And>r. R r (g r)) \<Longrightarrow> all_kept R xs (map g xs)"
  unfolding all_kept_def bex_map by blast

lemmas kept_refls = all_kept_refl [of session_kept, OF session_kept_refl] all_kept_refl [of job_kept, OF job_kept_refl]
  all_kept_refl [of memory_kept, OF memory_kept_refl]

lemma rows_kept_refl: "rows_kept d d"
  by (simp add: rows_kept_def kept_refls)

lemma all_kept_transs:
  "all_kept session_kept a b \<Longrightarrow> all_kept session_kept b c \<Longrightarrow> all_kept session_kept a c"
  "all_kept job_kept e f \<Longrightarrow> all_kept job_kept f g \<Longrightarrow> all_kept job_kept e g"
  "all_kept memory_kept x y \<Longrightarrow> all_kept memory_kept y z \<Longrightarrow> all_kept memory_kept x z"
  by (rule all_kept_trans, erule (1) session_kept_trans, assumption, assumption)
    (rule all_kept_trans, erule (1) job_kept_trans, assumption, assumption,
     rule all_kept_trans, erule (1) memory_kept_trans, assumption, assumption)

lemma rows_kept_trans:
  assumes "rows_kept d d1" and "rows_kept d1 d2"
  shows "rows_kept d d2"
  using assms all_kept_transs(1) [of "db_sessions d" "db_sessions d1" "db_sessions d2"]
    all_kept_transs(2) [of "db_jobs d" "db_jobs d1" "db_jobs d2"]
    all_kept_transs(3) [of "db_memory d" "db_memory d1" "db_memory d2"]
  by (simp add: rows_kept_def)

lemma logs_kept_refl: "logs_kept d d"
  by (simp add: logs_kept_def)

lemma logs_kept_trans: "logs_kept d d1 \<Longrightarrow> logs_kept d1 d2 \<Longrightarrow> logs_kept d d2"
  unfolding logs_kept_def by (metis append.assoc)

text \<open>The tables the relation reads.\<close>

definition core_tables where
  "core_tables d =
     (db_sessions d, db_jobs d, db_messages d, db_memory d, db_checkpoints d, db_events d)"

lemma exists_frames [simp]:
  "job_exists (d\<lparr>db_sessions := a\<rparr>) = job_exists d" "session_exists (d\<lparr>db_jobs := e\<rparr>) = session_exists d"
  "job_exists (d\<lparr>db_messages := b\<rparr>) = job_exists d" "session_exists (d\<lparr>db_messages := b\<rparr>) = session_exists d"
  "job_exists (d\<lparr>db_memory := c\<rparr>) = job_exists d" "session_exists (d\<lparr>db_memory := c\<rparr>) = session_exists d"
  "job_exists (d\<lparr>db_checkpoints := l\<rparr>) = job_exists d" "session_exists (d\<lparr>db_checkpoints := l\<rparr>) = session_exists d"
  "job_exists (d\<lparr>db_events := l\<rparr>) = job_exists d" "session_exists (d\<lparr>db_events := l\<rparr>) = session_exists d"
  by (simp_all add: fun_eq_iff job_exists_def session_exists_def)

lemma chat_rel_other:
  assumes "core_tables d' = core_tables d"
  shows "chat_rel d d'"
proof -
  have "job_exists d' = job_exists d" "session_exists d' = session_exists d"
    using assms by (simp_all add: core_tables_def fun_eq_iff job_exists_def session_exists_def)
  then show ?thesis
    using assms logs_kept_refl [of d] rows_kept_refl [of d]
    by (simp add: core_tables_def chat_rel_def chat_inv_def logs_kept_def rows_kept_def)
qed

lemma ids_kept: "(\<And>r. p r \<Longrightarrow> g (f r) = g r) \<Longrightarrow> map g (map (\<lambda>r. if p r then f r else r) xs) = map g xs"
  by (induction xs) auto

lemma opt_ref_mono: "opt_ref f i \<Longrightarrow> (\<And>j. f j \<Longrightarrow> g j) \<Longrightarrow> opt_ref g i"
  by (auto simp: opt_ref_def split: option.splits)

text \<open>An update that keeps the identifiers keeps the references.\<close>

lemma exists_by_ids:
  "session_exists d i \<longleftrightarrow> i \<in> set (map ses_id (db_sessions d))"
  "job_exists d j \<longleftrightarrow> j \<in> set (map job_id (db_jobs d))"
  by (auto simp: session_exists_def job_exists_def)

lemma chat_rel_jobs:
  assumes "\<And>r. p r \<Longrightarrow> job_kept r (f r)"
  shows "chat_rel d (d\<lparr>db_jobs := map (\<lambda>r. if p r then f r else r) (db_jobs d)\<rparr>)" (is "chat_rel d ?d")
proof -
  let ?g = "\<lambda>r. if p r then f r else r"
  have g: "job_kept r (?g r)" for r using assms job_kept_refl by simp
  have ids: "map job_id (map ?g (db_jobs d)) = map job_id (db_jobs d)"
    by (rule ids_kept) (use assms in \<open>simp add: job_kept_def\<close>)
  have je: "job_exists ?d = job_exists d" "session_exists ?d = session_exists d"
    using ids by (simp_all add: fun_eq_iff exists_by_ids del: map_map set_map)
  have jobs: "session_exists d (job_session_id (?g r)) \<and> job_wf (?g r)" if "session_exists d (job_session_id r) \<and> job_wf r" for r
    using that g [of r] unfolding job_kept_def by metis
  have rows: "db_jobs ?d = map ?g (db_jobs d)" by simp
  have "chat_inv ?d" if "chat_inv d"
    using that jobs unfolding chat_inv_def je rows ball_map ids by simp
  moreover have "rows_kept d ?d"
    unfolding rows_kept_def rows by (simp add: kept_refls all_kept_map g del: if_split)
  ultimately show ?thesis using logs_kept_refl [of d] by (simp add: chat_rel_def logs_kept_def)
qed

lemma chat_rel_sessions:
  assumes "\<And>r. p r \<Longrightarrow> session_kept r (f r)"
  shows "chat_rel d (d\<lparr>db_sessions := map (\<lambda>r. if p r then f r else r) (db_sessions d)\<rparr>)" (is "chat_rel d ?d")
proof -
  let ?g = "\<lambda>r. if p r then f r else r"
  have g: "session_kept r (?g r)" for r using assms session_kept_refl by simp
  have ids: "map ses_id (map ?g (db_sessions d)) = map ses_id (db_sessions d)"
    by (rule ids_kept) (use assms in \<open>simp add: session_kept_def\<close>)
  have je: "job_exists ?d = job_exists d" "session_exists ?d = session_exists d"
    using ids by (simp_all add: fun_eq_iff exists_by_ids del: map_map set_map)
  have rows: "db_sessions ?d = map ?g (db_sessions d)" by simp
  have "chat_inv ?d" if "chat_inv d" using that unfolding chat_inv_def je rows ids by simp
  moreover have "rows_kept d ?d"
    unfolding rows_kept_def rows by (simp add: kept_refls all_kept_map g del: if_split)
  ultimately show ?thesis using logs_kept_refl [of d] by (simp add: chat_rel_def logs_kept_def)
qed

lemma chat_rel_memory:
  assumes "\<And>m. mem_job_id (f m) = mem_job_id m \<and> mem_revision m \<le> mem_revision (f m)"
  shows "chat_rel d (d\<lparr>db_memory := map (\<lambda>m. if p m then f m else m) (db_memory d)\<rparr>)" (is "chat_rel d ?d")
proof -
  let ?g = "\<lambda>m. if p m then f m else m"
  have g: "memory_kept m (?g m)" for m using assms by (simp add: memory_kept_def)
  have ids: "map mem_job_id (map ?g (db_memory d)) = map mem_job_id (db_memory d)"
    by (rule ids_kept) (use assms in simp)
  have je: "job_exists ?d = job_exists d" "session_exists ?d = session_exists d"
    by (simp_all add: fun_eq_iff job_exists_def session_exists_def)
  have rows: "db_memory ?d = map ?g (db_memory d)" by simp
  have "mem_job_id (?g m) = mem_job_id m" for m using assms by simp
  then have "chat_inv ?d" if "chat_inv d"
    using that unfolding chat_inv_def je rows ball_map ids by simp
  moreover have "rows_kept d ?d"
    unfolding rows_kept_def rows by (simp add: kept_refls all_kept_map g del: if_split)
  ultimately show ?thesis using logs_kept_refl [of d] by (simp add: chat_rel_def logs_kept_def)
qed

text \<open>New rows.\<close>

lemma rows_kept_append:
  "set (db_sessions d) \<subseteq> set (db_sessions d') \<Longrightarrow> set (db_jobs d) \<subseteq> set (db_jobs d') \<Longrightarrow> set (db_memory d) \<subseteq> set (db_memory d') \<Longrightarrow>
     rows_kept d d'"
  by (simp add: rows_kept_def kept_refls)

lemma chat_rel_new_session:
  assumes "session_ok d row"
  shows "chat_rel d (d\<lparr>db_sessions := db_sessions d @ [row]\<rparr>)"
proof -
  have "rows_kept d (d\<lparr>db_sessions := db_sessions d @ [row]\<rparr>)" by (rule rows_kept_append) auto
  moreover have "chat_inv (d\<lparr>db_sessions := db_sessions d @ [row]\<rparr>)" if "chat_inv d"
    using that assms by (auto simp: chat_inv_def session_ok_def session_exists_def)
  ultimately show ?thesis by (simp add: chat_rel_def logs_kept_def)
qed

lemma chat_rel_message:
  assumes "message_ok d row"
  shows "chat_rel d (d\<lparr>db_messages := db_messages d @ [row]\<rparr>)"
proof -
  have "rows_kept d (d\<lparr>db_messages := db_messages d @ [row]\<rparr>)" by (rule rows_kept_append) auto
  moreover have "chat_inv (d\<lparr>db_messages := db_messages d @ [row]\<rparr>)" if "chat_inv d"
    using that assms by (auto simp: chat_inv_def message_ok_def)
  ultimately show ?thesis by (simp add: chat_rel_def logs_kept_def)
qed

lemma chat_rel_new_job:
  assumes "job_ok d row"
  shows "chat_rel d (d\<lparr>db_jobs := db_jobs d @ [row]\<rparr>)" (is "chat_rel d ?d")
proof -
  have "rows_kept d ?d" by (rule rows_kept_append) auto
  moreover have "chat_inv ?d" if inv: "chat_inv d"
  proof -
    have se: "session_exists ?d = session_exists d" by (simp add: fun_eq_iff session_exists_def)
    have je: "job_exists d j \<Longrightarrow> job_exists ?d j" for j by (auto simp: job_exists_def)
    have "\<forall>m \<in> set (db_messages d). session_exists d (msg_session_id m) \<and> opt_ref (job_exists ?d) (msg_job_id m)"
      using inv je unfolding chat_inv_def by (blast intro: opt_ref_mono)
    then show ?thesis using inv assms je unfolding chat_inv_def se by (auto simp: job_ok_def exists_by_ids)
  qed
  ultimately show ?thesis by (simp add: chat_rel_def logs_kept_def)
qed

lemma chat_rel_new_memory:
  assumes "\<not> list_ex (\<lambda>m. mem_job_id m = mem_job_id row) (db_memory d)" and "job_exists d (mem_job_id row)"
  shows "chat_rel d (d\<lparr>db_memory := db_memory d @ [row]\<rparr>)"
proof -
  have "rows_kept d (d\<lparr>db_memory := db_memory d @ [row]\<rparr>)" by (rule rows_kept_append) auto
  moreover have "chat_inv (d\<lparr>db_memory := db_memory d @ [row]\<rparr>)" if "chat_inv d"
    using that assms by (auto simp: chat_inv_def list_ex_iff)
  ultimately show ?thesis by (simp add: chat_rel_def logs_kept_def)
qed

lemma chat_rel_log:
  "chat_rel d (d\<lparr>db_checkpoints := db_checkpoints d @ [l]\<rparr>)"
  "chat_rel d (d\<lparr>db_events := db_events d @ [l]\<rparr>)"
  by (simp_all add: chat_rel_def chat_inv_def logs_kept_def rows_kept_def kept_refls)

interpretation chat: chat_relation chat_rel ac for ac
proof unfold_locales
  show "chat_rel d d" for d by (rule chat_rel_other) simp
  show "chat_rel d d2" if "chat_rel d d1" "chat_rel d1 d2" for d d1 d2
    using that unfolding chat_rel_def by (blast intro: logs_kept_trans rows_kept_trans)
  show "chat_rel (st_db s) (st_db (snd (dispatch_due env ac conflict limit s)))" for s env conflict limit
  proof -
    have "same_core (st_db s) (st_db (snd (dispatch_due env ac conflict limit s)))"
      using core_dispatch unfolding core.keeps_def by blast
    then show ?thesis by (auto simp: same_core_def core_tables_def intro!: chat_rel_other)
  qed
qed (simp_all add: chat_rel_jobs chat_rel_sessions chat_rel_memory chat_rel_new_session chat_rel_message chat_rel_new_job
    chat_rel_new_memory chat_rel_log chat_rel_other core_tables_def)

end
