(* ===== verification/ChatProps.thy ===== *)
theory ChatProps
  imports ChatFacts
begin

text \<open>
  The properties of jobs, conversations and memories, and of the outbox under all operations of the application.
\<close>

section \<open>What the operations write\<close>

lemma sq_bind_InrE:
  assumes "sq_bind m f s = (Inr y, s')"
  obtains x s1 where "m s = (Inr x, s1)" and "f x s1 = (Inr y, s')"
  using assms by (auto simp: sq_bind_Inr_iff)

lemma clock_Inr_iff: "clock env s = (Inr now, s') \<longleftrightarrow> now = ev_now env (st_tick s) \<and> s' = s\<lparr>st_tick := Suc (st_tick s)\<rparr>"
  by (auto simp: clock_def)

lemma enqueue_Inr:
  assumes "enqueue env ac ev s = (Inr i, s')"
  obtains row where "st_db s' = (st_db s)\<lparr>db_outbox := db_outbox (st_db s) @ [row]\<rparr>" and "ob_id row = i"
    and "ob_payload row = ac_event_to ac ev" and "ob_published row = None"
  using assms
  by (auto simp: enqueue_def insert_outbox_def outbox_row_of_def sq_bind_Inr_iff stmt_Inr_iff fresh_uuid_Inr_iff Let_def
      split: if_splits)

text \<open>The outbox grows by rows with these payloads, and nothing else changes.\<close>

definition enqueued :: "audit_codec \<Rightarrow> management_audit_event list \<Rightarrow> database \<Rightarrow> database \<Rightarrow> bool" where
  "enqueued ac evs d d' \<longleftrightarrow>
     (\<exists>rows. d' = d\<lparr>db_outbox := db_outbox d @ rows\<rparr> \<and> map ob_payload rows = map (ac_event_to ac) evs \<and>
        list_all (\<lambda>r. ob_published r = None) rows)"

lemma enqueued_nil: "enqueued ac [] d d"
  by (auto simp: enqueued_def)

lemma enqueued_trans:
  assumes "enqueued ac evs d d1" and "enqueued ac evs' d1 d2"
  shows "enqueued ac (evs @ evs') d d2"
proof -
  obtain rows rows' where "d1 = d\<lparr>db_outbox := db_outbox d @ rows\<rparr>" "map ob_payload rows = map (ac_event_to ac) evs"
    "list_all (\<lambda>r. ob_published r = None) rows" "d2 = d1\<lparr>db_outbox := db_outbox d1 @ rows'\<rparr>"
    "map ob_payload rows' = map (ac_event_to ac) evs'" "list_all (\<lambda>r. ob_published r = None) rows'"
    using assms unfolding enqueued_def by blast
  then show ?thesis unfolding enqueued_def by (intro exI [of _ "rows @ rows'"]) simp
qed

lemma enqueue_enqueued: "enqueue env ac ev s = (Inr i, s') \<Longrightarrow> enqueued ac [ev] (st_db s) (st_db s')"
  by (erule enqueue_Inr) (auto simp: enqueued_def)

lemma enqueue_now_enqueued:
  "enqueue_now env ac mk s = (Inr i, s') \<Longrightarrow> \<exists>now. enqueued ac [mk now] (st_db s) (st_db s')"
  by (auto simp: enqueue_now_def sq_bind_Inr_iff clock_Inr_iff dest!: enqueue_enqueued)

lemma enqueue_all_enqueued: "enqueue_all env ac evs s = (Inr u, s') \<Longrightarrow> enqueued ac evs (st_db s) (st_db s')"
proof (induction evs arbitrary: s)
  case Nil
  then show ?case by (simp add: enqueued_nil)
next
  case (Cons e evs)
  then obtain i s1 where "enqueue env ac e s = (Inr i, s1)" "enqueue_all env ac evs s1 = (Inr u, s')"
    by (auto simp: sq_bind_Inr_iff)
  then show ?case using enqueued_trans [OF enqueue_enqueued Cons.IH] by fastforce
qed

lemma insert_message_Inr_iff:
  "insert_message env i session j role content metadata s = (Inr m, s') \<longleftrightarrow>
     \<not> ev_fault env (st_tick s) \<and> message_ok (st_db s) m \<and>
     m = \<lparr>msg_id = i, msg_session_id = session, msg_job_id = Some j, msg_role = role, msg_content = content,
          msg_metadata = metadata, msg_created = ev_now env (st_tick s)\<rparr> \<and>
     s' = s\<lparr>st_tick := Suc (st_tick s), st_db := (st_db s)\<lparr>db_messages := db_messages (st_db s) @ [m]\<rparr>\<rparr>"
  by (auto simp: insert_message_def stmt_Inr_iff Let_def split: if_splits)

lemma update_jobs_checked_Inr:
  assumes "update_jobs_checked env p f s = (Inr n, s')"
  shows "s' = s\<lparr>st_tick := Suc (st_tick s), st_db := (st_db s)
       \<lparr>db_jobs := map (\<lambda>r. if p r then f (ev_now env (st_tick s)) r else r) (db_jobs (st_db s))\<rparr>\<rparr>"
  using assms by (auto simp: update_jobs_checked_def update_rows_def stmt_Inr_iff Let_def split: if_splits)

lemma log_row_Inr:
  assumes "insert_checkpoint_row env i j step typ v s = (Inr u, s')"
  shows "st_db s' = (st_db s)\<lparr>db_checkpoints := db_checkpoints (st_db s) @
    [\<lparr>log_id = i, log_job_id = j, log_type = typ, log_step = Some step, log_payload = v,
      log_created = ev_now env (st_tick s)\<rparr>]\<rparr>"
  using assms by (auto simp: insert_checkpoint_row_def stmt_Inr_iff split: if_splits)

lemma event_row_Inr:
  assumes "insert_event_row env i j typ step v s = (Inr u, s')"
  shows "st_db s' = (st_db s)\<lparr>db_events := db_events (st_db s) @
    [\<lparr>log_id = i, log_job_id = j, log_type = typ, log_step = step, log_payload = v,
      log_created = ev_now env (st_tick s)\<rparr>]\<rparr>"
  using assms by (auto simp: insert_event_row_def stmt_Inr_iff split: if_splits)

section \<open>Samples\<close>

definition sample_mc :: "unit memory_codec" where
  "sample_mc =
     \<lparr>mc_codec = sample_codec, mc_intent_to = (\<lambda>_. JNull), mc_intent_from = (\<lambda>_. None), mc_response_to = (\<lambda>_. JNull),
      mc_response_from = (\<lambda>_. Some ()), mc_uuid_from = (\<lambda>_. None), mc_entities_to = (\<lambda>_. JArray []),
      mc_summaries_to = (\<lambda>_. JArray []), mc_summaries_from = (\<lambda>_. None), mc_time = (\<lambda>_. [])\<rparr>"

definition sample_patch_to :: "constraint_patch \<Rightarrow> json" where
  "sample_patch_to p = JObject []"

definition sample_created :: store where
  "sample_created = snd (job_create sample_env sample_audit_codec 11 None ''deposits'' JNull JNull JNull JNull sample_store)"

definition sample_published :: store where
  "sample_published = snd (dispatch_due sample_env sample_audit_codec False 1 sample_created)"

lemma sample_chat_steps:
  "chat_step sample_env sample_codec sample_audit_codec sample_mc sample_patch_to sample_store sample_created"
  "chat_step sample_env sample_codec sample_audit_codec sample_mc sample_patch_to sample_created sample_published"
  unfolding sample_created_def sample_published_def by (rule CreateJob, rule chat_step.Dispatch)

lemma sample_chat_runs:
  "(chat_step sample_env sample_codec sample_audit_codec sample_mc sample_patch_to)\<^sup>*\<^sup>* sample_created sample_published"
  "(chat_step sample_env sample_codec sample_audit_codec sample_mc sample_patch_to)\<^sup>*\<^sup>* sample_store sample_published"
  using sample_chat_steps by (simp_all add: converse_rtranclp_into_rtranclp)

lemma sample_outbox_inv: "outbox_inv sample_audit_codec (st_db sample_store)"
  by (simp add: outbox_inv_def audits_of_def published_def sample_store_def sample_db_def)

lemma sample_chat_inv: "chat_inv (st_db sample_store)"
  by code_simp

section \<open>The tables\<close>



section \<open>The outbox\<close>

lemma outbox_steps:
  assumes "outbox_inv ac (st_db s)" and "(chat_step env cd ac mc patch_to)\<^sup>*\<^sup>* s s'"
  shows "outbox_inv ac (st_db s')" and "outbox_kept (st_db s) (st_db s')"
  using obx.chat_steps_rel [OF assms(2)] assms(1) by (simp_all add: outbox_rel_def)

text \<open>
  C24: The audit log records an event exactly once: after any sequence of operations of the application,
  whichever statements fail, the rows of the outbox have distinct identifiers and a row has one
  audit record when it is stamped as published and none before.
\<close>
theorem outbox_exactly_once:
  assumes "outbox_inv ac (st_db s)" and "(chat_step env cd ac mc patch_to)\<^sup>*\<^sup>* s s'"
  shows "distinct (map ob_id (db_outbox (st_db s'))) \<and>
    length (filter (\<lambda>a. ar_outbox_id a = Some i) (db_audit (st_db s'))) =
      (if \<exists>r \<in> set (db_outbox (st_db s')). ob_id r = i \<and> ob_published r \<noteq> None then 1 else 0)"
proof -
  have "outbox_inv ac (st_db s')" by (rule outbox_steps(1) [OF assms])
  then show ?thesis using outbox_invD(1,2) [of ac "st_db s'"] unfolding audits_of_def published_def by blast
qed

lemma outbox_exactly_once_witness:
  "length (filter (\<lambda>a. ar_outbox_id a = Some 105) (db_audit (st_db sample_published))) =
     (if \<exists>r \<in> set (db_outbox (st_db sample_published)). ob_id r = 105 \<and> ob_published r \<noteq> None then 1 else 0)"
  using outbox_exactly_once [OF sample_outbox_inv sample_chat_runs(2)] by blast

text \<open>
  What an enqueue stored is what the audit log comes to say: once an event is enqueued, its row stays in
  the outbox with its payload through any later operations and failures, and its audit record, when there
  is one, carries the type, outcome, actor, aggregate, summary and error of that very event.
\<close>
theorem audit_records_the_event:
  assumes "outbox_inv ac (st_db s)" and "ac_event_from ac (ac_event_to ac ev) = Some ev"
    and "enqueue env ac ev s = (Inr i, s1)" and "(chat_step env cd ac mc patch_to)\<^sup>*\<^sup>* s1 s2"
  shows "\<exists>r \<in> set (db_outbox (st_db s2)). ob_id r = i \<and> ob_payload r = ac_event_to ac ev \<and>
    (if ob_published r = None then filter (\<lambda>a. ar_outbox_id a = Some i) (db_audit (st_db s2)) = []
     else \<exists>k. filter (\<lambda>a. ar_outbox_id a = Some i) (db_audit (st_db s2)) = [audit_row_of ac k i ev])"
proof -
  obtain row where s1: "st_db s1 = (st_db s)\<lparr>db_outbox := db_outbox (st_db s) @ [row]\<rparr>" and row: "ob_id row = i"
    "ob_payload row = ac_event_to ac ev" using assms(3) by (rule enqueue_Inr)
  have "outbox_rel ac (st_db s) (st_db s1)"
    using obx.keeps_enqueue [of ac env ac ev] assms(3) unfolding ob.keeps_def by (metis snd_conv)
  then have inv: "outbox_inv ac (st_db s2)" and kept: "outbox_kept (st_db s1) (st_db s2)"
    using assms(1) outbox_steps [OF _ assms(4)] by (auto simp: outbox_rel_def)
  have "row \<in> set (db_outbox (st_db s1))" by (simp add: s1)
  with kept obtain r where r: "r \<in> set (db_outbox (st_db s2))" "outbox_row_kept row r"
    unfolding outbox_kept_def by blast
  then have row: "ob_id r = i" "ob_payload r = ac_event_to ac ev" using row by (simp_all add: outbox_row_kept_def)
  have pub: "published (st_db s2) i \<longleftrightarrow> ob_published r \<noteq> None"
    using distinct_mapD [OF outbox_invD(1) [OF inv] _ r(1)] r(1) row(1) unfolding published_def by metis
  have len: "length (audits_of (st_db s2) i) = (if published (st_db s2) i then 1 else 0)" by (rule outbox_invD(2) [OF inv])
  have "\<exists>k. audits_of (st_db s2) i = [audit_row_of ac k i ev]" if "ob_published r \<noteq> None"
  proof -
    have "length (audits_of (st_db s2) i) = Suc 0" using len pub that by simp
    then obtain a where a: "audits_of (st_db s2) i = [a]" by (auto simp: length_Suc_conv)
    have "describes ac r a" using outbox_invD(3) [OF inv r(1), of a] a row(1) by simp
    then show ?thesis using a row assms(2) by (auto simp: describes_def)
  qed
  moreover have "audits_of (st_db s2) i = []" if "ob_published r = None" using len pub that by simp
  ultimately show ?thesis using r(1) row unfolding audits_of_def by metis
qed

lemma sample_enqueues: "enqueue sample_env sample_audit_codec sample_event sample_store = (Inr 100, sample_enqueued)"
proof -
  have "fst (enqueue sample_env sample_audit_codec sample_event sample_store) = Inr 100" by code_simp
  then show ?thesis by (simp add: sample_enqueued_def prod_eq_iff)
qed

lemma audit_records_the_event_witness:
  "\<exists>k. filter (\<lambda>a. ar_outbox_id a = Some 100)
       (db_audit (st_db (snd (dispatch_due sample_env sample_audit_codec False 1 sample_enqueued)))) =
     [audit_row_of sample_audit_codec k 100 sample_event]"
proof -
  let ?s = "snd (dispatch_due sample_env sample_audit_codec False 1 sample_enqueued)"
  have "\<forall>r \<in> set (db_outbox (st_db ?s)). ob_published r \<noteq> None" by code_simp
  moreover have run: "(chat_step sample_env sample_codec sample_audit_codec sample_mc sample_patch_to)\<^sup>*\<^sup>* sample_enqueued ?s"
    by (rule r_into_rtranclp) (rule chat_step.Dispatch)
  have "ac_event_from sample_audit_codec (ac_event_to sample_audit_codec sample_event) = Some sample_event"
    by (simp add: sample_audit_codec_def)
  from audit_records_the_event [OF sample_outbox_inv this sample_enqueues run] show ?thesis
    using calculation by (auto simp del: not_None_eq)
qed

section \<open>Creating a job\<close>

lemma session_create_Inr:
  assumes "session_create env user title s = (Inr r, s')"
  shows "st_db s' = (st_db s)\<lparr>db_sessions := db_sessions (st_db s) @ [r]\<rparr> \<and> ses_user_id r = Some user \<and> ses_archived r = None"
  using assms by (auto simp: session_create_def sq_bind_Inr_iff stmt_Inr_iff fresh_uuid_Inr_iff Let_def split: if_splits)

lemma session_create_Inl: "session_create env user title s = (Inl e, s') \<Longrightarrow> st_db s' = st_db s"
  by (auto simp: session_create_def sq_bind_def stmt_def fresh_uuid_def Let_def split: if_splits sum.splits prod.splits)

lemma select_db: "stmt env (\<lambda>t d. Inr (g t d, d)) s = (r, s') \<Longrightarrow> st_db s' = st_db s"
  by (auto simp: stmt_def Let_def split: if_splits)

lemma session_get_Inr_iff:
  "session_get_for_user env i user legacy s = (Inr r, s') \<longleftrightarrow>
     \<not> ev_fault env (st_tick s) \<and> r = find (session_visible i user legacy) (db_sessions (st_db s)) \<and>
     s' = s\<lparr>st_tick := Suc (st_tick s)\<rparr>"
  by (auto simp: session_get_for_user_def stmt_Inr_iff)

definition job_created :: "audit_codec \<Rightarrow> uuid \<Rightarrow> string \<Rightarrow> created_chat_job \<Rightarrow> database \<Rightarrow> database \<Rightarrow> bool" where
  "job_created ac user text cr d d' \<longleftrightarrow>
     (\<exists>row m now.
        d' = d\<lparr>db_jobs := db_jobs d @ [row], db_messages := db_messages d @ [m], db_outbox := db_outbox d'\<rparr> \<and>
        job_id row = cr_job_id cr \<and> job_session_id row = cr_session_id cr \<and> job_user_id row = Some user \<and>
        job_status row = ''queued'' \<and> job_user_message_id row = Some (cr_user_message_id cr) \<and> job_message row = text \<and>
        msg_id m = cr_user_message_id cr \<and> msg_session_id m = cr_session_id cr \<and> msg_job_id m = Some (cr_job_id cr) \<and>
        msg_role m = ''user'' \<and> msg_content m = text \<and>
        enqueued ac [job_event (cr_session_id cr) (cr_job_id cr) user ChatJobCreated OutcomeSuccess JobCreatedSummary None now]
          d (d\<lparr>db_outbox := db_outbox d'\<rparr>))"

lemma job_created_sessions:
  assumes "job_created ac user text cr d d'"
  shows "db_sessions d' = db_sessions d"
proof -
  obtain row m where d': "d' = d\<lparr>db_jobs := db_jobs d @ [row], db_messages := db_messages d @ [m], db_outbox := db_outbox d'\<rparr>"
    using assms unfolding job_created_def by blast
  show ?thesis by (subst d') simp
qed

lemma map_fresh: "x \<notin> f ` set xs \<Longrightarrow> map (\<lambda>r. if f r = x then g r else r) xs = xs"
  by (induction xs) auto

lemma create_body_Inr:
  assumes "create_body env ac user session message_id j text state expires s = (Inr (u, c), s')"
  shows "job_created ac user text
      \<lparr>cr_session_id = session, cr_job_id = j, cr_user_message_id = message_id, cr_status = ''queued'', cr_step = ''queued''\<rparr>
      (st_db s) (st_db s')"
proof -
  define row where "row = new_job_row j session user text state expires (ev_now env (st_tick s))"
  obtain u1 s1 m s2 n s3 i where j: "insert_job env j session user text state expires s = (Inr u1, s1)"
    and m: "insert_message env message_id session j ''user'' text (JObject []) s1 = (Inr m, s2)"
    and n: "update_jobs env (\<lambda>r. job_id r = j) (\<lambda>_ r. r\<lparr>job_user_message_id := Some message_id\<rparr>) s2 = (Inr n, s3)"
    and q: "enqueue_now env ac (job_event session j user ChatJobCreated OutcomeSuccess JobCreatedSummary None) s3 = (Inr i, s')"
    using assms unfolding create_body_def by (elim sq_bind_InrE) (auto simp del: enqueue_all.simps)
  have s1: "st_db s1 = (st_db s)\<lparr>db_jobs := db_jobs (st_db s) @ [row]\<rparr>" "job_ok (st_db s) row"
    using j by (auto simp: insert_job_def stmt_Inr_iff Let_def row_def split: if_splits)
  have fresh: "j \<notin> job_id ` set (db_jobs (st_db s))" using s1(2) by (auto simp: job_ok_def job_exists_def row_def new_job_row_def)
  have s3: "st_db s3 = (st_db s)\<lparr>db_jobs := db_jobs (st_db s) @ [row\<lparr>job_user_message_id := Some message_id\<rparr>],
      db_messages := db_messages (st_db s) @ [m]\<rparr>"
    using s1 m n fresh by (auto simp: insert_message_Inr_iff update_jobs_Inr_iff map_fresh row_def new_job_row_def)
  have m': "msg_id m = message_id" "msg_session_id m = session" "msg_job_id m = Some j" "msg_role m = ''user''" "msg_content m = text"
    using m by (auto simp: insert_message_Inr_iff)
  obtain now rows where rows: "st_db s' = (st_db s3)\<lparr>db_outbox := db_outbox (st_db s3) @ rows\<rparr>"
    "map ob_payload rows = [ac_event_to ac (job_event session j user ChatJobCreated OutcomeSuccess JobCreatedSummary None now)]"
    "list_all (\<lambda>r. ob_published r = None) rows"
    using enqueue_now_enqueued [OF q] by (auto simp: enqueued_def)
  have "enqueued ac [job_event session j user ChatJobCreated OutcomeSuccess JobCreatedSummary None now]
          (st_db s) ((st_db s)\<lparr>db_outbox := db_outbox (st_db s')\<rparr>)"
    unfolding enqueued_def by (rule exI [of _ rows]) (use rows s3 in simp)
  then show ?thesis
    unfolding job_created_def
    by (intro exI [of _ "row\<lparr>job_user_message_id := Some message_id\<rparr>"] exI [of _ m] exI [of _ now])
      (use rows s3 m' in \<open>simp add: row_def new_job_row_def\<close>)
qed

text \<open>The session of a new job: the one the user names, or a new one.\<close>

definition job_session :: "env \<Rightarrow> uuid \<Rightarrow> uuid option \<Rightarrow> uuid option sq" where
  "job_session env user chat =
     (case chat of
        Some i \<Rightarrow> sq_bind (session_get_for_user env i user False) (\<lambda>r. sq_return (map_option (\<lambda>_. i) r))
      | None \<Rightarrow> sq_bind (session_create env user None) (\<lambda>r. sq_return (Some (ses_id r))))"

lemmas job_create_session = job_create_def [folded job_session_def]

lemma job_session_keeps:
  assumes "job_session env user chat s = (x, s1)"
  shows "db_jobs (st_db s1) = db_jobs (st_db s) \<and> db_messages (st_db s1) = db_messages (st_db s) \<and>
      db_outbox (st_db s1) = db_outbox (st_db s)"
proof (cases chat)
  case None
  obtain y s2 where y: "session_create env user None s = (y, s2)" by (cases "session_create env user None s")
  then have "s1 = s2" using assms None by (cases y) (auto simp: job_session_def sq_bind_def)
  then show ?thesis using y by (cases y) (auto dest: session_create_Inr session_create_Inl)
next
  case (Some i)
  obtain y s2 where y: "session_get_for_user env i user False s = (y, s2)" by (cases "session_get_for_user env i user False s")
  then have "s1 = s2" using assms Some by (cases y) (auto simp: job_session_def sq_bind_def)
  then show ?thesis using y by (auto simp: session_get_for_user_def dest: select_db)
qed

lemma job_session_owned:
  assumes "job_session env user chat s = (Inr (Some i), s1)"
  shows "\<exists>se \<in> set (db_sessions (st_db s1)). ses_id se = i \<and> ses_user_id se = Some user \<and> ses_archived se = None"
proof (cases chat)
  case None
  then show ?thesis using assms by (auto simp: job_session_def sq_bind_Inr_iff dest!: session_create_Inr)
next
  case (Some j)
  then obtain se where "find (session_visible j user False) (db_sessions (st_db s)) = Some se" "j = i" "st_db s1 = st_db s"
    using assms by (auto simp: job_session_def sq_bind_Inr_iff session_get_Inr_iff)
  then show ?thesis by (auto simp: session_visible_def dest!: find_SomeD)
qed

text \<open>
  C26: A job is created whole or not at all.  When \<open>create\<close> returns a job, exactly one job row, queued and owned
  by the user, one user message with the text, each referring to the other, and one outbox row with the
  creation event were added, in a session of that user that is not archived; in every other case no job,
  message or event was.
\<close>
theorem job_create_atomic:
  assumes "job_create env ac user chat text client classification plan policy s = (r, s')"
  shows "case r of
      Inr (Some cr) \<Rightarrow>
        (\<exists>d. db_jobs d = db_jobs (st_db s) \<and> db_messages d = db_messages (st_db s) \<and> db_outbox d = db_outbox (st_db s) \<and>
           job_created ac user text cr d (st_db s')) \<and>
        (\<exists>se \<in> set (db_sessions (st_db s')). ses_id se = cr_session_id cr \<and> ses_user_id se = Some user \<and> ses_archived se = None)
    | _ \<Rightarrow> db_jobs (st_db s') = db_jobs (st_db s) \<and> db_messages (st_db s') = db_messages (st_db s) \<and>
        db_outbox (st_db s') = db_outbox (st_db s)"
proof -
  obtain x s1 where x: "job_session env user chat s = (x, s1)" by (cases "job_session env user chat s")
  note same = job_session_keeps [OF x]
  show ?thesis
  proof (cases x)
    case (Inl e)
    then have "r = Inl e" "s' = s1" using assms x by (auto simp: job_create_session sq_bind_def)
    then show ?thesis using same by simp
  next
    case (Inr found)
    show ?thesis
    proof (cases found)
      case None
      then have "r = Inr None" "s' = s1" using assms x Inr by (auto simp: job_create_session sq_bind_def)
      then show ?thesis using same by simp
    next
      case (Some session)
      then have mine: "\<exists>se \<in> set (db_sessions (st_db s1)). ses_id se = session \<and> ses_user_id se = Some user \<and> ses_archived se = None"
        using job_session_owned x Inr by simp
      let ?s2 = "s1\<lparr>st_tick := Suc (Suc (Suc (st_tick s1)))\<rparr>"
      let ?m = "ev_uuid env (st_tick s1)" and ?j = "ev_uuid env (Suc (st_tick s1))"
      obtain y s3 where y: "sq_tx env (create_body env ac user session ?m ?j text
          (initial_state client text classification plan policy) (int (ev_now env (Suc (Suc (st_tick s1)))) + job_lifetime)) ?s2 = (y, s3)"
        by fastforce
      have r: "r = (case y of Inl e \<Rightarrow> Inl e | Inr _ \<Rightarrow> Inr (Some \<lparr>cr_session_id = session, cr_job_id = ?j,
            cr_user_message_id = ?m, cr_status = ''queued'', cr_step = ''queued''\<rparr>)) \<and> s' = s3"
        using assms x Inr Some y
        by (auto simp: job_create_session sq_bind_def fresh_uuid_def clock_def split: sum.splits)
      show ?thesis
      proof (cases y)
        case (Inl e)
        then have "st_db s3 = st_db ?s2" using y tx_error by blast
        then show ?thesis using r Inl same by simp
      next
        case (Inr u)
        obtain s4 c where body: "create_body env ac user session ?m ?j text (initial_state client text classification plan policy)
            (int (ev_now env (Suc (Suc (st_tick s1)))) + job_lifetime) (?s2\<lparr>st_tick := Suc (st_tick ?s2)\<rparr>) = (Inr (u, c), s4)"
          and db: "st_db s3 = (if c then st_db s4 else st_db ?s2)"
          using y Inr by (auto elim: tx_Inr)
        have c by (use body in \<open>auto simp: create_body_def sq_bind_Inr_iff\<close>)
        have made: "job_created ac user text \<lparr>cr_session_id = session, cr_job_id = ?j, cr_user_message_id = ?m,
            cr_status = ''queued'', cr_step = ''queued''\<rparr> (st_db s1) (st_db s')"
          using create_body_Inr [OF body] db \<open>c\<close> r by simp
        then have "db_sessions (st_db s') = db_sessions (st_db s1)" by (rule job_created_sessions)
        then show ?thesis using r Inr made same mine by auto
      qed
    qed
  qed
qed

lemma job_create_atomic_witness:
  "\<exists>cr d. db_jobs d = [sample_job] \<and> job_created sample_audit_codec 11 ''deposits'' cr d (st_db sample_created)"
proof -
  have "case fst (job_create sample_env sample_audit_codec 11 None ''deposits'' JNull JNull JNull JNull sample_store) of
      Inr (Some _) \<Rightarrow> True | _ \<Rightarrow> False"
    by code_simp
  then obtain cr where "job_create sample_env sample_audit_codec 11 None ''deposits'' JNull JNull JNull JNull sample_store =
      (Inr (Some cr), sample_created)"
    by (auto simp: sample_created_def prod_eq_iff split: sum.splits option.splits)
  from job_create_atomic [OF this] show ?thesis by (auto simp: sample_store_simps)
qed

section \<open>Answering a clarification\<close>

definition answerable :: "codec \<Rightarrow> database \<Rightarrow> uuid \<Rightarrow> uuid \<Rightarrow> submission \<Rightarrow> job_row \<Rightarrow> bool" where
  "answerable cd d j user sb r \<longleftrightarrow>
     r \<in> set (db_jobs d) \<and> job_id r = j \<and> job_user_id r = Some user \<and> open_session d (job_session_id r) \<and>
     job_status r = ''waiting_for_user_input'' \<and>
     (\<forall>i revision. sb_clarification_id sb = Some i \<and> sb_clarification_revision sb = Some revision \<longrightarrow>
        pending_matches cd i revision (pending_of d j))"

definition answered ::
  "codec \<Rightarrow> audit_codec \<Rightarrow> (constraint_patch \<Rightarrow> json) \<Rightarrow> uuid \<Rightarrow> uuid \<Rightarrow> submission \<Rightarrow> message_row \<Rightarrow> job_row \<Rightarrow> database \<Rightarrow> database \<Rightarrow> bool" where
  "answered cd ac patch_to j user sb m r d d' \<longleftrightarrow>
     (\<exists>now now' l e.
        d' = d\<lparr>db_messages := db_messages d @ [m],
               db_jobs := map (\<lambda>x. if job_id x = j then x\<lparr>job_status := ''queued'', job_step := ''queued'',
                                    job_resume_step := Some (job_step r), job_updated := now\<rparr> else x) (db_jobs d),
               db_checkpoints := db_checkpoints d @ [l], db_events := db_events d @ [e], db_outbox := db_outbox d'\<rparr> \<and>
        msg_session_id m = job_session_id r \<and> msg_job_id m = Some j \<and> msg_role m = ''clarification'' \<and>
        msg_content m = sb_display_message sb \<and> msg_metadata m = response_metadata cd patch_to sb \<and>
        log_job_id l = j \<and> log_type l = ''user_response_received'' \<and> log_job_id e = j \<and> log_type e = ''status'' \<and>
        enqueued ac [job_event (job_session_id r) j user ChatClarificationReceived OutcomeClarification
            ClarificationReceivedSummary None now'] d (d\<lparr>db_outbox := db_outbox d'\<rparr>))"

lemma respond_writes_Inr:
  assumes "respond_writes env cd ac patch_to j user sb
      \<lparr>tg_session_id = job_session_id r, tg_step = job_step r, tg_status = job_status r\<rparr> s = (Inr (out, c), s')"
  shows "\<exists>m. out = Inserted m \<and> c \<and> answered cd ac patch_to j user sb m r (st_db s) (st_db s')"
proof -
  let ?tg = "\<lparr>tg_session_id = job_session_id r, tg_step = job_step r, tg_status = job_status r\<rparr>"
  obtain i1 s1 i2 s2 i3 s3 m s4 n s5 u1 s6 u2 s7 i4 where
    ids: "fresh_uuid env s = (Inr i1, s1)" "fresh_uuid env s1 = (Inr i2, s2)" "fresh_uuid env s2 = (Inr i3, s3)"
    and m: "insert_message env i1 (tg_session_id ?tg) j ''clarification'' (sb_display_message sb)
        (response_metadata cd patch_to sb) s3 = (Inr m, s4)"
    and n: "update_jobs_checked env (\<lambda>r. job_id r = j) (\<lambda>now r. r\<lparr>job_status := ''queued'', job_step := ''queued'',
        job_resume_step := Some (tg_step ?tg), job_updated := now\<rparr>) s4 = (Inr n, s5)"
    and l: "insert_checkpoint_row env i2 j (tg_step ?tg) ''user_response_received''
       (obj_of [(''message_id'', JString (cd_uuid cd i1)), (''resume_from_step'', JString (tg_step ?tg)),
                (''selected_option_id'', json_opt JString (sb_selected_option_id sb))]) s5 = (Inr u1, s6)"
    and e: "insert_event_row env i3 j ''status'' (Some ''queued'')
       (obj_of [(''status'', JString ''queued''), (''current_step'', JString ''queued''),
                (''message_id'', JString (cd_uuid cd i1)),
                (''selected_option_id'', json_opt JString (sb_selected_option_id sb))]) s6 = (Inr u2, s7)"
    and q: "enqueue_now env ac (job_event (tg_session_id ?tg) j user ChatClarificationReceived OutcomeClarification
       ClarificationReceivedSummary None) s7 = (Inr i4, s')"
    and out: "out = Inserted m" c
    using assms unfolding respond_writes_def by (elim sq_bind_InrE) auto
  have s3: "st_db s3 = st_db s" using ids by (auto simp: fresh_uuid_Inr_iff)
  obtain now' rows where rows: "st_db s' = (st_db s7)\<lparr>db_outbox := db_outbox (st_db s7) @ rows\<rparr>"
    "map ob_payload rows = [ac_event_to ac (job_event (job_session_id r) j user ChatClarificationReceived OutcomeClarification
       ClarificationReceivedSummary None now')]"
    "list_all (\<lambda>r. ob_published r = None) rows"
    using enqueue_now_enqueued [OF q] by (auto simp: enqueued_def)
  have eq: "enqueued ac [job_event (job_session_id r) j user ChatClarificationReceived OutcomeClarification
            ClarificationReceivedSummary None now'] (st_db s) ((st_db s)\<lparr>db_outbox := db_outbox (st_db s')\<rparr>)"
    unfolding enqueued_def
    by (rule exI [of _ rows]) (use rows m update_jobs_checked_Inr [OF n] log_row_Inr [OF l] event_row_Inr [OF e] s3
      in \<open>auto simp: insert_message_Inr_iff\<close>)
  have "answered cd ac patch_to j user sb m r (st_db s) (st_db s')"
    unfolding answered_def
    using rows eq m update_jobs_checked_Inr [OF n] log_row_Inr [OF l] event_row_Inr [OF e] s3
    by (intro exI [of _ "ev_now env (st_tick s4)"] exI [of _ now'] exI [of _ "last (db_checkpoints (st_db s6))"]
        exI [of _ "last (db_events (st_db s7))"]) (simp add: insert_message_Inr_iff)
  then show ?thesis using out by blast
qed

lemma found_writes:
  assumes "respond_found env cd ac patch_to j user sb tg s = (Inr (Inserted m, c), s')"
  shows "\<exists>s1. respond_writes env cd ac patch_to j user sb tg s1 = (Inr (Inserted m, c), s') \<and> st_db s1 = st_db s \<and>
      (\<forall>i revision. sb_clarification_id sb = Some i \<and> sb_clarification_revision sb = Some revision \<longrightarrow>
         pending_matches cd i revision (pending_of (st_db s) j))"
  using assms
  by (auto simp: respond_found_def sq_bind_Inr_iff stmt_Inr_iff split: option.splits if_splits)

text \<open>
  C27: An answer to a clarification is taken only by the user's own waiting job in an open session, and, when it
  names a clarification, only if that one is pending; then the message, the requeued job, the checkpoint, the
  status event and the audit event are written together.  Every other outcome, errors included, leaves the
  database as it was.
\<close>
theorem respond_refines:
  assumes "job_respond env cd ac patch_to j user sb s = (out, s')"
  shows "case out of
      Inr (Inserted m) \<Rightarrow> (\<exists>r. answerable cd (st_db s) j user sb r \<and> answered cd ac patch_to j user sb m r (st_db s) (st_db s'))
    | _ \<Rightarrow> st_db s' = st_db s"
proof (cases out)
  case (Inl e)
  then show ?thesis using assms tx_error unfolding job_respond_def by simp
next
  case (Inr o')
  let ?s1 = "s\<lparr>st_tick := Suc (st_tick s)\<rparr>"
  obtain s2 c where body: "respond_body env cd ac patch_to j user sb ?s1 = (Inr (o', c), s2)"
    and db: "st_db s' = (if c then st_db s2 else st_db s)"
    using assms Inr unfolding job_respond_def by (auto elim: tx_Inr)
  let ?s3 = "?s1\<lparr>st_tick := Suc (st_tick ?s1)\<rparr>"
  have rest: "(case response_target_of (st_db s) j user of
         None \<Rightarrow> sq_return (PersistNotFound, False)
       | Some tg \<Rightarrow> respond_found env cd ac patch_to j user sb tg) ?s3 = (Inr (o', c), s2)"
    using body unfolding respond_body_def by (auto simp: sq_bind_Inr_iff stmt_Inr_iff)
  show ?thesis
  proof (cases "\<exists>m. o' = Inserted m")
    case False
    have "\<not> c"
    proof
      assume c
      then obtain tg s4 where "respond_writes env cd ac patch_to j user sb tg s4 = (Inr (o', c), s2)"
        using rest by (auto simp: respond_found_def sq_bind_Inr_iff stmt_Inr_iff split: option.splits if_splits)
      then show False using False \<open>c\<close> unfolding respond_writes_def by (elim sq_bind_InrE) auto
    qed
    then show ?thesis using db Inr False by (auto split: persist_outcome.splits)
  next
    case True
    then obtain m where m: "o' = Inserted m" by blast
    obtain r where r: "find (\<lambda>r. job_id r = j \<and> job_user_id r = Some user \<and> open_session (st_db s) (job_session_id r))
        (db_jobs (st_db s)) = Some r"
      and waiting: "job_status r = ''waiting_for_user_input''"
      using rest m by (auto simp: response_target_of_def respond_found_def split: option.splits if_splits)
    let ?tg = "\<lparr>tg_session_id = job_session_id r, tg_step = job_step r, tg_status = job_status r\<rparr>"
    have "response_target_of (st_db s) j user = Some ?tg" using r by (simp add: response_target_of_def)
    then have found: "respond_found env cd ac patch_to j user sb ?tg ?s3 = (Inr (o', c), s2)" using rest by simp
    obtain s4 where w: "respond_writes env cd ac patch_to j user sb ?tg s4 = (Inr (o', c), s2)" and s4: "st_db s4 = st_db s"
      and pending: "\<forall>i revision. sb_clarification_id sb = Some i \<and> sb_clarification_revision sb = Some revision \<longrightarrow>
          pending_matches cd i revision (pending_of (st_db s) j)"
      using found_writes [OF found [unfolded m]] m waiting by auto
    have "answered cd ac patch_to j user sb m r (st_db s) (st_db s')" and c
      using respond_writes_Inr [OF w] m s4 db by auto
    moreover have "answerable cd (st_db s) j user sb r"
      using r waiting pending find_SomeD [OF r] unfolding answerable_def by blast
    ultimately show ?thesis using Inr m by auto
  qed
qed

definition sample_submission :: submission where
  "sample_submission =
     \<lparr>sb_clarification_id = Some (cp_id sample_payload), sb_clarification_revision = Some (cp_revision sample_payload),
      sb_selected_option_id = None, sb_source_message = ''9'', sb_display_message = ''9'', sb_answers = [],
      sb_constraint_patch = []\<rparr>"

definition sample_answered :: store where
  "sample_answered =
     snd (job_respond sample_env sample_codec sample_audit_codec sample_patch_to 5 11 sample_submission sample_paused)"

lemma sample_responds:
  "\<exists>m. job_respond sample_env sample_codec sample_audit_codec sample_patch_to 5 11 sample_submission sample_paused =
     (Inr (Inserted m), sample_answered)"
proof -
  have "case fst (job_respond sample_env sample_codec sample_audit_codec sample_patch_to 5 11 sample_submission sample_paused) of
      Inr (Inserted _) \<Rightarrow> True | _ \<Rightarrow> False"
    by code_simp
  then show ?thesis
    by (auto simp: sample_answered_def prod_eq_iff split: sum.splits persist_outcome.splits)
qed

lemma respond_refines_witness:
  "\<exists>m r. answerable sample_codec (st_db sample_paused) 5 11 sample_submission r \<and>
     answered sample_codec sample_audit_codec sample_patch_to 5 11 sample_submission m r (st_db sample_paused) (st_db sample_answered)"
proof -
  obtain m where "job_respond sample_env sample_codec sample_audit_codec sample_patch_to 5 11 sample_submission sample_paused =
      (Inr (Inserted m), sample_answered)" using sample_responds by blast
  from respond_refines [OF this] show ?thesis by auto
qed

text \<open>The shape of a successful answer, for what follows it.\<close>

lemma respond_Inserted:
  assumes "job_respond env cd ac patch_to j user sb s = (Inr (Inserted m), s')"
  obtains r s1 s2 where "respond_writes env cd ac patch_to j user sb
      \<lparr>tg_session_id = job_session_id r, tg_step = job_step r, tg_status = job_status r\<rparr> s1 = (Inr (Inserted m, True), s2)"
    and "st_db s' = st_db s2" and "st_db s1 = st_db s" and "r \<in> set (db_jobs (st_db s))" and "job_id r = j"
    and "job_user_id r = Some user" and "open_session (st_db s) (job_session_id r)"
proof -
  let ?s1 = "s\<lparr>st_tick := Suc (st_tick s)\<rparr>"
  let ?s3 = "?s1\<lparr>st_tick := Suc (st_tick ?s1)\<rparr>"
  obtain s2 c where body: "respond_body env cd ac patch_to j user sb ?s1 = (Inr (Inserted m, c), s2)"
    and db: "st_db s' = (if c then st_db s2 else st_db s)"
    using assms unfolding job_respond_def by (auto elim: tx_Inr)
  have rest: "(case response_target_of (st_db s) j user of
         None \<Rightarrow> sq_return (PersistNotFound, False)
       | Some tg \<Rightarrow> respond_found env cd ac patch_to j user sb tg) ?s3 = (Inr (Inserted m, c), s2)"
    using body unfolding respond_body_def by (auto simp: sq_bind_Inr_iff stmt_Inr_iff)
  then obtain r where r: "find (\<lambda>r. job_id r = j \<and> job_user_id r = Some user \<and> open_session (st_db s) (job_session_id r))
        (db_jobs (st_db s)) = Some r"
    by (auto simp: response_target_of_def split: option.splits)
  let ?tg = "\<lparr>tg_session_id = job_session_id r, tg_step = job_step r, tg_status = job_status r\<rparr>"
  have "respond_found env cd ac patch_to j user sb ?tg ?s3 = (Inr (Inserted m, c), s2)"
    using rest r by (simp add: response_target_of_def)
  then obtain s1 where w: "respond_writes env cd ac patch_to j user sb ?tg s1 = (Inr (Inserted m, c), s2)" "st_db s1 = st_db s"
    using found_writes by fastforce
  then have c using respond_writes_Inr by fastforce
  then show ?thesis using that [of r s1 s2] w db find_SomeD [OF r] by auto
qed

text \<open>
  C28: One waiting, one answer: after an answer has been taken, the next one to the same job, whatever it says, is
  refused as not active and changes nothing, unless the database fails.
\<close>
theorem respond_once:
  assumes "job_respond env cd ac patch_to j user sb s = (Inr (Inserted m), s1)"
  shows "case job_respond env' cd' ac' patch_to' j user sb' s1 of
      (Inr out, s2) \<Rightarrow> out = PersistNotActive \<and> st_db s2 = st_db s1
    | (Inl e, s2) \<Rightarrow> st_db s2 = st_db s1"
proof (cases "fst (job_respond env' cd' ac' patch_to' j user sb' s1)")
  case (Inl e)
  then show ?thesis using tx_error unfolding job_respond_def by (cases "sq_tx env' (respond_body env' cd' ac' patch_to' j user sb') s1") auto
next
  case (Inr out)
  then obtain s2 where second: "job_respond env' cd' ac' patch_to' j user sb' s1 = (Inr out, s2)"
    by (cases "job_respond env' cd' ac' patch_to' j user sb' s1") auto
  obtain r s3 s4 where w: "respond_writes env cd ac patch_to j user sb
      \<lparr>tg_session_id = job_session_id r, tg_step = job_step r, tg_status = job_status r\<rparr> s3 = (Inr (Inserted m, True), s4)"
    and db: "st_db s1 = st_db s4" "st_db s3 = st_db s" and r: "r \<in> set (db_jobs (st_db s))" "job_id r = j"
    "job_user_id r = Some user" "open_session (st_db s) (job_session_id r)"
    using assms by (rule respond_Inserted)
  have "answered cd ac patch_to j user sb m r (st_db s) (st_db s1)" using respond_writes_Inr [OF w] db by simp
  then obtain now l e where s1: "st_db s1 = (st_db s)\<lparr>db_messages := db_messages (st_db s) @ [m],
               db_jobs := map (\<lambda>x. if job_id x = j then x\<lparr>job_status := ''queued'', job_step := ''queued'',
                                    job_resume_step := Some (job_step r), job_updated := now\<rparr> else x) (db_jobs (st_db s)),
               db_checkpoints := db_checkpoints (st_db s) @ [l], db_events := db_events (st_db s) @ [e],
               db_outbox := db_outbox (st_db s1)\<rparr>"
    unfolding answered_def by blast
  have sessions: "db_sessions (st_db s1) = db_sessions (st_db s)" by (subst s1) simp
  have jobs: "db_jobs (st_db s1) = map (\<lambda>x. if job_id x = j then x\<lparr>job_status := ''queued'', job_step := ''queued'',
                                    job_resume_step := Some (job_step r), job_updated := now\<rparr> else x) (db_jobs (st_db s))"
    by (subst s1) simp
  let ?p = "\<lambda>x. job_id x = j \<and> job_user_id x = Some user \<and> open_session (st_db s1) (job_session_id x)"
  have queued: "\<forall>x \<in> set (db_jobs (st_db s1)). job_id x = j \<longrightarrow> job_status x = ''queued''"
    unfolding jobs ball_map by simp
  have "\<exists>x \<in> set (db_jobs (st_db s1)). ?p x"
    unfolding jobs bex_map
  proof (rule bexI [OF _ r(1)])
    have "open_session (st_db s1) (job_session_id r)" using r(4) sessions by (simp add: open_session_def)
    then show "?p (if job_id r = j then r\<lparr>job_status := ''queued'', job_step := ''queued'',
        job_resume_step := Some (job_step r), job_updated := now\<rparr> else r)" using r(2,3) by simp
  qed
  then have "find ?p (db_jobs (st_db s1)) \<noteq> None" unfolding find_None_iff by blast
  then obtain x where x: "find ?p (db_jobs (st_db s1)) = Some x" by blast
  have "x \<in> set (db_jobs (st_db s1)) \<and> job_id x = j" using find_SomeD [OF x] by simp
  then have "job_status x = ''queued''" using queued by blast
  then obtain tg where tg: "response_target_of (st_db s1) j user = Some tg" "tg_status tg \<noteq> ''waiting_for_user_input''"
    using x by (simp add: response_target_of_def)
  obtain s5 c where body: "respond_body env' cd' ac' patch_to' j user sb' (s1\<lparr>st_tick := Suc (st_tick s1)\<rparr>) = (Inr (out, c), s5)"
    and s2: "st_db s2 = (if c then st_db s5 else st_db s1)"
    using second unfolding job_respond_def by (auto elim: tx_Inr)
  then have "out = PersistNotActive \<and> \<not> c"
    using tg by (auto simp: respond_body_def respond_found_def sq_bind_Inr_iff stmt_Inr_iff)
  then show ?thesis using s2 second by simp
qed

lemma respond_once_witness:
  "st_db (snd (job_respond sample_env sample_codec sample_audit_codec sample_patch_to 5 11 sample_submission sample_answered)) =
     st_db sample_answered"
proof -
  obtain m where "job_respond sample_env sample_codec sample_audit_codec sample_patch_to 5 11 sample_submission sample_paused =
      (Inr (Inserted m), sample_answered)" using sample_responds by blast
  from respond_once [OF this, of sample_env sample_codec sample_audit_codec sample_patch_to sample_submission]
  show ?thesis by (auto split: prod.splits sum.splits)
qed

section \<open>The end of a job\<close>

definition ended :: "job_row \<Rightarrow> bool" where
  "ended r \<longleftrightarrow> job_status r = ''completed'' \<or> job_status r = ''failed''"

text \<open>
  A late failure never undoes an end: marking a job as failed changes no job that has completed or failed, changes
  no other table, and reports true exactly when there was a job to mark.
\<close>
theorem fail_respects_end:
  assumes "job_fail env j e s = (Inr b, s')"
  shows "(b \<longleftrightarrow> (\<exists>r \<in> set (db_jobs (st_db s)). job_id r = j \<and> \<not> ended r)) \<and>
    (\<forall>r \<in> set (db_jobs (st_db s)). ended r \<or> job_id r \<noteq> j \<longrightarrow> r \<in> set (db_jobs (st_db s'))) \<and>
    (\<forall>r \<in> set (db_jobs (st_db s')). job_id r = j \<longrightarrow> ended r) \<and> st_db s' = (st_db s)\<lparr>db_jobs := db_jobs (st_db s')\<rparr>"
proof -
  let ?p = "\<lambda>r. job_id r = j \<and> job_status r \<notin> set [''completed'', ''failed'']"
  let ?f = "\<lambda>r. r\<lparr>job_status := ''failed'', job_step := ''failed'', job_error := Some e,
      job_failed := Some (ev_now env (st_tick s)), job_updated := ev_now env (st_tick s)\<rparr>"
  have b: "b \<longleftrightarrow> filter ?p (db_jobs (st_db s)) \<noteq> []"
    and s': "st_db s' = (st_db s)\<lparr>db_jobs := map (\<lambda>r. if ?p r then ?f r else r) (db_jobs (st_db s))\<rparr>"
    using assms by (auto simp: job_fail_def sq_bind_Inr_iff update_jobs_Inr_iff)
  have p: "?p r \<longleftrightarrow> job_id r = j \<and> \<not> ended r" for r by (simp add: ended_def)
  have jobs: "db_jobs (st_db s') = map (\<lambda>r. if ?p r then ?f r else r) (db_jobs (st_db s))" using s' by simp
  have "b \<longleftrightarrow> (\<exists>r \<in> set (db_jobs (st_db s)). job_id r = j \<and> \<not> ended r)"
    unfolding b filter_empty_conv p by blast
  moreover have "r \<in> set (db_jobs (st_db s'))" if "r \<in> set (db_jobs (st_db s))" "ended r \<or> job_id r \<noteq> j" for r
    unfolding jobs using that p [of r] by (auto simp: image_iff intro!: bexI [of _ r])
  moreover have "\<forall>r \<in> set (db_jobs (st_db s')). job_id r = j \<longrightarrow> ended r"
    unfolding jobs ball_map by (auto simp: ended_def)
  moreover have "st_db s' = (st_db s)\<lparr>db_jobs := db_jobs (st_db s')\<rparr>" by (subst s', subst jobs) simp
  ultimately show ?thesis by blast
qed

lemma fail_respects_end_witness:
  "\<exists>r \<in> set (db_jobs (st_db sample_store)). job_id r = 5 \<and> \<not> ended r"
proof -
  let ?run = "job_fail sample_env 5 JNull sample_store"
  have "case fst ?run of Inr b \<Rightarrow> b | Inl _ \<Rightarrow> False" by code_simp
  then have "?run = (Inr True, snd ?run)" by (auto simp: prod_eq_iff split: sum.splits)
  from fail_respects_end [OF this] show ?thesis by blast
qed

definition persisted ::
  "audit_codec \<Rightarrow> uuid \<Rightarrow> uuid \<Rightarrow> uuid \<Rightarrow> string \<Rightarrow> json \<Rightarrow> json \<Rightarrow> response_terminal \<Rightarrow> execution_audit_context option \<Rightarrow>
   message_row \<Rightarrow> database \<Rightarrow> database \<Rightarrow> bool" where
  "persisted ac session j actor content metadata result terminal execution m d d' \<longleftrightarrow>
     (\<exists>now now' now''.
        d' = d\<lparr>db_messages := db_messages d @ [m],
               db_jobs := map (\<lambda>r. if job_id r = j then terminal_row result terminal now r else r) (db_jobs d),
               db_outbox := db_outbox d'\<rparr> \<and>
        msg_session_id m = session \<and> msg_job_id m = Some j \<and> msg_role m = ''assistant'' \<and> msg_content m = content \<and>
        msg_metadata m = metadata \<and>
        enqueued ac (terminal_event session j actor terminal now' #
            (case execution of None \<Rightarrow> [] | Some ex \<Rightarrow> execution_lifecycle_events session j actor now'' ex))
          d (d\<lparr>db_outbox := db_outbox d'\<rparr>))"

lemma lifecycle_enqueued:
  assumes "(case execution of
          None \<Rightarrow> sq_return ()
        | Some ex \<Rightarrow> sq_bind (clock env) (\<lambda>now. enqueue_all env ac (execution_lifecycle_events session j actor now ex))) s = (Inr u, s')"
  shows "\<exists>now. enqueued ac (case execution of None \<Rightarrow> [] | Some ex \<Rightarrow> execution_lifecycle_events session j actor now ex)
      (st_db s) (st_db s')"
proof (cases execution)
  case None
  then show ?thesis using assms by (auto simp: enqueued_nil)
next
  case (Some ex)
  then obtain s1 now where "enqueue_all env ac (execution_lifecycle_events session j actor now ex) s1 = (Inr u, s')" "st_db s1 = st_db s"
    using assms by (auto simp: sq_bind_Inr_iff clock_Inr_iff)
  then show ?thesis using Some enqueue_all_enqueued by fastforce
qed

lemma persist_body_Inr:
  assumes "persist_body env ac session j actor content metadata result terminal execution s = (Inr (m, c), s')"
  shows "c \<and> persisted ac session j actor content metadata result terminal execution m (st_db s) (st_db s')"
proof -
  obtain m' s1 n s2 i s3 u where
    m: "insert_assistant_message_in_transaction env session j content metadata s = (Inr m', s1)"
    and n: "update_jobs env (\<lambda>r. job_id r = j) (terminal_row result terminal) s1 = (Inr n, s2)"
    and q: "enqueue_now env ac (terminal_event session j actor terminal) s2 = (Inr i, s3)"
    and l: "(case execution of
          None \<Rightarrow> sq_return ()
        | Some ex \<Rightarrow> sq_bind (clock env) (\<lambda>now. enqueue_all env ac (execution_lifecycle_events session j actor now ex))) s3 = (Inr u, s')"
    and out: "m = m'" c
    using assms unfolding persist_body_def by (elim sq_bind_InrE) auto
  have m1: "st_db s1 = (st_db s)\<lparr>db_messages := db_messages (st_db s) @ [m]\<rparr>" "msg_session_id m = session" "msg_job_id m = Some j"
    "msg_role m = ''assistant''" "msg_content m = content" "msg_metadata m = metadata"
    using m out(1)
    by (auto simp: insert_assistant_message_in_transaction_def sq_bind_Inr_iff insert_message_Inr_iff fresh_uuid_Inr_iff)
  obtain now' where q: "enqueued ac [terminal_event session j actor terminal now'] (st_db s2) (st_db s3)"
    using enqueue_now_enqueued [OF q] by blast
  obtain now'' where l: "enqueued ac (case execution of None \<Rightarrow> [] | Some ex \<Rightarrow> execution_lifecycle_events session j actor now'' ex)
      (st_db s3) (st_db s')"
    using lifecycle_enqueued [OF l] by blast
  from enqueued_trans [OF q l] obtain rows where rows: "st_db s' = (st_db s2)\<lparr>db_outbox := db_outbox (st_db s2) @ rows\<rparr>"
    "map ob_payload rows = map (ac_event_to ac) (terminal_event session j actor terminal now' #
       (case execution of None \<Rightarrow> [] | Some ex \<Rightarrow> execution_lifecycle_events session j actor now'' ex))"
    "list_all (\<lambda>r. ob_published r = None) rows"
    unfolding enqueued_def by auto
  have s2: "st_db s2 = (st_db s1)\<lparr>db_jobs := map (\<lambda>r. if job_id r = j then terminal_row result terminal (ev_now env (st_tick s1)) r else r)
      (db_jobs (st_db s1))\<rparr>"
    using n by (auto simp: update_jobs_Inr_iff)
  have "enqueued ac (terminal_event session j actor terminal now' #
            (case execution of None \<Rightarrow> [] | Some ex \<Rightarrow> execution_lifecycle_events session j actor now'' ex))
          (st_db s) ((st_db s)\<lparr>db_outbox := db_outbox (st_db s')\<rparr>)"
    unfolding enqueued_def by (rule exI [of _ rows]) (use rows s2 m1 in simp)
  moreover have "st_db s' = (st_db s)\<lparr>db_messages := db_messages (st_db s) @ [m],
      db_jobs := map (\<lambda>r. if job_id r = j then terminal_row result terminal (ev_now env (st_tick s1)) r else r) (db_jobs (st_db s)),
      db_outbox := db_outbox (st_db s')\<rparr>"
    using rows(1) s2 m1(1) by simp
  ultimately show ?thesis using out(2) m1(2-) unfolding persisted_def by blast
qed

text \<open>
  The end of a job is recorded whole or not at all: when the answer is persisted, the message, the job's new state
  and result, the terminal event and the events of the execution, in order, are all written, and when it is
  not, the database is as it was.
\<close>
theorem persist_atomic:
  assumes "persist_assistant_response_and_terminal_state env ac session j actor content metadata result terminal execution s = (out, s')"
  shows "case out of
      Inr m \<Rightarrow> persisted ac session j actor content metadata result terminal execution m (st_db s) (st_db s')
    | Inl _ \<Rightarrow> st_db s' = st_db s"
proof (cases out)
  case (Inl e)
  then show ?thesis
    using assms tx_error unfolding persist_assistant_response_and_terminal_state_def by simp
next
  case (Inr m)
  obtain s1 c where body: "persist_body env ac session j actor content metadata result terminal execution
      (s\<lparr>st_tick := Suc (st_tick s)\<rparr>) = (Inr (m, c), s1)" and db: "st_db s' = (if c then st_db s1 else st_db s)"
    using assms Inr unfolding persist_assistant_response_and_terminal_state_def by (auto elim: tx_Inr)
  show ?thesis using persist_body_Inr [OF body] db Inr by simp
qed

definition sample_execution :: execution_audit_context where
  "sample_execution =
     \<lparr>ex_capability_id = ''deposits'', ex_query_id = ''q1'', ex_row_count = Some 4, ex_allowed = True, ex_truncated = False,
      ex_timed_out = False\<rparr>"

lemma persist_atomic_witness:
  "\<exists>m d'. persisted sample_audit_codec 3 5 11 ''done'' JNull JNull (TerminalCompleted OutcomeSuccess) (Some sample_execution) m
     (st_db sample_store) d'"
proof -
  let ?run = "persist_assistant_response_and_terminal_state sample_env sample_audit_codec 3 5 11 ''done'' JNull JNull
      (TerminalCompleted OutcomeSuccess) (Some sample_execution) sample_store"
  have "case fst ?run of Inr _ \<Rightarrow> True | Inl _ \<Rightarrow> False" by code_simp
  then obtain m where "?run = (Inr m, snd ?run)" by (auto simp: prod_eq_iff split: sum.splits)
  from persist_atomic [OF this] show ?thesis unfolding sum.case by blast
qed

section \<open>Memories\<close>

lemma memory_save_Inr:
  assumes "memory_save env mc m expected s = (Inr m', s')"
  obtains metadata r where "index_assign (jm_metadata m) ''planner_snapshot_id''
      (json_opt (\<lambda>i. JString (cd_uuid (mc_codec mc) i)) (jm_snapshot m)) = Inr metadata"
    and "r \<in> set (db_memory (st_db s))" and "mem_job_id r = jm_job_id m" and "mem_revision r = expected"
    and "m' = memory_of_row mc (saved_row mc m metadata r)"
    and "db_memory (st_db s') = map (\<lambda>x. if mem_job_id x = jm_job_id m \<and> mem_revision x = expected then saved_row mc m metadata x else x)
      (db_memory (st_db s))"
    and "db_jobs (st_db s') = db_jobs (st_db s)"
proof (cases "find (\<lambda>r. mem_job_id r = jm_job_id m \<and> mem_revision r = expected) (db_memory (st_db s))")
  case None
  then show ?thesis using assms by (auto simp: memory_save_def sq_bind_Inr_iff stmt_Inr_iff Let_def)
next
  case (Some r)
  then have "r \<in> set (db_memory (st_db s))" "mem_job_id r = jm_job_id m" "mem_revision r = expected" by (auto dest!: find_SomeD)
  with Some assms that show ?thesis
    by (auto simp: memory_save_def sq_bind_Inr_iff stmt_Inr_iff update_rows_def Let_def)
qed

lemma memory_save_stale:
  assumes "\<forall>r \<in> set (db_memory (st_db s)). mem_job_id r = jm_job_id m \<longrightarrow> mem_revision r \<noteq> expected"
  shows "(\<exists>e. fst (memory_save env mc m expected s) = Inl e) \<and> st_db (snd (memory_save env mc m expected s)) = st_db s"
proof -
  have none: "find (\<lambda>r. mem_job_id r = jm_job_id m \<and> mem_revision r = expected) (db_memory (st_db s)) = None"
    using assms unfolding find_None_iff by blast
  have same: "map (\<lambda>r. if mem_job_id r = jm_job_id m \<and> mem_revision r = expected then f r else r) (db_memory (st_db s)) =
      db_memory (st_db s)" for f
    using assms by (intro map_idI) auto
  show ?thesis
    by (auto simp: memory_save_def sq_bind_def stmt_def Let_def none same update_rows_def split: sum.splits)
qed

text \<open>
  No update of a job's memory is lost: once a save with a revision has succeeded, no later save of that job with the
  same expected revision does, whatever happened in between, and a refused save changes nothing.
\<close>
theorem memory_save_once:
  assumes "memory_save env mc m expected s = (Inr m1, s1)" and "chat_inv (st_db s)"
    and "(chat_step env' cd ac mc' patch_to)\<^sup>*\<^sup>* s1 s2" and "jm_job_id m2 = jm_job_id m"
  shows "(\<exists>e. fst (memory_save env'' mc'' m2 expected s2) = Inl e) \<and> st_db (snd (memory_save env'' mc'' m2 expected s2)) = st_db s2"
proof (rule memory_save_stale)
  obtain metadata r where r: "r \<in> set (db_memory (st_db s))" "mem_job_id r = jm_job_id m" "mem_revision r = expected"
    and rows: "db_memory (st_db s1) = map (\<lambda>x. if mem_job_id x = jm_job_id m \<and> mem_revision x = expected
        then saved_row mc m metadata x else x) (db_memory (st_db s))"
    using assms(1) by (rule memory_save_Inr)
  have "chat_rel (st_db s) (st_db s1)"
    using chat.keeps_memory_save assms(1) unfolding chat.keeps_def by (metis snd_conv)
  then have inv: "chat_inv (st_db s1)" using assms(2) by (simp add: chat_rel_def)
  have "saved_row mc m metadata r \<in> set (db_memory (st_db s1))" unfolding rows using r by (auto intro: rev_image_eqI)
  moreover have "rows_kept (st_db s1) (st_db s2)" and inv2: "chat_inv (st_db s2)"
    using chat.chat_steps_rel [OF assms(3)] inv by (simp_all add: chat_rel_def)
  ultimately obtain r' where r': "r' \<in> set (db_memory (st_db s2))" "mem_job_id r' = jm_job_id m" "expected < mem_revision r'"
    using r unfolding rows_kept_def all_kept_def memory_kept_def by (fastforce simp: saved_row_def)
  have distinct: "distinct (map mem_job_id (db_memory (st_db s2)))" using inv2 by (simp add: chat_inv_def)
  show "\<forall>x \<in> set (db_memory (st_db s2)). mem_job_id x = jm_job_id m2 \<longrightarrow> mem_revision x \<noteq> expected"
    using distinct_mapD [OF distinct _ r'(1)] r' assms(4) by fastforce
qed

definition sample_job_memory :: "unit job_memory" where
  "sample_job_memory = memory_of_row sample_mc (new_memory_row 5 ''complete_or_wait'')"

lemma memory_save_once_witness:
  "\<exists>e. fst (memory_save sample_env sample_mc sample_job_memory 0
     (snd (memory_save sample_env sample_mc sample_job_memory 0 sample_store))) = Inl e"
proof -
  let ?run = "memory_save sample_env sample_mc sample_job_memory 0 sample_store"
  have "case fst ?run of Inr _ \<Rightarrow> True | Inl _ \<Rightarrow> False" by code_simp
  then obtain m where "?run = (Inr m, snd ?run)" by (auto simp: prod_eq_iff split: sum.splits)
  from memory_save_once [OF this sample_chat_inv rtranclp.rtrancl_refl refl] show ?thesis by blast
qed

lemma terminal_roundtrip: "terminal_of_str (terminal_str t) = Some t"
  by (cases t) (simp_all add: terminal_of_str_def terminal_str_def graph_terminals_def)



end
