(* ===== verification/ClarificationProps.thy ===== *)
theory ClarificationProps
  imports ClarificationResponse FactsProps Samples
begin

text \<open>
  What an answer to a clarification must be to be accepted, and what becomes of it: the constraints of an accepted answer
  are facts the merge of \<open>Facts\<close> can take.
\<close>

section \<open>Acceptable answers\<close>

definition within :: "('a \<Rightarrow> bool) \<Rightarrow> 'a option \<Rightarrow> bool" where
  "within p x \<longleftrightarrow> (\<forall>v. x = Some v \<longrightarrow> p v)"

definition date_range_answer :: "chrono \<Rightarrow> clarification_validation \<Rightarrow> json \<Rightarrow> bool" where
  "date_range_answer ch c v \<longleftrightarrow>
     (\<exists>obj s t d e. v = JObject obj \<and> length obj = 2 \<and> map_of obj ''from'' = Some (JString s) \<and> map_of obj ''to'' = Some (JString t) \<and>
        ch_parse_ymd ch s = Some d \<and> ch_parse_ymd ch t = Some e \<and> d \<le> e \<and> within (\<lambda>m. e - d \<le> uint m) (cv_max_range_days c))"

definition integer_answer :: "clarification_validation \<Rightarrow> json \<Rightarrow> bool" where
  "integer_answer c v \<longleftrightarrow>
     (\<exists>n. as_i64 v = Some n \<and> within (\<lambda>m. m \<le> n) (cv_min_integer c) \<and> within (\<lambda>m. n \<le> m) (cv_max_integer c))"

definition text_answer :: "clarification_validation \<Rightarrow> json \<Rightarrow> bool" where
  "text_answer c v \<longleftrightarrow>
     (\<exists>s. v = JString s \<and> trim s \<noteq> [] \<and> within (\<lambda>m. char_count (trim s) \<le> unat m) (cv_max_length c))"

definition answer_ok :: "chrono \<Rightarrow> clarification_field \<Rightarrow> json \<Rightarrow> bool" where
  "answer_ok ch f v =
     (case cf_field_type f of
        CftDateRange \<Rightarrow> date_range_answer ch (cf_validation f) v
      | CftInteger \<Rightarrow> integer_answer (cf_validation f) v
      | CftText \<Rightarrow> text_answer (cf_validation f) v)"

definition field_answered :: "chrono \<Rightarrow> (string \<times> json) list \<Rightarrow> clarification_field \<Rightarrow> bool" where
  "field_answered ch answers f \<longleftrightarrow>
     (case map_of answers (cf_key f) of
        Some v \<Rightarrow> answer_ok ch f v
      | None \<Rightarrow> \<not> (cf_required f \<and> cf_default_value f = None))"

definition selection_ok :: "clarification_payload \<Rightarrow> principal_context \<Rightarrow> string option \<Rightarrow> clarification_option option \<Rightarrow> bool" where
  "selection_ok p pr option_id selected \<longleftrightarrow>
     (if cp_kind p = SelectOption
      then \<exists>o'. selected = Some o' \<and> option_id = Some (co_id o') \<and> find (\<lambda>x. co_id x = co_id o') (cp_options p) = Some o' \<and>
             (co_id o' = other_option \<or> co_id o' \<in> set (pc_capability_ids pr))
      else option_id = None \<and> selected = None)"

lemma over_within: "over p x \<longleftrightarrow> \<not> within (\<lambda>v. \<not> p v) x"
  by (cases x) (auto simp: over_def within_def)

lemma as_str_JString [simp]: "as_str (JString s) = Some s"
  by (simp add: as_str_def)

lemma as_str_Some_iff: "as_str v = Some s \<longleftrightarrow> v = JString s"
  by (cases v) (auto simp: as_str_def)

lemma selected_option_Inr_iff: "selected_option p pr i = Inr selected \<longleftrightarrow> selection_ok p pr i selected"
proof (cases "cp_kind p = SelectOption")
  case True
  then show ?thesis
    by (auto simp: selected_option_def selection_ok_def res_bind_Inr_iff ok_or_Inr_iff dest: find_SomeD)
next
  case False
  then show ?thesis
    by (cases "cp_kind p") (auto simp: selected_option_def selection_ok_def res_bind_Inr_iff)
qed

lemma validate_date_range_ok: "(\<exists>q. validate_date_range ch f v patch = Inr q) \<longleftrightarrow> date_range_answer ch (cf_validation f) v"
  by (cases v)
    (auto simp: validate_date_range_def date_range_answer_def Let_def over_within not_less not_le
      Option.bind_eq_Some_conv as_str_Some_iff split: option.splits if_splits)

lemma validate_integer_ok: "(\<exists>q. validate_integer f v patch = Inr q) \<longleftrightarrow> integer_answer (cf_validation f) v"
  by (auto simp: validate_integer_def integer_answer_def over_within not_less split: option.splits)

lemma validate_text_ok: "(\<exists>q. validate_text f target v patch = Inr q) \<longleftrightarrow> text_answer (cf_validation f) v"
  by (auto simp: validate_text_def text_answer_def over_within not_less as_str_Some_iff split: option.splits)

lemma validate_field_ok: "(\<exists>q. validate_field ch f target v patch = Inr q) \<longleftrightarrow> answer_ok ch f v"
  by (cases "cf_field_type f")
    (simp_all add: validate_field_def answer_ok_def validate_date_range_ok validate_integer_ok validate_text_ok)

lemma validate_fields_ok:
  "(\<exists>q. validate_fields ch cat answers fs patch = Inr q) \<longleftrightarrow> list_all (field_answered ch answers) fs"
proof (induction fs arbitrary: patch)
  case (Cons f fs)
  show ?case
  proof (cases "map_of answers (cf_key f)")
    case None
    then show ?thesis using Cons by (simp add: field_answered_def)
  next
    case (Some v)
    then show ?thesis
      using Cons validate_field_ok [of ch f "text_target cat (cf_key f)" v patch]
      by (cases "validate_field ch f (text_target cat (cf_key f)) v patch") (simp_all add: field_answered_def)
  qed
qed simp

text \<open>
  C30: A structured answer is accepted exactly when it selects an option offered to the principal (or, where the
  clarification offers none, selects nothing), writes a message when it selects the open option, answers only fields that
  are offered, and answers every offered field within its bounds, those that are optional or have a default excepted.
\<close>
theorem submission_accepted_iff:
  "(\<exists>sub. structured_submission ch cat p pr i revision option_id message answers = Inr sub) \<longleftrightarrow>
   (\<exists>selected. selection_ok p pr option_id selected \<and>
      \<not> (option_id = Some other_option \<and> message = []) \<and>
      fst ` set answers \<subseteq> cf_key ` set (offered_fields p selected) \<and>
      list_all (field_answered ch answers) (offered_fields p selected))"
proof -
  have other: "over (\<lambda>o'. co_id o' = other_option) selected \<longleftrightarrow> option_id = Some other_option"
    if "selection_ok p pr option_id selected" for selected
    using that by (auto simp: selection_ok_def over_def split: if_splits)
  have keys: "list_ex (\<lambda>(k, _). k \<notin> cf_key ` set fs) answers \<longleftrightarrow> \<not> fst ` set answers \<subseteq> cf_key ` set fs" for fs
    by (auto simp: list_ex_iff)
  have "(\<exists>sub. structured_submission ch cat p pr i revision option_id message answers = Inr sub) \<longleftrightarrow>
      (\<exists>selected. selected_option p pr option_id = Inr selected \<and>
         \<not> (over (\<lambda>o'. co_id o' = other_option) selected \<and> message = []) \<and>
         \<not> list_ex (\<lambda>(k, _). k \<notin> cf_key ` set (offered_fields p selected)) answers \<and>
         (\<exists>q. validate_fields ch cat answers (offered_fields p selected) [] = Inr q))"
    by (simp only: structured_submission_def res_bind_Inr_iff guard_err_Inr_iff) blast
  then show ?thesis
    unfolding selected_option_Inr_iff keys validate_fields_ok using other by blast
qed

section \<open>From answers to facts\<close>

definition text_fields :: "constraint_field set" where
  "text_fields = {CfOffice, CfProduct, CfCurrencyCode, CfTransactionAmount, CfPersonName}"

text \<open>The field of the constraints a text answer is recorded in.\<close>

definition answered_target :: "knowledge_catalog \<Rightarrow> (string \<times> json) list \<Rightarrow> clarification_field list \<Rightarrow> constraint_field \<Rightarrow> bool" where
  "answered_target cat answers fs g \<longleftrightarrow>
     (\<exists>f \<in> set fs. cf_field_type f = CftText \<and> cf_key f \<in> dom (map_of answers) \<and> text_target cat (cf_key f) = Some g)"

definition fact_takes :: "constraint_field \<times> typed_fact_value \<Rightarrow> bool" where
  "fact_takes = (\<lambda>(f, v). case map_of executable_constraint_contracts f of None \<Rightarrow> False | Some c \<Rightarrow> validate_fact f v c = Inr ())"

lemma executable_contracts:
  "map_of executable_constraint_contracts f =
     (if f = CfClientId then None
      else Some \<lparr>cc_clearable = (f \<noteq> CfLimitMode \<and> f \<noteq> CfDomain), cc_list = (f = CfProductIds \<or> f = CfOfficeIds)\<rparr>)"
  by (cases f; simp only:; code_simp)

lemma fact_takes_iff: "fact_takes (f, v) \<longleftrightarrow>
    (if v = TvClear then f \<notin> {CfClientId, CfLimitMode, CfDomain} else value_fits f v)"
  by (cases v) (auto simp: fact_takes_def executable_contracts validate_fact_def value_fits_def is_id_list_def)

lemma patch_observations_ok:
  "(\<exists>os. patch_observations new_v3 job source n kind patch at executable_constraint_contracts = Inr os \<and>
      map (\<lambda>o'. (fo_field o', fo_value o')) os = patch) \<longleftrightarrow> list_all fact_takes patch"
  "(\<exists>os. patch_observations new_v3 job source n kind patch at executable_constraint_contracts = Inr os) \<longleftrightarrow> list_all fact_takes patch"
proof (induction patch arbitrary: n)
  case Nil
  { case 1 show ?case by simp }
  { case 2 show ?case by simp }
next
  case (Cons fv rest)
  obtain f v where fv: "fv = (f, v)" by force
  { case 1 show ?case
      unfolding fv using Cons(1) [of "n + 1"]
      by (auto simp: res_bind_Inr_iff ok_or_Inr_iff fact_takes_def split: option.splits) }
  { case 2 show ?case
      unfolding fv using Cons(2) [of "n + 1"]
      by (auto simp: res_bind_Inr_iff ok_or_Inr_iff fact_takes_def split: option.splits) }
qed

text \<open>What one answered field adds to the constraints.\<close>

definition answer_facts :: "clarification_field \<Rightarrow> constraint_field option \<Rightarrow> (constraint_field \<times> typed_fact_value) set" where
  "answer_facts f target =
     (case cf_field_type f of
        CftDateRange \<Rightarrow> {(g, v). (g = CfFromDate \<or> g = CfToDate) \<and> (\<exists>s. v = TvDate s)}
      | CftInteger \<Rightarrow> {(g, v). g = CfLimitMode \<and> v = TvLimitMode LimitTopN \<or> g = CfLimitValue \<and> (\<exists>n. v = TvInteger n)}
      | CftText \<Rightarrow> {(g, v). target = Some g \<and> (\<exists>s. v = text_fact g s)})"

lemma set_bt_insert_subset: "set (bt_insert k v m) \<subseteq> insert (k, v) (set m)"
  by (induction k v m rule: bt_insert.induct) auto

lemma validate_field_facts:
  assumes "validate_field ch f target v patch = Inr q"
  shows "set q \<subseteq> set patch \<union> answer_facts f target" and "fst ` set patch \<subseteq> fst ` set q"
    and "cf_field_type f = CftText \<Longrightarrow> set_option target \<subseteq> fst ` set q"
proof -
  note defs = validate_field_def validate_date_range_def validate_integer_def validate_text_def Let_def
  note cases = clarification_field_type.splits json.splits option.splits if_splits
  show "set q \<subseteq> set patch \<union> answer_facts f target"
    using assms by (auto simp: defs answer_facts_def split: cases dest!: subsetD [OF set_bt_insert_subset])
  have keys: "fst ` set patch \<subseteq> fst ` set q \<and> (cf_field_type f = CftText \<longrightarrow> set_option target \<subseteq> fst ` set q)"
    using assms by (clarsimp simp: defs fst_bt_insert subset_insertI2 split: cases) (metis fst_conv imageI)+
  then show "fst ` set patch \<subseteq> fst ` set q" and "cf_field_type f = CftText \<Longrightarrow> set_option target \<subseteq> fst ` set q" by auto
qed

definition gives_fact ::
  "knowledge_catalog \<Rightarrow> (string \<times> json) list \<Rightarrow> clarification_field list \<Rightarrow> constraint_field \<times> typed_fact_value \<Rightarrow> bool" where
  "gives_fact cat answers fs gv \<longleftrightarrow>
     (\<exists>f \<in> set fs. cf_key f \<in> dom (map_of answers) \<and> gv \<in> answer_facts f (text_target cat (cf_key f)))"

lemma validate_fields_facts:
  assumes "validate_fields ch cat answers fs patch = Inr q"
  shows "(\<forall>gv \<in> set q. gv \<in> set patch \<or> gives_fact cat answers fs gv) \<and> fst ` set patch \<subseteq> fst ` set q \<and>
      (\<forall>g. answered_target cat answers fs g \<longrightarrow> g \<in> fst ` set q)"
  using assms
proof (induction fs arbitrary: patch)
  case Nil
  then show ?case by (auto simp: answered_target_def)
next
  case (Cons f fs)
  have gives: "gives_fact cat answers (f # fs) gv \<longleftrightarrow>
      cf_key f \<in> dom (map_of answers) \<and> gv \<in> answer_facts f (text_target cat (cf_key f)) \<or> gives_fact cat answers fs gv" for gv
    by (auto simp: gives_fact_def)
  have target: "answered_target cat answers (f # fs) g \<longleftrightarrow>
      cf_field_type f = CftText \<and> cf_key f \<in> dom (map_of answers) \<and> text_target cat (cf_key f) = Some g \<or>
      answered_target cat answers fs g" for g
    by (auto simp: answered_target_def)
  show ?case
  proof (cases "map_of answers (cf_key f)")
    case None
    then have "validate_fields ch cat answers fs patch = Inr q" using Cons.prems by (simp split: if_splits)
    with Cons.IH [of patch] None show ?thesis unfolding gives target by auto
  next
    case (Some v)
    then obtain r where r: "validate_field ch f (text_target cat (cf_key f)) v patch = Inr r"
      and q: "validate_fields ch cat answers fs r = Inr q" using Cons.prems by (auto simp: res_bind_Inr_iff)
    note rest = Cons.IH [OF q] and here = validate_field_facts [OF r]
    have "\<forall>gv \<in> set q. gv \<in> set patch \<or> gives_fact cat answers (f # fs) gv"
      unfolding gives using conjunct1 [OF rest] here(1) Some by blast
    moreover have "fst ` set patch \<subseteq> fst ` set q" using rest here(2) by blast
    moreover have "\<forall>g. answered_target cat answers (f # fs) g \<longrightarrow> g \<in> fst ` set q"
      unfolding target using rest here(3) by (metis elem_set subsetD)
    ultimately show ?thesis by blast
  qed
qed

lemma text_fact_takes: "fact_takes (g, text_fact g s) \<longleftrightarrow> g \<in> text_fields"
  by (cases g) (auto simp: fact_takes_iff text_fact_def value_fits_def text_fields_def)

lemma answer_facts_take:
  assumes "(g, v) \<in> answer_facts f target" and "cf_field_type f = CftText \<Longrightarrow> set_option target \<subseteq> text_fields"
  shows "fact_takes (g, v)"
proof (cases "cf_field_type f = CftText")
  case True
  then show ?thesis using assms by (auto simp: answer_facts_def text_fact_takes)
next
  case False
  then show ?thesis
    using assms(1) by (auto simp: answer_facts_def fact_takes_iff value_fits_def split: clarification_field_type.splits)
qed


section \<open>Examples\<close>

definition sample_field :: "string \<Rightarrow> clarification_field_type \<Rightarrow> bool \<Rightarrow> clarification_field" where
  "sample_field k t required =
     \<lparr>cf_key = k, cf_label = k, cf_field_type = t, cf_required = required, cf_value = None, cf_default_value = None,
      cf_help_text = None,
      cf_validation = \<lparr>cv_min_integer = Some 1, cv_max_integer = Some 50, cv_max_length = Some 10, cv_max_range_days = None\<rparr>,
      cf_errors = []\<rparr>"

definition sample_question :: clarification_payload where
  "sample_question =
     \<lparr>cp_version = 1, cp_id = 40, cp_revision = 2, cp_kind = CollectFields, cp_question = ''Which office?'', cp_options = [],
      cp_fields = [sample_field ''office'' CftText True, sample_field ''limit'' CftInteger False], cp_attempt = 0,
      cp_source_intent = None, cp_allow_free_text = False, cp_is_missing_execution_parameters = True, cp_workflow_id = None,
      cp_node_id = None, cp_resume_node_id = None, cp_entity_kind = None\<rparr>"

definition sample_inputs :: knowledge_catalog where
  "sample_inputs =
     sample_catalog\<lparr>kc_parameter_inputs :=
         [\<lparr>pi_id = ''office'', pi_parameters = [''office_name''], pi_field_type = CftText, pi_label = ''Office'', pi_help_text = None,
           pi_required = True, pi_validation = cf_validation (sample_field ''office'' CftText True)\<rparr>],
       kc_parameter_bindings := [(''office_name'', [CfOffice])]\<rparr>"

definition sample_chrono :: chrono where
  "sample_chrono =
     \<lparr>ch_parse_ymd = (\<lambda>_. None), ch_from_ymd = (\<lambda>_ _ _. None), ch_year = (\<lambda>_. 0), ch_month = (\<lambda>_. 1),
      ch_sub_months = (\<lambda>_ _. None), ch_add_months = (\<lambda>_ _. None), ch_sub_days = (\<lambda>_ _. None)\<rparr>"


end
