(* ===== verification/Tokens.thy ===== *)
theory Tokens
  imports Facts
begin

text \<open>
  \<open>understanding/extraction\<close>, the readers over the words of a message: \<open>token.rs\<close>, \<open>quantity.rs\<close>, \<open>domain.rs\<close> and
  the month table of \<open>temporal.rs\<close>.  A message is the list of its bytes; every character the readers look for is a byte
  below 128, which occurs in no longer character.
\<close>

section \<open>Words\<close>

type_synonym token = "string \<times> nat \<times> nat"

definition slice :: "string \<Rightarrow> nat \<Rightarrow> nat \<Rightarrow> string" where
  "slice m a b = take (b - a) (drop a m)"

definition token_char :: "char \<Rightarrow> bool" where
  "token_char c \<longleftrightarrow> is_ascii_alphanumeric c \<or> c = CHR ''-''"

fun token_loop :: "string \<Rightarrow> (nat \<times> char) list \<Rightarrow> nat option \<Rightarrow> token list" where
  "token_loop m [] start = []"
| "token_loop m ((i, c) # rest) start =
     (if token_char c then token_loop m rest (Some (case start of Some b \<Rightarrow> b | None \<Rightarrow> i))
      else
        (case start of
           Some b \<Rightarrow> (slice m b i, b, i) # token_loop m rest None
         | None \<Rightarrow> token_loop m rest None))"

definition tokens_with_spans :: "string \<Rightarrow> token list" where
  "tokens_with_spans m = token_loop m (enumerate 0 m @ [(length m, CHR '' '')]) None"

text \<open>\<open>str::split\<close> by a class of characters.\<close>

fun split_where :: "(char \<Rightarrow> bool) \<Rightarrow> string \<Rightarrow> string list" where
  "split_where p [] = [[]]"
| "split_where p (x # xs) =
     (if p x then [] # split_where p xs
      else (case split_where p xs of [] \<Rightarrow> [[x]] | w # ws \<Rightarrow> (x # w) # ws))"

definition words :: "string \<Rightarrow> string list" where
  "words m = filter (\<lambda>w. w \<noteq> []) (split_where (\<lambda>c. \<not> token_char c) m)"

fun join_words :: "string list \<Rightarrow> string" where
  "join_words [] = []"
| "join_words [w] = w"
| "join_words (w # v # ws) = w @ '' '' @ join_words (v # ws)"

section \<open>Quantities, domains and metrics\<close>

definition quantity_parts :: "quantity \<Rightarrow> (string \<times> int) option" where
  "quantity_parts q =
     (case q of
        QuantityLimit v \<Rightarrow> Some (''limit'', v)
      | QuantityTopN v \<Rightarrow> Some (''top_n'', v)
      | _ \<Rightarrow> None)"

definition near_words :: "string list \<Rightarrow> nat \<Rightarrow> string" where
  "near_words ws i = join_words (drop (i - 2) (take (min (length ws) (i + 3)) ws))"

definition quantity_at :: "string \<Rightarrow> string list \<Rightarrow> nat \<Rightarrow> quantity option" where
  "quantity_at m ws i =
     (case parse_i64 (ws ! i) of
        None \<Rightarrow> None
      | Some v \<Rightarrow>
          if \<not> (1 \<le> v \<and> v \<le> 100) then None
          else
            (let near = near_words ws i in
             if str_contains ''days'' near \<or> str_contains ''hari'' near then None
             else if str_contains ''top'' near \<or> str_contains '' most '' m \<or> str_contains ''highest'' m \<or> str_contains ''rank'' m
             then Some (QuantityTopN v) else Some (QuantityLimit v)))"

definition extract_quantity :: "string \<Rightarrow> string list \<Rightarrow> quantity option" where
  "extract_quantity m ws = find_map (quantity_at m ws) [0..<length ws]"

definition extract_domain :: "string \<Rightarrow> assistant_domain option" where
  "extract_domain m =
     (if str_contains ''client'' m then Some DomClient
      else if str_contains ''office'' m \<or> str_contains ''organization'' m then Some DomOrganization
      else if str_contains ''saving'' m then Some DomSavings
      else None)"

definition extract_metric :: "string \<Rightarrow> string option" where
  "extract_metric m =
     (if (str_contains ''most savings account'' m \<or> str_contains ''number of savings account'' m) \<and> \<not> str_contains ''transaction'' m
      then Some ''savings_account_count''
      else if str_contains ''highest balance'' m \<or> str_contains ''savings balance'' m then Some ''savings_balance''
      else if str_contains ''deposit volume'' m \<or> str_contains ''deposited the most'' m then Some ''deposit_volume''
      else None)"

section \<open>Currencies and amounts\<close>

definition currency_codes :: "string list" where
  "currency_codes = [''IDR'', ''USD'', ''EUR'', ''AED'', ''SAR'']"

definition extract_currency :: "string \<Rightarrow> string option" where
  "extract_currency m = find (\<lambda>w. w \<in> set currency_codes) (split_where (\<lambda>c. \<not> is_ascii_alphanumeric c) m)"

text \<open>\<open>str::find\<close>.\<close>

fun find_at :: "string \<Rightarrow> string \<Rightarrow> nat option" where
  "find_at needle [] = (if needle = [] then Some 0 else None)"
| "find_at needle (c # cs) = (if starts_with needle (c # cs) then Some 0 else map_option Suc (find_at needle cs))"

definition min_option :: "nat option \<Rightarrow> nat option \<Rightarrow> nat option" where
  "min_option a b =
     (case (a, b) of
        (Some x, Some y) \<Rightarrow> Some (min x y)
      | (None, _) \<Rightarrow> b
      | (_, None) \<Rightarrow> a)"

definition extract_transaction_amount :: "string \<Rightarrow> string option" where
  "extract_transaction_amount m =
     (let lower = ascii_lower m;
          after = foldr (\<lambda>a. min_option (map_option (\<lambda>at. at + length a) (find_at a lower))) [''amount'', ''jumlah'', ''sebesar''] None in
      case after of
        None \<Rightarrow> None
      | Some n \<Rightarrow>
          (let digits = takeWhile (\<lambda>c. is_ascii_digit c \<or> c = CHR ''.'') (dropWhile (\<lambda>c. \<not> is_ascii_digit c) (drop n m)) in
           if CHR ''.'' \<in> set digits then Some digits else None))"

section \<open>Months\<close>

definition months :: "(string \<times> string) list" where
  "months =
     [(''january'', ''januari''), (''february'', ''februari''), (''march'', ''maret''), (''april'', ''april''), (''may'', ''mei''),
      (''june'', ''juni''), (''july'', ''juli''), (''august'', ''agustus''), (''september'', ''september''),
      (''october'', ''oktober''), (''november'', ''november''), (''december'', ''desember'')]"

definition month_number :: "string \<Rightarrow> nat option" where
  "month_number w = find_map (\<lambda>(i, english, indonesian). if english = w \<or> indonesian = w then Some (i + 1) else None) (enumerate 0 months)"

section \<open>Names\<close>

datatype named_entity_kind = NamedPerson | NamedOffice | NamedChargeType | NamedProduct

definition name_anchors :: "string list" where
  "name_anchors = [''named'', ''name'', ''nama'', ''bernama'', ''client'', ''customer'', ''nasabah'', ''for'']"

definition lowercase_name_anchors :: "string list" where
  "lowercase_name_anchors = [''named'', ''name'', ''nama'', ''bernama'']"

definition naming_anchors :: "string list" where
  "naming_anchors = lowercase_name_anchors"

definition locative_anchors :: "string list" where
  "locative_anchors = [''pada'', ''di'', ''in'', ''at'', ''dari'']"

definition max_lowercase_name_tokens :: nat where
  "max_lowercase_name_tokens = 2"

definition name_stop_words :: "string list" where
  "name_stop_words =
     [''a'', ''ada'', ''all'', ''an'', ''and'', ''any'', ''apa'', ''are'', ''as'', ''at'', ''atau'', ''banyak'', ''berapa'',
      ''by'', ''dan'', ''dari'', ''dengan'', ''di'', ''each'', ''every'', ''her'', ''his'', ''how'', ''id'', ''ids'', ''in'',
      ''ini'', ''is'', ''itu'', ''jumlah'', ''kami'', ''ke'', ''kita'', ''many'', ''me'', ''much'', ''my'', ''no'', ''not'',
      ''of'', ''on'', ''only'', ''or'', ''our'', ''pada'', ''per'', ''punya'', ''saya'', ''semua'', ''siapa'', ''the'',
      ''their'', ''this'', ''tidak'', ''to'', ''total'', ''us'', ''was'', ''we'', ''were'', ''which'', ''who'', ''with'',
      ''yang'', ''yg'']"

definition office_words :: "string list" where
  "office_words = [''office'', ''branch'', ''kantor'', ''cabang'']"

definition charge_words :: "string list" where
  "charge_words = [''charge'', ''fee'', ''penalty'', ''biaya'', ''denda'']"

definition product_words :: "string list" where
  "product_words = [''account'', ''product'', ''savings'', ''saving'', ''deposit'', ''tabungan'', ''rekening'']"

definition is_capitalised :: "string \<Rightarrow> bool" where
  "is_capitalised t = (case t of [] \<Rightarrow> False | c # _ \<Rightarrow> is_ascii_uppercase c)"

definition separated :: "string \<Rightarrow> nat \<Rightarrow> nat \<Rightarrow> bool" where
  "separated m e n = list_ex (\<lambda>c. c \<noteq> CHR '' '') (slice m e n)"

definition sentence_start :: "string \<Rightarrow> nat \<Rightarrow> bool" where
  "sentence_start m at =
     (case trim_end (take at m) of [] \<Rightarrow> True | c # cs \<Rightarrow> last (c # cs) \<in> set ''.?!'')"

definition is_name_word :: "string \<Rightarrow> bool" where
  "is_name_word t \<longleftrightarrow>
     list_ex is_ascii_alphabetic t \<and> list_all (\<lambda>c. is_ascii_alphabetic c \<or> c = CHR ''-'') t \<and>
     ascii_lower t \<notin> set name_stop_words \<and> ascii_lower t \<notin> set lowercase_name_anchors"

definition anchor_kind :: "string \<Rightarrow> named_entity_kind option" where
  "anchor_kind w =
     (if w \<in> set office_words \<or> w \<in> set locative_anchors then Some NamedOffice
      else if w \<in> set charge_words \<or> w \<in> set [''type'', ''tipe'', ''jenis''] then Some NamedChargeType
      else if w \<in> set product_words then Some NamedProduct
      else if w \<in> set name_anchors then Some NamedPerson
      else None)"

definition trim_plural :: "string \<Rightarrow> string" where
  "trim_plural w = rev (dropWhile (\<lambda>c. c = CHR ''s'') (rev w))"

definition has_word :: "string list \<Rightarrow> string \<Rightarrow> bool" where
  "has_word ws phrase = list_ex (\<lambda>w. w \<in> set ws \<or> trim_plural w \<in> set ws) (split_on CHR '' '' phrase)"

definition phrase_kind :: "string \<Rightarrow> named_entity_kind option" where
  "phrase_kind phrase =
     (let lower = ascii_lower phrase in
      if has_word office_words lower then Some NamedOffice
      else if has_word charge_words lower then Some NamedChargeType
      else if has_word product_words lower then Some NamedProduct
      else None)"

definition locative_refuses :: "string \<Rightarrow> bool" where
  "locative_refuses phrase \<longleftrightarrow> month_number (ascii_lower phrase) \<noteq> None \<or> phrase \<in> set currency_codes"

fun subject_scan :: "string \<Rightarrow> token list \<Rightarrow> nat \<Rightarrow> named_entity_kind option" where
  "subject_scan m ts 0 = None"
| "subject_scan m ts (Suc i) =
     (let word = ascii_lower (fst (ts ! i)) in
      case (if word \<in> set naming_anchors then None else anchor_kind word) of
        Some k \<Rightarrow> Some k
      | None \<Rightarrow> if sentence_start m (fst (snd (ts ! i))) then None else subject_scan m ts i)"

definition subject_kind :: "string \<Rightarrow> token list \<Rightarrow> nat \<Rightarrow> named_entity_kind option" where
  "subject_kind m ts start = subject_scan m ts (start - 1)"

definition or_else :: "'a option \<Rightarrow> 'a option \<Rightarrow> 'a option" where
  "or_else a b = (case a of Some x \<Rightarrow> Some x | None \<Rightarrow> b)"

definition resolve_kind :: "string \<Rightarrow> token list \<Rightarrow> nat \<Rightarrow> string \<Rightarrow> string \<Rightarrow> named_entity_kind" where
  "resolve_kind m ts start phrase anchor =
     (case or_else (phrase_kind phrase)
         (or_else (if anchor \<in> set naming_anchors then subject_kind m ts start else None) (anchor_kind anchor)) of
        Some k \<Rightarrow> k
      | None \<Rightarrow> NamedPerson)"

definition phrase_of :: "token list \<Rightarrow> nat \<Rightarrow> nat \<Rightarrow> string" where
  "phrase_of ts a b = join_words (map fst (drop a (take (Suc b) ts)))"

text \<open>A name in lower case is a run of at most two words behind one of the words that announce a name.\<close>

function name_run_end :: "string \<Rightarrow> token list \<Rightarrow> nat \<Rightarrow> nat \<Rightarrow> nat" where
  "name_run_end m ts start e =
     (if e + 1 - start < max_lowercase_name_tokens \<and> e + 1 < length ts \<and>
         \<not> separated m (snd (snd (ts ! e))) (fst (snd (ts ! (e + 1)))) \<and> is_name_word (fst (ts ! (e + 1)))
      then name_run_end m ts start (e + 1) else e)"
  by pat_completeness auto
termination by (relation "measure (\<lambda>(m, ts, start, e). length ts - e)") auto

declare name_run_end.simps [simp del]

definition lowercase_name_run :: "string \<Rightarrow> token list \<Rightarrow> nat \<Rightarrow> (string \<times> nat) option" where
  "lowercase_name_run m ts start =
     (if start = 0 then None
      else
        (let anchor = ascii_lower (fst (ts ! (start - 1))) in
         if anchor \<notin> set lowercase_name_anchors \<or> sentence_start m (fst (snd (ts ! start))) \<or> \<not> is_name_word (fst (ts ! start))
         then None
         else
           (let e = name_run_end m ts start start; phrase = phrase_of ts start e in
            if resolve_kind m ts start phrase anchor = NamedPerson then Some (phrase, e + 1) else None)))"

definition lowercase_kind_run :: "string \<Rightarrow> token list \<Rightarrow> nat \<Rightarrow> (named_entity_kind \<times> string) option" where
  "lowercase_kind_run m ts i =
     (let head = ascii_lower (fst (ts ! i)) in
      case (if head \<in> set charge_words then Some NamedChargeType
            else if head \<in> set product_words then Some NamedProduct else None) of
        None \<Rightarrow> None
      | Some k \<Rightarrow>
          if (i + 1 < length ts \<and> is_name_word (fst (ts ! (i + 1)))) \<or> i = 0 then None
          else
            (let q = ts ! (i - 1) in
             if is_capitalised (fst q) \<or> separated m (snd (snd q)) (fst (snd (ts ! i))) \<or> \<not> is_name_word (fst q) \<or>
                phrase_kind (fst q) \<noteq> None
             then None else Some (k, fst q @ '' '' @ fst (ts ! i))))"

function capital_run_end :: "string \<Rightarrow> token list \<Rightarrow> nat \<Rightarrow> nat" where
  "capital_run_end m ts e =
     (if e + 1 < length ts \<and> is_capitalised (fst (ts ! (e + 1))) \<and>
         \<not> separated m (snd (snd (ts ! e))) (fst (snd (ts ! (e + 1))))
      then capital_run_end m ts (e + 1)
      else if e + 2 < length ts \<and> fst (ts ! (e + 1)) = ''-'' \<and> is_capitalised (fst (ts ! (e + 2))) \<and>
         \<not> separated m (snd (snd (ts ! e))) (fst (snd (ts ! (e + 1)))) \<and>
         \<not> separated m (snd (snd (ts ! (e + 1)))) (fst (snd (ts ! (e + 2))))
      then capital_run_end m ts (e + 2)
      else e)"
  by pat_completeness auto
termination by (relation "measure (\<lambda>(m, ts, e). length ts - e)") auto

declare capital_run_end.simps [simp del]

definition capital_entity :: "string \<Rightarrow> token list \<Rightarrow> nat \<Rightarrow> nat \<Rightarrow> (named_entity_kind \<times> string) option" where
  "capital_entity m ts start e =
     (if start = 0 \<or> sentence_start m (fst (snd (ts ! start))) then None
      else
        (let anchor = ascii_lower (fst (ts ! (start - 1))); phrase = phrase_of ts start e in
         if start = e \<and> (anchor_kind anchor = None \<or> (anchor \<in> set locative_anchors \<and> locative_refuses phrase)) then None
         else Some (resolve_kind m ts start phrase anchor, phrase)))"

lemma name_run_end_ge: "e \<le> name_run_end m ts start e"
proof (induction m ts start e rule: name_run_end.induct)
  case (1 m ts start e)
  show ?case by (subst name_run_end.simps) (use 1 in \<open>auto dest: le_trans\<close>)
qed

lemma capital_run_end_ge: "e \<le> capital_run_end m ts e"
proof (induction m ts e rule: capital_run_end.induct)
  case (1 m ts e)
  show ?case by (subst capital_run_end.simps) (use 1 in \<open>auto dest: le_trans\<close>)
qed

lemma lowercase_name_run_next: "lowercase_name_run m ts i = Some (phrase, next_index) \<Longrightarrow> i < next_index"
  using name_run_end_ge [of i m ts i] by (auto simp: lowercase_name_run_def Let_def split: if_splits)

function entity_loop :: "string \<Rightarrow> token list \<Rightarrow> nat \<Rightarrow> (named_entity_kind \<times> string) list" where
  "entity_loop m ts i =
     (if i \<ge> length ts then []
      else if \<not> is_capitalised (fst (ts ! i)) then
        (case lowercase_name_run m ts i of
           Some (phrase, next_index) \<Rightarrow> (NamedPerson, phrase) # entity_loop m ts next_index
         | None \<Rightarrow>
             (case lowercase_kind_run m ts i of Some entity \<Rightarrow> entity # entity_loop m ts (i + 1) | None \<Rightarrow> entity_loop m ts (i + 1)))
      else
        (let e = capital_run_end m ts i in
         case capital_entity m ts i e of
           Some entity \<Rightarrow> entity # entity_loop m ts (e + 1)
         | None \<Rightarrow> entity_loop m ts (e + 1)))"
  by pat_completeness auto
termination
  by (relation "measure (\<lambda>(m, ts, i). length ts - i)")
    (use capital_run_end_ge in \<open>auto dest!: lowercase_name_run_next simp: Let_def intro!: diff_less_mono2 le_imp_less_Suc\<close>)

declare entity_loop.simps [simp del]

definition extract_named_entities :: "string \<Rightarrow> (named_entity_kind \<times> string) list" where
  "extract_named_entities m = entity_loop m (tokens_with_spans m) 0"

end
