(* ===== verification/Temporal.thy ===== *)
theory Temporal
  imports Tokens ParameterPolicy
begin

text \<open>
  \<open>understanding/extraction/temporal.rs\<close>: the dates a message states.  A date is the number of its day; the civil
  calendar of \<open>chrono\<close> is a parameter.
\<close>

section \<open>Dates\<close>

record calendar =
  cal_chrono :: chrono
  cal_weekday :: "naive_date \<Rightarrow> nat"
  cal_add_days :: "naive_date \<Rightarrow> nat \<Rightarrow> naive_date option"
  cal_text :: "naive_date \<Rightarrow> string"

record temporal_provenance =
  tp_rule :: string
  tp_span :: "nat \<times> nat"
  tp_reference :: nat
  tp_timezone :: string

record temporal_validation_error =
  te_code :: string
  te_message :: string

record resolved_temporal =
  rt_from :: naive_date
  rt_to :: naive_date
  rt_provenance :: temporal_provenance

type_synonym temporal_result = "temporal_validation_error + resolved_temporal option"

definition invalid :: "string \<Rightarrow> string \<Rightarrow> temporal_validation_error + 'a" where
  "invalid code message = Inl \<lparr>te_code = code, te_message = message\<rparr>"

definition finish :: "nat \<Rightarrow> int \<Rightarrow> naive_date \<Rightarrow> naive_date \<Rightarrow> string \<Rightarrow> nat \<times> nat \<Rightarrow> temporal_result" where
  "finish reference max_days from to rule span =
     (if from > to then invalid ''temporal_range_reversed'' ''The start date must not be after the end date.''
      else if max_days \<le> 0 \<or> to - from + 1 > max_days
      then invalid ''temporal_range_too_large'' ''The date range exceeds the capability limit.''
      else Inr (Some \<lparr>rt_from = from, rt_to = to,
        rt_provenance = \<lparr>tp_rule = rule, tp_span = span, tp_reference = reference, tp_timezone = ''Asia/Jakarta''\<rparr>\<rparr>))"

definition parse_date :: "calendar \<Rightarrow> string \<Rightarrow> temporal_validation_error + naive_date" where
  "parse_date cal s =
     (case ch_parse_ymd (cal_chrono cal) s of
        Some d \<Rightarrow> Inr d
      | None \<Rightarrow> invalid ''temporal_invalid_date'' ''Use a valid Gregorian date in YYYY-MM-DD format.'')"

definition looks_like_iso_date :: "string \<Rightarrow> bool" where
  "looks_like_iso_date w \<longleftrightarrow>
     length w = 10 \<and> w ! 4 = CHR ''-'' \<and> w ! 7 = CHR ''-'' \<and>
     list_all (\<lambda>i. i = 4 \<or> i = 7 \<or> is_ascii_digit (w ! i)) [0..<length w]"

definition parse_year :: "string \<Rightarrow> int option" where
  "parse_year w = (if length w = 4 \<and> list_all is_ascii_digit w then Some (int (digits_value w)) else None)"

definition month_start :: "calendar \<Rightarrow> int \<Rightarrow> nat \<Rightarrow> naive_date option" where
  "month_start cal y m = ch_from_ymd (cal_chrono cal) y m 1"

definition month_end :: "calendar \<Rightarrow> int \<Rightarrow> nat \<Rightarrow> naive_date option" where
  "month_end cal y m =
     Option.bind (if m = 12 then ch_from_ymd (cal_chrono cal) (y + 1) 1 1 else ch_from_ymd (cal_chrono cal) y (m + 1) 1)
       (\<lambda>d. ch_sub_days (cal_chrono cal) d 1)"

section \<open>Phrases of months\<close>

definition token_at :: "token list \<Rightarrow> nat \<Rightarrow> string option" where
  "token_at ts i = (if i < length ts then Some (fst (ts ! i)) else None)"

definition month_expr :: "token list \<Rightarrow> nat \<Rightarrow> (nat \<times> int option \<times> nat) option" where
  "month_expr ts i =
     Option.bind (Option.bind (token_at ts i) month_number) (\<lambda>month.
       let year = Option.bind (token_at ts (i + 1)) parse_year in
       Some (month, year, i + (if year \<noteq> None then 2 else 1)))"

definition the_or :: "'a \<Rightarrow> 'a option \<Rightarrow> 'a" where
  "the_or d x = (case x of Some v \<Rightarrow> v | None \<Rightarrow> d)"

definition month_range ::
  "calendar \<Rightarrow> naive_date \<Rightarrow> (naive_date \<Rightarrow> naive_date \<Rightarrow> string \<Rightarrow> nat \<times> nat \<Rightarrow> temporal_result) \<Rightarrow> token list \<Rightarrow> nat \<Rightarrow>
   temporal_result option" where
  "month_range cal today fin ts start =
     (if fst (ts ! start) \<notin> set [''from'', ''dari''] then None
      else
        (case month_expr ts (start + 1) of
           None \<Rightarrow> None
         | Some (from_month, from_year, after_from) \<Rightarrow>
             if token_at ts after_from \<notin> set [Some ''to'', Some ''sampai''] then None
             else
               (case month_expr ts (after_from + 1) of
                  None \<Rightarrow> None
                | Some (to_month, to_year, e) \<Rightarrow>
                    (let stated = the_or (ch_year (cal_chrono cal) today) (or_else from_year to_year) in
                     case (month_start cal (the_or stated from_year) from_month, month_end cal (the_or stated to_year) to_month) of
                       (Some from, Some to) \<Rightarrow>
                         Some (fin from to ''inclusive_month_range'' (fst (snd (ts ! start)), snd (snd (ts ! (e - 1)))))
                     | _ \<Rightarrow> Some (invalid ''temporal_invalid_date'' ''Use a valid Gregorian date in YYYY-MM-DD format.'')))))"

section \<open>Explicit ranges\<close>

definition windows :: "nat \<Rightarrow> 'a list \<Rightarrow> 'a list list" where
  "windows n xs = map (\<lambda>i. take n (drop i xs)) [0..<Suc (length xs) - n]"

definition dates_between ::
  "calendar \<Rightarrow> (naive_date \<Rightarrow> naive_date \<Rightarrow> string \<Rightarrow> nat \<times> nat \<Rightarrow> temporal_result) \<Rightarrow> token \<Rightarrow> token \<Rightarrow> nat \<Rightarrow> temporal_result" where
  "dates_between cal fin a b first =
     res_bind (parse_date cal (fst a)) (\<lambda>from.
     res_bind (parse_date cal (fst b)) (\<lambda>to.
     fin from to ''inclusive_explicit_range'' (first, snd (snd b))))"

definition explicit_range ::
  "calendar \<Rightarrow> (naive_date \<Rightarrow> naive_date \<Rightarrow> string \<Rightarrow> nat \<times> nat \<Rightarrow> temporal_result) \<Rightarrow> token list \<Rightarrow> temporal_result option" where
  "explicit_range cal fin w =
     (if (fst (w ! 0), fst (w ! 2)) \<in> set [(''from'', ''to''), (''dari'', ''sampai'')]
      then Some (dates_between cal fin (w ! 1) (w ! 3) (fst (snd (w ! 0)))) else None)"

definition bare_range ::
  "calendar \<Rightarrow> (naive_date \<Rightarrow> naive_date \<Rightarrow> string \<Rightarrow> nat \<times> nat \<Rightarrow> temporal_result) \<Rightarrow> token list \<Rightarrow> temporal_result option" where
  "bare_range cal fin w =
     (if fst (w ! 1) \<in> set [''to'', ''sampai''] \<and> looks_like_iso_date (fst (w ! 0)) \<and> looks_like_iso_date (fst (w ! 2))
      then Some (dates_between cal fin (w ! 0) (w ! 2) (fst (snd (w ! 0)))) else None)"

section \<open>Relative phrases\<close>

definition relative_phrases :: "(string list \<times> string) list" where
  "relative_phrases =
     [([''today''], ''today''), ([''hari'', ''ini''], ''today''), ([''yesterday''], ''yesterday''), ([''kemarin''], ''yesterday''),
      ([''this'', ''week''], ''this_week''), ([''minggu'', ''ini''], ''this_week''), ([''last'', ''week''], ''last_week''),
      ([''minggu'', ''lalu''], ''last_week''), ([''this'', ''month''], ''this_month''), ([''bulan'', ''ini''], ''this_month''),
      ([''last'', ''month''], ''last_month''), ([''bulan'', ''lalu''], ''last_month''), ([''this'', ''quarter''], ''this_quarter''),
      ([''kuartal'', ''ini''], ''this_quarter''), ([''last'', ''quarter''], ''last_quarter''), ([''kuartal'', ''lalu''], ''last_quarter''),
      ([''this'', ''year''], ''this_year''), ([''tahun'', ''ini''], ''this_year''), ([''last'', ''year''], ''last_year''),
      ([''tahun'', ''lalu''], ''last_year'')]"

definition relative_phrase :: "token list \<Rightarrow> string list \<times> string \<Rightarrow> (string \<times> nat \<times> nat) option" where
  "relative_phrase ts pr =
     (case find (\<lambda>w. map fst w = fst pr) (windows (length (fst pr)) ts) of
        None \<Rightarrow> None
      | Some w \<Rightarrow> Some (snd pr, fst (snd (w ! 0)), snd (snd (w ! (length w - 1)))))"

definition expect :: "'a option \<Rightarrow> 'a exec" where
  "expect x = (case x of Some v \<Rightarrow> Ret v | None \<Rightarrow> Panic)"

definition exec_bind :: "'a exec \<Rightarrow> ('a \<Rightarrow> 'b exec) \<Rightarrow> 'b exec" where
  "exec_bind x f = (case x of Ret v \<Rightarrow> f v | Panic \<Rightarrow> Panic)"

definition first_of_month :: "calendar \<Rightarrow> naive_date \<Rightarrow> naive_date exec" where
  "first_of_month cal d = expect (ch_from_ymd (cal_chrono cal) (ch_year (cal_chrono cal) d) (ch_month (cal_chrono cal) d) 1)"

definition next_month :: "calendar \<Rightarrow> naive_date \<Rightarrow> naive_date exec" where
  "next_month cal d =
     (let y = ch_year (cal_chrono cal) d; m = ch_month (cal_chrono cal) d in
      if m = 12 then expect (ch_from_ymd (cal_chrono cal) (y + 1) 1 1) else expect (ch_from_ymd (cal_chrono cal) y (m + 1) 1))"

definition first_of_year :: "calendar \<Rightarrow> int \<Rightarrow> naive_date exec" where
  "first_of_year cal y = expect (ch_from_ymd (cal_chrono cal) y 1 1)"

definition week_range :: "calendar \<Rightarrow> naive_date \<Rightarrow> bool \<Rightarrow> (naive_date \<times> naive_date) exec" where
  "week_range cal today previous =
     exec_bind (sub_days (cal_chrono cal) today (cal_weekday cal today)) (\<lambda>monday.
     exec_bind (sub_days (cal_chrono cal) monday (if previous then 7 else 0)) (\<lambda>start.
     exec_bind (expect (cal_add_days cal start 6)) (\<lambda>e. Ret (start, e))))"

definition quarter_range :: "calendar \<Rightarrow> naive_date \<Rightarrow> bool \<Rightarrow> (naive_date \<times> naive_date) exec" where
  "quarter_range cal today previous =
     (let q0 = int ((ch_month (cal_chrono cal) today - 1) div 3); y0 = ch_year (cal_chrono cal) today;
          q = (if previous then (if q0 - 1 < 0 then 3 else q0 - 1) else q0);
          y = (if previous \<and> q0 - 1 < 0 then y0 - 1 else y0) in
      exec_bind (expect (ch_from_ymd (cal_chrono cal) y (nat q * 3 + 1) 1)) (\<lambda>start.
      exec_bind (if q = 3 then first_of_year cal (y + 1)
                 else expect (ch_from_ymd (cal_chrono cal) y ((nat q + 1) * 3 + 1) 1)) (\<lambda>following.
      exec_bind (sub_days (cal_chrono cal) following 1) (\<lambda>e. Ret (start, e)))))"

definition year_range :: "calendar \<Rightarrow> int \<Rightarrow> (naive_date \<times> naive_date) exec" where
  "year_range cal y =
     exec_bind (first_of_year cal y) (\<lambda>start.
     exec_bind (first_of_year cal (y + 1)) (\<lambda>following.
     exec_bind (sub_days (cal_chrono cal) following 1) (\<lambda>e. Ret (start, e))))"

definition relative_range :: "calendar \<Rightarrow> naive_date \<Rightarrow> string \<Rightarrow> (naive_date \<times> naive_date) exec" where
  "relative_range cal today rule =
     (let ch = cal_chrono cal in
      if rule = ''today'' then Ret (today, today)
      else if rule = ''yesterday'' then exec_bind (sub_days ch today 1) (\<lambda>d. Ret (d, d))
      else if rule = ''this_week'' then week_range cal today False
      else if rule = ''last_week'' then week_range cal today True
      else if rule = ''this_month'' then
        exec_bind (first_of_month cal today) (\<lambda>start.
        exec_bind (exec_bind (next_month cal today) (\<lambda>d. sub_days ch d 1)) (\<lambda>e. Ret (start, e)))
      else if rule = ''last_month'' then
        exec_bind (exec_bind (first_of_month cal today) (\<lambda>d. sub_days ch d 1)) (\<lambda>e.
        exec_bind (first_of_month cal e) (\<lambda>start. Ret (start, e)))
      else if rule = ''this_quarter'' then quarter_range cal today False
      else if rule = ''last_quarter'' then quarter_range cal today True
      else if rule = ''this_year'' then year_range cal (ch_year ch today)
      else if rule = ''last_year'' then year_range cal (ch_year ch today - 1)
      else Panic)"

text \<open>The year of a date is within the calendar, so its two neighbours do not leave the integers of the code.\<close>

section \<open>Counts of days and single dates\<close>

definition last_days ::
  "calendar \<Rightarrow> naive_date \<Rightarrow> int \<Rightarrow> (naive_date \<Rightarrow> naive_date \<Rightarrow> string \<Rightarrow> nat \<times> nat \<Rightarrow> temporal_result) \<Rightarrow> token list \<Rightarrow>
   temporal_result exec option" where
  "last_days cal today max_days fin w =
     (let english = fst (w ! 0) = ''last'' \<and> fst (w ! 2) = ''days'';
          indonesian = parse_i64 (fst (w ! 0)) \<noteq> None \<and> fst (w ! 1) = ''hari'' \<and> fst (w ! 2) = ''terakhir'' in
      if \<not> english \<and> \<not> indonesian then None
      else
        (case parse_i64 (if english then fst (w ! 1) else fst (w ! 0)) of
           None \<Rightarrow> Some (Ret (invalid ''temporal_invalid_count'' ''The day count must be a positive integer.''))
         | Some days \<Rightarrow>
             if days \<le> 0 \<or> days > max_days
             then Some (Ret (invalid ''temporal_invalid_count'' ''The day count must be positive and within the capability limit.''))
             else Some (exec_bind (sub_days (cal_chrono cal) today (nat (days - 1))) (\<lambda>from.
               Ret (fin from today ''last_n_days_inclusive'' (fst (snd (w ! 0)), snd (snd (w ! 2))))))))"

definition unclear_words :: "string list" where
  "unclear_words =
     [''today'', ''yesterday'', ''week'', ''month'', ''quarter'', ''year'', ''kemarin'', ''tahun'', ''hari'', ''minggu'', ''bulan'',
      ''kuartal'']"

definition dashed_digits :: "string \<Rightarrow> bool" where
  "dashed_digits w \<longleftrightarrow>
     length (filter (\<lambda>c. c = CHR ''-'') w) = 2 \<and> list_all (\<lambda>c. is_ascii_digit c \<or> c = CHR ''-'') w"

definition single_date ::
  "calendar \<Rightarrow> (naive_date \<Rightarrow> naive_date \<Rightarrow> string \<Rightarrow> nat \<times> nat \<Rightarrow> temporal_result) \<Rightarrow> token list \<Rightarrow> temporal_result" where
  "single_date cal fin ts =
     (case filter (\<lambda>t. looks_like_iso_date (fst t)) ts of
        [t] \<Rightarrow>
          if list_ex (\<lambda>u. fst u \<in> set [''from'', ''dari'', ''since'']) (takeWhile (\<lambda>u. fst u \<noteq> fst t) ts)
          then invalid ''temporal_missing_to_date'' ''missing parameter to_date: provide an inclusive from..to range.''
          else res_bind (parse_date cal (fst t)) (\<lambda>d. fin d d ''iso_single_date'' (snd t))
      | _ # _ # _ \<Rightarrow>
          invalid ''temporal_ambiguous'' ''Use an inclusive 'from DATE to DATE' or 'dari DATE sampai DATE' range.''
      | [] \<Rightarrow>
          if list_ex (\<lambda>t. dashed_digits (fst t)) ts
          then invalid ''temporal_invalid_date'' ''Use a valid Gregorian date in YYYY-MM-DD format.''
          else if list_ex (\<lambda>t. fst t \<in> set unclear_words) ts
          then invalid ''temporal_ambiguous'' ''The date expression is ambiguous or unsupported.''
          else Inr None)"

section \<open>The dates of a message\<close>

definition resolve_temporal :: "calendar \<Rightarrow> string \<Rightarrow> nat \<Rightarrow> naive_date \<Rightarrow> int \<Rightarrow> temporal_result exec" where
  "resolve_temporal cal m reference today max_days =
     (let ts = tokens_with_spans (ascii_lower m); fin = finish reference max_days in
      case find_map (month_range cal today fin ts) [0..<length ts] of
        Some r \<Rightarrow> Ret r
      | None \<Rightarrow>
          (case find_map (explicit_range cal fin) (windows 4 ts) of
             Some r \<Rightarrow> Ret r
           | None \<Rightarrow>
               (case find_map (bare_range cal fin) (windows 3 ts) of
                  Some r \<Rightarrow> Ret r
                | None \<Rightarrow>
                    (case find_map (relative_phrase ts) relative_phrases of
                       Some (rule, span) \<Rightarrow>
                         exec_bind (relative_range cal today rule) (\<lambda>(from, to). Ret (fin from to rule span))
                     | None \<Rightarrow>
                         (case find_map (last_days cal today max_days fin) (windows 3 ts) of
                            Some r \<Rightarrow> r
                          | None \<Rightarrow> Ret (single_date cal fin ts))))))"

end
