(* ===== verification/Extractor.thy ===== *)
theory Extractor
  imports Temporal Intent
begin

text \<open>
  \<open>understanding/extraction/mod.rs\<close>: what the deterministic extractor reads off a message, how it is merged into the
  intent of the language model, and where the two conflict; and \<open>extraction/identifier.rs\<close>, which takes an account or
  loan number out of a message before any model sees it.  \<open>str::to_lowercase\<close> is a parameter.
\<close>

section \<open>The extraction\<close>

datatype payload_source = SourceUserText | SourceLlmClaim | SourceCatalogDefault | SourceUnknown

datatype payload_trust = Trusted | Untrusted | Rejected

record payload_candidate =
  pc_field :: payload_field
  pc_value :: json
  pc_source :: payload_source
  pc_trust :: payload_trust

record deterministic_extraction =
  de_constraints :: assistant_constraints
  de_domain :: "assistant_domain option"
  de_entities :: "assistant_entity list"
  de_candidates :: "payload_candidate list"
  de_provenance :: "temporal_provenance option"
  de_temporal_error :: "temporal_validation_error option"

record extraction_conflict =
  xc_field :: payload_field
  xc_llm_value :: json
  xc_trusted_value :: json
  xc_reason :: string

definition no_constraints :: assistant_constraints where
  "no_constraints =
     \<lparr>ac_from_date = None, ac_to_date = None, ac_quantity = None, ac_currency_code = None, ac_product_ids = None,
      ac_office_ids = None, ac_metric = None, ac_transaction_amount = None\<rparr>"

definition no_extraction :: deterministic_extraction where
  "no_extraction =
     \<lparr>de_constraints = no_constraints, de_domain = None, de_entities = [], de_candidates = [], de_provenance = None,
      de_temporal_error = None\<rparr>"

definition extraction_is_empty :: "deterministic_extraction \<Rightarrow> bool" where
  "extraction_is_empty x \<longleftrightarrow>
     de_constraints x = no_constraints \<and> de_domain x = None \<and> de_entities x = [] \<and> de_candidates x = [] \<and>
     de_temporal_error x = None"

definition domain_json :: "assistant_domain \<Rightarrow> json" where
  "domain_json d = JString (if d = DomGroupCenter then ''group_center'' else domain_debug_lower d)"

definition candidate :: "payload_field \<Rightarrow> json \<Rightarrow> payload_candidate" where
  "candidate f v = \<lparr>pc_field = f, pc_value = v, pc_source = SourceUserText, pc_trust = Trusted\<rparr>"

definition canonical_value :: "assistant_entity \<Rightarrow> string" where
  "canonical_value e = (case ent_canonical e of Some s \<Rightarrow> s | None \<Rightarrow> ent_value e)"

definition opt_candidate :: "payload_field \<Rightarrow> json option \<Rightarrow> payload_candidate list" where
  "opt_candidate f v = (case v of None \<Rightarrow> [] | Some j \<Rightarrow> [candidate f j])"

definition stated_candidates :: "deterministic_extraction \<Rightarrow> payload_candidate list" where
  "stated_candidates x =
     (let c = de_constraints x in
      opt_candidate PfFromDate (map_option JString (ac_from_date c)) @
      opt_candidate PfToDate (map_option JString (ac_to_date c)) @
      opt_candidate PfCurrencyCode (map_option JString (ac_currency_code c)) @
      opt_candidate PfMetric (map_option JString (ac_metric c)) @
      opt_candidate PfDomain (map_option domain_json (de_domain x)) @
      map (\<lambda>e. candidate PfPersonName (JString (canonical_value e))) (filter (\<lambda>e. ent_type e = EntPersonName) (de_entities x)))"

text \<open>A quantity without a number ends the recording before anything is recorded.\<close>

definition record_candidates :: "deterministic_extraction \<Rightarrow> deterministic_extraction" where
  "record_candidates x =
     (case ac_quantity (de_constraints x) of
        Some QuantityAll \<Rightarrow> x
      | Some QuantityDefault \<Rightarrow> x
      | Some (QuantityLimit v) \<Rightarrow> x\<lparr>de_candidates := de_candidates x @ candidate PfLimit (json_int v) # stated_candidates x\<rparr>
      | Some (QuantityTopN v) \<Rightarrow> x\<lparr>de_candidates := de_candidates x @ candidate PfLimit (json_int v) # stated_candidates x\<rparr>
      | None \<Rightarrow> x\<lparr>de_candidates := de_candidates x @ stated_candidates x\<rparr>)"

definition entity_type_of :: "named_entity_kind \<Rightarrow> assistant_entity_type" where
  "entity_type_of k =
     (case k of
        NamedPerson \<Rightarrow> EntPersonName
      | NamedOffice \<Rightarrow> EntOffice
      | NamedChargeType \<Rightarrow> EntChargeType
      | NamedProduct \<Rightarrow> EntProduct)"

definition certain_entity :: "assistant_entity_type \<Rightarrow> string \<Rightarrow> assistant_entity" where
  "certain_entity t v = \<lparr>ent_type = t, ent_value = v, ent_canonical = Some v, ent_confidence = Some (F32 1 0)\<rparr>"

definition add_named :: "named_entity_kind \<times> string \<Rightarrow> assistant_entity list \<Rightarrow> assistant_entity list" where
  "add_named nv es =
     (if list_ex (\<lambda>e. ent_type e = entity_type_of (fst nv)) es then es
      else es @ [certain_entity (entity_type_of (fst nv)) (snd nv)])"

definition extracted_entities :: "string option \<Rightarrow> (named_entity_kind \<times> string) list \<Rightarrow> assistant_entity list" where
  "extracted_entities metric named =
     fold add_named named (case metric of None \<Rightarrow> [] | Some v \<Rightarrow> [certain_entity EntMetric v])"

definition extract_message_facts_at ::
  "calendar \<Rightarrow> (string \<Rightarrow> string) \<Rightarrow> string \<Rightarrow> nat \<Rightarrow> naive_date \<Rightarrow> int \<Rightarrow> deterministic_extraction exec" where
  "extract_message_facts_at cal lowercase m reference today max_days =
     exec_bind (resolve_temporal cal m reference today max_days) (\<lambda>temporal.
       let lower = lowercase m; dates = (case temporal of Inr r \<Rightarrow> r | Inl _ \<Rightarrow> None); metric = extract_metric lower in
       Ret (record_candidates
         \<lparr>de_constraints = no_constraints\<lparr>ac_quantity := extract_quantity lower (words lower),
            ac_from_date := map_option (\<lambda>r. cal_text cal (rt_from r)) dates,
            ac_to_date := map_option (\<lambda>r. cal_text cal (rt_to r)) dates,
            ac_currency_code := extract_currency m, ac_metric := metric,
            ac_transaction_amount := extract_transaction_amount m\<rparr>,
          de_domain = extract_domain lower,
          de_entities = extracted_entities metric (extract_named_entities m),
          de_candidates = [], de_provenance = map_option rt_provenance dates,
          de_temporal_error = (case temporal of Inl e \<Rightarrow> Some e | Inr _ \<Rightarrow> None)\<rparr>))"

text \<open>The part of an extraction the facts of a request are read from.\<close>

definition extraction_facts_of :: "deterministic_extraction \<Rightarrow> extraction_facts" where
  "extraction_facts_of x =
     \<lparr>xf_candidates = map (\<lambda>c. (pc_field c, pc_value c)) (de_candidates x), xf_entities = de_entities x\<rparr>"

section \<open>Merging into the intent of the model\<close>

definition merged_quantity :: "quantity option \<Rightarrow> quantity option \<Rightarrow> quantity option" where
  "merged_quantity trusted claimed =
     (case trusted of
        None \<Rightarrow> claimed
      | Some q \<Rightarrow>
          if claimed = None \<or> claimed = Some QuantityDefault then Some q
          else
            (case (Option.bind claimed quantity_parts, quantity_parts q) of
               (Some (_, old), Some (_, new)) \<Rightarrow> if old \<noteq> new then Some q else claimed
             | _ \<Rightarrow> claimed))"

definition same_entity :: "assistant_entity \<Rightarrow> assistant_entity \<Rightarrow> bool" where
  "same_entity e e' \<longleftrightarrow> ent_type e = ent_type e' \<and> canonical_value e = canonical_value e'"

definition add_entity :: "assistant_entity \<Rightarrow> assistant_entity list \<Rightarrow> assistant_entity list" where
  "add_entity e es = (if list_ex (same_entity e) es then es else es @ [e])"

definition merged_constraints :: "assistant_constraints \<Rightarrow> assistant_constraints \<Rightarrow> assistant_constraints" where
  "merged_constraints trusted c =
     c\<lparr>ac_quantity := merged_quantity (ac_quantity trusted) (ac_quantity c),
       ac_from_date := or_else (ac_from_date trusted) (ac_from_date c),
       ac_to_date := or_else (ac_to_date trusted) (ac_to_date c),
       ac_currency_code := or_else (ac_currency_code trusted) (ac_currency_code c),
       ac_metric := or_else (ac_metric c) (ac_metric trusted)\<rparr>"

definition merge_into_legacy_non_authoritative :: "deterministic_extraction \<Rightarrow> assistant_intent \<Rightarrow> assistant_intent" where
  "merge_into_legacy_non_authoritative x i =
     i\<lparr>ai_constraints := merged_constraints (de_constraints x) (ai_constraints i),
       ai_domain := (if ai_domain i = DomUnknown then the_or (ai_domain i) (de_domain x) else ai_domain i),
       ai_entities := fold add_entity (de_entities x) (ai_entities i)\<rparr>"

definition merge_into :: "deterministic_extraction \<Rightarrow> assistant_intent \<Rightarrow> assistant_intent" where
  "merge_into x i = merge_into_legacy_non_authoritative x i"

section \<open>Conflicts\<close>

definition conflict :: "payload_field \<Rightarrow> json \<Rightarrow> json \<Rightarrow> extraction_conflict" where
  "conflict f llm trusted =
     \<lparr>xc_field = f, xc_llm_value = llm, xc_trusted_value = trusted, xc_reason = ''deterministic_extraction_preferred''\<rparr>"

definition string_conflict :: "payload_field \<Rightarrow> string option \<Rightarrow> string option \<Rightarrow> extraction_conflict list" where
  "string_conflict f llm trusted =
     (case (llm, trusted) of
        (Some a, Some b) \<Rightarrow> if a \<noteq> b then [conflict f (JString a) (JString b)] else []
      | _ \<Rightarrow> [])"

definition quantity_json :: "string \<times> int \<Rightarrow> json" where
  "quantity_json mv = obj_of [(''mode'', JString (fst mv)), (''value'', json_int (snd mv))]"

definition quantity_conflict :: "quantity option \<Rightarrow> quantity option \<Rightarrow> extraction_conflict list" where
  "quantity_conflict llm trusted =
     (case (Option.bind llm quantity_parts, Option.bind trusted quantity_parts) of
        (Some a, Some b) \<Rightarrow> if a \<noteq> b then [conflict PfLimit (quantity_json a) (quantity_json b)] else []
      | _ \<Rightarrow> [])"

definition conflicts_with :: "deterministic_extraction \<Rightarrow> assistant_intent \<Rightarrow> extraction_conflict list" where
  "conflicts_with x i =
     (let t = de_constraints x; c = ai_constraints i in
      quantity_conflict (ac_quantity c) (ac_quantity t) @
      string_conflict PfFromDate (ac_from_date c) (ac_from_date t) @
      string_conflict PfToDate (ac_to_date c) (ac_to_date t) @
      string_conflict PfCurrencyCode (ac_currency_code c) (ac_currency_code t) @
      string_conflict PfMetric (ac_metric c) (ac_metric t) @
      (case de_domain x of
         None \<Rightarrow> []
       | Some d \<Rightarrow>
           if ai_domain i \<noteq> DomUnknown \<and> ai_domain i \<noteq> d then [conflict PfDomain (domain_json (ai_domain i)) (domain_json d)] else []))"

section \<open>Sensitive identifiers\<close>

datatype sensitive_identifier_kind = SavingsAccountNumber | LoanNumber

record sensitive_identifier =
  sid_kind :: sensitive_identifier_kind
  sid_value :: string

record identifier_intake =
  in_semantic_message :: string
  in_identifier :: "sensitive_identifier option"

definition markers :: "(string \<times> sensitive_identifier_kind \<times> string) list" where
  "markers =
     [(''savings account number'', SavingsAccountNumber, ''[SAVINGS_ACCOUNT_NUMBER]''),
      (''nomor rekening tabungan'', SavingsAccountNumber, ''[SAVINGS_ACCOUNT_NUMBER]''),
      (''account number'', SavingsAccountNumber, ''[SAVINGS_ACCOUNT_NUMBER]''),
      (''loan account number'', LoanNumber, ''[LOAN_NUMBER]''),
      (''loan number'', LoanNumber, ''[LOAN_NUMBER]''),
      (''nomor pinjaman'', LoanNumber, ''[LOAN_NUMBER]'')]"

text \<open>\<open>match_indices\<close> gives the matches that do not overlap.\<close>

fun match_indices :: "string \<Rightarrow> nat \<Rightarrow> nat \<Rightarrow> string \<Rightarrow> nat list" where
  "match_indices p i skip [] = []"
| "match_indices p i skip (c # cs) =
     (if skip > 0 then match_indices p (i + 1) (skip - 1) cs
      else if starts_with p (c # cs) then i # match_indices p (i + 1) (length p - 1) cs
      else match_indices p (i + 1) 0 cs)"

definition bounded_match :: "string \<Rightarrow> string \<Rightarrow> nat \<Rightarrow> bool" where
  "bounded_match m marker start \<longleftrightarrow>
     (start = 0 \<or> \<not> is_ascii_alphanumeric (m ! (start - 1))) \<and>
     (start + length marker = length m \<or> \<not> is_ascii_alphanumeric (m ! (start + length marker)))"

definition find_marker :: "string \<Rightarrow> string \<Rightarrow> nat option" where
  "find_marker m marker = find (bounded_match m marker) (match_indices marker 0 0 m)"

definition is_ascii_whitespace :: "char \<Rightarrow> bool" where
  "is_ascii_whitespace c \<longleftrightarrow> c \<in> {CHR 0x20, CHR 0x09, CHR 0x0A, CHR 0x0C, CHR 0x0D}"

text \<open>The digits of a candidate, and the length up to its last digit.\<close>

fun identifier_chars :: "string \<Rightarrow> nat \<Rightarrow> nat \<Rightarrow> string \<times> nat" where
  "identifier_chars [] offset e = ([], e)"
| "identifier_chars (c # cs) offset e =
     (if is_ascii_digit c then (case identifier_chars cs (offset + 1) (offset + 1) of (ds, e') \<Rightarrow> (c # ds, e'))
      else if c = CHR ''-'' \<or> is_ascii_whitespace c then identifier_chars cs (offset + 1) e
      else ([], e))"

definition identifier_span :: "string \<Rightarrow> nat \<Rightarrow> (nat \<times> nat \<times> string) option" where
  "identifier_span m after_marker =
     (let suffix = drop after_marker m;
          start = after_marker + length (takeWhile (\<lambda>c. is_ascii_whitespace c \<or> c \<in> set '':#'') suffix);
          (normalized, e) = identifier_chars (drop start m) 0 0 in
      if length normalized < 4 then None else Some (start, start + e, normalized))"

definition identifier_at ::
  "string \<Rightarrow> string \<Rightarrow> string \<times> sensitive_identifier_kind \<times> string \<Rightarrow> identifier_intake option" where
  "identifier_at m lower mk =
     (case mk of
        (marker, kind, placeholder) \<Rightarrow>
          Option.bind (find_marker lower marker) (\<lambda>start.
          Option.bind (identifier_span m (start + length marker)) (\<lambda>(a, b, normalized).
          Some \<lparr>in_semantic_message = take a m @ placeholder @ drop b m,
                in_identifier = Some \<lparr>sid_kind = kind, sid_value = normalized\<rparr>\<rparr>)))"

definition identifier_intake_of :: "string \<Rightarrow> identifier_intake" where
  "identifier_intake_of m =
     the_or \<lparr>in_semantic_message = m, in_identifier = None\<rparr> (find_map (identifier_at m (ascii_lower m)) markers)"

end
