(* ===== verification/TokenFacts.thy ===== *)
theory TokenFacts
  imports Extractor
begin

text \<open>
  The words of a message: the loop over its characters finds the maximal runs of word characters, each with its place, and
  splitting at the other characters finds the same runs.
\<close>

section \<open>A reference scanner\<close>

function runs :: "nat \<Rightarrow> string \<Rightarrow> token list" where
  "runs n [] = []"
| "runs n (c # cs) =
     (if token_char c
      then (let w = takeWhile token_char (c # cs) in (w, n, n + length w) # runs (n + length w) (dropWhile token_char (c # cs)))
      else runs (n + 1) cs)"
  by pat_completeness auto
termination
  by (relation "measure (\<lambda>(n, s). length s)") (auto simp: le_imp_less_Suc length_dropWhile_le)

lemma slice_append: "a = length pre \<Longrightarrow> b = a + length w \<Longrightarrow> slice (pre @ w @ post) a b = w"
  by (simp add: slice_def)

lemma enumerate_snoc: "enumerate n (c # cs) @ [x] = (n, c) # (enumerate (Suc n) cs @ [x])"
  by simp

lemma token_loop_runs:
  assumes "\<not> token_char d"
  shows "token_loop (pre @ s) (enumerate (length pre) s @ [(length pre + length s, d)]) None = runs (length pre) s"
    and "list_all token_char w \<Longrightarrow> w \<noteq> [] \<Longrightarrow>
      token_loop (pre @ w @ s) (enumerate (length pre + length w) s @ [(length pre + length w + length s, d)]) (Some (length pre)) =
        (w @ takeWhile token_char s, length pre, length pre + length (w @ takeWhile token_char s)) #
          runs (length pre + length (w @ takeWhile token_char s)) (dropWhile token_char s)"
proof (induction s arbitrary: pre w)
  case Nil
  { case 1 show ?case using assms by simp }
  { case 2 show ?case using assms by (simp add: slice_append [of _ pre _ w "[]", simplified]) }
next
  case (Cons c s)
  { case 1
    show ?case
    proof (cases "token_char c")
      case True
      have "token_loop (pre @ c # s) (enumerate (Suc (length pre)) s @ [(Suc (length pre + length s), d)]) (Some (length pre)) =
          (c # takeWhile token_char s, length pre, Suc (length pre + length (takeWhile token_char s))) #
          runs (Suc (length pre + length (takeWhile token_char s))) (dropWhile token_char s)"
        using Cons(2) [of "[c]" pre] True by simp
      then show ?thesis using True by (simp add: Let_def)
    next
      case False
      then show ?thesis using Cons(1) [of "pre @ [c]"] by simp
    qed }
  { case 2
    show ?case
    proof (cases "token_char c")
      case True
      then show ?thesis using Cons(2) [of "w @ [c]" pre] 2 by simp
    next
      case False
      have "slice (pre @ w @ c # s) (length pre) (length pre + length w) = w" by (rule slice_append) simp_all
      moreover have "token_loop (pre @ w @ c # s) (enumerate (Suc (length pre + length w)) s @ [(Suc (length pre + length w + length s), d)]) None =
          runs (Suc (length pre + length w)) s"
        using Cons(1) [of "pre @ w @ [c]"] by simp
      ultimately show ?thesis using False by simp
    qed }
qed

lemma tokens_runs: "tokens_with_spans m = runs 0 m"
proof -
  have "\<not> token_char CHR '' ''" by code_simp
  from token_loop_runs(1) [OF this, of "[]" m] show ?thesis by (simp add: tokens_with_spans_def)
qed

section \<open>Maximal runs\<close>

definition maximal_run :: "string \<Rightarrow> string \<Rightarrow> string \<Rightarrow> string \<Rightarrow> bool" where
  "maximal_run m pre w post \<longleftrightarrow>
     m = pre @ w @ post \<and> w \<noteq> [] \<and> list_all token_char w \<and> (pre = [] \<or> \<not> token_char (last pre)) \<and>
     (post = [] \<or> \<not> token_char (hd post))"

lemma maximal_run_skip:
  assumes "\<not> token_char c"
  shows "maximal_run (c # cs) pre w post \<longleftrightarrow> (\<exists>pre'. pre = c # pre' \<and> maximal_run cs pre' w post)"
  using assms by (cases pre) (auto simp: maximal_run_def Cons_eq_append_conv)

lemma takeWhile_run:
  assumes "list_all token_char w" and "post = [] \<or> \<not> token_char (hd post)"
  shows "takeWhile token_char (w @ post) = w \<and> dropWhile token_char (w @ post) = post"
  using assms by (induction w) (auto simp: neq_Nil_conv takeWhile_eq_Nil_iff dropWhile_eq_self_iff)

lemma maximal_run_first:
  assumes "token_char c"
  shows "maximal_run (c # cs) pre w post \<longleftrightarrow>
    (pre = [] \<and> w = takeWhile token_char (c # cs) \<and> post = dropWhile token_char (c # cs)) \<or>
    (\<exists>pre'. pre = takeWhile token_char (c # cs) @ pre' \<and> maximal_run (dropWhile token_char (c # cs)) pre' w post)"
    (is "?run \<longleftrightarrow> ?first \<or> ?later")
proof
  let ?s = "c # cs"
  assume run: ?run
  show "?first \<or> ?later"
  proof (cases pre)
    case Nil
    then show ?thesis using run takeWhile_run [of w post] by (auto simp: maximal_run_def)
  next
    case (Cons x xs)
    have "\<not> token_char (last pre)" "last pre \<in> set pre" using run Cons by (simp_all add: maximal_run_def)
    then have "\<not> list_all token_char pre" by (auto simp: list_all_iff)
    then have "dropWhile token_char pre \<noteq> []" by (auto simp: list_all_iff)
    then have split: "takeWhile token_char ?s = takeWhile token_char pre" "dropWhile token_char ?s = dropWhile token_char pre @ w @ post"
      using run by (auto simp: maximal_run_def takeWhile_append dropWhile_append simp del: takeWhile.simps dropWhile.simps)
    have "last (dropWhile token_char pre) = last pre"
      using \<open>dropWhile token_char pre \<noteq> []\<close> by (metis last_appendR takeWhile_dropWhile_id)
    then have "maximal_run (dropWhile token_char ?s) (dropWhile token_char pre) w post"
      using run Cons unfolding split by (auto simp: maximal_run_def)
    then show ?thesis using split by (metis takeWhile_dropWhile_id)
  qed
next
  let ?s = "c # cs"
  have parts: "?s = takeWhile token_char ?s @ dropWhile token_char ?s" by simp
  assume "?first \<or> ?later"
  then show ?run
  proof
    assume ?first
    then show ?thesis
      using assms parts hd_dropWhile [of token_char ?s] by (auto simp: maximal_run_def list_all_iff dest: set_takeWhileD)
  next
    assume ?later
    then obtain pre' where pre: "pre = takeWhile token_char ?s @ pre'" and run: "maximal_run (dropWhile token_char ?s) pre' w post" by blast
    have "pre' \<noteq> []"
    proof
      assume "pre' = []"
      then have "dropWhile token_char ?s = w @ post" "w \<noteq> []" "token_char (hd w)" using run by (auto simp: maximal_run_def neq_Nil_conv)
      then show False using hd_dropWhile [of token_char ?s] by (metis Nil_is_append_conv hd_append)
    qed
    then show ?thesis using run pre parts unfolding maximal_run_def by (metis append.assoc last_appendR append_is_Nil_conv)
  qed
qed

lemma runs_spec: "(w, a, b) \<in> set (runs n m) \<longleftrightarrow> (\<exists>pre post. maximal_run m pre w post \<and> a = n + length pre \<and> b = a + length w)"
proof (induction n m rule: runs.induct)
  case (1 n)
  then show ?case by (auto simp: maximal_run_def)
next
  case (2 n c cs)
  show ?case
  proof (cases "token_char c")
    case True
    define v r where "v = takeWhile token_char (c # cs)" and "r = dropWhile token_char (c # cs)"
    have first: "maximal_run (c # cs) pre w post \<longleftrightarrow> (pre = [] \<and> w = v \<and> post = r) \<or> (\<exists>pre'. pre = v @ pre' \<and> maximal_run r pre' w post)"
      for pre post unfolding v_def r_def by (rule maximal_run_first [OF True])
    have "(w, a, b) \<in> set (runs n (c # cs)) \<longleftrightarrow> (w = v \<and> a = n \<and> b = n + length v) \<or> (w, a, b) \<in> set (runs (n + length v) r)"
      using True unfolding v_def r_def by (simp add: Let_def)
    also have "(w, a, b) \<in> set (runs (n + length v) r) \<longleftrightarrow>
        (\<exists>pre post. maximal_run r pre w post \<and> a = n + length v + length pre \<and> b = a + length w)"
      using "2.IH"(1) [OF True refl] unfolding v_def r_def by simp
    also have "(w = v \<and> a = n \<and> b = n + length v) \<or> (\<exists>pre post. maximal_run r pre w post \<and> a = n + length v + length pre \<and> b = a + length w) \<longleftrightarrow>
        (\<exists>pre post. maximal_run (c # cs) pre w post \<and> a = n + length pre \<and> b = a + length w)" (is "?l \<longleftrightarrow> ?r")
    proof
      assume ?l
      then show ?r
      proof
        assume "w = v \<and> a = n \<and> b = n + length v"
        then show ?r using first [of "[]" r] by (intro exI [of _ "[]"] exI [of _ r]) simp
      next
        assume "\<exists>pre post. maximal_run r pre w post \<and> a = n + length v + length pre \<and> b = a + length w"
        then obtain pre post where "maximal_run r pre w post" "a = n + length v + length pre" "b = a + length w" by blast
        then show ?r using first [of "v @ pre" post] by (intro exI [of _ "v @ pre"] exI [of _ post]) simp
      qed
    next
      assume ?r
      then show ?l unfolding first by force
    qed
    finally show ?thesis .
  next
    case False
    have "(w, a, b) \<in> set (runs n (c # cs)) \<longleftrightarrow> (\<exists>pre post. maximal_run cs pre w post \<and> a = n + 1 + length pre \<and> b = a + length w)"
      using "2.IH"(2) [OF False] False by simp
    also have "\<dots> \<longleftrightarrow> (\<exists>pre post. maximal_run (c # cs) pre w post \<and> a = n + length pre \<and> b = a + length w)" (is "?l \<longleftrightarrow> ?r")
    proof
      assume ?l
      then obtain pre post where "maximal_run cs pre w post" "a = n + 1 + length pre" "b = a + length w" by blast
      then show ?r using maximal_run_skip [OF False] by (intro exI [of _ "c # pre"] exI [of _ post]) simp
    next
      assume ?r
      then show ?l unfolding maximal_run_skip [OF False] by force
    qed
    finally show ?thesis .
  qed
qed

lemma runs_sorted: "sorted_wrt (\<lambda>(_, _, b) (_, a, _). b \<le> a) (runs n m)"
proof (induction n m rule: runs.induct)
  case (2 n c cs)
  show ?case
  proof (cases "token_char c")
    case True
    then show ?thesis using 2(1) [OF True refl] by (auto simp: Let_def runs_spec)
  next
    case False
    then show ?thesis using 2(2) by simp
  qed
qed simp

section \<open>Splitting\<close>

lemma split_where_first:
  "split_where p s = takeWhile (\<lambda>c. \<not> p c) s # (case dropWhile (\<lambda>c. \<not> p c) s of [] \<Rightarrow> [] | x # xs \<Rightarrow> split_where p xs)"
  by (induction s) auto

lemma words_runs: "words m = map fst (runs n m)"
proof (induction n m rule: runs.induct)
  case (1 n)
  then show ?case by (simp add: words_def)
next
  case (2 n c cs)
  show ?case
  proof (cases "token_char c")
    case True
    let ?s = "c # cs"
    have "words ?s = takeWhile token_char ?s # words (dropWhile token_char ?s)"
    proof (cases "dropWhile token_char ?s")
      case Nil
      have "split_where (\<lambda>c. \<not> token_char c) ?s = [takeWhile token_char ?s]"
        by (subst split_where_first) (simp only: not_not Nil list.case)
      then show ?thesis unfolding words_def Nil using True by simp
    next
      case (Cons x xs)
      then have "\<not> token_char x" using hd_dropWhile [of token_char ?s] by simp
      then show ?thesis using True Cons unfolding words_def by (subst split_where_first) simp
    qed
    then show ?thesis using 2(1) [OF True refl] True by (simp add: Let_def)
  next
    case False
    then show ?thesis using 2(2) [OF False] by (simp add: words_def)
  qed
qed

end
