(* ===== verification/ExtractorProps.thy ===== *)
theory ExtractorProps
  imports TokenFacts
begin

text \<open>
  What the extractor promises about a message: its words and their places, names and dates that are in the message, the
  redaction of account and loan numbers, and the precedence of what was read over what the language model claims.
\<close>

section \<open>Words\<close>

text \<open>
  C32: The words of a message are its maximal runs of letters, digits and hyphens, each with the place where it stands, in
  the order of the message, and splitting the message gives the same words.
\<close>
theorem tokens_are_maximal_runs:
  "((w, a, b) \<in> set (tokens_with_spans m) \<longleftrightarrow> (\<exists>pre post. maximal_run m pre w post \<and> a = length pre \<and> b = a + length w)) \<and>
   sorted_wrt (\<lambda>(_, _, b) (_, a, _). b \<le> a) (tokens_with_spans m) \<and> words m = map fst (tokens_with_spans m)"
  unfolding tokens_runs using runs_spec [of w a b 0 m] runs_sorted [of 0 m] words_runs [of m 0] by simp

lemma token_place: "(w, a, b) \<in> set (tokens_with_spans m) \<Longrightarrow> a < b \<and> b \<le> length m"
  unfolding tokens_runs runs_spec by (auto simp: maximal_run_def)

lemma span_place:
  assumes "i \<le> j" and "j < length (tokens_with_spans m)"
  shows "fst (snd (tokens_with_spans m ! i)) < snd (snd (tokens_with_spans m ! j)) \<and> snd (snd (tokens_with_spans m ! j)) \<le> length m"
proof -
  let ?ts = "tokens_with_spans m"
  obtain w a b w' a' b' where i: "?ts ! i = (w, a, b)" and j: "?ts ! j = (w', a', b')" by (metis prod_cases3)
  have "(w, a, b) \<in> set ?ts" "(w', a', b') \<in> set ?ts" using assms i j by (metis le_less_trans nth_mem)+
  then have places: "a < b" "a' < b'" "b' \<le> length m" using token_place by blast+
  have "i < j \<Longrightarrow> b \<le> a'"
    using runs_sorted [of 0 m] assms(2) i j unfolding tokens_runs [symmetric] sorted_wrt_iff_nth_less by fastforce
  then show ?thesis using places i j assms(1) by (cases "i = j") auto
qed

section \<open>Names\<close>

definition named_run :: "token list \<Rightarrow> named_entity_kind \<times> string \<Rightarrow> bool" where
  "named_run ts kp \<longleftrightarrow>
     (\<exists>a b. a \<le> b \<and> b < length ts \<and> snd kp = phrase_of ts a b) \<and> (fst kp = NamedPerson \<longrightarrow> phrase_kind (snd kp) = None)"

lemma name_run_end_less: "e < length ts \<Longrightarrow> name_run_end m ts start e < length ts"
proof (induction m ts start e rule: name_run_end.induct)
  case (1 m ts start e)
  then show ?case by (subst name_run_end.simps) simp
qed

lemma capital_run_end_less: "e < length ts \<Longrightarrow> capital_run_end m ts e < length ts"
proof (induction m ts e rule: capital_run_end.induct)
  case (1 m ts e)
  then show ?case by (subst capital_run_end.simps) simp
qed

lemma resolve_kind_person: "resolve_kind m ts start phrase anchor = NamedPerson \<Longrightarrow> phrase_kind phrase = None"
  by (cases "phrase_kind phrase") (auto simp: resolve_kind_def or_else_def phrase_kind_def Let_def split: if_splits)

lemma lowercase_name_run_named:
  assumes "lowercase_name_run m ts i = Some (phrase, next_index)" and "i < length ts"
  shows "named_run ts (NamedPerson, phrase)"
proof -
  have "phrase = phrase_of ts i (name_run_end m ts i i)"
    and "resolve_kind m ts i phrase (ascii_lower (fst (ts ! (i - 1)))) = NamedPerson"
    using assms(1) by (auto simp: lowercase_name_run_def Let_def split: if_splits)
  then show ?thesis
    using name_run_end_ge [of i m ts i] name_run_end_less [OF assms(2)] resolve_kind_person unfolding named_run_def by fastforce
qed

lemma lowercase_kind_run_named:
  assumes "lowercase_kind_run m ts i = Some kp" and "i < length ts"
  shows "named_run ts kp"
proof -
  have i: "i \<noteq> 0" and kp: "snd kp = fst (ts ! (i - 1)) @ '' '' @ fst (ts ! i)" "fst kp \<noteq> NamedPerson"
    using assms(1) by (auto simp: lowercase_kind_run_def Let_def split: if_splits)
  obtain k where k: "i = Suc k" using i by (cases i) auto
  have "drop k (take (Suc (Suc k)) ts) = [ts ! k, ts ! Suc k]"
    using assms(2) unfolding k by (simp add: Cons_nth_drop_Suc [symmetric] take_Suc_conv_app_nth)
  then have "snd kp = phrase_of ts k i" using kp(1) by (simp add: phrase_of_def k)
  then show ?thesis using kp(2) assms(2) k unfolding named_run_def by (metis le_SucI order_refl)
qed

lemma capital_entity_named:
  assumes "capital_entity m ts i e = Some kp" and "i \<le> e" and "e < length ts"
  shows "named_run ts kp"
proof -
  have "kp = (resolve_kind m ts i (phrase_of ts i e) (ascii_lower (fst (ts ! (i - 1)))), phrase_of ts i e)"
    using assms(1) by (auto simp: capital_entity_def Let_def split: if_splits)
  then show ?thesis using assms(2,3) resolve_kind_person unfolding named_run_def by auto
qed

lemma entity_loop_named: "kp \<in> set (entity_loop m ts i) \<Longrightarrow> named_run ts kp"
proof (induction m ts i rule: entity_loop.induct)
  case (1 m ts i)
  show ?case
  proof (cases "i < length ts")
    case False
    then show ?thesis using "1.prems" by (subst (asm) entity_loop.simps) simp
  next
    case inside: True
    show ?thesis
    proof (cases "is_capitalised (fst (ts ! i))")
      case True
      let ?e = "capital_run_end m ts i"
      have e: "i \<le> ?e" "?e < length ts" using capital_run_end_ge capital_run_end_less inside by auto
      have "capital_entity m ts i ?e = Some kp \<or> kp \<in> set (entity_loop m ts (?e + 1))"
        using "1.prems" inside True by (subst (asm) entity_loop.simps) (auto simp: Let_def split: option.splits)
      then show ?thesis
      proof
        assume "capital_entity m ts i ?e = Some kp"
        then show ?thesis using capital_entity_named e by blast
      next
        assume "kp \<in> set (entity_loop m ts (?e + 1))"
        then show ?thesis using "1.IH"(4,5) inside True by (cases "capital_entity m ts i ?e") auto
      qed
    next
      case False
      show ?thesis
      proof (cases "lowercase_name_run m ts i")
        case (Some pn)
        then obtain phrase n where pn: "lowercase_name_run m ts i = Some (phrase, n)" by (cases pn) auto
        then have "kp = (NamedPerson, phrase) \<or> kp \<in> set (entity_loop m ts n)"
          using "1.prems" inside False by (subst (asm) entity_loop.simps) simp
        moreover have "kp \<in> set (entity_loop m ts n) \<Longrightarrow> named_run ts kp"
          by (rule "1.IH"(3)) (use inside False pn in auto)
        ultimately show ?thesis using lowercase_name_run_named [OF pn inside] by auto
      next
        case None
        then have "lowercase_kind_run m ts i = Some kp \<or> kp \<in> set (entity_loop m ts (i + 1))"
          using "1.prems" inside False by (subst (asm) entity_loop.simps) (auto split: option.splits)
        then show ?thesis
        proof
          assume "lowercase_kind_run m ts i = Some kp"
          then show ?thesis using lowercase_kind_run_named inside by blast
        next
          assume "kp \<in> set (entity_loop m ts (i + 1))"
          then show ?thesis using "1.IH"(1,2) inside False None by (cases "lowercase_kind_run m ts i") auto
        qed
      qed
    qed
  qed
qed

text \<open>
  C33: Every name the extractor reports is a run of consecutive words of the message, and a name it takes for a person
  contains no word for an office, a charge or a product.
\<close>
theorem names_are_in_the_message:
  assumes "(k, phrase) \<in> set (extract_named_entities m)"
  shows "(\<exists>a b. a \<le> b \<and> b < length (words m) \<and> phrase = join_words (drop a (take (Suc b) (words m)))) \<and>
    (k = NamedPerson \<longrightarrow> phrase_kind phrase = None)"
  using entity_loop_named [OF assms [unfolded extract_named_entities_def]] words_runs [of m 0]
  by (simp add: named_run_def phrase_of_def tokens_runs drop_map take_map)

lemma names_are_in_the_message_witness:
  "\<exists>a b. a \<le> b \<and> ''Head Office'' = join_words (drop a (take (Suc b) (words ''Is there an office named Head Office?'')))"
proof -
  have "(NamedOffice, ''Head Office'') \<in> set (extract_named_entities ''Is there an office named Head Office?'')" by code_simp
  from names_are_in_the_message [OF this] show ?thesis by blast
qed

section \<open>Dates\<close>

lemma month_expr_next: "month_expr ts i = Some (month, year, e) \<Longrightarrow> i < e \<and> e \<le> length ts"
  by (auto simp: month_expr_def token_at_def Let_def Option.bind_eq_Some_conv split: if_splits)

lemma windowsD:
  assumes "w \<in> set (windows n ts)"
  obtains i where "i + n \<le> length ts" and "length w = n" and "\<And>k. k < n \<Longrightarrow> w ! k = ts ! (i + k)"
proof -
  obtain i where i: "i < Suc (length ts) - n" "w = take n (drop i ts)" using assms by (auto simp: windows_def)
  then show ?thesis by (intro that [of i]) auto
qed

text \<open>A range is good when it is in order, within the limit, and stated by a phrase of the message.\<close>

definition phrase_span :: "token list \<Rightarrow> nat \<times> nat \<Rightarrow> bool" where
  "phrase_span ts sp \<longleftrightarrow> (\<exists>i j. i \<le> j \<and> j < length ts \<and> sp = (fst (snd (ts ! i)), snd (snd (ts ! j))))"

definition good_range :: "token list \<Rightarrow> nat \<Rightarrow> int \<Rightarrow> temporal_result \<Rightarrow> bool" where
  "good_range ts reference max_days r \<longleftrightarrow>
     (\<forall>t. r = Inr (Some t) \<longrightarrow>
        rt_from t \<le> rt_to t \<and> rt_to t - rt_from t + 1 \<le> max_days \<and> tp_reference (rt_provenance t) = reference \<and>
        phrase_span ts (tp_span (rt_provenance t)))"

lemma good_invalid [simp]: "good_range ts reference max_days (invalid code message)"
  by (simp add: good_range_def invalid_def)

lemma good_finish: "phrase_span ts sp \<Longrightarrow> good_range ts reference max_days (finish reference max_days from to rule sp)"
  by (auto simp: good_range_def finish_def invalid_def)

lemma phrase_spanI: "i \<le> j \<Longrightarrow> j < length ts \<Longrightarrow> phrase_span ts (fst (snd (ts ! i)), snd (snd (ts ! j)))"
  unfolding phrase_span_def by blast

lemma good_month_range:
  assumes "month_range cal today (finish reference max_days) ts start = Some r" and "start < length ts"
  shows "good_range ts reference max_days r"
  using assms
  by (auto simp: month_range_def Let_def split: if_splits option.splits dest!: month_expr_next intro!: good_finish phrase_spanI;
      linarith)

lemma good_dates_between:
  assumes "phrase_span ts (first, snd (snd b))"
  shows "good_range ts reference max_days (dates_between cal (finish reference max_days) a b first)"
  using good_finish [OF assms]
  by (auto simp: dates_between_def parse_date_def invalid_def good_range_def split: option.splits)

lemma good_windows:
  assumes "find_map f (windows n ts) = Some r" and "n > 0"
    and "\<And>w i. length w = n \<Longrightarrow> i + n \<le> length ts \<Longrightarrow> (\<And>k. k < n \<Longrightarrow> w ! k = ts ! (i + k)) \<Longrightarrow> f w = Some r \<Longrightarrow> Q r"
  shows "Q r"
proof -
  obtain w where w: "w \<in> set (windows n ts)" "f w = Some r" using find_map_SomeD [OF assms(1)] by blast
  from w(1) show ?thesis by (rule windowsD) (use assms(3) w(2) in blast)
qed

lemma good_explicit_range:
  assumes "find_map (explicit_range cal (finish reference max_days)) (windows 4 ts) = Some r"
  shows "good_range ts reference max_days r"
  using assms
proof (rule good_windows)
  fix w i assume "length w = 4" "i + 4 \<le> length ts" and nth: "\<And>k. k < 4 \<Longrightarrow> w ! k = ts ! (i + k)"
    and r: "explicit_range cal (finish reference max_days) w = Some r"
  have "phrase_span ts (fst (snd (w ! 0)), snd (snd (w ! 3)))"
    using nth [of 0] nth [of 3] \<open>i + 4 \<le> length ts\<close> by (auto intro: phrase_spanI)
  then show "good_range ts reference max_days r"
    using r by (auto simp: explicit_range_def split: if_splits intro!: good_dates_between)
qed simp

lemma good_bare_range:
  assumes "find_map (bare_range cal (finish reference max_days)) (windows 3 ts) = Some r"
  shows "good_range ts reference max_days r"
  using assms
proof (rule good_windows)
  fix w i assume "length w = 3" "i + 3 \<le> length ts" and nth: "\<And>k. k < 3 \<Longrightarrow> w ! k = ts ! (i + k)"
    and r: "bare_range cal (finish reference max_days) w = Some r"
  have "phrase_span ts (fst (snd (w ! 0)), snd (snd (w ! 2)))"
    using nth [of 0] nth [of 2] \<open>i + 3 \<le> length ts\<close> by (auto intro: phrase_spanI)
  then show "good_range ts reference max_days r"
    using r by (auto simp: bare_range_def split: if_splits intro!: good_dates_between)
qed simp

lemma relative_phrase_span:
  assumes "find_map (relative_phrase ts) relative_phrases = Some (rule, sp)"
  shows "phrase_span ts sp"
proof -
  obtain pr where pr: "pr \<in> set relative_phrases" "relative_phrase ts pr = Some (rule, sp)"
    using find_map_SomeD [OF assms] by blast
  then obtain w where w: "w \<in> set (windows (length (fst pr)) ts)" and sp: "sp = (fst (snd (w ! 0)), snd (snd (w ! (length w - 1))))"
    by (auto simp: relative_phrase_def split: option.splits dest: find_SomeD)
  have "fst pr \<noteq> []" using pr(1) by (auto simp: relative_phrases_def)
  from w show ?thesis
    by (rule windowsD) (use sp \<open>fst pr \<noteq> []\<close> in \<open>cases "length (fst pr)"; auto intro!: phrase_spanI\<close>)
qed

lemma good_last_days:
  assumes "find_map (last_days cal today max_days (finish reference max_days)) (windows 3 ts) = Some (Ret r)"
  shows "good_range ts reference max_days r"
proof -
  have "case Ret r of Ret x \<Rightarrow> good_range ts reference max_days x | Panic \<Rightarrow> True"
    using assms
  proof (rule good_windows)
    fix w i assume "length w = 3" "i + 3 \<le> length ts" and nth: "\<And>k. k < 3 \<Longrightarrow> w ! k = ts ! (i + k)"
      and r: "last_days cal today max_days (finish reference max_days) w = Some (Ret r)"
    have "phrase_span ts (fst (snd (w ! 0)), snd (snd (w ! 2)))"
      using nth [of 0] nth [of 2] \<open>i + 3 \<le> length ts\<close> by (auto intro: phrase_spanI)
    then show "case Ret r of Ret x \<Rightarrow> good_range ts reference max_days x | Panic \<Rightarrow> True"
      using r good_finish by (auto simp: last_days_def Let_def exec_bind_def split: if_splits option.splits exec.splits)
  qed simp
  then show ?thesis by simp
qed

lemma good_single_date: "good_range ts reference max_days (single_date cal (finish reference max_days) ts)"
proof (cases "filter (\<lambda>t. looks_like_iso_date (fst t)) ts")
  case Nil
  then show ?thesis by (simp add: single_date_def) (simp add: good_range_def)
next
  case (Cons t rest)
  then have "t \<in> set ts" by (metis filter_eq_ConsD in_set_conv_decomp)
  then obtain i where "i < length ts" "ts ! i = t" by (metis in_set_conv_nth)
  then have "phrase_span ts (snd t)" using phrase_spanI [of i i ts] by (cases t) auto
  then show ?thesis
    using Cons good_finish [of ts "snd t"]
    by (cases rest) (auto simp: single_date_def parse_date_def good_range_def invalid_def split: option.splits)
qed

text \<open>A Gregorian calendar whose days are counted from the first of January of the year one, a Monday.\<close>

definition leap_year :: "int \<Rightarrow> bool" where
  "leap_year y \<longleftrightarrow> y mod 4 = 0 \<and> (y mod 100 \<noteq> 0 \<or> y mod 400 = 0)"

definition gregorian_day :: "int \<Rightarrow> nat \<Rightarrow> nat \<Rightarrow> naive_date" where
  "gregorian_day y m d =
     365 * (y - 1) + (y - 1) div 4 - (y - 1) div 100 + (y - 1) div 400 +
     [0, 31, 59, 90, 120, 151, 181, 212, 243, 273, 304, 334] ! (m - 1) + (if m > 2 \<and> leap_year y then 1 else 0) + int d"

definition gregorian_year :: "naive_date \<Rightarrow> int" where
  "gregorian_year d =
     (let y = (d * 400) div 146097 + 1 in
      if gregorian_day y 1 1 > d then y - 1 else if gregorian_day (y + 1) 1 1 \<le> d then y + 1 else y)"

definition gregorian :: calendar where
  "gregorian =
     \<lparr>cal_chrono = \<lparr>ch_parse_ymd = (\<lambda>_. None), ch_from_ymd = (\<lambda>y m d. Some (gregorian_day y m d)), ch_year = gregorian_year,
        ch_month = (\<lambda>d. length (filter (\<lambda>m. gregorian_day (gregorian_year d) m 1 \<le> d) [1..<13])),
        ch_sub_months = (\<lambda>_ _. None), ch_add_months = (\<lambda>_ _. None), ch_sub_days = (\<lambda>d n. Some (d - int n))\<rparr>,
      cal_weekday = (\<lambda>d. nat ((d - 1) mod 7)), cal_add_days = (\<lambda>d n. Some (d + int n)), cal_text = (\<lambda>_. [])\<rparr>"



end
