(* ===== verification/CalendarProps.thy ===== *)
theory CalendarProps
  imports ExtractorProps
begin

text \<open>
  The relative periods of a message (\<open>temporal.rs\<close>) and the calendar they are computed with.  What the periods rely on
  is the behaviour of the civil calendar of \<open>chrono\<close> around the business day; a Gregorian calendar has it.
\<close>

section \<open>The calendar around a day\<close>

definition month_first :: "calendar \<Rightarrow> int \<Rightarrow> nat \<Rightarrow> naive_date" where
  "month_first cal y m = the (ch_from_ymd (cal_chrono cal) y m 1)"

definition month_after :: "calendar \<Rightarrow> int \<Rightarrow> nat \<Rightarrow> naive_date" where
  "month_after cal y m = (if m = 12 then month_first cal (y + 1) 1 else month_first cal y (m + 1))"

definition in_month :: "calendar \<Rightarrow> naive_date \<Rightarrow> bool" where
  "in_month cal d \<longleftrightarrow>
     (let y = ch_year (cal_chrono cal) d; m = ch_month (cal_chrono cal) d in
      1 \<le> m \<and> m \<le> 12 \<and> month_first cal y m \<le> d \<and> d < month_after cal y m)"

text \<open>
  The months of the year before, this year and the year after exist and follow each other, days within three years can
  be counted, and the day lies in its month, as does the day before that month begins.
\<close>

definition civil_around :: "calendar \<Rightarrow> naive_date \<Rightarrow> bool" where
  "civil_around cal today \<longleftrightarrow>
     (let ch = cal_chrono cal; y = ch_year ch today; before = month_first cal y (ch_month ch today) - 1 in
      list_all (\<lambda>k. list_all (\<lambda>m. ch_from_ymd ch (y + k) m 1 \<noteq> None) [1..<13]) [-1, 0, 1] \<and>
      list_all (\<lambda>k. list_all (\<lambda>m. month_first cal (y + k) m < month_first cal (y + k) (m + 1)) [1..<12]) [-1, 0, 1] \<and>
      list_all (\<lambda>k. month_first cal (y + k) 12 < month_first cal (y + k + 1) 1) [-1, 0] \<and>
      in_month cal today \<and> in_month cal before \<and>
      (ch_year ch before = y \<or> ch_year ch before = y - 1) \<and> cal_weekday cal today < 7 \<and>
      (\<forall>d n. month_first cal (y - 1) 1 - 14 \<le> d \<and> d \<le> month_first cal (y + 1) 12 \<and> n \<le> 7 \<longrightarrow>
         ch_sub_days ch d n = Some (d - int n) \<and> cal_add_days cal d n = Some (d + int n)))"

lemma civil_months:
  assumes "civil_around cal today" and "k \<in> {-1, 0, 1}" and "1 \<le> m" and "m \<le> 12"
  shows "ch_from_ymd (cal_chrono cal) (ch_year (cal_chrono cal) today + k) m 1 =
    Some (month_first cal (ch_year (cal_chrono cal) today + k) m)"
proof -
  have "m \<in> set [1..<13]" using assms(3,4) by simp
  then have "ch_from_ymd (cal_chrono cal) (ch_year (cal_chrono cal) today + k) m 1 \<noteq> None"
    using assms(1,2) unfolding civil_around_def Let_def list_all_iff by (metis insert_iff list.set(1,2) singletonD)
  then show ?thesis by (auto simp: month_first_def)
qed

lemma civil_month_mono:
  assumes "civil_around cal today" and "k \<in> {-1, 0, 1}" and "1 \<le> a" and "a \<le> b" and "b \<le> 12"
  shows "month_first cal (ch_year (cal_chrono cal) today + k) a \<le> month_first cal (ch_year (cal_chrono cal) today + k) b"
  using assms(4,5)
proof (induction b rule: dec_induct)
  case (step n)
  have "n \<in> set [1..<12]" using step assms(3) by simp
  then have "month_first cal (ch_year (cal_chrono cal) today + k) n < month_first cal (ch_year (cal_chrono cal) today + k) (n + 1)"
    using assms(1,2) unfolding civil_around_def Let_def list_all_iff by (metis insert_iff list.set(1,2) singletonD)
  then show ?case using step by simp
qed simp

lemma civil_dest:
  assumes "civil_around cal today"
  defines "y \<equiv> ch_year (cal_chrono cal) today" and "m \<equiv> ch_month (cal_chrono cal) today"
  shows "1 \<le> m" and "m \<le> 12" and "month_first cal y m \<le> today" and "today < month_after cal y m"
    and "month_first cal (y - 1) 12 < month_first cal y 1" and "month_first cal y 12 < month_first cal (y + 1) 1"
    and "cal_weekday cal today < 7"
    and "in_month cal (month_first cal y m - 1)"
    and "ch_year (cal_chrono cal) (month_first cal y m - 1) = y \<or> ch_year (cal_chrono cal) (month_first cal y m - 1) = y - 1"
  using assms(1) unfolding civil_around_def in_month_def Let_def y_def m_def by simp_all

lemma civil_days:
  assumes "civil_around cal today" and "month_first cal (ch_year (cal_chrono cal) today - 1) 1 - 14 \<le> d"
    and "d \<le> month_first cal (ch_year (cal_chrono cal) today + 1) 12" and "n \<le> 7"
  shows "ch_sub_days (cal_chrono cal) d n = Some (d - int n)" and "cal_add_days cal d n = Some (d + int n)"
  using assms unfolding civil_around_def Let_def by blast+

lemma civil_bounds:
  assumes "civil_around cal today"
  defines "y \<equiv> ch_year (cal_chrono cal) today"
  shows "month_first cal (y - 1) 1 < month_first cal y 1" and "month_first cal y 1 \<le> today" and "today < month_first cal (y + 1) 1"
    and "month_first cal y 12 < month_first cal (y + 1) 1" and "month_first cal (y + 1) 1 \<le> month_first cal (y + 1) 12"
proof -
  let ?m = "ch_month (cal_chrono cal) today"
  note mono = civil_month_mono [OF assms(1)] and d = civil_dest [OF assms(1), folded y_def]
  show "month_first cal (y - 1) 1 < month_first cal y 1"
    using mono [of "-1" 1 12] d(5) by (simp add: y_def)
  show "month_first cal y 1 \<le> today"
    using mono [of 0 1 ?m] d(1-3) by (simp add: y_def)
  show "today < month_first cal (y + 1) 1"
    using mono [of 0 "?m + 1" 12] d(1,2,4,6) by (cases "?m = 12") (auto simp: month_after_def y_def)
  show "month_first cal y 12 < month_first cal (y + 1) 1" by (rule d(6))
  show "month_first cal (y + 1) 1 \<le> month_first cal (y + 1) 12" using mono [of 1 1 12] by (simp add: y_def)
qed

lemma expect_some: "expect (Some v) = Ret v"
  by (simp add: expect_def)

lemma exec_bind_ret: "exec_bind (Ret v) f = f v"
  by (simp add: exec_bind_def)

section \<open>The periods\<close>

definition adjoining :: "naive_date \<Rightarrow> (naive_date \<times> naive_date) exec \<Rightarrow> (naive_date \<times> naive_date) exec \<Rightarrow> bool" where
  "adjoining today this previous \<longleftrightarrow>
     (\<exists>s e s'. this = Ret (s, e) \<and> previous = Ret (s', s - 1) \<and> s \<le> today \<and> today \<le> e \<and> s' < s)"

lemma week_adjoining: "civil_around cal today \<Longrightarrow> adjoining today (week_range cal today False) (week_range cal today True)"
  using civil_dest(7) [of cal today] civil_bounds [of cal today]
  by (auto simp: week_range_def sub_days_def exec_bind_def expect_def civil_days adjoining_def)

lemma month_adjoining:
  assumes "civil_around cal today"
  shows "adjoining today (relative_range cal today ''this_month'') (relative_range cal today ''last_month'')"
proof -
  let ?ch = "cal_chrono cal"
  let ?y = "ch_year ?ch today" and ?m = "ch_month ?ch today"
  let ?first = "month_first cal ?y ?m" and ?after = "month_after cal ?y ?m"
  note d = civil_dest [OF assms] and b = civil_bounds [OF assms] and mono = civil_month_mono [OF assms] and months = civil_months [OF assms]
  have first: "first_of_month cal today = Ret ?first"
    using months [of 0 ?m] d(1,2) by (simp add: first_of_month_def expect_def)
  have after: "next_month cal today = Ret ?after"
    using months [of 0 "?m + 1"] months [of 1 1] d(1,2) by (auto simp: next_month_def expect_def month_after_def Let_def)
  have low: "month_first cal ?y 1 \<le> ?first" using mono [of 0 1 ?m] d(1,2) by simp
  have high: "?after \<le> month_first cal (?y + 1) 1"
    using mono [of 0 "?m + 1" 12] d(1,2) b(4) by (auto simp: month_after_def)
  have "sub_days ?ch ?first 1 = Ret (?first - 1)" "sub_days ?ch ?after 1 = Ret (?after - 1)"
    using civil_days(1) [OF assms, of ?first 1] civil_days(1) [OF assms, of ?after 1] low high b d(3,4) by (simp_all add: sub_days_def)
  moreover have "first_of_month cal (?first - 1) = Ret (month_first cal (ch_year ?ch (?first - 1)) (ch_month ?ch (?first - 1)))"
    using months [of 0 "ch_month ?ch (?first - 1)"] months [of "-1" "ch_month ?ch (?first - 1)"] d(8,9)
    by (auto simp: first_of_month_def expect_def in_month_def Let_def)
  ultimately show ?thesis
    using first after d(3,4,8) by (auto simp: relative_range_def exec_bind_def adjoining_def in_month_def Let_def)
qed

lemma quarter_adjoining:
  assumes "civil_around cal today"
  shows "adjoining today (quarter_range cal today False) (quarter_range cal today True)"
proof -
  let ?ch = "cal_chrono cal"
  let ?y = "ch_year ?ch today" and ?m = "ch_month ?ch today"
  define q where "q = (?m - 1) div 3"
  note d = civil_dest [OF assms] and b = civil_bounds [OF assms] and mono = civil_month_mono [OF assms] and months = civil_months [OF assms]
  have q: "q \<le> 3" "q * 3 + 1 \<le> ?m" "?m \<le> q * 3 + 3" using d(1,2) unfolding q_def by linarith+
  let ?start = "month_first cal ?y (q * 3 + 1)"
  define following where "following = (if q = 3 then month_first cal (?y + 1) 1 else month_first cal ?y ((q + 1) * 3 + 1))"
  have start: "ch_from_ymd ?ch ?y (q * 3 + 1) 1 = Some ?start" using months [of 0 "q * 3 + 1"] q(1) by simp
  have follows: "(if q = 3 then first_of_year cal (?y + 1) else expect (ch_from_ymd ?ch ?y ((q + 1) * 3 + 1) 1)) = Ret following"
    using months [of 0 "(q + 1) * 3 + 1"] months [of 1 1] q(1) by (auto simp: first_of_year_def expect_def following_def)
  have "?start \<le> today" using mono [of 0 "q * 3 + 1" ?m] q(2) d(1-3) by simp
  moreover have "today < following"
  proof (cases "q = 3")
    case True
    then show ?thesis using b(3) by (simp add: following_def)
  next
    case False
    then have "q \<le> 2" using q(1) by simp
    then have "?m < 12" "?m + 1 \<le> (q + 1) * 3 + 1" "(q + 1) * 3 + 1 \<le> 12" using q(3) by simp_all
    then show ?thesis using mono [of 0 "?m + 1" "(q + 1) * 3 + 1"] d(4) False by (simp add: following_def month_after_def)
  qed
  moreover have "following \<le> month_first cal (?y + 1) 1"
    using mono [of 0 "(q + 1) * 3 + 1" 12] b(4) q(1) by (auto simp: following_def)
  moreover have low: "month_first cal ?y 1 \<le> ?start" using mono [of 0 1 "q * 3 + 1"] q(1) by simp
  ultimately have step: "sub_days ?ch following 1 = Ret (following - 1)"
    using civil_days(1) [OF assms, of following 1] b by (simp add: sub_days_def)
  have three: "int q = 3 \<longleftrightarrow> q = 3" by linarith
  have current: "quarter_range cal today False = Ret (?start, following - 1)"
    unfolding quarter_range_def Let_def q_def [symmetric] nat_int three if_False simp_thms start expect_some exec_bind_ret follows step ..
  have previous: "\<exists>s'. quarter_range cal today True = Ret (s', ?start - 1) \<and> s' < ?start"
  proof (cases q)
    case 0
    have "month_first cal (?y - 1) 10 < ?start" using mono [of "-1" 10 12] d(5) 0 by simp
    moreover have "sub_days ?ch ?start 1 = Ret (?start - 1)"
      using civil_days(1) [OF assms, of ?start 1] low b \<open>?start \<le> today\<close> by (simp add: sub_days_def)
    ultimately show ?thesis
      using months [of "-1" 10] start 0 unfolding quarter_range_def q_def [symmetric]
      by (simp add: expect_def exec_bind_def first_of_year_def)
  next
    case (Suc p)
    have "month_first cal ?y (p * 3 + 1) < ?start"
    proof -
      have "p * 3 + 1 \<in> set [1..<12]" using q(1) Suc by simp
      then have "month_first cal (?y + 0) (p * 3 + 1) < month_first cal (?y + 0) (p * 3 + 1 + 1)"
        using assms unfolding civil_around_def Let_def list_all_iff by (metis insert_iff list.set(2))
      also have "\<dots> \<le> month_first cal (?y + 0) (q * 3 + 1)" using q(1) Suc by (intro mono) simp_all
      finally show ?thesis by simp
    qed
    moreover have "sub_days ?ch ?start 1 = Ret (?start - 1)"
      using civil_days(1) [OF assms, of ?start 1] low b \<open>?start \<le> today\<close> by (simp add: sub_days_def)
    ultimately show ?thesis
      using months [of 0 "p * 3 + 1"] start q(1) Suc unfolding quarter_range_def q_def [symmetric]
      by (simp add: expect_def exec_bind_def add.commute Let_def)
  qed
  then show ?thesis using current \<open>?start \<le> today\<close> \<open>today < following\<close> by (auto simp: adjoining_def)
qed

lemma year_adjoining:
  assumes "civil_around cal today"
  defines "y \<equiv> ch_year (cal_chrono cal) today"
  shows "adjoining today (year_range cal y) (year_range cal (y - 1))"
  using civil_months [OF assms(1), of 0 1] civil_months [OF assms(1), of 1 1] civil_months [OF assms(1), of "-1" 1] civil_bounds [OF assms(1)]
    civil_days(1) [OF assms(1), of "month_first cal y 1" 1] civil_days(1) [OF assms(1), of "month_first cal (y + 1) 1" 1]
  by (auto simp: year_range_def first_of_year_def expect_def exec_bind_def sub_days_def adjoining_def y_def)

text \<open>
  C36: This week, month, quarter and year contain the business day, and the last one is the period that ends on the day
  before this one begins.
\<close>
theorem periods_adjoin:
  assumes "civil_around cal today" and "p \<in> set [''week'', ''month'', ''quarter'', ''year'']"
  shows "adjoining today (relative_range cal today (''this_'' @ p)) (relative_range cal today (''last_'' @ p))"
  using assms(2) week_adjoining [OF assms(1)] month_adjoining [OF assms(1)] quarter_adjoining [OF assms(1)] year_adjoining [OF assms(1)]
  by (auto simp: relative_range_def Let_def)

text \<open>The first of July 2026, in the third quarter.\<close>

lemma periods_adjoin_witness:
  "adjoining 739798 (relative_range gregorian 739798 ''this_quarter'') (relative_range gregorian 739798 ''last_quarter'')"
proof -
  have "list_all (\<lambda>k. list_all (\<lambda>m. ch_from_ymd (cal_chrono gregorian) (2026 + k) m 1 \<noteq> None) [1..<13]) [-1, 0, 1]"
    "list_all (\<lambda>k. list_all (\<lambda>m. month_first gregorian (2026 + k) m < month_first gregorian (2026 + k) (m + 1)) [1..<12]) [-1, 0, 1]"
    "list_all (\<lambda>k. month_first gregorian (2026 + k) 12 < month_first gregorian (2026 + k + 1) 1) [-1, 0]"
    "ch_year (cal_chrono gregorian) 739798 = 2026" "ch_month (cal_chrono gregorian) 739798 = 7"
    "in_month gregorian 739798" "in_month gregorian (month_first gregorian 2026 7 - 1)"
    "ch_year (cal_chrono gregorian) (month_first gregorian 2026 7 - 1) = 2026" "cal_weekday gregorian 739798 < 7"
    by code_simp+
  then have "civil_around gregorian 739798"
    unfolding civil_around_def Let_def by (simp add: gregorian_def)
  from periods_adjoin [OF this, of "''quarter''"] show ?thesis by simp
qed

end
