(* ===== verification/IdentifierProps.thy ===== *)
theory IdentifierProps
  imports CalendarProps
begin

text \<open>
  \<open>extraction/identifier.rs\<close>: the account or loan number a message states is replaced by a placeholder before a model sees
  the message, and nothing else of the message changes.
\<close>

section \<open>Markers\<close>

lemma match_indices_match: "j \<in> set (match_indices p i skip s) \<Longrightarrow> i \<le> j \<and> starts_with p (drop (j - i) s)"
proof (induction p i skip s rule: match_indices.induct)
  case (2 p i skip c cs)
  have later: "i \<le> j \<and> starts_with p (drop (j - i) (c # cs))" if "i + 1 \<le> j \<and> starts_with p (drop (j - (i + 1)) cs)"
    using that by (auto dest!: le_Suc_ex)
  show ?case using 2 later by (auto split: if_splits)
qed simp

lemma find_marker_place:
  assumes "find_marker m marker = Some start"
  shows "\<exists>rest. drop start m = marker @ rest"
proof -
  have "start \<in> set (match_indices marker 0 0 m)" using assms by (auto simp: find_marker_def find_Some_iff)
  then show ?thesis using match_indices_match by (fastforce simp: starts_with_iff)
qed

section \<open>Spans\<close>

definition identifier_char :: "char \<Rightarrow> bool" where
  "identifier_char c \<longleftrightarrow> is_ascii_digit c \<or> c = CHR ''-'' \<or> is_ascii_whitespace c"

definition digits_of :: "string \<Rightarrow> string" where
  "digits_of = filter is_ascii_digit"

lemma identifier_chars_spec:
  assumes "identifier_chars s offset e = (ds, e')"
  shows "ds = digits_of (takeWhile identifier_char s) \<and> (ds = [] \<longrightarrow> e' = e) \<and>
    (ds \<noteq> [] \<longrightarrow> offset < e' \<and> digits_of (take (e' - offset) s) = ds \<and> list_all identifier_char (take (e' - offset) s) \<and>
       digits_of (takeWhile identifier_char (drop (e' - offset) s)) = [])"
  using assms
proof (induction s offset e arbitrary: ds e' rule: identifier_chars.induct)
  case (2 c cs offset e)
  consider (digit) "is_ascii_digit c" | (sep) "\<not> is_ascii_digit c" "identifier_char c" | (other) "\<not> identifier_char c"
    by (auto simp: identifier_char_def)
  then show ?case
  proof cases
    case digit
    obtain ds1 where rest: "identifier_chars cs (offset + 1) (offset + 1) = (ds1, e')" and ds: "ds = c # ds1"
      using 2(3) digit by (auto split: prod.splits)
    note ih = 2(1) [OF digit rest]
    show ?thesis
    proof (cases "ds1 = []")
      case True
      then show ?thesis using ih ds digit by (simp add: digits_of_def identifier_char_def)
    next
      case False
      then obtain k where "e' - offset = Suc k" "e' - (offset + 1) = k" using ih by (metis Suc_diff_Suc Suc_eq_plus1 Suc_lessD)
      then show ?thesis using ih ds digit False by (simp add: digits_of_def identifier_char_def)
    qed
  next
    case sep
    then have rest: "identifier_chars cs (offset + 1) e = (ds, e')" using 2(3) by (auto simp: identifier_char_def)
    have "c = CHR ''-'' \<or> is_ascii_whitespace c" using sep by (simp add: identifier_char_def)
    note ih = 2(2) [OF sep(1) this rest]
    show ?thesis
    proof (cases "ds = []")
      case True
      then show ?thesis using ih sep by (simp add: digits_of_def)
    next
      case False
      then obtain k where "e' - offset = Suc k" "e' - (offset + 1) = k" using ih by (metis Suc_diff_Suc Suc_eq_plus1 Suc_lessD)
      then show ?thesis using ih sep False by (simp add: digits_of_def)
    qed
  next
    case other
    then show ?thesis using 2(3) by (simp add: identifier_char_def digits_of_def)
  qed
qed (simp add: digits_of_def)

text \<open>A number replaced: where the marker stands, what stands between, the digits, and what is left in the message.\<close>

definition redacted :: "string \<Rightarrow> sensitive_identifier \<Rightarrow> string \<Rightarrow> bool" where
  "redacted m sid m' \<longleftrightarrow>
     (\<exists>pre marker gap number post placeholder.
        m = pre @ number @ post \<and> m' = pre @ placeholder @ post \<and> (marker, sid_kind sid, placeholder) \<in> set markers \<and>
        (\<exists>before. ascii_lower pre = before @ marker @ gap) \<and> list_all (\<lambda>c. is_ascii_whitespace c \<or> c \<in> set '':#'') gap \<and>
        list_all identifier_char number \<and> sid_value sid = digits_of number \<and> 4 \<le> length (sid_value sid) \<and>
        digits_of (takeWhile identifier_char post) = [])"

lemma identifier_at_redacts:
  assumes at: "identifier_at m (ascii_lower m) mk = Some r" and mk: "mk \<in> set markers"
  shows "\<exists>sid. in_identifier r = Some sid \<and> redacted m sid (in_semantic_message r)"
proof -
  let ?gap = "\<lambda>c. is_ascii_whitespace c \<or> c \<in> set '':#''"
  obtain marker kind placeholder where mk': "mk = (marker, kind, placeholder)" by (metis prod_cases3)
  obtain start a b ds where marker: "find_marker (ascii_lower m) marker = Some start"
    and span: "identifier_span m (start + length marker) = Some (a, b, ds)"
    and r: "r = \<lparr>in_semantic_message = take a m @ placeholder @ drop b m, in_identifier = Some \<lparr>sid_kind = kind, sid_value = ds\<rparr>\<rparr>"
    using at unfolding identifier_at_def mk' by (auto split: Option.bind_splits)
  define g where "g = takeWhile ?gap (drop (start + length marker) m)"
  define s where "s = start + length marker + length g"
  obtain ds1 e where chars1: "identifier_chars (drop s m) 0 0 = (ds1, e)" by force
  have "(if length ds1 < 4 then None else Some (s, s + e, ds1)) = Some (a, b, ds)"
    using span unfolding identifier_span_def Let_def g_def [symmetric] s_def [symmetric] chars1 prod.case .
  then have "b = a + e" and long: "4 \<le> length ds" and a: "a = start + length marker + length g"
    and chars: "identifier_chars (drop a m) 0 0 = (ds, e)"
    using chars1 s_def by (simp_all split: if_splits)
  have ds: "ds \<noteq> []" using long by auto
  note spec = identifier_chars_spec [OF chars]
  have post: "drop e (drop a m) = drop b m" using \<open>b = a + e\<close> by (simp add: add.commute)
  have m: "m = take a m @ take e (drop a m) @ drop b m"
    unfolding post [symmetric] append_take_drop_id ..
  obtain rest where rest: "drop start (ascii_lower m) = marker @ rest" using find_marker_place [OF marker] by blast
  have g: "drop (start + length marker) m = g @ drop a m"
  proof -
    let ?s = "drop (start + length marker) m"
    have "?s = g @ drop (length g) ?s" unfolding g_def dropWhile_eq_drop [symmetric] takeWhile_dropWhile_id ..
    then show ?thesis by (simp add: a add.commute)
  qed
  have "ascii_lower (take a m) = take start (ascii_lower m) @ take (length marker + length g) (drop start (ascii_lower m))"
    unfolding ascii_lower_def a take_map [symmetric] by (simp add: take_add add.assoc)
  also have "take (length marker + length g) (drop start (ascii_lower m)) = marker @ take (length g) rest"
    unfolding rest by simp
  also have "take (length g) rest = ascii_lower g"
  proof -
    have "rest = drop (length marker) (drop start (ascii_lower m))" unfolding rest by simp
    then have "rest = drop (start + length marker) (ascii_lower m)" by (simp add: add.commute)
    also have "\<dots> = ascii_lower g @ ascii_lower (drop a m)" using g by (simp add: ascii_lower_def drop_map)
    finally show ?thesis by (simp add: ascii_lower_def)
  qed
  also have "ascii_lower g = g"
  proof -
    have "to_ascii_lowercase c = c" if "?gap c" for c
    proof -
      have "list_all (\<lambda>c. to_ascii_lowercase c = c) [CHR 0x20, CHR 0x09, CHR 0x0A, CHR 0x0C, CHR 0x0D, CHR '':'', CHR ''#'']"
        by code_simp
      then show ?thesis using that by (auto simp: is_ascii_whitespace_def)
    qed
    moreover have "\<forall>c \<in> set g. ?gap c" unfolding g_def by (blast dest: set_takeWhileD)
    ultimately show ?thesis by (auto simp: ascii_lower_def map_idI)
  qed
  finally have pre: "ascii_lower (take a m) = take start (ascii_lower m) @ marker @ g" .
  have gap: "list_all ?gap g" unfolding g_def by (simp add: list_all_iff) (blast dest: set_takeWhileD)
  have number: "list_all identifier_char (take e (drop a m))" "ds = digits_of (take e (drop a m))"
    "digits_of (takeWhile identifier_char (drop b m)) = []"
    using spec ds post by simp_all
  have "redacted m \<lparr>sid_kind = kind, sid_value = ds\<rparr> (take a m @ placeholder @ drop b m)"
    unfolding redacted_def sensitive_identifier.simps
    by (rule exI [of _ "take a m"], rule exI [of _ marker], rule exI [of _ g], rule exI [of _ "take e (drop a m)"],
        rule exI [of _ "drop b m"], rule exI [of _ placeholder], intro conjI exI, rule m, rule refl, rule mk [unfolded mk'],
        rule pre, rule gap, rule number(1), rule number(2), rule long, rule number(3))
  then show ?thesis using r by simp
qed

text \<open>
  C34: An account or loan number the intake finds is cut out of the message whole and replaced by the placeholder of its
  kind, the marker stands right before it, its digits are kept apart, and the rest of the message is unchanged; a message
  without a number is passed on as it is.
\<close>
theorem identifier_redacted:
  "case in_identifier (identifier_intake_of m) of
     None \<Rightarrow> in_semantic_message (identifier_intake_of m) = m
   | Some sid \<Rightarrow> redacted m sid (in_semantic_message (identifier_intake_of m))"
proof (cases "find_map (identifier_at m (ascii_lower m)) markers")
  case None
  then show ?thesis by (simp add: identifier_intake_of_def the_or_def)
next
  case (Some r)
  then show ?thesis
    using find_map_SomeD [OF Some] identifier_at_redacts by (fastforce simp: identifier_intake_of_def the_or_def)
qed

text \<open>
  The marker of savings accounts is tried before the one of loan accounts, which it is part of; and only the first place
  of each marker is tried.
\<close>

lemma loan_account_taken_for_savings:
  "in_identifier (identifier_intake_of ''loan account number: 1234 5678'') =
     Some \<lparr>sid_kind = SavingsAccountNumber, sid_value = ''12345678''\<rparr>"
  by code_simp

lemma second_marker_not_tried:
  "in_identifier (identifier_intake_of ''which account number? account number 12345678'') = None"
  by code_simp

end
