(* ===== verification/Planning.thy ===== *)
theory Planning
  imports Extractor ClarificationResponse
begin

text \<open>
  From facts to parameters: \<open>context/clarification_planner.rs\<close>, which asks for what a report still needs, and
  \<open>execution/tool/parameters.rs\<close>, which binds its parameters.  The date parser, \<open>str::to_lowercase\<close> and the upper case of
  characters beyond ASCII are parameters.
\<close>

section \<open>What a report needs\<close>

definition humanize_part :: "(string \<Rightarrow> string) \<Rightarrow> string \<Rightarrow> string" where
  "humanize_part upper_first part =
     (case part of
        [] \<Rightarrow> []
      | c # cs \<Rightarrow> if byte c < 128 then to_ascii_uppercase c # cs else upper_first part)"

definition humanize_id :: "(string \<Rightarrow> string) \<Rightarrow> string \<Rightarrow> string" where
  "humanize_id upper_first i = join_words (map (humanize_part upper_first) (split_on CHR ''_'' i))"

definition bound_by_program :: "query_parameter \<Rightarrow> bool" where
  "bound_by_program p \<longleftrightarrow> qp_source p \<in> set [Some ''authorized_scope'', Some ''transient_sensitive_input'']"

fun required_loop ::
  "parameter_input_knowledge list \<Rightarrow> query_parameter list \<Rightarrow> parameter_input_knowledge list \<Rightarrow> parameter_input_knowledge list" where
  "required_loop inputs [] result = result"
| "required_loop inputs (p # ps) result =
     required_loop inputs ps
       (if \<not> (qp_required p \<and> \<not> bound_by_program p) then result
        else
          (case find (\<lambda>i. qp_name p \<in> set (pi_parameters i)) inputs of
             None \<Rightarrow> result
           | Some i \<Rightarrow> if list_ex (\<lambda>e. pi_id e = pi_id i) result then result else result @ [i]))"

definition required_inputs :: "query_knowledge \<Rightarrow> parameter_input_knowledge list \<Rightarrow> parameter_input_knowledge list" where
  "required_inputs q inputs = required_loop inputs (q_parameters q) []"

definition has_parameter_named :: "query_knowledge \<Rightarrow> string \<Rightarrow> bool" where
  "has_parameter_named q n = list_ex (\<lambda>p. qp_name p = n) (q_parameters q)"

definition limit_patch :: "limit_mode \<Rightarrow> int \<Rightarrow> constraint_patch" where
  "limit_patch mode n = bt_of [(CfLimitMode, TvLimitMode mode), (CfLimitValue, TvInteger n)]"

definition limit_default :: "capability_knowledge \<Rightarrow> query_knowledge \<Rightarrow> parameter_input_knowledge list \<Rightarrow> constraint_patch" where
  "limit_default c q inputs =
     (case cd_default_limit (cap_defaults c) of
        None \<Rightarrow> []
      | Some n \<Rightarrow>
          (case find (\<lambda>i. pi_id i = ''limit'') inputs of
             None \<Rightarrow> []
           | Some i \<Rightarrow>
               if n < the_or 1 (cv_min_integer (pi_validation i)) \<or> over (\<lambda>m. n > m) (cg_max_limit (cap_guards c)) \<or>
                  over (\<lambda>m. n > m) (cv_max_integer (pi_validation i))
               then []
               else limit_patch (if has_parameter_named q ''top_n'' then LimitTopN else LimitExactly) n))"

definition date_value :: "constraint_patch \<Rightarrow> constraint_field \<Rightarrow> string option" where
  "date_value facts f = (case map_of facts f of Some (TvDate s) \<Rightarrow> Some s | _ \<Rightarrow> None)"

definition input_satisfied :: "parameter_input_knowledge \<Rightarrow> constraint_patch \<Rightarrow> constraint_patch \<Rightarrow> bool" where
  "input_satisfied i facts defaults \<longleftrightarrow>
     (if pi_id i = ''date_range'' then date_value facts CfFromDate \<noteq> None \<and> date_value facts CfToDate \<noteq> None
      else if pi_id i = ''limit'' then
        or_else (map_of facts CfLimitMode) (map_of defaults CfLimitMode)
          \<in> set [Some (TvLimitMode LimitTopN), Some (TvLimitMode LimitExactly)] \<and>
        (case or_else (map_of facts CfLimitValue) (map_of defaults CfLimitValue) of Some (TvInteger _) \<Rightarrow> True | _ \<Rightarrow> False)
      else if pi_id i = ''search'' then (case map_of facts CfPersonName of Some (TvPersonName _) \<Rightarrow> True | _ \<Rightarrow> False)
      else False)"

definition field_validation :: "parameter_input_knowledge \<Rightarrow> capability_knowledge \<Rightarrow> clarification_validation" where
  "field_validation i c =
     (case cg_max_date_range_days (cap_guards c) of
        Some m \<Rightarrow>
          if pi_id i = ''date_range''
          then (pi_validation i)\<lparr>cv_max_range_days :=
              Some (case cv_max_range_days (pi_validation i) of None \<Rightarrow> m | Some n \<Rightarrow> min n m)\<rparr>
          else pi_validation i
      | None \<Rightarrow> pi_validation i)"

definition field_for :: "parameter_input_knowledge \<Rightarrow> constraint_patch \<Rightarrow> capability_knowledge \<Rightarrow> clarification_field" where
  "field_for i facts c =
     \<lparr>cf_key = pi_id i, cf_label = pi_label i, cf_field_type = pi_field_type i, cf_required = pi_required i,
      cf_value =
        (if pi_id i = ''date_range''
         then Some (obj_of [(''from'', json_opt JString (date_value facts CfFromDate)), (''to'', json_opt JString (date_value facts CfToDate))])
         else None),
      cf_default_value = None, cf_help_text = pi_help_text i, cf_validation = field_validation i c, cf_errors = []\<rparr>"

record planned_candidate =
  pl_capability :: capability_knowledge
  pl_missing :: "clarification_field list"
  pl_defaults :: constraint_patch

definition plan_candidate :: "knowledge_catalog \<Rightarrow> string \<Rightarrow> constraint_patch \<Rightarrow> planned_candidate option" where
  "plan_candidate cat i facts =
     Option.bind (find_capability cat i) (\<lambda>c.
     Option.bind (find_query cat (cap_query_id c)) (\<lambda>q.
       let inputs = required_inputs q (kc_parameter_inputs cat); defaults = limit_default c q inputs in
       Some \<lparr>pl_capability = c,
             pl_missing = map (\<lambda>i. field_for i facts c) (filter (\<lambda>i. \<not> input_satisfied i facts defaults) inputs),
             pl_defaults = defaults\<rparr>))"

definition same_input :: "clarification_field \<Rightarrow> clarification_field \<Rightarrow> bool" where
  "same_input l r \<longleftrightarrow>
     cf_key l = cf_key r \<and> cf_field_type l = cf_field_type r \<and> cf_required l = cf_required r \<and>
     cf_default_value l = cf_default_value r \<and> cf_validation l = cf_validation r"

definition common_defaults :: "planned_candidate list \<Rightarrow> constraint_patch" where
  "common_defaults cs =
     (case cs of
        [] \<Rightarrow> []
      | first # _ \<Rightarrow>
          filter (\<lambda>(f, v). list_all (\<lambda>c. map_of (pl_defaults c) f = Some v) cs) (pl_defaults first))"

definition common_fields :: "planned_candidate list \<Rightarrow> clarification_field list" where
  "common_fields cs =
     (case cs of
        [] \<Rightarrow> []
      | first # _ \<Rightarrow> filter (\<lambda>f. list_all (\<lambda>c. list_ex (same_input f) (pl_missing c)) cs) (pl_missing first))"

definition option_description :: "capability_knowledge \<Rightarrow> string option" where
  "option_description c =
     (case (cap_description c, cap_examples c) of
        (Some d, e # _) \<Rightarrow> Some (d @ [CHR 0x0A] @ ''Example: '' @ e)
      | (Some d, []) \<Rightarrow> Some d
      | (None, e # _) \<Rightarrow> Some (''Example: '' @ e)
      | (None, []) \<Rightarrow> None)"

definition planned_payload ::
  "uuid \<Rightarrow> clarification_kind \<Rightarrow> string \<Rightarrow> clarification_option list \<Rightarrow> clarification_field list \<Rightarrow> clarification_payload" where
  "planned_payload i kind question options asked =
     \<lparr>cp_version = 1, cp_id = i, cp_revision = 0, cp_kind = kind, cp_question = question, cp_options = options,
      cp_fields = asked, cp_attempt = 0, cp_source_intent = None, cp_allow_free_text = False,
      cp_is_missing_execution_parameters = True, cp_workflow_id = None, cp_node_id = None, cp_resume_node_id = None,
      cp_entity_kind = None\<rparr>"

datatype clarification_plan =
    PlanComplete string constraint_patch
  | PlanClarify clarification_payload constraint_patch

definition candidate_option ::
  "(string \<Rightarrow> string) \<Rightarrow> clarification_field list \<Rightarrow> planned_candidate \<Rightarrow> clarification_option" where
  "candidate_option upper_first common c =
     \<lparr>co_id = cap_id (pl_capability c),
      co_label = the_or (humanize_id upper_first (cap_id (pl_capability c))) (cap_display_name (pl_capability c)),
      co_description = option_description (pl_capability c),
      co_fields = filter (\<lambda>f. \<not> list_ex (\<lambda>shared. same_input shared f) common) (pl_missing c)\<rparr>"

definition others_option :: clarification_option where
  "others_option =
     \<lparr>co_id = other_option, co_label = ''Others'', co_description = Some ''Let me describe it in my own words'', co_fields = []\<rparr>"

definition clarification_plan_of ::
  "(string \<Rightarrow> string) \<Rightarrow> knowledge_catalog \<Rightarrow> string list \<Rightarrow> constraint_patch \<Rightarrow> uuid \<Rightarrow> clarification_plan" where
  "clarification_plan_of upper_first cat ids facts payload_id =
     (let cs = List.map_filter (\<lambda>i. plan_candidate cat i facts) ids; defaults = common_defaults cs in
      case cs of
        [c] \<Rightarrow>
          if pl_missing c = [] then PlanComplete (cap_id (pl_capability c)) defaults
          else PlanClarify (planned_payload payload_id CollectFields ''What details should I use for this report?'' []
                 (pl_missing c)) defaults
      | _ \<Rightarrow>
          (let common = common_fields cs in
           PlanClarify (planned_payload payload_id SelectOption ''Which report would you like?''
             (map (candidate_option upper_first common) cs @ [others_option]) common) defaults))"

section \<open>Binding parameters\<close>

datatype parameter_error =
    NotExecutable
  | NoApprovedQuery
  | MetricMismatch string
  | MissingParameter string
  | InvalidFromDate
  | InvalidToDate
  | RangeReversed
  | SnapshotNotObject
  | SnapshotUnexpected string
  | SnapshotMissing string
  | SnapshotInvalidType string

definition default_report_limit :: int where
  "default_report_limit = 10"

definition default_required_parameter :: "query_parameter \<Rightarrow> json option" where
  "default_required_parameter p =
     (if qp_required p \<and> qp_name p \<in> set [''limit'', ''top_n''] then Some (json_int default_report_limit) else None)"

definition executable_capability :: "knowledge_catalog \<Rightarrow> string \<Rightarrow> parameter_error + capability_knowledge" where
  "executable_capability cat i = ok_or (find_capability cat i) NotExecutable"

definition approved_query :: "knowledge_catalog \<Rightarrow> capability_knowledge \<Rightarrow> parameter_error + query_knowledge" where
  "approved_query cat c = ok_or (find_query cat (cap_query_id c)) NoApprovedQuery"

definition approved_default_patch :: "knowledge_catalog \<Rightarrow> string \<Rightarrow> parameter_error + constraint_patch" where
  "approved_default_patch cat i =
     res_bind (executable_capability cat i) (\<lambda>c.
       case cd_default_limit (cap_defaults c) of
         None \<Rightarrow> Inr []
       | Some n \<Rightarrow>
           res_bind (approved_query cat c) (\<lambda>q.
             if has_parameter_named q ''top_n'' then Inr (limit_patch LimitTopN n)
             else if has_parameter_named q ''limit'' then Inr (limit_patch LimitExactly n)
             else Inr []))"

definition bind_text :: "string \<Rightarrow> string \<Rightarrow> json option" where
  "bind_text kind s = (if kind = ''integer'' then map_option json_int (parse_i64 s) else Some (JString s))"

definition bind_value :: "string \<Rightarrow> typed_fact_value \<Rightarrow> json option" where
  "bind_value kind v =
     (case v of
        TvDate s \<Rightarrow> bind_text kind s
      | TvDecimal s \<Rightarrow> bind_text kind s
      | TvCurrencyCode s \<Rightarrow> bind_text kind s
      | TvMetric s \<Rightarrow> bind_text kind s
      | TvPersonName s \<Rightarrow> bind_text kind s
      | TvOffice s \<Rightarrow> bind_text kind s
      | TvProduct s \<Rightarrow> bind_text kind s
      | TvChargeType s \<Rightarrow> bind_text kind s
      | TvAccountNumber s \<Rightarrow> bind_text kind s
      | TvInteger i \<Rightarrow> Some (json_int i)
      | TvClientId i \<Rightarrow> Some (json_int i)
      | TvIdList (ReplaceIds ids) \<Rightarrow>
          if kind = ''integer'' then (case ids of [] \<Rightarrow> None | i # _ \<Rightarrow> Some (json_int i))
          else Some (JArray (map json_int ids))
      | _ \<Rightarrow> None)"

definition bind_parameter :: "knowledge_catalog \<Rightarrow> constraint_patch \<Rightarrow> query_parameter \<Rightarrow> json option" where
  "bind_parameter cat facts p =
     find_map (\<lambda>f. Option.bind (map_of facts f) (bind_value (qp_kind p))) (binding_fields cat (qp_name p))"

text \<open>Every parameter that is not the program's own gets its value, in the order of the query.\<close>

fun bind_all ::
  "(query_parameter \<Rightarrow> json option) \<Rightarrow> query_parameter list \<Rightarrow> object \<Rightarrow> parameter_error + object" where
  "bind_all value [] params = Inr params"
| "bind_all value (p # ps) params =
     (if bound_by_program p then bind_all value ps params
      else
        (case value p of
           Some v \<Rightarrow> bind_all value ps (obj_insert (qp_name p) v params)
         | None \<Rightarrow> if qp_required p then Inl (MissingParameter (qp_name p)) else bind_all value ps params))"

fun clamp_hard_caps :: "object \<Rightarrow> parameter_policy list \<Rightarrow> object" where
  "clamp_hard_caps params [] = params"
| "clamp_hard_caps params (p # ps) =
     clamp_hard_caps
       (case (pp_hard_cap p, Option.bind (map_of params (pp_name p)) as_i64) of
          (Some cap, Some requested) \<Rightarrow> if requested > cap then obj_insert (pp_name p) (json_int cap) params else params
        | _ \<Rightarrow> params) ps"

definition validate_effective_date_range :: "chrono \<Rightarrow> constraint_patch \<Rightarrow> parameter_error + unit" where
  "validate_effective_date_range ch facts =
     (case (date_value facts CfFromDate, date_value facts CfToDate) of
        (Some s, Some t) \<Rightarrow>
          res_bind (ok_or (ch_parse_ymd ch s) InvalidFromDate) (\<lambda>from.
          res_bind (ok_or (ch_parse_ymd ch t) InvalidToDate) (\<lambda>to.
          guard_err (from > to) RangeReversed))
      | _ \<Rightarrow> Inr ())"

definition measures :: "knowledge_catalog \<Rightarrow> string list \<Rightarrow> string \<Rightarrow> bool" where
  "measures cat ms requested = list_ex (\<lambda>m. resolve_metric_id cat m = Some requested) ms"

definition check_metric :: "knowledge_catalog \<Rightarrow> string list \<Rightarrow> string option \<Rightarrow> parameter_error + unit" where
  "check_metric cat ms metric =
     (case metric of
        None \<Rightarrow> Inr ()
      | Some m \<Rightarrow>
          (case resolve_metric_id cat m of
             None \<Rightarrow> Inr ()
           | Some requested \<Rightarrow> guard_err (\<not> measures cat ms requested) (MetricMismatch m)))"

definition normalize_effective_parameters ::
  "chrono \<Rightarrow> knowledge_catalog \<Rightarrow> string \<Rightarrow> constraint_patch \<Rightarrow> parameter_error + json" where
  "normalize_effective_parameters ch cat i facts =
     res_bind (executable_capability cat i) (\<lambda>c.
     res_bind (approved_query cat c) (\<lambda>q.
     res_bind (check_metric cat (cap_metrics c) (case map_of facts CfMetric of Some (TvMetric m) \<Rightarrow> Some m | _ \<Rightarrow> None)) (\<lambda>_.
     res_bind (validate_effective_date_range ch facts) (\<lambda>_.
     res_bind (bind_all (\<lambda>p. or_else (bind_parameter cat facts p) (default_required_parameter p)) (q_parameters q) []) (\<lambda>params.
     Inr (JObject (clamp_hard_caps params (cap_parameter_policies c))))))))"

section \<open>Snapshots\<close>

definition json_is_kind :: "string \<Rightarrow> json \<Rightarrow> bool" where
  "json_is_kind kind v =
     (if kind \<in> set [''date'', ''string'', ''decimal''] then as_str v \<noteq> None
      else if kind = ''integer'' then as_i64 v \<noteq> None
      else if kind = ''array_bigint'' then (case as_array v of None \<Rightarrow> False | Some vs \<Rightarrow> list_all (\<lambda>x. as_i64 x \<noteq> None) vs)
      else False)"

fun check_snapshot :: "query_parameter list \<Rightarrow> object \<Rightarrow> parameter_error + unit" where
  "check_snapshot [] obj = Inr ()"
| "check_snapshot (p # ps) obj =
     (if bound_by_program p then check_snapshot ps obj
      else
        (case map_of obj (qp_name p) of
           None \<Rightarrow> if qp_required p then Inl (SnapshotMissing (qp_name p)) else check_snapshot ps obj
         | Some v \<Rightarrow> if json_is_kind (qp_kind p) v then check_snapshot ps obj else Inl (SnapshotInvalidType (qp_name p))))"

definition validate_snapshot_parameters :: "query_knowledge \<Rightarrow> json \<Rightarrow> parameter_error + unit" where
  "validate_snapshot_parameters q params =
     (case params of
        JObject obj \<Rightarrow>
          (case find (\<lambda>n. \<not> list_ex (\<lambda>p. qp_name p = n \<and> \<not> bound_by_program p) (q_parameters q)) (map fst obj) of
             Some n \<Rightarrow> Inl (SnapshotUnexpected n)
           | None \<Rightarrow> check_snapshot (q_parameters q) obj)
      | _ \<Rightarrow> Inl SnapshotNotObject)"

section \<open>Facts of a turn\<close>

definition model_trusted_entities :: "assistant_entity_type list" where
  "model_trusted_entities = [EntClientId, EntOffice, EntProduct, EntChargeType]"

definition model_verbatim_entities :: "assistant_entity_type list" where
  "model_verbatim_entities = [EntPersonName]"

definition occurs_verbatim :: "(string \<Rightarrow> string) \<Rightarrow> string \<Rightarrow> string \<Rightarrow> bool" where
  "occurs_verbatim lowercase message v \<longleftrightarrow> trim v \<noteq> [] \<and> str_contains (lowercase (trim v)) (lowercase message)"

definition quantity_limit :: "quantity option \<Rightarrow> int option" where
  "quantity_limit q = map_option snd (Option.bind q quantity_parts)"

definition admissible :: "(string \<Rightarrow> string) \<Rightarrow> string option \<Rightarrow> assistant_entity \<Rightarrow> bool" where
  "admissible lowercase message e \<longleftrightarrow>
     ent_type e \<in> set model_trusted_entities \<or>
     (ent_type e \<in> set model_verbatim_entities \<and>
      (case message of None \<Rightarrow> False | Some m \<Rightarrow> occurs_verbatim lowercase m (ent_value e)))"

text \<open>\<open>entry(f).or_insert(v)\<close>.\<close>

definition or_insert :: "constraint_field \<Rightarrow> typed_fact_value \<Rightarrow> constraint_patch \<Rightarrow> constraint_patch" where
  "or_insert f v facts = (if f \<in> fst ` set facts then facts else bt_insert f v facts)"

definition insert_opt :: "(constraint_field \<times> typed_fact_value) option \<Rightarrow> constraint_patch \<Rightarrow> constraint_patch" where
  "insert_opt fv facts = (case fv of None \<Rightarrow> facts | Some (f, v) \<Rightarrow> bt_insert f v facts)"

definition extracted_facts :: "deterministic_extraction \<Rightarrow> constraint_patch" where
  "extracted_facts x =
     (let c = de_constraints x in
      fold (\<lambda>e. insert_opt (entity_fact e)) (de_entities x)
        (fold insert_opt
          [map_option (\<lambda>s. (CfFromDate, TvDate s)) (ac_from_date c), map_option (\<lambda>s. (CfToDate, TvDate s)) (ac_to_date c),
           map_option (\<lambda>s. (CfCurrencyCode, TvCurrencyCode s)) (ac_currency_code c),
           map_option (\<lambda>s. (CfTransactionAmount, TvDecimal s)) (ac_transaction_amount c),
           map_option (\<lambda>n. (CfLimitValue, TvInteger n)) (quantity_limit (ac_quantity c))] []))"

definition claimed_fact :: "(string \<Rightarrow> string) \<Rightarrow> string option \<Rightarrow> assistant_entity \<Rightarrow> constraint_patch \<Rightarrow> constraint_patch" where
  "claimed_fact lowercase message e facts =
     (if \<not> admissible lowercase message e then facts
      else (case entity_fact e of None \<Rightarrow> facts | Some (f, v) \<Rightarrow> or_insert f v facts))"

definition facts_of_turn ::
  "(string \<Rightarrow> string) \<Rightarrow> string option \<Rightarrow> assistant_intent option \<Rightarrow> deterministic_extraction option \<Rightarrow> constraint_patch" where
  "facts_of_turn lowercase message intent extraction =
     (let verified = (case extraction of None \<Rightarrow> [] | Some x \<Rightarrow> extracted_facts x) in
      case intent of
        None \<Rightarrow> verified
      | Some i \<Rightarrow>
          fold (claimed_fact lowercase message) (ai_entities i)
            (case ac_product_ids (ai_constraints i) of
               None \<Rightarrow> verified
             | Some ids \<Rightarrow> or_insert CfProductIds (TvIdList (ReplaceIds ids)) verified))"

section \<open>Parameters of a turn\<close>

definition resolved_to_value :: "calendar \<Rightarrow> resolved_value \<Rightarrow> json" where
  "resolved_to_value cal r =
     (case r of
        RDate d \<Rightarrow> JString (cal_text cal d)
      | RInteger i \<Rightarrow> json_int i
      | RIntegerArray ids \<Rightarrow> JArray (map json_int ids)
      | RUnbounded \<Rightarrow> json_int 9223372036854775807)"

definition resolve_policy_default ::
  "calendar \<Rightarrow> parameter_policy list \<Rightarrow> evaluation_context option \<Rightarrow> string \<Rightarrow> json option exec" where
  "resolve_policy_default cal policies ctx name =
     (case (ctx, find (\<lambda>p. pp_name p = name) policies) of
        (Some c, Some p) \<Rightarrow>
          if pp_required p then Ret None
          else
            (case pp_default p of
               None \<Rightarrow> Ret None
             | Some e \<Rightarrow> exec_bind (default_expr_evaluate (cal_chrono cal) e c) (\<lambda>r. Ret (Some (resolved_to_value cal r))))
      | _ \<Rightarrow> Ret None)"

fun bind_all_exec ::
  "(query_parameter \<Rightarrow> json option exec) \<Rightarrow> query_parameter list \<Rightarrow> object \<Rightarrow> (parameter_error + object) exec" where
  "bind_all_exec value [] params = Ret (Inr params)"
| "bind_all_exec value (p # ps) params =
     (if bound_by_program p then bind_all_exec value ps params
      else
        exec_bind (value p) (\<lambda>x.
          case x of
            Some v \<Rightarrow> bind_all_exec value ps (obj_insert (qp_name p) v params)
          | None \<Rightarrow> if qp_required p then Ret (Inl (MissingParameter (qp_name p))) else bind_all_exec value ps params))"

definition turn_value ::
  "calendar \<Rightarrow> knowledge_catalog \<Rightarrow> constraint_patch \<Rightarrow> parameter_policy list \<Rightarrow> evaluation_context option \<Rightarrow> query_parameter \<Rightarrow>
   json option exec" where
  "turn_value cal cat facts policies ctx p =
     (case bind_parameter cat facts p of
        Some v \<Rightarrow> Ret (Some v)
      | None \<Rightarrow>
          exec_bind (resolve_policy_default cal policies ctx (qp_name p)) (\<lambda>d. Ret (or_else d (default_required_parameter p))))"

definition params_from_verified ::
  "calendar \<Rightarrow> (string \<Rightarrow> string) \<Rightarrow> knowledge_catalog \<Rightarrow> query_knowledge \<Rightarrow> assistant_intent \<Rightarrow> deterministic_extraction option \<Rightarrow>
   parameter_policy list \<Rightarrow> evaluation_context option \<Rightarrow> string option \<Rightarrow> (parameter_error + json) exec" where
  "params_from_verified cal lowercase cat q intent extraction policies ctx message =
     exec_bind
       (bind_all_exec (turn_value cal cat (facts_of_turn lowercase message (Some intent) extraction) policies ctx) (q_parameters q) [])
       (\<lambda>r. Ret (res_bind r (\<lambda>params. Inr (JObject (clamp_hard_caps params policies)))))"

definition verify_capability_metric ::
  "knowledge_catalog \<Rightarrow> string list \<Rightarrow> deterministic_extraction option \<Rightarrow> parameter_error + unit" where
  "verify_capability_metric cat ms extraction =
     check_metric cat ms (Option.bind extraction (\<lambda>x. ac_metric (de_constraints x)))"

end
