(* ===== verification/SnapshotProps.thy ===== *)
theory SnapshotProps
  imports ExtractorProps Planning Samples
begin

text \<open>
  A replay checks the parameters of a stored plan again (\<open>validate_snapshot_parameters\<close>): what binding produces passes.
\<close>

section \<open>Snapshots\<close>

definition text_fields :: "constraint_field list" where
  "text_fields =
     [CfFromDate, CfToDate, CfCurrencyCode, CfMetric, CfTransactionAmount, CfPersonName, CfOffice, CfProduct, CfChargeType, CfAccountNumber]"

definition kind_takes :: "string \<Rightarrow> constraint_field \<Rightarrow> bool" where
  "kind_takes kind f \<longleftrightarrow>
     kind = ''integer'' \<or> (kind = ''array_bigint'' \<and> f = CfProductIds) \<or> (kind \<in> {''date'', ''string'', ''decimal''} \<and> f \<in> set text_fields)"

definition fact_typed :: "constraint_field \<times> typed_fact_value \<Rightarrow> bool" where
  "fact_typed fv \<longleftrightarrow>
     (case snd fv of
        TvInteger i \<Rightarrow> fst fv \<notin> set text_fields \<and> fst fv \<noteq> CfProductIds \<and> i \<le> 9223372036854775807
      | TvClientId i \<Rightarrow> fst fv \<notin> set text_fields \<and> fst fv \<noteq> CfProductIds \<and> i \<le> 9223372036854775807
      | TvIdList (ReplaceIds ids) \<Rightarrow> fst fv \<notin> set text_fields \<and> list_all (\<lambda>i. i \<le> 9223372036854775807) ids
      | _ \<Rightarrow> fst fv \<noteq> CfProductIds)"

definition bindings_fit :: "knowledge_catalog \<Rightarrow> query_knowledge \<Rightarrow> bool" where
  "bindings_fit cat q \<longleftrightarrow>
     distinct (map qp_name (q_parameters q)) \<and>
     list_all (\<lambda>p. bound_by_program p \<or>
       (list_all (kind_takes (qp_kind p)) (binding_fields cat (qp_name p)) \<and> (qp_name p \<in> {''limit'', ''top_n''} \<longrightarrow> qp_kind p = ''integer'')))
     (q_parameters q)"

lemma parse_i64_range: "parse_i64 s = Some i \<Longrightarrow> i \<le> 9223372036854775807"
  by (auto simp: parse_i64_def Let_def split: list.splits if_splits)

lemma bound_value_kind:
  assumes "kind_takes kind f" and "fact_typed (f, v)" and "bind_value kind v = Some j"
  shows "json_is_kind kind j"
proof -
  have texts: "json_is_kind kind j" if t: "bind_text kind s = Some j" and f: "f \<noteq> CfProductIds" for s
  proof (cases "kind = ''integer''")
    case True
    then obtain i where "parse_i64 s = Some i" "j = json_int i"
      using t by (cases "parse_i64 s") (auto simp: bind_text_def)
    then show ?thesis using True parse_i64_range [of s i] by (simp add: json_is_kind_def as_i64_json_int)
  next
    case False
    then have "kind \<in> {''date'', ''string'', ''decimal''}" "j = JString s"
      using assms(1) t f by (auto simp: bind_text_def kind_takes_def)
    then show ?thesis by (auto simp: json_is_kind_def as_str_def)
  qed
  have number: "json_is_kind kind j" if "bind_value kind v = Some (json_int i)" "i \<le> 9223372036854775807" "f \<notin> set text_fields" "f \<noteq> CfProductIds" for i
    using that assms(1,3) by (auto simp: json_is_kind_def as_i64_json_int kind_takes_def)
  show ?thesis
  proof (cases v)
    case (TvIdList x)
    show ?thesis
    proof (cases x)
      case (ReplaceIds ids)
      then have ids: "list_all (\<lambda>i. i \<le> 9223372036854775807) ids" "f \<notin> set text_fields" using TvIdList assms(2) by (simp_all add: fact_typed_def)
      show ?thesis
      proof (cases "kind = ''integer''")
        case True
        then show ?thesis
          using ids assms(3) TvIdList ReplaceIds by (cases ids) (auto simp: bind_value_def json_is_kind_def as_i64_json_int)
      next
        case False
        then have "kind = ''array_bigint''" "j = JArray (map json_int ids)"
          using ids assms(1,3) TvIdList ReplaceIds by (auto simp: kind_takes_def bind_value_def)
        then show ?thesis using ids(1) by (auto simp: json_is_kind_def as_array_def list_all_iff as_i64_json_int)
      qed
    qed (use assms(3) TvIdList in \<open>simp_all add: bind_value_def\<close>)
  qed (use assms(2,3) texts number in \<open>auto simp: bind_value_def fact_typed_def\<close>)
qed

lemma bind_all_spec:
  assumes "bind_all f ps acc = Inr params" and "distinct (map qp_name ps)"
  shows "map_of params n =
      (case find (\<lambda>p. qp_name p = n \<and> \<not> bound_by_program p \<and> f p \<noteq> None) ps of Some p \<Rightarrow> f p | None \<Rightarrow> map_of acc n)"
    and "p \<in> set ps \<Longrightarrow> qp_required p \<Longrightarrow> \<not> bound_by_program p \<Longrightarrow> f p \<noteq> None"
  using assms
proof (induction f ps acc rule: bind_all.induct)
  case (2 f p ps acc)
  have later: "qp_name p = n \<Longrightarrow> distinct (map qp_name (p # ps)) \<Longrightarrow>
      find (\<lambda>p. qp_name p = n \<and> \<not> bound_by_program p \<and> f p \<noteq> None) ps = None"
    by (auto simp: find_None_iff) (metis imageI)
  { case 1
    then show ?case
      using 2(1,3,5) later by (cases "f p") (auto simp: map_of_obj_insert split: if_splits option.splits)
  }
  { case 2
    then show ?case using "2.IH"(2,4,6) by (cases "f p") (auto split: if_splits)
  }
qed simp_all

definition clamp_step :: "object \<Rightarrow> parameter_policy \<Rightarrow> object" where
  "clamp_step params p =
     (case (pp_hard_cap p, Option.bind (map_of params (pp_name p)) as_i64) of
        (Some cap, Some requested) \<Rightarrow> if requested > cap then obj_insert (pp_name p) (json_int cap) params else params
      | _ \<Rightarrow> params)"

definition caps_i64 :: "parameter_policy list \<Rightarrow> bool" where
  "caps_i64 ps \<longleftrightarrow> list_all (\<lambda>p. case pp_hard_cap p of None \<Rightarrow> True | Some c \<Rightarrow> c \<le> 9223372036854775807) ps"

lemma clamp_steps: "clamp_hard_caps params ps = foldl clamp_step params ps"
  by (induction params ps rule: clamp_hard_caps.induct) (simp_all add: clamp_step_def)

lemma number_kind: "as_i64 v = Some i \<Longrightarrow> json_is_kind kind v \<Longrightarrow> kind = ''integer''"
  by (auto simp: as_i64_def json_is_kind_def as_str_def as_array_def split: json.splits if_splits)

lemma clamp_step_keeps:
  assumes "case pp_hard_cap p of None \<Rightarrow> True | Some c \<Rightarrow> c \<le> 9223372036854775807"
  shows "fst ` set (clamp_step params p) = fst ` set params"
    and "map_of params n = Some v \<Longrightarrow> json_is_kind kind v \<Longrightarrow> \<exists>v'. map_of (clamp_step params p) n = Some v' \<and> json_is_kind kind v'"
proof -
  have "clamp_step params p = params \<or>
      (\<exists>cap w r. pp_hard_cap p = Some cap \<and> map_of params (pp_name p) = Some w \<and> as_i64 w = Some r \<and>
         clamp_step params p = obj_insert (pp_name p) (json_int cap) params)"
    by (auto simp: clamp_step_def split: option.splits Option.bind_splits)
  then consider "clamp_step params p = params"
    | cap w r where "pp_hard_cap p = Some cap" "map_of params (pp_name p) = Some w" "as_i64 w = Some r"
        "clamp_step params p = obj_insert (pp_name p) (json_int cap) params" by blast
  then have "fst ` set (clamp_step params p) = fst ` set params \<and>
     (map_of params n = Some v \<longrightarrow> json_is_kind kind v \<longrightarrow> (\<exists>v'. map_of (clamp_step params p) n = Some v' \<and> json_is_kind kind v'))"
  proof cases
    case (2 cap w r)
    have "pp_name p \<in> fst ` set params" using 2(2) by (force dest: map_of_SomeD)
    moreover have "json_is_kind ''integer'' (json_int cap)" using assms 2(1) by (simp add: json_is_kind_def as_i64_json_int)
    ultimately show ?thesis using 2 number_kind [OF 2(3)] by (auto simp: fst_obj_insert map_of_obj_insert)
  qed simp
  then show "fst ` set (clamp_step params p) = fst ` set params"
    and "map_of params n = Some v \<Longrightarrow> json_is_kind kind v \<Longrightarrow> \<exists>v'. map_of (clamp_step params p) n = Some v' \<and> json_is_kind kind v'"
    by blast+
qed

lemma clamp_keys: "caps_i64 ps \<Longrightarrow> fst ` set (clamp_hard_caps params ps) = fst ` set params"
  unfolding clamp_steps by (induction ps arbitrary: params) (simp_all add: caps_i64_def clamp_step_keeps(1))

lemma clamp_kinds:
  "caps_i64 ps \<Longrightarrow> map_of params n = Some v \<Longrightarrow> json_is_kind kind v \<Longrightarrow>
   \<exists>v'. map_of (clamp_hard_caps params ps) n = Some v' \<and> json_is_kind kind v'"
  unfolding clamp_steps
proof (induction ps arbitrary: params v)
  case (Cons p ps)
  then have p: "case pp_hard_cap p of None \<Rightarrow> True | Some c \<Rightarrow> c \<le> 9223372036854775807" and ps: "caps_i64 ps"
    by (simp_all add: caps_i64_def)
  obtain w where "map_of (clamp_step params p) n = Some w" "json_is_kind kind w" using clamp_step_keeps(2) [OF p Cons.prems(2,3)] by blast
  then show ?case using Cons.IH [OF ps] by simp
qed simp

lemma check_snapshot_iff:
  "check_snapshot ps obj = Inr () \<longleftrightarrow>
     (\<forall>p \<in> set ps. bound_by_program p \<or>
        (case map_of obj (qp_name p) of None \<Rightarrow> \<not> qp_required p | Some v \<Rightarrow> json_is_kind (qp_kind p) v))"
  by (induction ps obj rule: check_snapshot.induct) (auto split: option.splits)

lemma bind_all_keys:
  "bind_all f ps acc = Inr params \<Longrightarrow>
   fst ` set params \<subseteq> fst ` set acc \<union> {qp_name p |p. p \<in> set ps \<and> \<not> bound_by_program p}"
proof (induction f ps acc rule: bind_all.induct)
  case (2 f p ps acc)
  show ?case
  proof (cases "bound_by_program p")
    case True
    then have "bind_all f ps acc = Inr params" using 2(4) by simp
    from "2.IH"(1) [OF True this] show ?thesis by auto
  next
    case False
    show ?thesis
    proof (cases "f p")
      case None
      then have "\<not> qp_required p" "bind_all f ps acc = Inr params" using 2(4) False by (auto split: if_splits)
      then show ?thesis using "2.IH"(2) [OF False None] by auto
    next
      case (Some v)
      then have "bind_all f ps (obj_insert (qp_name p) v acc) = Inr params" using 2(4) False by simp
      from "2.IH"(3) [OF False Some this] show ?thesis using False by (auto simp: fst_obj_insert)
    qed
  qed
qed auto

text \<open>
  C39: What binding produces is what a replay accepts: when the bindings of the catalog fit the types of the query, the
  facts have their types and the caps are integers of the code, the bound and capped parameters pass the check of a stored
  plan.
\<close>
theorem bound_parameters_replay:
  assumes "normalize_effective_parameters ch cat i facts = Inr params"
    and "find_capability cat i = Some c" and "find_query cat (cap_query_id c) = Some q"
    and "bindings_fit cat q" and "list_all fact_typed facts" and "caps_i64 (cap_parameter_policies c)"
  shows "validate_snapshot_parameters q params = Inr ()"
proof -
  let ?f = "\<lambda>p. or_else (bind_parameter cat facts p) (default_required_parameter p)" and ?caps = "cap_parameter_policies c"
  obtain obj where bound: "bind_all ?f (q_parameters q) [] = Inr obj" and params: "params = JObject (clamp_hard_caps obj ?caps)"
    using assms(1-3) by (auto simp: normalize_effective_parameters_def executable_capability_def approved_query_def ok_or_def res_bind_Inr_iff)
  have distinct: "distinct (map qp_name (q_parameters q))" using assms(4) by (simp add: bindings_fit_def)
  have kind: "json_is_kind (qp_kind p) v" if p: "p \<in> set (q_parameters q)" "\<not> bound_by_program p" "?f p = Some v" for p v
  proof (cases "bind_parameter cat facts p")
    case None
    then show ?thesis
      using p assms(4) by (auto simp: or_else_def default_required_parameter_def bindings_fit_def list_all_iff json_is_kind_def
          as_i64_json_int default_report_limit_def split: if_splits)
  next
    case (Some w)
    then obtain f x where "f \<in> set (binding_fields cat (qp_name p))" "map_of facts f = Some x" "bind_value (qp_kind p) x = Some v"
      using p(3) unfolding bind_parameter_def or_else_def by (auto dest!: find_map_SomeD split: Option.bind_splits)
    then show ?thesis
      using bound_value_kind [of "qp_kind p" f x v] p assms(4,5) by (auto simp: bindings_fit_def list_all_iff dest: map_of_SomeD)
  qed
  have keys: "fst ` set (clamp_hard_caps obj ?caps) \<subseteq> {qp_name p |p. p \<in> set (q_parameters q) \<and> \<not> bound_by_program p}"
    using clamp_keys [OF assms(6)] bind_all_keys [OF bound] by simp
  have "list_ex (\<lambda>p. qp_name p = n \<and> \<not> bound_by_program p) (q_parameters q)" if "n \<in> fst ` set (clamp_hard_caps obj ?caps)" for n
    using subsetD [OF keys that] by (auto simp: list_ex_iff)
  then have "find (\<lambda>n. \<not> list_ex (\<lambda>p. qp_name p = n \<and> \<not> bound_by_program p) (q_parameters q)) (map fst (clamp_hard_caps obj ?caps)) = None"
    unfolding find_None_iff set_map by blast
  moreover have "case map_of (clamp_hard_caps obj ?caps) (qp_name p) of None \<Rightarrow> \<not> qp_required p | Some v \<Rightarrow> json_is_kind (qp_kind p) v"
    if p: "p \<in> set (q_parameters q)" "\<not> bound_by_program p" for p
  proof (cases "?f p")
    case None
    have "map_of obj (qp_name p) = None"
    proof -
      have "find (\<lambda>r. qp_name r = qp_name p \<and> \<not> bound_by_program r \<and> ?f r \<noteq> None) (q_parameters q) = None"
        using distinct p(1) None by (auto simp: find_None_iff distinct_map inj_on_def)
      then show ?thesis using bind_all_spec(1) [OF bound distinct, of "qp_name p"] by simp
    qed
    then have "map_of (clamp_hard_caps obj ?caps) (qp_name p) = None"
      using clamp_keys [OF assms(6), of obj] by (simp add: map_of_eq_None_iff)
    then show ?thesis using bind_all_spec(2) [OF bound distinct p(1) _ p(2)] None by auto
  next
    case (Some v)
    have "find (\<lambda>r. qp_name r = qp_name p \<and> \<not> bound_by_program r \<and> ?f r \<noteq> None) (q_parameters q) = Some p"
    proof -
      have "find (\<lambda>r. qp_name r = qp_name p \<and> \<not> bound_by_program r \<and> ?f r \<noteq> None) (q_parameters q) \<noteq> None"
        using p Some unfolding find_None_iff by auto
      then obtain r where r: "find (\<lambda>r. qp_name r = qp_name p \<and> \<not> bound_by_program r \<and> ?f r \<noteq> None) (q_parameters q) = Some r"
        by blast
      then have "r \<in> set (q_parameters q)" "qp_name r = qp_name p" by (auto simp: find_Some_iff)
      then show ?thesis using r distinct p(1) by (auto simp: distinct_map inj_on_def)
    qed
    then have "map_of obj (qp_name p) = Some v" using bind_all_spec(1) [OF bound distinct, of "qp_name p"] Some by simp
    then show ?thesis using clamp_kinds [OF assms(6) _ kind [OF p Some]] by fastforce
  qed
  ultimately show ?thesis unfolding validate_snapshot_parameters_def params by (auto simp: check_snapshot_iff)
qed

text \<open>A report over at most 25 charges of the products of the message; five are asked for.\<close>

definition snapshot_query :: query_knowledge where
  "snapshot_query =
     \<lparr>q_id = ''charges'', q_database = ''fineract'', q_sql_file = ''queries/charges.sql'', q_data_areas = [], q_tables = [], q_metrics = [],
      q_parameters =
        [\<lparr>qp_name = ''office_ids'', qp_kind = ''array_bigint'', qp_required = True, qp_source = Some ''authorized_scope''\<rparr>,
         \<lparr>qp_name = ''product_ids'', qp_kind = ''array_bigint'', qp_required = False, qp_source = None\<rparr>,
         \<lparr>qp_name = ''limit'', qp_kind = ''integer'', qp_required = True, qp_source = None\<rparr>],
      q_output_fields = [], q_timeout_ms = None\<rparr>"

definition snapshot_catalog :: knowledge_catalog where
  "snapshot_catalog =
     sample_catalog\<lparr>kc_queries := [snapshot_query],
       kc_capabilities := [sample_capability\<lparr>cap_id := ''charge_list'', cap_status := ''approved_mvp'', cap_query_id := ''charges''\<rparr>],
       kc_parameter_bindings := [(''product_ids'', [CfProductIds]), (''limit'', [CfLimitValue])]\<rparr>"

definition snapshot_facts :: constraint_patch where
  "snapshot_facts = [(CfLimitValue, TvInteger 5), (CfProductIds, TvIdList (ReplaceIds [3, 4]))]"

lemma bound_parameters_replay_witness:
  "\<exists>params. normalize_effective_parameters (cal_chrono gregorian) snapshot_catalog ''charge_list'' snapshot_facts = Inr params \<and>
     json_get params ''limit'' = Some (json_int 5) \<and> validate_snapshot_parameters snapshot_query params = Inr ()"
proof -
  let ?run = "normalize_effective_parameters (cal_chrono gregorian) snapshot_catalog ''charge_list'' snapshot_facts"
  have "case ?run of Inr params \<Rightarrow> json_get params ''limit'' = Some (json_int 5) | Inl _ \<Rightarrow> False" by code_simp
  then obtain params where run: "?run = Inr params" and limit: "json_get params ''limit'' = Some (json_int 5)"
    by (auto split: sum.splits)
  let ?c = "sample_capability\<lparr>cap_id := ''charge_list'', cap_status := ''approved_mvp'', cap_query_id := ''charges''\<rparr>"
  have "find_capability snapshot_catalog ''charge_list'' = Some ?c" "find_query snapshot_catalog (cap_query_id ?c) = Some snapshot_query"
    "bindings_fit snapshot_catalog snapshot_query" "list_all fact_typed snapshot_facts" "caps_i64 (cap_parameter_policies ?c)"
    by code_simp+
  from bound_parameters_replay [OF run this] show ?thesis using run limit by blast
qed

end
