(* ===== verification/PlanningProps.thy ===== *)
theory PlanningProps
  imports SnapshotProps ClarificationProps ValidatorProps
begin

text \<open>
  What the planner and the binder of parameters promise each other: a question asks for everything that is missing and for
  nothing twice, a plan that is called complete can be bound, what is bound passes the check a replay makes, caps hold,
  and the language model only fills gaps.
\<close>

section \<open>Inputs\<close>

lemma required_loop_distinct:
  "distinct (map pi_id result) \<Longrightarrow> distinct (map pi_id (required_loop inputs ps result))"
proof (induction ps arbitrary: result)
  case (Cons p ps)
  then show ?case by (auto simp: list_ex_iff intro!: Cons.IH split: option.splits) metis
qed simp

lemma required_loop_keeps: "set result \<subseteq> set (required_loop inputs ps result)"
  by (induction ps arbitrary: result) (fastforce split: option.splits)+

lemma required_loop_covers:
  assumes "p \<in> set ps" and "qp_required p" and "\<not> bound_by_program p"
    and "find (\<lambda>i. qp_name p \<in> set (pi_parameters i)) inputs = Some i"
  shows "\<exists>e \<in> set (required_loop inputs ps result). pi_id e = pi_id i"
  using assms
proof (induction ps arbitrary: result)
  case (Cons q ps)
  show ?case
  proof (cases "q = p")
    case True
    let ?result = "if list_ex (\<lambda>e. pi_id e = pi_id i) result then result else result @ [i]"
    have "\<exists>e \<in> set ?result. pi_id e = pi_id i" by (auto simp: list_ex_iff)
    moreover have "required_loop inputs (q # ps) result = required_loop inputs ps ?result" using True Cons.prems by simp
    ultimately show ?thesis using required_loop_keeps [of ?result inputs ps] by (simp only:) blast
  next
    case False
    then show ?thesis using Cons by auto
  qed
qed simp

lemma required_loop_inputs: "set (required_loop inputs ps result) \<subseteq> set result \<union> set inputs"
  by (induction ps arbitrary: result) (fastforce simp: find_Some_iff split: option.splits if_splits dest: nth_mem)+

section \<open>Questions\<close>

definition asks_for :: "clarification_field list \<Rightarrow> clarification_field list \<Rightarrow> bool" where
  "asks_for asked missing \<longleftrightarrow>
     distinct (map cf_key asked) \<and> list_all (\<lambda>f. list_ex (\<lambda>g. same_input g f) asked) missing \<and>
     list_all (\<lambda>g. list_ex (same_input g) missing) asked"

lemma plan_candidate_missing_distinct:
  assumes "plan_candidate cat i facts = Some c"
  shows "distinct (map cf_key (pl_missing c))"
proof -
  have keys: "map cf_key (map (\<lambda>j. field_for j facts k) xs) = map pi_id xs" for k xs by (simp add: field_for_def)
  have "distinct (map pi_id (filter P (required_inputs q inputs)))" for P q inputs
    unfolding required_inputs_def by (rule distinct_map_filter) (simp add: required_loop_distinct)
  then show ?thesis using assms keys
    by (auto simp: plan_candidate_def Let_def field_for_def comp_def split: Option.bind_splits)
qed

lemma plan_candidate_id: "plan_candidate cat i facts = Some c \<Longrightarrow> cap_id (pl_capability c) = i"
  by (auto simp: plan_candidate_def Let_def find_capability_def find_Some_iff split: Option.bind_splits)

lemma same_input_refl: "same_input f f"
  by (simp add: same_input_def)

lemma common_field_missing:
  assumes "f \<in> set (common_fields cs)" and "c \<in> set cs"
  shows "\<exists>g \<in> set (pl_missing c). same_input f g"
  using assms by (auto simp: common_fields_def list_all_iff list_ex_iff split: list.splits)

lemma common_fields_distinct:
  assumes "\<forall>c \<in> set cs. distinct (map cf_key (pl_missing c))"
  shows "distinct (map cf_key (common_fields cs))"
  using assms by (auto simp: common_fields_def distinct_map_filter split: list.splits)

lemma option_asks:
  assumes distinct: "\<forall>c \<in> set cs. distinct (map cf_key (pl_missing c))" and c: "c \<in> set cs"
  shows "asks_for (common_fields cs @ co_fields (candidate_option u (common_fields cs) c)) (pl_missing c)"
proof -
  let ?common = "common_fields cs"
  let ?own = "filter (\<lambda>f. \<not> list_ex (\<lambda>shared. same_input shared f) ?common) (pl_missing c)"
  have d: "distinct (map cf_key (pl_missing c))" using distinct c by blast
  have "cf_key f \<noteq> cf_key g" if "f \<in> set ?common" "g \<in> set ?own" for f g
  proof
    assume same: "cf_key f = cf_key g"
    from common_field_missing [OF that(1) c] obtain h where h: "h \<in> set (pl_missing c)" "same_input f h" by blast
    then have "cf_key h = cf_key g" using same by (simp add: same_input_def)
    then have "h = g" using h that(2) d by (auto simp: distinct_map inj_on_def)
    then show False using h that by (auto simp: list_ex_iff)
  qed
  then have "distinct (map cf_key (?common @ ?own))"
    using common_fields_distinct [OF distinct] distinct_map_filter [OF d] by fastforce
  moreover have "list_ex (\<lambda>g. same_input g f) (?common @ ?own)" if "f \<in> set (pl_missing c)" for f
    using that same_input_refl [of f] by (cases "list_ex (\<lambda>shared. same_input shared f) ?common") (auto simp: list_ex_iff)
  moreover have "list_ex (same_input g) (pl_missing c)" if "g \<in> set (?common @ ?own)" for g
    using that common_field_missing [of g cs c] c same_input_refl [of g] by (auto simp: list_ex_iff)
  ultimately show ?thesis
    unfolding asks_for_def candidate_option_def clarification_option.simps list_all_iff by blast
qed

lemma planned_find:
  assumes "i \<in> set ids" and "plan_candidate cat i facts = Some c"
  shows "find (\<lambda>o'. co_id o' = i)
      (map (candidate_option u common) (List.map_filter (\<lambda>i. plan_candidate cat i facts) ids) @ [others_option]) =
    Some (candidate_option u common c)"
  using assms
proof (induction ids)
  case (Cons j ids)
  show ?case
  proof (cases "plan_candidate cat j facts")
    case None
    then show ?thesis using Cons by (auto simp: List.map_filter_simps)
  next
    case (Some d)
    then have "cap_id (pl_capability d) = j" by (rule plan_candidate_id)
    then show ?thesis using Some Cons by (auto simp: List.map_filter_simps candidate_option_def)
  qed
qed simp

text \<open>
  C37: A planned question passes the validation of its kind, and whichever candidate report the user goes on with, the
  answers it takes are exactly the inputs that report still misses, each asked for once.
\<close>
theorem question_asks_what_is_missing:
  assumes "clarification_plan_of u cat ids facts payload_id = PlanClarify p defaults"
    and "i \<in> set ids" and "plan_candidate cat i facts = Some c"
  shows "view_validate (payload_view p) = Inr () \<and>
    (\<exists>selected. (cp_kind p = SelectOption \<longrightarrow> i \<in> set (pc_capability_ids pr) \<longrightarrow> selected_option p pr (Some i) = Inr selected) \<and>
       (cp_kind p = CollectFields \<longrightarrow> selected_option p pr None = Inr selected) \<and>
       asks_for (offered_fields p selected) (pl_missing c))"
proof -
  define cs where "cs = List.map_filter (\<lambda>i. plan_candidate cat i facts) ids"
  have members: "\<forall>d \<in> set cs. \<exists>j. plan_candidate cat j facts = Some d"
    unfolding cs_def by (auto simp: List.map_filter_def)
  then have distinct: "\<forall>d \<in> set cs. distinct (map cf_key (pl_missing d))" using plan_candidate_missing_distinct by blast
  have c: "c \<in> set cs" using assms(2,3) unfolding cs_def by (force simp: List.map_filter_def)
  note plan = assms(1) [unfolded clarification_plan_of_def Let_def, folded cs_def]
  show ?thesis
  proof (cases "\<exists>d. cs = [d]")
    case True
    then have cs: "cs = [c]" using c by auto
    then have p: "p = planned_payload payload_id CollectFields ''What details should I use for this report?'' [] (pl_missing c)"
      and missing: "pl_missing c \<noteq> []"
      using plan by (auto split: if_splits)
    have "asks_for (pl_missing c) (pl_missing c)"
      using distinct cs same_input_refl by (auto simp: asks_for_def list_all_iff list_ex_iff)
    then show ?thesis
      using p missing by (auto simp: view_validate_def payload_view_def planned_payload_def guard_err_def selected_option_def offered_fields_def)
  next
    case False
    let ?common = "common_fields cs"
    let ?options = "map (candidate_option u ?common) cs @ [others_option]"
    have p: "p = planned_payload payload_id SelectOption ''Which report would you like?'' ?options ?common"
      using plan False by (auto split: list.splits)
    let ?o = "candidate_option u ?common c"
    have found: "find (\<lambda>o'. co_id o' = i) ?options = Some ?o"
      using planned_find [OF assms(2,3)] unfolding cs_def by simp
    have "co_id ?o = i" using plan_candidate_id [OF assms(3)] by (simp add: candidate_option_def)
    then have "i \<in> set (pc_capability_ids pr) \<longrightarrow> selected_option p pr (Some i) = Inr (Some ?o)"
      using found p by (simp add: selected_option_def planned_payload_def guard_err_def ok_or_def res_bind_def)
    moreover have "asks_for (offered_fields p (Some ?o)) (pl_missing c)"
      using option_asks [OF distinct c, of u] p by (simp add: offered_fields_def planned_payload_def)
    moreover have "view_validate (payload_view p) = Inr ()"
      using p by (simp add: view_validate_def payload_view_def planned_payload_def guard_err_def)
    ultimately show ?thesis using p by (intro conjI exI [of _ "Some ?o"]) (simp_all add: planned_payload_def)
  qed
qed

definition office_input :: parameter_input_knowledge where
  "office_input =
     \<lparr>pi_id = ''office_name'', pi_parameters = [''office_name''], pi_field_type = CftText, pi_label = ''Office'', pi_help_text = None,
      pi_required = True, pi_validation = cf_validation (sample_field ''office_name'' CftText True)\<rparr>"

definition limit_input :: parameter_input_knowledge where
  "limit_input =
     \<lparr>pi_id = ''limit'', pi_parameters = [''limit''], pi_field_type = CftInteger, pi_label = ''Number of records'',
      pi_help_text = None, pi_required = True, pi_validation = cf_validation (sample_field ''limit'' CftInteger True)\<rparr>"

definition office_query :: query_knowledge where
  "office_query =
     audit_query\<lparr>q_id := ''offices'',
       q_parameters := [\<lparr>qp_name = ''office_name'', qp_kind = ''string'', qp_required = True, qp_source = None\<rparr>,
                        \<lparr>qp_name = ''limit'', qp_kind = ''integer'', qp_required = True, qp_source = None\<rparr>]\<rparr>"

definition limit_query :: query_knowledge where
  "limit_query =
     audit_query\<lparr>q_parameters := map (\<lambda>p. if qp_name p = ''limit'' then p\<lparr>qp_required := True\<rparr> else p) (q_parameters audit_query)\<rparr>"

definition asking_catalog :: knowledge_catalog where
  "asking_catalog =
     audit_catalog\<lparr>kc_capabilities :=
         [audit_capability\<lparr>cap_defaults := \<lparr>cd_default_limit = None\<rparr>\<rparr>,
          audit_capability\<lparr>cap_id := ''office_lookup'', cap_query_id := ''offices'', cap_defaults := \<lparr>cd_default_limit = None\<rparr>\<rparr>],
       kc_queries := [limit_query, office_query], kc_parameter_inputs := [office_input, limit_input],
       kc_parameter_bindings := (''office_name'', [CfOffice]) # kc_parameter_bindings audit_catalog\<rparr>"

lemma question_asks_what_is_missing_witness:
  "\<exists>p defaults selected.
     clarification_plan_of id asking_catalog [''charge_list'', ''office_lookup''] [] 9 = PlanClarify p defaults \<and>
     selected_option p (sample_principal\<lparr>pc_capability_ids := [''office_lookup'']\<rparr>) (Some ''office_lookup'') = Inr selected \<and>
     asks_for (offered_fields p selected)
       [field_for office_input [] audit_capability, field_for limit_input [] audit_capability] \<and>
     map cf_key (cp_fields p) = [''limit'']"
proof -
  let ?plan = "clarification_plan_of id asking_catalog [''charge_list'', ''office_lookup''] [] 9"
  let ?pr = "sample_principal\<lparr>pc_capability_ids := [''office_lookup'']\<rparr>"
  have "case ?plan of PlanClarify p d \<Rightarrow> cp_kind p = SelectOption \<and> map cf_key (cp_fields p) = [''limit''] | _ \<Rightarrow> False" by code_simp
  then obtain p d where plan: "?plan = PlanClarify p d" "cp_kind p = SelectOption" "map cf_key (cp_fields p) = [''limit'']"
    by (auto split: clarification_plan.splits)
  let ?missing = "[field_for office_input [] audit_capability, field_for limit_input [] audit_capability]"
  have "(case plan_candidate asking_catalog ''office_lookup'' [] of Some c \<Rightarrow> pl_missing c = ?missing | None \<Rightarrow> False)" by code_simp
  then obtain c where c: "plan_candidate asking_catalog ''office_lookup'' [] = Some c" "pl_missing c = ?missing"
    by (auto split: option.splits)
  from question_asks_what_is_missing [OF plan(1) _ c(1), of ?pr]
  show ?thesis using plan c(2) by auto
qed

section \<open>Complete plans\<close>

text \<open>
  The inputs the planner knows are the ones of the shipped catalog: the period is a range of dates, the limit is filled by
  the stated number and the search by a name.
\<close>

definition canonical_inputs :: "knowledge_catalog \<Rightarrow> bool" where
  "canonical_inputs cat \<longleftrightarrow>
     list_all (\<lambda>i.
       (pi_id i = ''date_range'' \<longrightarrow> pi_field_type i = CftDateRange \<and> CfFromDate \<in> set (binding_fields cat ''from_date'') \<and>
          CfToDate \<in> set (binding_fields cat ''to_date'')) \<and>
       (pi_id i = ''limit'' \<longrightarrow> list_all (\<lambda>n. CfLimitValue \<in> set (binding_fields cat n)) (pi_parameters i)) \<and>
       (pi_id i = ''search'' \<longrightarrow> pi_field_type i = CftText \<and> list_all (\<lambda>n. CfPersonName \<in> set (binding_fields cat n)) (pi_parameters i)))
     (kc_parameter_inputs cat)"

lemma bind_parameter_defined:
  assumes "f \<in> set (binding_fields cat (qp_name p))" and "map_of facts f = Some v" and "bind_value (qp_kind p) v \<noteq> None"
  shows "bind_parameter cat facts p \<noteq> None"
  using assms unfolding bind_parameter_def by (metis find_map_None_iff Option.bind_lunit)

lemma bind_all_defined:
  assumes "\<forall>p \<in> set ps. qp_required p \<and> \<not> bound_by_program p \<longrightarrow> f p \<noteq> None"
  shows "\<exists>params. bind_all f ps acc = Inr params"
  using assms by (induction f ps acc rule: bind_all.induct) (auto split: option.splits)

lemma validated_input:
  assumes valid: "validate_catalog w cat = Inr ()" and c: "c \<in> set (kc_capabilities cat)" "approved c"
    and q: "find_query cat (cap_query_id c) = Some q" and p: "p \<in> set (q_parameters q)" "qp_required p" "\<not> bound_by_program p"
  shows "\<exists>i. find (\<lambda>i. qp_name p \<in> set (pi_parameters i)) (kc_parameter_inputs cat) = Some i \<and>
    qp_kind p = expected_kind (pi_field_type i) \<and> valid_mapping i"
proof -
  let ?covers = "\<lambda>i. qp_name p \<in> set (pi_parameters i)"
  have "qp_name p \<in> set (required_user_parameters q)"
    using p by (auto simp: required_user_parameters_def bound_by_program_def)
  then have "length (filter ?covers (kc_parameter_inputs cat)) = 1"
    using validated_approved_capability(1) [OF valid c q] by (auto simp: validate_capability_parameter_contract_def res_simps)
  then have "filter ?covers (kc_parameter_inputs cat) \<noteq> []" by auto
  then have "find ?covers (kc_parameter_inputs cat) \<noteq> None" by (auto simp: find_None_iff filter_empty_conv)
  then obtain i where i: "find ?covers (kc_parameter_inputs cat) = Some i" by blast
  then have mem: "i \<in> set (kc_parameter_inputs cat)" "?covers i" by (auto simp: find_Some_iff)
  have input: "validate_parameter_input (kc_queries cat) i = Inr ()"
    using validated_parts(2) [OF valid] mem(1) by (auto simp: validate_parameter_input_registry_def res_simps)
  have "q \<in> set (kc_queries cat)" using q by (auto simp: find_query_def find_Some_iff)
  then have "p \<in> set (filter (\<lambda>c. qp_name c = qp_name p) (concat (map q_parameters (kc_queries cat))))" using p(1) by auto
  then have "qp_kind p = expected_kind (pi_field_type i)"
    using input mem(2) by (fastforce simp: validate_parameter_input_def validate_input_parameter_def Let_def res_simps list_ex_iff)
  moreover have "valid_mapping i" using input by (auto simp: validate_parameter_input_def res_simps)
  ultimately show ?thesis using i by blast
qed

lemma satisfied_binds:
  assumes canonical: "canonical_inputs cat" and i: "i \<in> set (kc_parameter_inputs cat)" "qp_name p \<in> set (pi_parameters i)"
    and kind: "qp_kind p = expected_kind (pi_field_type i)" "valid_mapping i"
    and satisfied: "input_satisfied i facts defaults" and joined: "map_of joined = map_of defaults ++ map_of facts"
  shows "bind_parameter cat joined p \<noteq> None"
proof -
  have fills: "bind_parameter cat joined p \<noteq> None"
    if "f \<in> set (binding_fields cat (qp_name p))" "or_else (map_of facts f) (map_of defaults f) = Some v" "bind_value (qp_kind p) v \<noteq> None" for f v
    using that(2) joined by (intro bind_parameter_defined [OF that(1) _ that(3)]) (auto simp: or_else_def map_add_def split: option.splits)
  have known: "pi_id i = ''date_range'' \<or> pi_id i = ''limit'' \<or> pi_id i = ''search''"
    using satisfied by (auto simp: input_satisfied_def split: if_splits)
  then show ?thesis
  proof (elim disjE)
    assume date: "pi_id i = ''date_range''"
    then have ft: "pi_field_type i = CftDateRange" "CfFromDate \<in> set (binding_fields cat ''from_date'')" "CfToDate \<in> set (binding_fields cat ''to_date'')"
      using canonical i(1) by (auto simp: canonical_inputs_def list_all_iff)
    have "qp_name p = ''from_date'' \<or> qp_name p = ''to_date''" using kind(2) i(2) ft(1) by (auto simp: valid_mapping_def)
    then obtain f where f: "f \<in> set (binding_fields cat (qp_name p))" "f = CfFromDate \<or> f = CfToDate" using ft by metis
    obtain s where "map_of facts f = Some (TvDate s)"
      using satisfied date f(2) by (auto simp: input_satisfied_def date_value_def split: option.splits typed_fact_value.splits)
    then show ?thesis
      using kind(1) ft(1) by (intro fills [OF f(1), of "TvDate s"]) (simp_all add: or_else_def bind_value_def bind_text_def expected_kind_def)
  next
    assume limit: "pi_id i = ''limit''"
    then have f: "CfLimitValue \<in> set (binding_fields cat (qp_name p))"
      using canonical i by (auto simp: canonical_inputs_def list_all_iff)
    obtain n where "or_else (map_of facts CfLimitValue) (map_of defaults CfLimitValue) = Some (TvInteger n)"
      using satisfied limit by (auto simp: input_satisfied_def split: option.splits typed_fact_value.splits)
    then show ?thesis by (rule fills [OF f]) (simp add: bind_value_def)
  next
    assume search: "pi_id i = ''search''"
    then have f: "CfPersonName \<in> set (binding_fields cat (qp_name p))" "pi_field_type i = CftText"
      using canonical i by (auto simp: canonical_inputs_def list_all_iff)
    obtain s where "map_of facts CfPersonName = Some (TvPersonName s)"
      using satisfied search by (auto simp: input_satisfied_def split: option.splits typed_fact_value.splits)
    then show ?thesis
      using kind(1) f(2) by (intro fills [OF f(1), of "TvPersonName s"]) (simp_all add: or_else_def bind_value_def bind_text_def expected_kind_def)
  qed
qed

lemma complete_plan:
  assumes "clarification_plan_of u cat ids facts payload_id = PlanComplete i defaults"
  shows "\<exists>c. plan_candidate cat i facts = Some c \<and> pl_missing c = [] \<and> defaults = pl_defaults c"
proof -
  define cs where "cs = List.map_filter (\<lambda>i. plan_candidate cat i facts) ids"
  note plan = assms [unfolded clarification_plan_of_def Let_def, folded cs_def]
  obtain c where cs: "cs = [c]" and c: "pl_missing c = []" "i = cap_id (pl_capability c)" "defaults = common_defaults [c]"
    using plan by (auto split: list.splits if_splits)
  have "c \<in> set cs" using cs by simp
  then obtain j where j: "plan_candidate cat j facts = Some c" unfolding cs_def by (auto simp: List.map_filter_def)
  have "distinct (map fst (pl_defaults c))"
  proof -
    have "distinct (map fst (limit_patch m n))" for m n
      using bt_of_sorted [of "[(CfLimitMode, TvLimitMode m), (CfLimitValue, TvInteger n)]"] unfolding limit_patch_def
      by (simp add: strict_sorted_iff)
    then show ?thesis using j by (auto simp: plan_candidate_def Let_def limit_default_def split: Option.bind_splits option.splits)
  qed
  then have "common_defaults [c] = pl_defaults c" by (auto simp: common_defaults_def filter_id_conv)
  then show ?thesis using c j plan_candidate_id [OF j] by auto
qed


definition limit_catalog :: knowledge_catalog where
  "limit_catalog = audit_catalog\<lparr>kc_queries := [limit_query], kc_parameter_inputs := [limit_input]\<rparr>"

lemma limit_catalog_valid: "validate_catalog audit_files limit_catalog = Inr ()"
  by code_simp


text \<open>
  Of the other inputs the catalog declares none is ever satisfied: a report that needs one is asked for again after every
  answer, whatever the facts are.
\<close>

lemma other_inputs_never_satisfied:
  assumes "plan_candidate cat i facts = Some c" and "f \<in> set (pl_missing c)"
    and "cf_key f \<notin> {''date_range'', ''limit'', ''search''}"
    and "plan_candidate cat i (facts' :: constraint_patch) = Some c'"
  shows "\<exists>g \<in> set (pl_missing c'). cf_key g = cf_key f"
  using assms by (fastforce simp: plan_candidate_def Let_def field_for_def input_satisfied_def split: Option.bind_splits)

lemma office_asked_again:
  "case clarification_plan_of id asking_catalog [''office_lookup''] [(CfOffice, TvOffice ''East'')] 9 of
     PlanClarify p _ \<Rightarrow> map cf_key (cp_fields p) = [''office_name'', ''limit''] | _ \<Rightarrow> False"
  by code_simp

section \<open>Caps\<close>

definition caps_of :: "parameter_policy list \<Rightarrow> string \<Rightarrow> int list" where
  "caps_of ps k = List.map_filter (\<lambda>p. if pp_name p = k then pp_hard_cap p else None) ps"

lemma fold_min_le: "fold min xs v \<le> (v :: int)"
proof (induction xs arbitrary: v)
  case (Cons x xs)
  show ?case using Cons [of "min x v"] by simp
qed simp

text \<open>
  The caps of the policies bind: of a number they name, what is left is the least of the number and its caps, and
  nothing else changes.
\<close>
theorem caps_bind:
  assumes "\<forall>c \<in> set (caps_of ps k). c \<le> 9223372036854775807"
  shows "map_of (clamp_hard_caps params ps) k =
     (case Option.bind (map_of params k) as_i64 of
        None \<Rightarrow> map_of params k
      | Some v \<Rightarrow> if fold min (caps_of ps k) v < v then Some (json_int (fold min (caps_of ps k) v)) else map_of params k)"
  using assms
proof (induction params ps rule: clamp_hard_caps.induct)
  case (1 params)
  then show ?case by (simp add: caps_of_def List.map_filter_simps split: option.splits)
next
  case (2 params p ps)
  show ?case
  proof (cases "pp_name p = k")
    case False
    then show ?thesis using 2 by (auto simp: caps_of_def List.map_filter_simps map_of_obj_insert split: option.splits)
  next
    case True
    show ?thesis
    proof (cases "Option.bind (map_of params k) as_i64")
      case None
      then show ?thesis using 2 True by (auto simp: caps_of_def List.map_filter_simps split: option.splits)
    next
      case (Some v)
      then obtain j where j: "map_of params k = Some j" "as_i64 j = Some v" by (auto split: Option.bind_splits)
      show ?thesis
      proof (cases "pp_hard_cap p")
        case None
        then show ?thesis using 2 True Some by (simp add: caps_of_def List.map_filter_simps)
      next
        case cap: (Some cap)
        show ?thesis
        proof (cases "cap < v")
          case True
          then have "as_i64 (json_int cap) = Some cap"
            using as_i64_json_int 2(2) \<open>pp_name p = k\<close> cap by (simp add: caps_of_def List.map_filter_simps)
          then show ?thesis
            using 2 True \<open>pp_name p = k\<close> Some cap j fold_min_le [of "caps_of ps k" cap]
            by (auto simp: caps_of_def List.map_filter_simps map_of_obj_insert min_def)
        next
          case False
          then show ?thesis using 2 True Some cap j by (simp add: caps_of_def List.map_filter_simps min_def)
        qed
      qed
    qed
  qed
qed

definition capped :: "int \<Rightarrow> parameter_policy" where
  "capped n =
     \<lparr>pp_name = ''limit'', pp_kind = TInteger, pp_required = False, pp_default = None, pp_fill_when_missing = False,
      pp_user_may_override = True, pp_hard_cap = Some n, pp_user_required = False, pp_resolution = [], pp_probe = None\<rparr>"

lemma caps_bind_witness: "map_of (clamp_hard_caps [(''limit'', json_int 100)] [capped 50, capped 25]) ''limit'' = Some (json_int 25)"
proof -
  have caps: "caps_of [capped 50, capped 25] ''limit'' = [50, 25]" by code_simp
  then have small: "\<forall>c \<in> set (caps_of [capped 50, capped 25] ''limit''). c \<le> 9223372036854775807" by simp
  have "Option.bind (map_of [(''limit'', json_int 100)] ''limit'') as_i64 = Some 100" by code_simp
  then show ?thesis using caps_bind [OF small, of "[(''limit'', json_int 100)]"] caps by simp
qed

section \<open>Facts of a turn\<close>

text \<open>What the model may add: products by number, clients, offices, products and charge types, and a name that is in the message.\<close>

definition gap_filler ::
  "(string \<Rightarrow> string) \<Rightarrow> string option \<Rightarrow> assistant_intent \<Rightarrow> constraint_field \<Rightarrow> typed_fact_value \<Rightarrow> bool" where
  "gap_filler lowercase message i f v \<longleftrightarrow>
     (f = CfProductIds \<and> (\<exists>ids. ac_product_ids (ai_constraints i) = Some ids \<and> v = TvIdList (ReplaceIds ids))) \<or>
     (\<exists>e \<in> set (ai_entities i). entity_fact e = Some (f, v) \<and>
        (f \<in> {CfClientId, CfOffice, CfProduct, CfChargeType} \<or>
         (\<exists>n m. f = CfPersonName \<and> v = TvPersonName n \<and> n \<noteq> [] \<and> message = Some m \<and> str_contains (lowercase n) (lowercase m))))"

lemma map_of_or_insert: "map_of (or_insert f v facts) = (case map_of facts f of None \<Rightarrow> (map_of facts)(f \<mapsto> v) | Some _ \<Rightarrow> map_of facts)"
  by (auto simp: or_insert_def map_of_bt_insert map_of_eq_None_iff split: option.splits) (metis map_of_eq_None_iff option.distinct(1))+

lemma admissible_fills:
  assumes "admissible lowercase message e" and "entity_fact e = Some (f, v)" and "e \<in> set (ai_entities i)"
  shows "gap_filler lowercase message i f v"
proof -
  have "f \<in> {CfClientId, CfOffice, CfProduct, CfChargeType} \<or>
     (\<exists>n m. f = CfPersonName \<and> v = TvPersonName n \<and> n \<noteq> [] \<and> message = Some m \<and> str_contains (lowercase n) (lowercase m))"
    using assms(1,2)
    by (auto simp: admissible_def model_trusted_entities_def model_verbatim_entities_def entity_fact_def Let_def
        occurs_verbatim_def split: if_splits option.splits)
  then show ?thesis using assms(2,3) unfolding gap_filler_def by blast
qed

lemma claimed_fact_keeps: "map_of base f = Some w \<Longrightarrow> map_of (claimed_fact lowercase message e base) f = Some w"
  by (auto simp: claimed_fact_def map_of_or_insert split: option.splits)

lemma claimed_facts_keep: "map_of base f = Some w \<Longrightarrow> map_of (fold (claimed_fact lowercase message) es base) f = Some w"
  by (induction es arbitrary: base) (simp_all add: claimed_fact_keeps)

lemma claimed_fact_fills:
  "map_of base f = None \<Longrightarrow> map_of (claimed_fact lowercase message e base) f = Some v \<Longrightarrow> e \<in> set (ai_entities i) \<Longrightarrow>
   gap_filler lowercase message i f v"
  using admissible_fills [of lowercase message e f v i]
  by (auto simp: claimed_fact_def map_of_or_insert split: option.splits if_splits)

lemma claimed_facts_fill:
  "map_of base f = None \<Longrightarrow> map_of (fold (claimed_fact lowercase message) es base) f = Some v \<Longrightarrow> set es \<subseteq> set (ai_entities i) \<Longrightarrow>
   gap_filler lowercase message i f v"
proof (induction es arbitrary: base)
  case (Cons e es)
  show ?case
  proof (cases "map_of (claimed_fact lowercase message e base) f")
    case None
    then show ?thesis using Cons by simp
  next
    case (Some u)
    then have "map_of (fold (claimed_fact lowercase message) (e # es) base) f = Some u" by (simp add: claimed_facts_keep)
    then show ?thesis using claimed_fact_fills [OF Cons.prems(1) Some] Cons.prems by simp
  qed
qed simp

text \<open>
  C40: The language model only fills gaps.  Every fact read off the message stands, whatever the model claims; and a fact
  that was not read off it is never a date, a quantity, a currency or an amount: it is a number of a product, a client, an
  office, a product, a charge type, or a name that does occur in the message.
\<close>
theorem model_only_fills_gaps:
  "case map_of (case extraction of None \<Rightarrow> [] | Some x \<Rightarrow> extracted_facts x) f of
     Some w \<Rightarrow> map_of (facts_of_turn lowercase message intent extraction) f = Some w
   | None \<Rightarrow>
       (case map_of (facts_of_turn lowercase message intent extraction) f of
          None \<Rightarrow> True
        | Some v \<Rightarrow> (\<exists>i. intent = Some i \<and> gap_filler lowercase message i f v))"
proof (cases intent)
  case None
  then show ?thesis by (simp add: facts_of_turn_def split: option.splits)
next
  case (Some i)
  define verified where "verified = (case extraction of None \<Rightarrow> [] | Some x \<Rightarrow> extracted_facts x)"
  define base where "base = (case ac_product_ids (ai_constraints i) of
      None \<Rightarrow> verified | Some ids \<Rightarrow> or_insert CfProductIds (TvIdList (ReplaceIds ids)) verified)"
  have turn: "facts_of_turn lowercase message intent extraction = fold (claimed_fact lowercase message) (ai_entities i) base"
    unfolding facts_of_turn_def Let_def Some verified_def base_def by simp
  have kept: "map_of verified f = Some w \<Longrightarrow> map_of base f = Some w" for w
    by (auto simp: base_def map_of_or_insert split: option.splits)
  have new: "map_of verified f = None \<Longrightarrow> map_of base f = Some v \<Longrightarrow> gap_filler lowercase message i f v" for v
    by (auto simp: base_def map_of_or_insert gap_filler_def split: option.splits if_splits)
  show ?thesis
  proof (cases "map_of verified f")
    case None
    have "gap_filler lowercase message i f v" if "map_of (fold (claimed_fact lowercase message) (ai_entities i) base) f = Some v" for v
    proof (cases "map_of base f")
      case None
      then show ?thesis using claimed_facts_fill [OF _ that subset_refl] by simp
    next
      case (Some u)
      then show ?thesis using that new [OF None Some] claimed_facts_keep [OF Some] by simp
    qed
    then show ?thesis unfolding turn verified_def [symmetric] None using Some by (auto split: option.splits)
  next
    case (Some w)
    then show ?thesis unfolding turn verified_def [symmetric] using claimed_facts_keep [OF kept [OF Some]] by simp
  qed
qed

end
