(* ===== verification/Spec2Isabelle.thy ===== *)
theory Spec2Isabelle
  imports VerifyProps CompileProps StateProps RunProps NodeExecutorProps FactsProps ChatProps ClarificationProps
    IdentifierProps PlanningProps
begin

text \<open>
  The report assistant's core: the workflow engine (\<open>crates/chat/src/assistant/workflow\<close>), the facts of a
  request (\<open>assistant/context/canonical_state\<close>), the conversations, jobs and memories around it
  (\<open>conversation/repository\<close>, \<open>job/repository\<close>), the outbox of the audit log (\<open>management\<close>), the knowledge catalog with its datasets and its validation (\<open>knowledge\<close>), the execution of approved
  plans (\<open>execution\<close>), and the authorization guards (\<open>policy\<close>).

  \<^bold>\<open>The program.\<close>  A request of a user becomes a workflow: a graph of nodes that run approved queries,
  resolve entities, branch on the number of rows, ask the user, compose results and end.  The
  compiler (\<open>compile.rs\<close>) builds it from catalog capabilities or from a proposal; the verifier
  (\<open>verify.rs\<close>, over the graph of \<open>graph.rs\<close>) decides whether it may run; the repository
  (\<open>state.rs\<close>) stores it with its node runs in PostgreSQL; the runner (\<open>run.rs\<close> and \<open>run/node\<close>) runs
  it batch by batch, pauses it for a question and continues it after the answer.  A query node becomes an
  execution plan: its statement is an approved SQL file, or is composed from a dataset of the
  catalog whose recipe was resolved against the parameters (\<open>dataset/resolve.rs\<close>, \<open>compose.rs\<close>); its
  arguments are bound, and the rows are cut at the ceiling (\<open>execution/repository.rs\<close>).  The catalog was
  validated and its statements prepared when the program started (\<open>catalog/validator.rs\<close>).  What a user
  stated, a resolver found or an answer added are observations, merged into the constraints of the request
  (\<open>merge.rs\<close>).  Before that, a deterministic extractor (\<open>understanding/extraction\<close>) reads words, names, quantities, dates and
  amounts off the message and takes account numbers out of it before a language model sees it; the planner
  (\<open>context/clarification_planner.rs\<close>) asks for what the chosen reports still need, and \<open>execution/tool/parameters.rs\<close>
  binds the parameters of the report.  The transactions that change a job also enqueue its audit events, which a dispatcher
  publishes into the audit log (\<open>outbox.rs\<close>).

  \<^bold>\<open>The theories\<close>, in the order of their dependencies.
  \<^item> \<open>Prelude\<close>: results as sums (\<open>res_bind\<close>, \<open>res_map\<close>, \<open>res_iter\<close>, \<open>guard_err\<close>), \<open>BTreeMap\<close> as a sorted
    association list (\<open>bt_of\<close>), \<open>dedup_by\<close>, ASCII and string operations, sums of machine words.
  \<^item> \<open>Json\<close>: documents, their accessors, and the \<open>jsonb\<close> operators that the SQL uses.
  \<^item> \<open>ParameterPolicy\<close> (\<open>catalog/parameter_policy.rs\<close>), \<open>Knowledge\<close> (\<open>knowledge/model.rs\<close>,
    \<open>dataset/model.rs\<close>), \<open>Grammar\<close> (\<open>dataset/grammar.rs\<close>), \<open>Authorization\<close> (\<open>policy/authorization.rs\<close>).
  \<^item> \<open>Contract\<close> (\<open>contract.rs\<close>), \<open>Graph\<close> (\<open>graph.rs\<close>) with the locale \<open>petgraph_laws\<close> for the graph
    library, \<open>GraphFacts\<close> with its consequences, \<open>GraphModel\<close> with a reference implementation and its
    interpretation.
  \<^item> \<open>Verify\<close> (\<open>verify.rs\<close>), \<open>VerifyFacts\<close>, \<open>Samples\<close> (the report the witnesses use), \<open>VerifyProps\<close>.
  \<^item> \<open>Compile\<close> (\<open>compile.rs\<close>), \<open>CompileFacts\<close>, \<open>CompileProps\<close>.
  \<^item> \<open>Clarification\<close> (\<open>context/clarification.rs\<close>), \<open>Tables\<close> (the rows, statements and transactions),
    \<open>State\<close> (\<open>state.rs\<close>), \<open>StateFacts\<close> with the locale \<open>db_preorder\<close> of relations between databases and
    \<open>db_relation\<close> of those that every statement keeps, \<open>StateProps\<close>.
  \<^item> \<open>Facts\<close> (\<open>canonical_state\<close>), \<open>FactsProps\<close>; \<open>Outbox\<close> (\<open>management/model.rs\<close>, \<open>repository.rs\<close>,
    \<open>outbox.rs\<close>), \<open>OutboxProps\<close> with the relation of the outbox as a third instance of \<open>db_relation\<close>.
  \<^item> \<open>Conversation\<close> (\<open>conversation/repository\<close>: sessions and messages), \<open>Jobs\<close> (\<open>job/repository/mod.rs\<close>),
    \<open>Intent\<close> (\<open>understanding/intent.rs\<close>), \<open>Memory\<close> (the memories of jobs and sessions, the checkpoints of the graph),
    \<open>ClarificationResponse\<close> (\<open>job/service/clarification_response.rs\<close>); \<open>ChatFacts\<close> with the step relation
    \<open>chat_step\<close> over every operation of every repository and the locale \<open>chat_relation\<close> of the relations all of
    them keep, interpreted for the tables and for the outbox; \<open>ChatProps\<close>, \<open>ClarificationProps\<close>.
  \<^item> \<open>Dataset\<close> (\<open>knowledge/dataset\<close>: static rules, composition, recipes), \<open>DatasetFacts\<close>, \<open>DatasetProps\<close>;
    \<open>Execution\<close> (\<open>execution/repository.rs\<close> and \<open>assistant/execution/plan\<close>), \<open>ExecutionProps\<close>;
    \<open>Validator\<close> (\<open>catalog/validator.rs\<close>, \<open>catalog/prose_claims.rs\<close>), \<open>ValidatorFacts\<close>, \<open>ValidatorProps\<close>.
  \<^item> \<open>Tokens\<close> (\<open>extraction/token.rs\<close>, \<open>quantity.rs\<close>, \<open>domain.rs\<close>), \<open>Temporal\<close> (\<open>temporal.rs\<close>), \<open>Extractor\<close>
    (\<open>extraction/mod.rs\<close>, \<open>identifier.rs\<close>); \<open>TokenFacts\<close> with a reference scanner, \<open>ExtractorProps\<close>, \<open>CalendarProps\<close>
    with what the periods need of the civil calendar, \<open>IdentifierProps\<close>.
  \<^item> \<open>Planning\<close> (\<open>context/clarification_planner.rs\<close>, \<open>execution/tool/parameters.rs\<close>), \<open>SnapshotProps\<close> and \<open>PlanningProps\<close>.
  \<^item> \<open>Nodes\<close> (\<open>run/node\<close>), \<open>Run\<close> (\<open>run.rs\<close>), \<open>RunFacts\<close> with the relation \<open>run_round\<close> and the facts of
    its sequences, \<open>RunProps\<close> and \<open>NodeProps\<close>; \<open>NodeExecutor\<close> (\<open>node_executor.rs\<close>, the guard \<open>llm/tool/data.rs\<close> and
    \<open>data_executor.rs\<close>), \<open>NodeExecutorProps\<close>.

  \<^bold>\<open>Correspondence.\<close>  Definitions carry the names of the code, with a prefix where two structs share a
  field name.  Structs are records, enums datatypes, \<open>u8\<close> to \<open>u64\<close> words of their width, \<open>i16\<close>, \<open>i32\<close> and
  \<open>i64\<close> integers with the wrap written where the code adds, strings the list of their bytes, \<open>Result\<close>
  a sum with the error on the left, \<open>HashMap\<close> a function to options.  The database is a record of
  tables; a statement runs at a tick of the environment, which says whether it fails, what \<open>now()\<close> is
  and which identifier \<open>Uuid::new_v4\<close> returns; a transaction restores the tables unless it commits.
  The encodings of workflows and payloads as JSON are a parameter (\<open>codec\<close>), and so are the graph
  library.  The runner takes the node executor as a parameter, as the code does; \<open>NodeExecutor\<close> models the
  one the program uses.  The business database may answer differently at every tick.

  \<^bold>\<open>What the lemmas show.\<close>  The verifier accepts only rooted acyclic workflows whose data flows forward
  at sufficient sensitivity, whose queries are authorized and whose budgets hold, where the sums do
  not wrap.  The compiler keeps scope and authorization.  The repository keeps history, pauses and
  resumes atomically and only for the matching answer.  The runner is a sequence of rounds followed
  by an exit; rounds keep the budget, complete no node twice and none before its dependencies; its
  loop has fuel, and one unit more than there are nodes is enough, because every round completes
  a node that had not completed.  A node's data passes the guard, which repeats the checks of the runner
  and admits what it scheduled.  The merge of facts is a function of the set of observations, and prefers
  the answer to the request to the resolver to a default.  The extractor invents nothing: its words, names and dates stand
  in the message; an account number is cut out whole; the language model only fills gaps.  A planned question asks for
  exactly what is missing, a plan called complete can be bound, and what is bound passes the check of a replay.  The outbox records each event exactly once.
  A job is created, answered and ended in one transaction each, which writes its audit events too; the memory of
  a job is saved against its revision; an answer is accepted exactly when it is valid.

  A validated dataset composes its statements, each placeholder receives its own argument and the
  scope parameter the principal's offices; a validated catalog has no dangling reference, its recipes
  fail on values only, and the statements it executes are the ones it checked.

  \<^bold>\<open>Choices.\<close>  The nodes of a batch run in order, each to its end, which is one of the schedules of
  \<open>join_all\<close>, and the one in which each failure is seen by all later nodes of its batch.  A
  date is the number of its day, and the calendar of \<open>chrono\<close> is a parameter, as is the Unicode lower case of \<open>str::to_lowercase\<close>.  Sums of \<open>u64\<close> wrap as in a release build.

  \<^bold>\<open>Not modelled.\<close>  The response builder around the workflow engine, language-model
  clients and the classifier around them, retrieval, presentation, the asynchronous service around the jobs,
  the HTTP interface, management queries and configuration; they are listed with their reasons in
  the manifest beside this development.
\<close>

end
